(* ===== verification/Py_Prelude.thy ===== *)
theory Py_Prelude
  imports Complex_Main "HOL-Library.AList" "HOL-Library.Sublist" "HOL-Library.Multiset"
begin

text \<open>
  The Python vocabulary the component theories share.

  \<^item> Dictionaries keep insertion order, so a dictionary is an association list; assigning to an
    existing key keeps its place and a new key goes to the end (\<open>AList.update\<close>),
    \<open>del d[k]\<close> and \<open>d.pop(k, None)\<close> are \<open>AList.delete\<close>, \<open>d.get(k)\<close> is \<open>map_of d k\<close>.
  \<^item> Exceptions are values of \<open>exn\<close>; a computation that may raise has type \<open>exn + 'a\<close>.
  \<^item> Values whose type the program does not fix (JSON bodies, metadata, settings) are \<open>pyval\<close>.
  \<^item> Time stamps and scores are \<open>real\<close>; integers are \<open>int\<close>; text is \<open>string\<close>.
\<close>

named_theorems dict_simps \<open>association lists as Python dictionaries\<close>
named_theorems str_simps \<open>Python string operations\<close>

subsection \<open>Values and exceptions\<close>

datatype pyval =
    PNone
  | PBool bool
  | PInt int
  | PFloat real
  | PStr string
  | PList "pyval list"
  | PDict "(string \<times> pyval) list"

datatype exn =
    Exn (exn_class: string) (exn_text: string)
  | HTTPException int pyval
  | WebSocketException int string

type_synonym ('k, 'v) dict = "('k \<times> 'v) list"
type_synonym json = "(string, pyval) dict"
type_synonym 'a result = "exn + 'a"

text \<open>Truth value of an object, as \<open>if x:\<close> and \<open>x or y\<close> test it.\<close>

fun truthy :: "pyval \<Rightarrow> bool" where
  "truthy PNone = False"
| "truthy (PBool b) = b"
| "truthy (PInt i) = (i \<noteq> 0)"
| "truthy (PFloat r) = (r \<noteq> 0)"
| "truthy (PStr s) = (s \<noteq> [])"
| "truthy (PList xs) = (xs \<noteq> [])"
| "truthy (PDict d) = (d \<noteq> [])"

definition truthy_opt :: "pyval option \<Rightarrow> bool" where
  "truthy_opt x = (case x of None \<Rightarrow> False | Some v \<Rightarrow> truthy v)"

text \<open>A header, query parameter or environment variable: unset and empty are both false.\<close>

definition str_truthy :: "string option \<Rightarrow> bool" where
  "str_truthy x = (case x of None \<Rightarrow> False | Some s \<Rightarrow> s \<noteq> [])"

definition lookup_exn :: "exn \<Rightarrow> 'v option \<Rightarrow> 'v result" where
  "lookup_exn e x = (case x of None \<Rightarrow> Inl e | Some v \<Rightarrow> Inr v)"

lemma lookup_exn_simps [simp]:
  "lookup_exn e None = Inl e"
  "lookup_exn e (Some v) = Inr v"
  by (simp_all add: lookup_exn_def)

lemma lookup_exn_Inr [simp]: "lookup_exn e x = Inr v \<longleftrightarrow> x = Some v"
  by (cases x) simp_all

text \<open>Sequencing of computations that may raise.\<close>

definition bindR :: "'a result \<Rightarrow> ('a \<Rightarrow> 'b result) \<Rightarrow> 'b result" where
  "bindR m f = (case m of Inl e \<Rightarrow> Inl e | Inr x \<Rightarrow> f x)"

lemma bindR_simps [simp]:
  "bindR (Inl e) f = Inl e"
  "bindR (Inr x) f = f x"
  by (simp_all add: bindR_def)

lemma bindR_Inr_iff: "bindR m f = Inr y \<longleftrightarrow> (\<exists>x. m = Inr x \<and> f x = Inr y)"
  by (cases m) simp_all

text \<open>
  Computations on a state that may raise. A Python exception does not undo the mutations made
  before it, so the state comes out on both paths.
\<close>

type_synonym ('s, 'a) comp = "'s \<Rightarrow> 'a result \<times> 's"

definition retM :: "'a \<Rightarrow> ('s, 'a) comp" where
  "retM x s = (Inr x, s)"

definition raiseM :: "exn \<Rightarrow> ('s, 'a) comp" where
  "raiseM e s = (Inl e, s)"

definition bindM :: "('s, 'a) comp \<Rightarrow> ('a \<Rightarrow> ('s, 'b) comp) \<Rightarrow> ('s, 'b) comp" where
  "bindM m f s = (case m s of (Inl e, s') \<Rightarrow> (Inl e, s') | (Inr x, s') \<Rightarrow> f x s')"

definition getM :: "('s \<Rightarrow> 'a) \<Rightarrow> ('s, 'a) comp" where
  "getM f s = (Inr (f s), s)"

definition modM :: "('s \<Rightarrow> 's) \<Rightarrow> ('s, unit) comp" where
  "modM f s = (Inr (), f s)"

definition liftM :: "'a result \<Rightarrow> ('s, 'a) comp" where
  "liftM r s = (r, s)"

text \<open>\<open>try: m except Exception as e: h e\<close>.\<close>

definition catchM :: "('s, 'a) comp \<Rightarrow> (exn \<Rightarrow> ('s, 'a) comp) \<Rightarrow> ('s, 'a) comp" where
  "catchM m h s = (case m s of (Inl e, s') \<Rightarrow> h e s' | (Inr x, s') \<Rightarrow> (Inr x, s'))"

fun forM :: "'a list \<Rightarrow> ('a \<Rightarrow> ('s, unit) comp) \<Rightarrow> ('s, unit) comp" where
  "forM [] f = retM ()"
| "forM (x # xs) f = bindM (f x) (\<lambda>_. forM xs f)"

lemma comp_simps [simp]:
  "retM x s = (Inr x, s)"
  "raiseM e s = (Inl e, s)"
  "getM g s = (Inr (g s), s)"
  "modM h s = (Inr (), h s)"
  "liftM r s = (r, s)"
  by (simp_all add: retM_def raiseM_def getM_def modM_def liftM_def)

lemma bindM_apply:
  "bindM m f s = (case fst (m s) of Inl e \<Rightarrow> (Inl e, snd (m s)) | Inr x \<Rightarrow> f x (snd (m s)))"
  by (simp add: bindM_def split: prod.splits sum.splits)

lemma bindM_Inr: "m s = (Inr x, s') \<Longrightarrow> bindM m f s = f x s'"
  by (simp add: bindM_def)

lemma bindM_Inl: "m s = (Inl e, s') \<Longrightarrow> bindM m f s = (Inl e, s')"
  by (simp add: bindM_def)

lemma bindM_simps [simp]:
  "bindM (retM x) f s = f x s"
  "bindM (raiseM e) f s = (Inl e, s)"
  "bindM (getM g) f s = f (g s) s"
  "bindM (modM h) k s = k () (h s)"
  "bindM (liftM (Inr x)) f s = f x s"
  "bindM (liftM (Inl e)) f s = (Inl e, s)"
  by (simp_all add: bindM_def)

lemma bindM_liftM [simp]: "bindM (liftM (Inl e)) f = raiseM e" "bindM (liftM (Inr x)) f = f x"
  by (simp_all add: fun_eq_iff)

lemma bindM_assoc: "bindM (bindM m f) g = bindM m (\<lambda>x. bindM (f x) g)"
  by (simp add: fun_eq_iff bindM_def split: prod.split sum.split)

lemma bindM_step: "bindM (\<lambda>s. (Inr (g s), h s)) f s = f (g s) (h s)"
  by (simp add: bindM_def)

lemma bindM_lookup:
  "f c = Some v \<Longrightarrow> bindM (\<lambda>c. (lookup_exn e (f c), c)) g c = g v c"
  by (simp add: bindM_def)

lemma bindM_result_Inr:
  "bindM m f s = (Inr y, t) \<longleftrightarrow> (\<exists>x s'. m s = (Inr x, s') \<and> f x s' = (Inr y, t))"
  by (auto simp: bindM_def split: prod.splits sum.splits)

text \<open>A relation between the states before and after that every step keeps.\<close>

definition stepsM :: "('s \<Rightarrow> 's \<Rightarrow> bool) \<Rightarrow> ('s, 'a) comp \<Rightarrow> bool" where
  "stepsM R m \<longleftrightarrow> (\<forall>s. R s (snd (m s)))"

lemma stepsMD: "stepsM R m \<Longrightarrow> R s (snd (m s))"
  by (simp add: stepsM_def)

lemma stepsMI: "(\<And>s. R s (snd (m s))) \<Longrightarrow> stepsM R m"
  by (simp add: stepsM_def)

lemma stepsM_mono: "stepsM R m \<Longrightarrow> (\<And>s s'. R s s' \<Longrightarrow> R' s s') \<Longrightarrow> stepsM R' m"
  unfolding stepsM_def by blast

lemma stepsM_bind:
  assumes "transp R" "stepsM R m" "\<And>x. stepsM R (f x)"
  shows "stepsM R (bindM m f)"
  unfolding stepsM_def
proof
  fix s
  have "R s (snd (m s))" using assms(2) by (simp add: stepsM_def)
  moreover have "R (snd (m s)) (snd (f x (snd (m s))))" for x
    using assms(3) by (simp add: stepsM_def)
  ultimately show "R s (snd (bindM m f s))"
    using assms(1) by (auto simp: bindM_apply split: sum.splits dest: transpD)
qed

lemma stepsM_catch:
  assumes "transp R" "stepsM R m" "\<And>e. stepsM R (h e)"
  shows "stepsM R (catchM m h)"
  unfolding stepsM_def
proof
  fix s
  have "R s (snd (m s))" using assms(2) by (simp add: stepsM_def)
  moreover have "R (snd (m s)) (snd (h e (snd (m s))))" for e
    using assms(3) by (simp add: stepsM_def)
  ultimately show "R s (snd (catchM m h s))"
    using assms(1) by (auto simp: catchM_def split: sum.splits prod.splits) (metis transpD)
qed

lemma stepsM_pure:
  assumes "reflp R"
  shows "stepsM R (retM x)" "stepsM R (raiseM e)" "stepsM R (getM g)" "stepsM R (liftM r)"
  using assms by (simp_all add: stepsM_def reflpD)

lemma stepsM_forM:
  assumes "reflp R" "transp R" "\<And>x. x \<in> set xs \<Longrightarrow> stepsM R (f x)"
  shows "stepsM R (forM xs f)"
  using assms(3) by (induction xs) (auto intro!: stepsM_bind assms(1,2) stepsM_pure)

text \<open>
  Specifications: from a state that satisfies the precondition, a computation that returns satisfies
  the first postcondition and one that raises the second. \<open>\<lambda>_ _. False\<close> as the second says that the
  computation returns.
\<close>

definition specM ::
  "('s \<Rightarrow> bool) \<Rightarrow> ('s, 'a) comp \<Rightarrow> ('a \<Rightarrow> 's \<Rightarrow> bool) \<Rightarrow> (exn \<Rightarrow> 's \<Rightarrow> bool) \<Rightarrow> bool" where
  "specM P m Q E \<longleftrightarrow> (\<forall>s. P s \<longrightarrow> (case m s of (Inl e, s') \<Rightarrow> E e s' | (Inr x, s') \<Rightarrow> Q x s'))"

lemma specMI: "(\<And>s. P s \<Longrightarrow> case m s of (Inl e, s') \<Rightarrow> E e s' | (Inr x, s') \<Rightarrow> Q x s') \<Longrightarrow> specM P m Q E"
  by (simp add: specM_def)

lemma specM_returns: "specM P m Q (\<lambda>_ _. False) \<Longrightarrow> P s \<Longrightarrow> \<exists>x s'. m s = (Inr x, s') \<and> Q x s'"
  unfolding specM_def by (cases "m s"; cases "fst (m s)") fastforce+

lemma specM_Inr: "specM P m Q E \<Longrightarrow> P s \<Longrightarrow> m s = (Inr x, s') \<Longrightarrow> Q x s'"
  unfolding specM_def by fastforce

lemma specM_Inl: "specM P m Q E \<Longrightarrow> P s \<Longrightarrow> m s = (Inl e, s') \<Longrightarrow> E e s'"
  unfolding specM_def by fastforce

lemma specM_weaken:
  assumes "specM P m Q E" "\<And>s. P' s \<Longrightarrow> P s" "\<And>x s. Q x s \<Longrightarrow> Q' x s" "\<And>e s. E e s \<Longrightarrow> E' e s"
  shows "specM P' m Q' E'"
  unfolding specM_def
proof (intro allI impI)
  fix s assume "P' s"
  then have "case m s of (Inl e, s') \<Rightarrow> E e s' | (Inr x, s') \<Rightarrow> Q x s'"
    using assms(1,2) by (simp add: specM_def)
  then show "case m s of (Inl e, s') \<Rightarrow> E' e s' | (Inr x, s') \<Rightarrow> Q' x s'"
    using assms(3,4) by (auto split: prod.splits sum.splits)
qed

lemma specM_bind:
  assumes "specM P m R E" "\<And>x. specM (R x) (f x) Q E"
  shows "specM P (bindM m f) Q E"
proof (rule specMI)
  fix s assume "P s"
  obtain r s1 where m: "m s = (r, s1)" by (cases "m s")
  show "case bindM m f s of (Inl e, s') \<Rightarrow> E e s' | (Inr x, s') \<Rightarrow> Q x s'"
  proof (cases r)
    case (Inl e)
    then show ?thesis using specM_Inl [OF assms(1) \<open>P s\<close>, of e s1] m by (simp add: bindM_def)
  next
    case (Inr x)
    then have "R x s1" using specM_Inr [OF assms(1) \<open>P s\<close>, of x s1] m by simp
    then show ?thesis using assms(2) [of x] m Inr by (simp add: bindM_def specM_def)
  qed
qed

lemma specM_catch:
  assumes "specM P m Q F" "\<And>e. specM (F e) (h e) Q E"
  shows "specM P (catchM m h) Q E"
proof (rule specMI)
  fix s assume "P s"
  obtain r s1 where m: "m s = (r, s1)" by (cases "m s")
  show "case catchM m h s of (Inl e, s') \<Rightarrow> E e s' | (Inr x, s') \<Rightarrow> Q x s'"
  proof (cases r)
    case (Inl e)
    then have "F e s1" using specM_Inl [OF assms(1) \<open>P s\<close>, of e s1] m by simp
    then show ?thesis using assms(2) [of e] m Inl by (simp add: catchM_def specM_def)
  next
    case (Inr x)
    then show ?thesis using specM_Inr [OF assms(1) \<open>P s\<close>, of x s1] m by (simp add: catchM_def)
  qed
qed

lemma specM_pure:
  "specM (Q x) (retM x) Q E"
  "specM (E e) (raiseM e) Q E"
  "specM (\<lambda>s. Q (g s) s) (getM g) Q E"
  "specM (\<lambda>s. Q () (h s)) (modM h) Q E"
  "specM (\<lambda>s. case r of Inl e \<Rightarrow> E e s | Inr x \<Rightarrow> Q x s) (liftM r) Q E"
  by (simp_all add: specM_def split: sum.splits)

lemma specM_forM:
  assumes "\<And>x. x \<in> set xs \<Longrightarrow> specM P (f x) (\<lambda>_. P) E"
  shows "specM P (forM xs f) (\<lambda>_. P) E"
  using assms by (induction xs) (auto intro: specM_bind specM_pure)

text \<open>Computations that always return.\<close>

definition answers :: "('s, 'a) comp \<Rightarrow> bool" where
  "answers m \<longleftrightarrow> (\<forall>s. \<exists>x s'. m s = (Inr x, s'))"

lemma answers_bind:
  assumes "answers m" "\<And>x. answers (f x)"
  shows "answers (bindM m f)"
  unfolding answers_def
proof
  fix s
  obtain x s1 where "m s = (Inr x, s1)" using assms(1) unfolding answers_def by blast
  moreover have "\<forall>s. \<exists>y s'. f x s = (Inr y, s')" using assms(2) [of x] by (simp add: answers_def)
  ultimately show "\<exists>y s'. bindM m f s = (Inr y, s')" by (simp add: bindM_def)
qed

lemma answers_pure [simp]: "answers (retM x)" "answers (getM g)" "answers (modM h)" "answers (liftM (Inr x))"
  by (simp_all add: answers_def)

lemma answers_catch:
  assumes "\<And>e. answers (h e)"
  shows "answers (catchM m h)"
  unfolding answers_def
proof
  fix s
  obtain r s1 where "m s = (r, s1)" by (cases "m s")
  moreover have "\<exists>y s'. h e s1 = (Inr y, s')" for e using assms [of e] by (simp add: answers_def)
  ultimately show "\<exists>y s'. catchM m h s = (Inr y, s')" by (cases r) (simp_all add: catchM_def)
qed

subsection \<open>Dictionaries\<close>

definition dict_wf :: "('k, 'v) dict \<Rightarrow> bool" where
  "dict_wf d \<longleftrightarrow> distinct (map fst d)"

definition keys :: "('k, 'v) dict \<Rightarrow> 'k list" where
  "keys d = map fst d"

definition dict_values :: "('k, 'v) dict \<Rightarrow> 'v list" where
  "dict_values d = map snd d"

text \<open>\<open>d | e\<close> and \<open>{**d, **e}\<close>: the right operand wins, new keys go to the end.\<close>

definition dict_merge :: "('k, 'v) dict \<Rightarrow> ('k, 'v) dict \<Rightarrow> ('k, 'v) dict" where
  "dict_merge d e = foldl (\<lambda>m (k, v). AList.update k v m) d e"

definition dict_of :: "('k \<times> 'v) list \<Rightarrow> ('k, 'v) dict" where
  "dict_of kvs = dict_merge [] kvs"

lemma keys_Nil [simp]: "keys [] = []"
  by (simp add: keys_def)

lemma dict_wf_Nil [simp]: "dict_wf []"
  by (simp add: dict_wf_def)

lemma dict_wf_update [simp]: "dict_wf d \<Longrightarrow> dict_wf (AList.update k v d)"
  by (simp add: dict_wf_def distinct_update)

lemma dict_wf_delete [simp]: "dict_wf d \<Longrightarrow> dict_wf (AList.delete k d)"
  by (simp add: dict_wf_def distinct_delete)

lemma delete_filter: "AList.delete k d = filter (\<lambda>p. fst p \<noteq> k) d"
  by (auto simp: AList.delete_eq case_prod_beta intro: filter_cong)

lemma delete_absent: "k \<notin> set (keys d) \<Longrightarrow> AList.delete k d = d"
  by (simp add: keys_def)

lemma map_of_filter_notin:
  "map_of (filter (\<lambda>p. fst p \<notin> S) d) k = (if k \<in> S then None else map_of d k)"
  by (induction d) auto

lemma map_of_map_pair: "map_of (map (\<lambda>n. (n, f n)) xs) n = (if n \<in> set xs then Some (f n) else None)"
  by (induction xs) auto

lemma keys_update: "set (keys (AList.update k v d)) = insert k (set (keys d))"
  using dom_update [of k v d] by (simp add: keys_def)

lemma keys_delete: "set (keys (AList.delete k d)) = set (keys d) - {k}"
  by (auto simp: keys_def delete_keys)

lemma in_keys_iff: "k \<in> set (keys d) \<longleftrightarrow> map_of d k \<noteq> None"
  by (simp add: keys_def map_of_eq_None_iff)

lemma dict_wf_map_of_iff: "dict_wf d \<Longrightarrow> map_of d k = Some v \<longleftrightarrow> (k, v) \<in> set d"
  by (simp add: dict_wf_def map_of_eq_Some_iff)

lemma dict_wf_filter: "dict_wf d \<Longrightarrow> dict_wf (filter P d)"
  by (simp add: dict_wf_def distinct_map_filter)

lemma update_absent: "map_of d k = None \<Longrightarrow> AList.update k v d = d @ [(k, v)]"
  by (induction d) (auto split: if_splits)

lemma length_update_new:
  "map_of d k = None \<Longrightarrow> length (AList.update k v d) = Suc (length d)"
  by (induction d) (auto split: if_splits)

lemma length_update_old:
  "map_of d k \<noteq> None \<Longrightarrow> length (AList.update k v d) = length d"
  by (induction d) (auto split: if_splits)

lemma length_update_le: "length (AList.update k v d) \<le> Suc (length d)"
  by (induction d) auto

lemma set_update_subset: "set (AList.update k v d) \<subseteq> insert (k, v) (set d)"
  by (induction d) auto

lemma map_of_dict_merge:
  "map_of (dict_merge d e) k = (case map_of (rev e) k of None \<Rightarrow> map_of d k | Some v \<Rightarrow> Some v)"
  unfolding dict_merge_def
  by (induction e rule: rev_induct) (auto simp: update_conv' split: option.splits)

lemma dict_wf_merge: "dict_wf d \<Longrightarrow> dict_wf (dict_merge d e)"
  unfolding dict_merge_def by (induction e rule: rev_induct) auto

lemma map_of_rev_dict_wf: "dict_wf d \<Longrightarrow> map_of (rev d) = map_of d"
proof -
  assume wf: "dict_wf d"
  then have "distinct (map fst (rev d))" by (simp add: dict_wf_def rev_map [symmetric])
  moreover have "set (rev d) = set d" by simp
  ultimately show ?thesis using wf by (simp add: dict_wf_def map_of_inject_set)
qed

lemma map_of_dict_merge_wf:
  "dict_wf e \<Longrightarrow>
   map_of (dict_merge d e) k = (case map_of e k of None \<Rightarrow> map_of d k | Some v \<Rightarrow> Some v)"
  by (simp add: map_of_dict_merge map_of_rev_dict_wf)

lemma map_of_dict_of: "map_of (dict_of kvs) k = map_of (rev kvs) k"
  by (simp add: dict_of_def map_of_dict_merge split: option.splits)

lemma dict_wf_dict_of: "dict_wf (dict_of kvs)"
  by (simp add: dict_of_def dict_wf_merge)

lemmas [dict_simps] = update_conv' delete_conv' keys_update keys_delete map_of_dict_merge_wf

subsection \<open>Lists\<close>

text \<open>\<open>xs[-n:]\<close> for a positive \<open>n\<close>; \<open>xs[-0:]\<close> is the whole list.\<close>

definition last_n :: "nat \<Rightarrow> 'a list \<Rightarrow> 'a list" where
  "last_n n xs = (if n = 0 then xs else drop (length xs - n) xs)"

lemma length_last_n: "0 < n \<Longrightarrow> length (last_n n xs) = min n (length xs)"
  by (simp add: last_n_def)

lemma last_n_snoc: "last_n (Suc n) (xs @ [x]) = drop (length xs - n) xs @ [x]"
  by (simp add: last_n_def)

lemma set_last_n: "set (last_n n xs) \<subseteq> set xs"
  by (auto simp: last_n_def dest: in_set_dropD)

lemma suffix_last_n: "suffix (last_n n xs) xs"
  by (simp add: last_n_def suffix_drop)

text \<open>A stable sort with \<open>reverse=True\<close>: descending keys, equal keys in their old order.\<close>

definition sort_desc :: "('a \<Rightarrow> int) \<Rightarrow> 'a list \<Rightarrow> 'a list" where
  "sort_desc f xs = sort_key (\<lambda>x. - f x) xs"

lemma set_sort_desc [simp]: "set (sort_desc f xs) = set xs"
  by (simp add: sort_desc_def)

lemma mset_sort_desc: "mset (sort_desc f xs) = mset xs"
  by (simp add: sort_desc_def)

lemma sorted_sort_desc: "sorted (map (\<lambda>x. - f x) (sort_desc f xs))"
  by (simp add: sort_desc_def)

lemma sort_desc_stable: "filter (\<lambda>x. f x = p) (sort_desc f xs) = filter (\<lambda>x. f x = p) xs"
proof -
  have "filter (\<lambda>x. - f x = - p) (sort_key (\<lambda>x. - f x) xs) = filter (\<lambda>x. - f x = - p) xs"
    by (rule sort_key_stable)
  then show ?thesis by (simp add: sort_desc_def)
qed

subsection \<open>Reading JSON values\<close>

text \<open>Reading JSON: a missing key is a KeyError, a value of another type a TypeError.\<close>

definition as_dict :: "pyval \<Rightarrow> json result" where
  "as_dict v = (case v of PDict d \<Rightarrow> Inr d | _ \<Rightarrow> Inl (Exn ''TypeError'' ''not a dict''))"

definition as_str :: "pyval \<Rightarrow> string result" where
  "as_str v = (case v of PStr s \<Rightarrow> Inr s | _ \<Rightarrow> Inl (Exn ''ValidationError'' ''not a string''))"

definition as_list :: "pyval \<Rightarrow> pyval list result" where
  "as_list v = (case v of PList xs \<Rightarrow> Inr xs | _ \<Rightarrow> Inl (Exn ''TypeError'' ''not a list''))"

definition item :: "json \<Rightarrow> string \<Rightarrow> pyval result" where
  "item d k = lookup_exn (Exn ''KeyError'' k) (map_of d k)"

lemma json_reads [simp]:
  "as_dict v = Inr d \<longleftrightarrow> v = PDict d"
  "as_str v = Inr s \<longleftrightarrow> v = PStr s"
  "as_list v = Inr xs \<longleftrightarrow> v = PList xs"
  "item js k = Inr v \<longleftrightarrow> map_of js k = Some v"
  by (auto simp: as_dict_def as_str_def as_list_def item_def split: pyval.splits)

lemma json_reads_typed [simp]:
  "as_dict (PDict d) = Inr d"
  "as_str (PStr s) = Inr s"
  "as_list (PList xs) = Inr xs"
  by simp_all

text \<open>The members of a JSON list of strings.\<close>

fun as_str_list :: "pyval list \<Rightarrow> string list result" where
  "as_str_list [] = Inr []"
| "as_str_list (v # vs) = bindR (as_str v) (\<lambda>s. bindR (as_str_list vs) (\<lambda>ss. Inr (s # ss)))"

lemma as_str_list_PStr [simp]: "as_str_list (map PStr xs) = Inr xs"
  by (induction xs) simp_all

text \<open>The methods of a dictionary and iteration, on any value.\<close>

definition with_get :: "pyval \<Rightarrow> json result" where
  "with_get v = (case v of PDict d \<Rightarrow> Inr d | _ \<Rightarrow> Inl (Exn ''AttributeError'' ''get''))"

definition iterate :: "pyval \<Rightarrow> pyval list result" where
  "iterate v =
     (case v of PList xs \<Rightarrow> Inr xs | PDict d \<Rightarrow> Inr (map PStr (keys d)) | PStr s \<Rightarrow> Inr (map (\<lambda>c. PStr [c]) s)
      | _ \<Rightarrow> Inl (Exn ''TypeError'' ''object is not iterable''))"

text \<open>A list comprehension whose body may raise.\<close>

fun mapR :: "('a \<Rightarrow> 'b result) \<Rightarrow> 'a list \<Rightarrow> 'b list result" where
  "mapR f [] = Inr []"
| "mapR f (x # xs) = bindR (f x) (\<lambda>y. bindR (mapR f xs) (\<lambda>ys. Inr (y # ys)))"

lemma mapR_Inr: "mapR f xs = Inr ys \<longleftrightarrow> list_all2 (\<lambda>x y. f x = Inr y) xs ys"
  by (induction xs arbitrary: ys) (auto simp: bindR_Inr_iff list_all2_Cons1)

end
