(* ===== verification/Py_Strings.thy ===== *)
theory Py_Strings
  imports Py_Prelude
begin

text \<open>
  The Python string methods the program calls, on lists of characters: \<open>startswith\<close>, \<open>in\<close>,
  \<open>find\<close>, \<open>replace\<close>, \<open>split\<close>, \<open>join\<close>, \<open>strip\<close>, \<open>lower\<close>, \<open>capitalize\<close> and \<open>str\<close> of an
  integer. Case conversion is that of ASCII letters.
\<close>

abbreviation newline :: string where
  "newline \<equiv> [CHR 0x0A]"

abbreviation quote :: string where
  "quote \<equiv> [CHR 0x22]"

abbreviation backquote :: string where
  "backquote \<equiv> [CHR 0x60]"

abbreviation backslash :: string where
  "backslash \<equiv> [CHR 0x5C]"

subsection \<open>Searching\<close>

fun contains :: "string \<Rightarrow> string \<Rightarrow> bool" where
  "contains pat [] = (pat = [])"
| "contains pat (c # cs) = (prefix pat (c # cs) \<or> contains pat cs)"

lemma contains_iff: "contains pat s \<longleftrightarrow> (\<exists>a b. s = a @ pat @ b)"
proof (induction s)
  case (Cons c cs)
  have "(\<exists>a b. c # cs = a @ pat @ b) \<longleftrightarrow>
        prefix pat (c # cs) \<or> (\<exists>a b. cs = a @ pat @ b)"
    by (auto simp: prefix_def Cons_eq_append_conv)
  with Cons show ?case by simp
qed simp

lemma contains_sublist: "contains pat s \<longleftrightarrow> sublist pat s"
  by (simp add: contains_iff sublist_def)

text \<open>\<open>s.find(pat)\<close>, \<open>None\<close> for -1 (and for the ValueError of \<open>s.index(pat)\<close>).\<close>

fun find_sub :: "string \<Rightarrow> string \<Rightarrow> nat option" where
  "find_sub pat [] = (if pat = [] then Some 0 else None)"
| "find_sub pat (c # cs) =
     (if prefix pat (c # cs) then Some 0 else map_option Suc (find_sub pat cs))"

lemma find_sub_Some_iff: "(\<exists>i. find_sub pat s = Some i) \<longleftrightarrow> contains pat s"
  by (induction s) auto

lemma find_sub_prefix: "find_sub pat s = Some i \<Longrightarrow> prefix pat (drop i s)"
  by (induction s arbitrary: i) (auto split: if_splits)

lemma find_sub_None_iff: "find_sub pat s = None \<longleftrightarrow> \<not> contains pat s"
  by (metis find_sub_Some_iff not_None_eq)

subsection \<open>Replacing\<close>

text \<open>
  \<open>s.replace(old, new)\<close> scans from the left and goes on after each match; with an empty
  \<open>old\<close> Python puts \<open>new\<close> around every character.
\<close>

function replace_all :: "string \<Rightarrow> string \<Rightarrow> string \<Rightarrow> string" where
  "replace_all old new s =
     (if old = [] then concat (map (\<lambda>c. new @ [c]) s) @ new
      else if s = [] then []
      else if prefix old s then new @ replace_all old new (drop (length old) s)
      else hd s # replace_all old new (tl s))"
  by pat_completeness auto
termination
  by (relation "measure (\<lambda>(old, new, s). length s)") auto

declare replace_all.simps [simp del]

lemma replace_all_Nil [simp]: "old \<noteq> [] \<Longrightarrow> replace_all old new [] = []"
  by (simp add: replace_all.simps)

lemma replace_all_Cons [simp]:
  "old \<noteq> [] \<Longrightarrow> replace_all old new (c # cs) =
     (if prefix old (c # cs) then new @ replace_all old new (drop (length old) (c # cs))
      else c # replace_all old new cs)"
  by (subst replace_all.simps) simp

lemma replace_all_step:
  "old \<noteq> [] \<Longrightarrow> \<not> prefix old (c # cs) \<Longrightarrow>
   replace_all old new (c # cs) = c # replace_all old new cs"
  by simp

lemma replace_all_id: "old \<noteq> [] \<Longrightarrow> \<not> contains old s \<Longrightarrow> replace_all old new s = s"
  by (induction s) auto

text \<open>Replacing one character by a text is a character-wise map.\<close>

lemma replace_all_char: "replace_all [c] new s = concat (map (\<lambda>x. if x = c then new else [x]) s)"
  by (induction s) auto

lemma replace_all_char_gone: "c \<notin> set new \<Longrightarrow> c \<notin> set (replace_all [c] new s)"
  by (auto simp: replace_all_char split: if_splits)

lemma set_replace_all: "old \<noteq> [] \<Longrightarrow> set (replace_all old new s) \<subseteq> set s \<union> set new"
proof (induction old new s rule: replace_all.induct)
  case (1 old new s)
  have "set (drop n s) \<subseteq> set s" for n by (rule set_drop_subset)
  with 1 show ?case by (cases s) (fastforce split: if_splits)+
qed

subsection \<open>Joining and splitting\<close>

fun join :: "string \<Rightarrow> string list \<Rightarrow> string" where
  "join sep [] = []"
| "join sep [x] = x"
| "join sep (x # y # ys) = x @ sep @ join sep (y # ys)"

lemma length_join:
  "xs \<noteq> [] \<Longrightarrow> length (join sep xs) = sum_list (map length xs) + length sep * (length xs - 1)"
  by (induction sep xs rule: join.induct) auto

definition is_space :: "char \<Rightarrow> bool" where
  "is_space c \<longleftrightarrow> c = CHR '' '' \<or> c = CHR 0x09 \<or> c = CHR 0x0A \<or> c = CHR 0x0B \<or>
     c = CHR 0x0C \<or> c = CHR 0x0D"

text \<open>\<open>s.split()\<close>: the maximal runs of non-white characters; \<open>w\<close> is the run being read.\<close>

fun split_ws_from :: "string \<Rightarrow> string \<Rightarrow> string list" where
  "split_ws_from w [] = (if w = [] then [] else [w])"
| "split_ws_from w (c # cs) =
     (if is_space c then (if w = [] then [] else [w]) @ split_ws_from [] cs
      else split_ws_from (w @ [c]) cs)"

definition split_ws :: "string \<Rightarrow> string list" where
  "split_ws s = split_ws_from [] s"

lemma split_ws_from_words:
  "list_all (\<lambda>c. \<not> is_space c) w \<Longrightarrow>
   list_all (\<lambda>x. x \<noteq> [] \<and> list_all (\<lambda>c. \<not> is_space c) x) (split_ws_from w s)"
  by (induction w s rule: split_ws_from.induct) simp_all

lemma split_ws_from_Nil_iff: "split_ws_from w s = [] \<longleftrightarrow> w = [] \<and> (\<forall>c \<in> set s. is_space c)"
  by (induction w s rule: split_ws_from.induct) auto

lemma concat_split_ws_from:
  "list_all (\<lambda>c. \<not> is_space c) w \<Longrightarrow>
   concat (split_ws_from w s) = w @ filter (\<lambda>c. \<not> is_space c) s"
  by (induction w s rule: split_ws_from.induct) simp_all

lemma split_ws_Nil_iff: "split_ws s = [] \<longleftrightarrow> (\<forall>c \<in> set s. is_space c)"
  by (simp add: split_ws_def split_ws_from_Nil_iff)

lemma concat_split_ws: "concat (split_ws s) = filter (\<lambda>c. \<not> is_space c) s"
  by (simp add: split_ws_def concat_split_ws_from)

text \<open>\<open>s.split(c)\<close> on a one-character separator.\<close>

fun split_char :: "char \<Rightarrow> string \<Rightarrow> string list" where
  "split_char sep [] = [[]]"
| "split_char sep (c # cs) =
     (if c = sep then [] # split_char sep cs
      else (case split_char sep cs of [] \<Rightarrow> [[c]] | w # ws \<Rightarrow> (c # w) # ws))"

lemma split_char_not_Nil [simp]: "split_char sep s \<noteq> []"
  by (cases s) (auto split: list.splits)

lemma join_split_char: "join [sep] (split_char sep s) = s"
proof (induction s)
  case (Cons c cs)
  obtain w ws where w: "split_char sep cs = w # ws"
    by (meson neq_Nil_conv split_char_not_Nil)
  with Cons show ?case by (cases ws) auto
qed simp

definition strip :: "string \<Rightarrow> string" where
  "strip s = rev (dropWhile is_space (rev (dropWhile is_space s)))"

subsection \<open>Letter case and numbers\<close>

definition lower_char :: "char \<Rightarrow> char" where
  "lower_char c = (let n = of_char c :: nat in if 65 \<le> n \<and> n \<le> 90 then char_of (n + 32) else c)"

definition upper_char :: "char \<Rightarrow> char" where
  "upper_char c = (let n = of_char c :: nat in if 97 \<le> n \<and> n \<le> 122 then char_of (n - 32) else c)"

definition lower :: "string \<Rightarrow> string" where
  "lower s = map lower_char s"

fun capitalize :: "string \<Rightarrow> string" where
  "capitalize [] = []"
| "capitalize (c # cs) = upper_char c # lower cs"

lemma length_capitalize [simp]: "length (capitalize s) = length s"
  by (cases s) (auto simp: lower_def)

fun str_nat :: "nat \<Rightarrow> string" where
  "str_nat n = (if n < 10 then [char_of (48 + n)] else str_nat (n div 10) @ [char_of (48 + n mod 10)])"

declare str_nat.simps [simp del]

definition str_int :: "int \<Rightarrow> string" where
  "str_int i = (if i < 0 then ''-'' @ str_nat (nat (- i)) else str_nat (nat i))"

text \<open>\<open>int(s)\<close>: blanks around, a sign, and digits, between which single underscores may stand.\<close>

definition is_digit :: "char \<Rightarrow> bool" where
  "is_digit c = (48 \<le> (of_char c :: nat) \<and> (of_char c :: nat) \<le> 57)"

fun read_digits :: "bool \<Rightarrow> nat \<Rightarrow> string \<Rightarrow> nat option" where
  "read_digits digit_due acc [] = (if digit_due then None else Some acc)"
| "read_digits digit_due acc (c # cs) =
     (if is_digit c then read_digits False (10 * acc + (of_char c - 48)) cs
      else if c = CHR ''_'' \<and> \<not> digit_due then read_digits True acc cs
      else None)"

definition int_of_str :: "string \<Rightarrow> int result" where
  "int_of_str s =
     (let t = strip s;
          number = (case t of
             [] \<Rightarrow> None
           | c # ds \<Rightarrow>
               if c = CHR ''-'' then map_option (\<lambda>n. - int n) (read_digits True 0 ds)
               else map_option int (read_digits True 0 (if c = CHR ''+'' then ds else t)))
      in case number of Some i \<Rightarrow> Inr i | None \<Rightarrow> Inl (Exn ''ValueError'' (''invalid literal for int() with base 10: '' @ s)))"

lemma read_digits_app:
  assumes "\<forall>c \<in> set ds. is_digit c" "ds \<noteq> []"
  shows "read_digits b acc (ds @ es) = read_digits False (the (read_digits b acc ds)) es"
proof -
  have "read_digits False acc (ds @ es) = read_digits False (the (read_digits False acc ds)) es" for acc
    using assms(1) by (induction ds arbitrary: acc) simp_all
  with assms show ?thesis by (cases ds) simp_all
qed

lemma read_digits_str_nat:
  "(\<forall>c \<in> set (str_nat n). is_digit c) \<and> str_nat n \<noteq> [] \<and> read_digits True 0 (str_nat n) = Some n"
proof (induction n rule: str_nat.induct)
  case (1 n)
  have digit: "is_digit (char_of (48 + m :: nat)) \<and> of_char (char_of (48 + m :: nat) :: char) = 48 + m" if "m < 10" for m :: nat
    using that by (simp add: is_digit_def)
  show ?case
  proof (cases "n < 10")
    case True
    with digit [OF True] show ?thesis by (simp add: str_nat.simps [of n])
  next
    case False
    have "n mod 10 < 10" by simp
    from 1 [OF False] digit [OF this] have "\<forall>c \<in> set (str_nat n). is_digit c"
      using False by (simp add: str_nat.simps [of n])
    moreover from 1 [OF False] digit [OF \<open>n mod 10 < 10\<close>] have "read_digits True 0 (str_nat n) = Some n"
      using False by (simp add: str_nat.simps [of n] read_digits_app)
    ultimately show ?thesis using False by (simp add: str_nat.simps [of n])
  qed
qed

lemma strip_id: "\<forall>c \<in> set s. \<not> is_space c \<Longrightarrow> strip s = s"
proof -
  have id: "dropWhile is_space xs = xs" if "\<forall>c \<in> set xs. \<not> is_space c" for xs using that by (cases xs) auto
  assume "\<forall>c \<in> set s. \<not> is_space c"
  with id [of s] id [of "rev s"] show ?thesis by (simp add: strip_def)
qed

lemma int_of_str_int: "int_of_str (str_int i) = Inr i"
proof -
  have blank: "\<not> is_space c" if "is_digit c" for c
    using that by (auto simp: is_digit_def is_space_def)
  have nat: "\<exists>d ds. str_nat n = d # ds \<and> d \<noteq> CHR ''-'' \<and> d \<noteq> CHR ''+''" for n
    using read_digits_str_nat [of n] by (cases "str_nat n") (auto simp: is_digit_def)
  show ?thesis
  proof (cases "i < 0")
    case True
    have "\<forall>c \<in> set (str_int i). \<not> is_space c"
      using read_digits_str_nat [of "nat (- i)"] blank True by (auto simp: str_int_def is_space_def)
    with True read_digits_str_nat [of "nat (- i)"] show ?thesis
      by (simp add: int_of_str_def strip_id del: read_digits.simps) (simp add: str_int_def del: read_digits.simps)
  next
    case False
    obtain d ds where d: "str_nat (nat i) = d # ds" "d \<noteq> CHR ''-''" "d \<noteq> CHR ''+''" using nat by blast
    have "\<forall>c \<in> set (str_int i). \<not> is_space c"
      using read_digits_str_nat [of "nat i"] blank False by (auto simp: str_int_def)
    with False d read_digits_str_nat [of "nat i"] show ?thesis
      by (simp add: int_of_str_def strip_id del: read_digits.simps) (simp add: str_int_def del: read_digits.simps)
  qed
qed

end
