(* ===== verification/Settings_Store.thy ===== *)
theory Settings_Store
  imports Py_Strings
begin

text \<open>
  The settings database: \<open>core/cat/db/models.py\<close> and \<open>core/cat/db/crud.py\<close>.

  TinyDB is a third-party package, so its table is a parameter: \<open>'db tinydb\<close> holds the four table
  operations the code calls, and the locale \<open>tinydb_table\<close> states what their documentation
  promises, over \<open>docs\<close>, the stored documents in insertion order. Every document is a dumped
  \<open>Setting\<close>, so \<open>update\<close>, which merges the fields of the payload into the matching documents,
  replaces them by the payload. Identifiers (\<open>uuid4\<close>) and time stamps are arguments.

  The contract the rest of the program uses is the locale \<open>settings_store\<close>: every TinyDB table
  gives it through the operations of \<open>crud.py\<close>.
\<close>

subsection \<open>Models\<close>

record setting =
  set_name :: string
  set_value :: pyval
  set_category :: "string option"
  setting_id :: string
  updated_at :: int

definition Setting :: "string \<Rightarrow> int \<Rightarrow> string \<Rightarrow> pyval \<Rightarrow> string option \<Rightarrow> setting" where
  "Setting uuid now nm val cat =
     \<lparr>set_name = nm, set_value = val, set_category = cat, setting_id = uuid, updated_at = now\<rparr>"

lemma Setting_sel [simp]:
  "set_name (Setting u t n v c) = n"
  "set_value (Setting u t n v c) = v"
  "set_category (Setting u t n v c) = c"
  "setting_id (Setting u t n v c) = u"
  "updated_at (Setting u t n v c) = t"
  by (simp_all add: Setting_def)

subsection \<open>The TinyDB table\<close>

record 'db tinydb =
  td_search :: "(setting \<Rightarrow> bool) \<Rightarrow> 'db \<Rightarrow> setting list"
  td_insert :: "setting \<Rightarrow> 'db \<Rightarrow> 'db"
  td_update :: "setting \<Rightarrow> (setting \<Rightarrow> bool) \<Rightarrow> 'db \<Rightarrow> 'db"
  td_remove :: "(setting \<Rightarrow> bool) \<Rightarrow> 'db \<Rightarrow> 'db"

subsection \<open>crud.py\<close>

definition first_or_none :: "'a list \<Rightarrow> 'a option" where
  "first_or_none xs = (case xs of [] \<Rightarrow> None | x # _ \<Rightarrow> Some x)"

text \<open>\<open>matches\<close> is the regular expression test of \<open>Query.matches\<close>.\<close>

definition get_settings :: "(string \<Rightarrow> string \<Rightarrow> bool) \<Rightarrow> 'db tinydb \<Rightarrow> string \<Rightarrow> 'db \<Rightarrow> setting list" where
  "get_settings matches T srch db =
     filter (\<lambda>s. set_name s \<noteq> ''users'') (td_search T (\<lambda>s. matches srch (set_name s)) db)"

definition get_settings_by_category :: "'db tinydb \<Rightarrow> string \<Rightarrow> 'db \<Rightarrow> setting list" where
  "get_settings_by_category T cat db = td_search T (\<lambda>s. set_category s = Some cat) db"

definition get_setting_by_name :: "'db tinydb \<Rightarrow> string \<Rightarrow> 'db \<Rightarrow> setting option" where
  "get_setting_by_name T nm db = first_or_none (td_search T (\<lambda>s. set_name s = nm) db)"

definition get_setting_by_id :: "'db tinydb \<Rightarrow> string \<Rightarrow> 'db \<Rightarrow> setting option" where
  "get_setting_by_id T i db = first_or_none (td_search T (\<lambda>s. setting_id s = i) db)"

definition create_setting :: "'db tinydb \<Rightarrow> setting \<Rightarrow> 'db \<Rightarrow> setting option \<times> 'db" where
  "create_setting T payload db =
     (let db1 = td_insert T payload db in (get_setting_by_id T (setting_id payload) db1, db1))"

definition delete_setting_by_id :: "'db tinydb \<Rightarrow> string \<Rightarrow> 'db \<Rightarrow> 'db" where
  "delete_setting_by_id T i db = td_remove T (\<lambda>s. setting_id s = i) db"

definition delete_settings_by_category :: "'db tinydb \<Rightarrow> string \<Rightarrow> 'db \<Rightarrow> 'db" where
  "delete_settings_by_category T cat db = td_remove T (\<lambda>s. set_category s = Some cat) db"

definition update_setting_by_id :: "'db tinydb \<Rightarrow> setting \<Rightarrow> 'db \<Rightarrow> setting option \<times> 'db" where
  "update_setting_by_id T payload db =
     (let db1 = td_update T payload (\<lambda>s. setting_id s = setting_id payload) db
      in (get_setting_by_id T (setting_id payload) db1, db1))"

definition upsert_setting_by_name :: "'db tinydb \<Rightarrow> setting \<Rightarrow> 'db \<Rightarrow> setting option \<times> 'db" where
  "upsert_setting_by_name T payload db =
     (let db1 =
        (case get_setting_by_name T (set_name payload) db of
           None \<Rightarrow> snd (create_setting T payload db)
         | Some _ \<Rightarrow> td_update T payload (\<lambda>s. set_name s = set_name payload) db)
      in (get_setting_by_name T (set_name payload) db1, db1))"

definition update_users :: "'db tinydb \<Rightarrow> string \<Rightarrow> int \<Rightarrow> json \<Rightarrow> 'db \<Rightarrow> setting option \<times> 'db" where
  "update_users T uuid now users db =
     upsert_setting_by_name T (Setting uuid now ''users'' (PDict users) None) db"

subsection \<open>What a TinyDB table and the settings store promise\<close>

locale tinydb_table =
  fixes T :: "'db tinydb"
    and docs :: "'db \<Rightarrow> setting list"
  assumes td_search: "td_search T P db = filter P (docs db)"
    and td_insert: "docs (td_insert T s db) = docs db @ [s]"
    and td_update: "docs (td_update T s P db) = map (\<lambda>d. if P d then s else d) (docs db)"
    and td_remove: "docs (td_remove T P db) = filter (\<lambda>d. \<not> P d) (docs db)"

text \<open>
  The settings store as the rest of the program sees it: a partial function from names to
  settings.
\<close>

locale settings_store =
  fixes by_name :: "string \<Rightarrow> 'db \<Rightarrow> setting option"
    and upsert :: "setting \<Rightarrow> 'db \<Rightarrow> setting option \<times> 'db"
  assumes upsert_returns: "fst (upsert s db) = Some s"
    and by_name_upsert:
      "by_name nm (snd (upsert s db)) = (if nm = set_name s then Some s else by_name nm db)"
begin

lemma upsert_twice:
  "set_name s = set_name s' \<Longrightarrow>
   by_name nm (snd (upsert s' (snd (upsert s db)))) = by_name nm (snd (upsert s' db))"
  by (simp add: by_name_upsert)

lemma upsert_commute:
  "set_name s \<noteq> set_name s' \<Longrightarrow>
   by_name nm (snd (upsert s' (snd (upsert s db)))) =
   by_name nm (snd (upsert s (snd (upsert s' db))))"
  by (auto simp: by_name_upsert)

end

lemma first_or_none_filter:
  "first_or_none (filter P xs) = find P xs"
  by (induction xs) (auto simp: first_or_none_def)

lemma find_append: "find P (xs @ ys) = (case find P xs of None \<Rightarrow> find P ys | Some x \<Rightarrow> Some x)"
  by (induction xs) auto

lemma find_replaced:
  "find (\<lambda>s. set_name s = nm) (map (\<lambda>d. if set_name d = set_name s then s else d) xs) =
     (if nm = set_name s then map_option (\<lambda>_. s) (find (\<lambda>s. set_name s = nm) xs)
      else find (\<lambda>s. set_name s = nm) xs)"
  by (induction xs) auto

context tinydb_table
begin

lemma by_name_find: "get_setting_by_name T nm db = find (\<lambda>s. set_name s = nm) (docs db)"
  by (simp add: get_setting_by_name_def td_search first_or_none_filter)

lemma by_id_find: "get_setting_by_id T i db = find (\<lambda>s. setting_id s = i) (docs db)"
  by (simp add: get_setting_by_id_def td_search first_or_none_filter)

lemma docs_upsert:
  "docs (snd (upsert_setting_by_name T s db)) =
     (if \<exists>d \<in> set (docs db). set_name d = set_name s
      then map (\<lambda>d. if set_name d = set_name s then s else d) (docs db)
      else docs db @ [s])"
proof (cases "get_setting_by_name T (set_name s) db")
  case None
  then have "\<not> (\<exists>d \<in> set (docs db). set_name d = set_name s)"
    by (auto simp: by_name_find find_None_iff)
  with None show ?thesis
    by (simp add: upsert_setting_by_name_def create_setting_def Let_def td_insert)
next
  case (Some d)
  then have "\<exists>d \<in> set (docs db). set_name d = set_name s"
    by (auto simp: by_name_find find_Some_iff)
  with Some show ?thesis by (simp add: upsert_setting_by_name_def Let_def td_update)
qed

end

sublocale tinydb_table \<subseteq> settings_store "get_setting_by_name T" "upsert_setting_by_name T"
proof
  fix s db nm
  show by_name: "get_setting_by_name T nm (snd (upsert_setting_by_name T s db)) =
      (if nm = set_name s then Some s else get_setting_by_name T nm db)" for nm
  proof (cases "\<exists>d \<in> set (docs db). set_name d = set_name s")
    case True
    then have "find (\<lambda>d. set_name d = set_name s) (docs db) \<noteq> None"
      by (auto simp: find_None_iff)
    then show ?thesis using True
      by (auto simp: by_name_find docs_upsert find_replaced)
  next
    case False
    then have "find (\<lambda>d. set_name d = set_name s) (docs db) = None"
      by (auto simp: find_None_iff)
    then show ?thesis using False
      by (auto simp: by_name_find docs_upsert find_append split: option.splits)
  qed
  have "fst (upsert_setting_by_name T s db) =
      get_setting_by_name T (set_name s) (snd (upsert_setting_by_name T s db))"
    by (simp add: upsert_setting_by_name_def Let_def)
  then show "fst (upsert_setting_by_name T s db) = Some s" by (simp add: by_name)
qed

context tinydb_table
begin

lemma lookup_upsert:
  "get_setting_by_name T nm (snd (upsert_setting_by_name T s db)) =
     (if nm = set_name s then Some s else get_setting_by_name T nm db)"
  by (rule by_name_upsert)

lemma upsert_result: "fst (upsert_setting_by_name T s db) = Some s"
  by (rule upsert_returns)

text \<open>The names in use change only by the name that is upserted.\<close>

lemma upsert_names:
  "set_name ` set (docs (snd (upsert_setting_by_name T s db))) =
     insert (set_name s) (set_name ` set (docs db))"
  by (auto simp: docs_upsert image_iff split: if_splits)

text \<open>An upsert never leaves two settings under the same name unless there were two before.\<close>

lemma upsert_distinct_names:
  "distinct (map set_name (docs db)) \<Longrightarrow>
   distinct (map set_name (docs (snd (upsert_setting_by_name T s db))))"
proof -
  assume d: "distinct (map set_name (docs db))"
  have "set_name \<circ> (\<lambda>d. if set_name d = set_name s then s else d) = set_name"
    by (rule ext) simp
  then show ?thesis using d by (auto simp: docs_upsert)
qed

end

subsection \<open>A table in memory\<close>

text \<open>
  TinyDB's documented behaviour on a plain list of documents. It shows that the laws of
  \<open>tinydb_table\<close> can hold, and it is the table the concrete examples run on.
\<close>

definition list_table :: "setting list tinydb" where
  "list_table =
     \<lparr>td_search = filter,
      td_insert = (\<lambda>s db. db @ [s]),
      td_update = (\<lambda>s P db. map (\<lambda>d. if P d then s else d) db),
      td_remove = (\<lambda>P db. filter (\<lambda>d. \<not> P d) db)\<rparr>"

interpretation list_table: tinydb_table list_table "\<lambda>db. db"
  by unfold_locales (simp_all add: list_table_def)

end
