(* ===== verification/Env.thy ===== *)
theory Env
  imports Py_Strings
begin

text \<open>
  Environment variables, \<open>core/cat/env.py\<close>. The process environment (\<open>os.environ\<close>) is a
  dictionary; \<open>None\<close> as a default is kept as \<open>None\<close>.
\<close>

definition get_supported_env_variables :: "(string, string option) dict" where
  "get_supported_env_variables =
    [(''CCAT_CORE_HOST'', Some ''localhost''),
     (''CCAT_CORE_PORT'', Some ''1865''),
     (''CCAT_CORE_USE_SECURE_PROTOCOLS'', Some []),
     (''CCAT_API_KEY'', None),
     (''CCAT_API_KEY_WS'', None),
     (''CCAT_DEBUG'', Some ''true''),
     (''CCAT_LOG_LEVEL'', Some ''INFO''),
     (''CCAT_CORS_ALLOWED_ORIGINS'', None),
     (''CCAT_QDRANT_HOST'', None),
     (''CCAT_QDRANT_PORT'', Some ''6333''),
     (''CCAT_QDRANT_API_KEY'', None),
     (''CCAT_SAVE_MEMORY_SNAPSHOTS'', Some ''false''),
     (''CCAT_METADATA_FILE'', Some ''cat/data/metadata.json''),
     (''CCAT_JWT_SECRET'', Some ''secret''),
     (''CCAT_JWT_ALGORITHM'', Some ''HS256''),
     (''CCAT_JWT_EXPIRE_MINUTES'', Some (str_nat (60 * 24))),
     (''CCAT_HTTPS_PROXY_MODE'', Some ''false''),
     (''CCAT_CORS_FORWARDED_ALLOW_IPS'', Some ''*''),
     (''CCAT_CORS_ENABLED'', Some ''true''),
     (''CCAT_CACHE_TYPE'', Some ''in_memory''),
     (''CCAT_CACHE_DIR'', Some ''/tmp'')]"

definition legacy_env_name :: "string \<Rightarrow> string" where
  "legacy_env_name n = replace_all ''CCAT_'' [] n"

definition fix_legacy_env_variables :: "(string, string) dict \<Rightarrow> (string, string) dict" where
  "fix_legacy_env_variables environ =
     foldl (\<lambda>env (new_name, v).
        case map_of env (legacy_env_name new_name) of
          None \<Rightarrow> env
        | Some legacy_value \<Rightarrow>
            if legacy_value = [] then env else AList.update new_name legacy_value env)
       environ get_supported_env_variables"

definition get_env :: "(string, string) dict \<Rightarrow> string \<Rightarrow> string option" where
  "get_env environ nm =
     (let defaults = get_supported_env_variables;
          legacy_variables = dict_of (map (\<lambda>(k, v). (legacy_env_name k, v)) defaults);
          table = dict_merge defaults legacy_variables;
          default_value = (case map_of table nm of None \<Rightarrow> None | Some d \<Rightarrow> d)
      in case map_of environ nm of Some v \<Rightarrow> Some v | None \<Rightarrow> default_value)"

lemma get_env_set: "map_of environ nm = Some v \<Longrightarrow> get_env environ nm = Some v"
  by (simp add: get_env_def Let_def)

lemma supported_env_wf: "dict_wf get_supported_env_variables"
  by (simp add: dict_wf_def get_supported_env_variables_def)

lemma legacy_env_names:
  "k \<in> set (keys get_supported_env_variables) \<Longrightarrow> k = ''CCAT_'' @ legacy_env_name k"
  by (auto simp: get_supported_env_variables_def keys_def legacy_env_name_def)

end
