(* ===== verification/Auth.thy ===== *)
theory Auth
  imports Settings_Store Env
begin

text \<open>
  Authentication and authorisation: \<open>core/cat/auth/permissions.py\<close>, \<open>auth_utils.py\<close>,
  \<open>connection.py\<close>, \<open>core/cat/factory/custom_auth_handler.py\<close> and the user table of
  \<open>core/cat/db/crud.py\<close>.

  PyJWT and bcrypt are third-party packages, so their functions are the parameters \<open>jwt_lib\<close> and
  \<open>bcrypt_lib\<close>; the locales \<open>jwt_signing\<close> and \<open>bcrypt_hashing\<close> state the documented behaviour that
  theorems use. Users are kept as JSON, as in the database. The TinyDB table \<open>T\<close> and the fresh
  identifiers \<open>ids\<close> are arguments; \<open>ae_jwt_minutes\<close> is \<open>float(get_env("CCAT_JWT_EXPIRE_MINUTES"))\<close>.
\<close>

subsection \<open>Resources and permissions\<close>

datatype AuthResource =
  STATUS | MEMORY | CONVERSATION | SETTINGS | LLM | EMBEDDER | AUTH_HANDLER | USERS | UPLOAD |
  PLUGINS | STATIC

datatype AuthPermission = WRITE | EDIT | LIST | READ | DELETE

fun resource_name :: "AuthResource \<Rightarrow> string" where
  "resource_name STATUS = ''STATUS''"
| "resource_name MEMORY = ''MEMORY''"
| "resource_name CONVERSATION = ''CONVERSATION''"
| "resource_name SETTINGS = ''SETTINGS''"
| "resource_name LLM = ''LLM''"
| "resource_name EMBEDDER = ''EMBEDDER''"
| "resource_name AUTH_HANDLER = ''AUTH_HANDLER''"
| "resource_name USERS = ''USERS''"
| "resource_name UPLOAD = ''UPLOAD''"
| "resource_name PLUGINS = ''PLUGINS''"
| "resource_name STATIC = ''STATIC''"

fun permission_name :: "AuthPermission \<Rightarrow> string" where
  "permission_name WRITE = ''WRITE''"
| "permission_name EDIT = ''EDIT''"
| "permission_name LIST = ''LIST''"
| "permission_name READ = ''READ''"
| "permission_name DELETE = ''DELETE''"

definition all_resources :: "AuthResource list" where
  "all_resources =
     [STATUS, MEMORY, CONVERSATION, SETTINGS, LLM, EMBEDDER, AUTH_HANDLER, USERS, UPLOAD,
      PLUGINS, STATIC]"

definition all_permissions :: "AuthPermission list" where
  "all_permissions = [WRITE, EDIT, LIST, READ, DELETE]"

type_synonym perms = "(string, string list) dict"

definition get_full_permissions :: perms where
  "get_full_permissions =
     foldl (\<lambda>ps res. AList.update (resource_name res) (map permission_name all_permissions) ps)
       [] all_resources"

definition get_base_permissions :: perms where
  "get_base_permissions =
     [(''STATUS'', [''READ'']),
      (''MEMORY'', [''READ'', ''LIST'']),
      (''CONVERSATION'', [''WRITE'', ''EDIT'', ''LIST'', ''READ'', ''DELETE'']),
      (''STATIC'', [''READ''])]"

definition perms_json :: "perms \<Rightarrow> pyval" where
  "perms_json ps = PDict (map (\<lambda>(r, xs). (r, PList (map PStr xs))) ps)"

definition perm_allows :: "perms \<Rightarrow> AuthResource \<Rightarrow> AuthPermission \<Rightarrow> bool" where
  "perm_allows ps r p =
     (case map_of ps (resource_name r) of
        None \<Rightarrow> False
      | Some xs \<Rightarrow> permission_name p \<in> set xs)"

lemma resource_name_inj [simp]: "resource_name r = resource_name r' \<longleftrightarrow> r = r'"
  by (cases r; cases r') simp_all

lemma permission_name_inj [simp]: "permission_name p = permission_name p' \<longleftrightarrow> p = p'"
  by (cases p; cases p') simp_all

lemma all_resources_complete: "r \<in> set all_resources"
  by (cases r) (simp_all add: all_resources_def)

lemma all_permissions_complete: "p \<in> set all_permissions"
  by (cases p) (simp_all add: all_permissions_def)

lemma full_permissions_allow: "perm_allows get_full_permissions r p"
  by (cases r; cases p)
    (simp_all add: perm_allows_def get_full_permissions_def all_resources_def all_permissions_def)

lemma base_permissions_iff:
  "perm_allows get_base_permissions r p \<longleftrightarrow>
     r = CONVERSATION \<or> r = MEMORY \<and> p \<in> {READ, LIST} \<or> r \<in> {STATUS, STATIC} \<and> p = READ"
  by (cases r; cases p) (simp_all add: perm_allows_def get_base_permissions_def)

record auth_user_info =
  aui_id :: string
  aui_name :: string
  aui_permissions :: perms
  aui_extra :: json

definition AuthUserInfo :: "string \<Rightarrow> string \<Rightarrow> perms \<Rightarrow> json \<Rightarrow> auth_user_info" where
  "AuthUserInfo i n ps ex = \<lparr>aui_id = i, aui_name = n, aui_permissions = ps, aui_extra = ex\<rparr>"

subsection \<open>Passwords and tokens\<close>

record bcrypt_lib =
  bc_hashpw :: "string \<Rightarrow> string result"
  bc_gensalt :: string
  bc_checkpw :: "string \<Rightarrow> string \<Rightarrow> bool result"

record jwt_lib =
  jwt_decode :: "real \<Rightarrow> string \<Rightarrow> string \<Rightarrow> string \<Rightarrow> json result"
  jwt_decode_unverified :: "string option \<Rightarrow> json result"
  jwt_encode :: "json \<Rightarrow> string \<Rightarrow> string \<Rightarrow> string"

definition is_jwt :: "jwt_lib \<Rightarrow> string option \<Rightarrow> bool" where
  "is_jwt J token = (case jwt_decode_unverified J token of Inl _ \<Rightarrow> False | Inr _ \<Rightarrow> True)"

definition hash_password :: "bcrypt_lib \<Rightarrow> string \<Rightarrow> string" where
  "hash_password B password =
     (case bc_hashpw B password of Inr hashed \<Rightarrow> hashed | Inl _ \<Rightarrow> bc_gensalt B)"

definition check_password :: "bcrypt_lib \<Rightarrow> string \<Rightarrow> string \<Rightarrow> bool" where
  "check_password B password hashed =
     (case bc_checkpw B password hashed of Inr b \<Rightarrow> b | Inl _ \<Rightarrow> False)"

text \<open>\<open>AuthUserInfo\<close> validates the permissions.\<close>

fun as_perms :: "json \<Rightarrow> perms result" where
  "as_perms [] = Inr []"
| "as_perms ((r, v) # rest) =
     bindR (bindR (as_list v) as_str_list) (\<lambda>ss.
       if r \<notin> set (map resource_name all_resources)
       then Inl (Exn ''ValidationError'' ''unknown resource'')
       else if \<not> set ss \<subseteq> set (map permission_name all_permissions)
       then Inl (Exn ''ValidationError'' ''unknown permission'')
       else bindR (as_perms rest) (\<lambda>ps. Inr ((r, ss) # ps)))"

subsection \<open>The user table\<close>

record fresh_ids =
  fid_admin :: string
  fid_user :: string
  fid_setting :: string
  fid_now :: int

definition user_json :: "string \<Rightarrow> string \<Rightarrow> string \<Rightarrow> perms \<Rightarrow> pyval" where
  "user_json i nm hashed ps =
     PDict [(''id'', PStr i), (''username'', PStr nm), (''password'', PStr hashed),
            (''permissions'', perms_json ps)]"

definition default_users :: "bcrypt_lib \<Rightarrow> fresh_ids \<Rightarrow> json" where
  "default_users B ids =
     dict_of [(fid_admin ids, user_json (fid_admin ids) ''admin'' (hash_password B ''admin'') get_full_permissions),
              (fid_user ids, user_json (fid_user ids) ''user'' (hash_password B ''user'') get_base_permissions)]"

definition get_users :: "'db tinydb \<Rightarrow> bcrypt_lib \<Rightarrow> fresh_ids \<Rightarrow> ('db, json) comp" where
  "get_users T B ids =
     bindM (\<lambda>db. case get_setting_by_name T ''users'' db of
                   None \<Rightarrow> (Inr (), snd (update_users T (fid_setting ids) (fid_now ids) (default_users B ids) db))
                 | Some _ \<Rightarrow> (Inr (), db)) (\<lambda>_.
     bindM (getM (get_setting_by_name T ''users'')) (\<lambda>users.
     liftM (case users of
              None \<Rightarrow> Inl (Exn ''TypeError'' ''NoneType object is not subscriptable'')
            | Some s \<Rightarrow> as_dict (set_value s))))"

subsection \<open>Auth handlers\<close>

datatype protocol = http | websocket

text \<open>
  A \<open>BaseAuthHandler\<close> subclass supplies the two abstract methods;
  \<open>authorize_user_from_credential\<close> is inherited. A handler may read and write the database.
\<close>

record 'db auth_handler =
  authorize_user_from_jwt ::
    "string \<Rightarrow> AuthResource \<Rightarrow> AuthPermission \<Rightarrow> ('db, auth_user_info option) comp"
  authorize_user_from_key ::
    "protocol \<Rightarrow> string \<Rightarrow> string option \<Rightarrow> AuthResource \<Rightarrow> AuthPermission \<Rightarrow>
     ('db, auth_user_info option) comp"

definition authorize_user_from_credential ::
  "jwt_lib \<Rightarrow> 'db auth_handler \<Rightarrow> protocol \<Rightarrow> string option \<Rightarrow> AuthResource \<Rightarrow> AuthPermission \<Rightarrow>
   string \<Rightarrow> ('db, auth_user_info option) comp" where
  "authorize_user_from_credential J h prot credential r p user_id =
     (if is_jwt J credential
      then authorize_user_from_jwt h (case credential of Some t \<Rightarrow> t | None \<Rightarrow> []) r p
      else authorize_user_from_key h prot user_id credential r p)"

record 'db auth_env =
  ae_env :: "string \<Rightarrow> string option"
  ae_jwt :: jwt_lib
  ae_bcrypt :: bcrypt_lib
  ae_db :: "'db tinydb"
  ae_ids :: fresh_ids
  ae_now :: real
  ae_jwt_minutes :: real

text \<open>\<open>get_env\<close> of the two variables, which have defaults.\<close>

definition jwt_secret :: "'db auth_env \<Rightarrow> string" where
  "jwt_secret A = (case ae_env A ''CCAT_JWT_SECRET'' of Some s \<Rightarrow> s | None \<Rightarrow> [])"

definition jwt_algorithm :: "'db auth_env \<Rightarrow> string" where
  "jwt_algorithm A = (case ae_env A ''CCAT_JWT_ALGORITHM'' of Some s \<Rightarrow> s | None \<Rightarrow> [])"

text \<open>The lookup in the user table, after the token was decoded.\<close>

definition user_of_payload ::
  "json \<Rightarrow> json \<Rightarrow> AuthResource \<Rightarrow> AuthPermission \<Rightarrow> auth_user_info option result" where
  "user_of_payload payload users r p =
     bindR (bindR (item payload ''sub'') as_str) (\<lambda>sub.
       case map_of users sub of
         None \<Rightarrow> Inr None
       | Some u \<Rightarrow>
           bindR (as_dict u) (\<lambda>user.
           bindR (bindR (item user ''permissions'') as_dict) (\<lambda>perms.
             case map_of perms (resource_name r) of
               None \<Rightarrow> Inr None
             | Some granted \<Rightarrow>
                 bindR (as_list granted) (\<lambda>ps.
                   if PStr (permission_name p) \<in> set ps then
                     bindR (bindR (item payload ''username'') as_str) (\<lambda>nm.
                     bindR (as_perms perms) (\<lambda>ps'. Inr (Some (AuthUserInfo sub nm ps' user))))
                   else Inr None))))"

definition Core_authorize_user_from_jwt ::
  "'db auth_env \<Rightarrow> string \<Rightarrow> AuthResource \<Rightarrow> AuthPermission \<Rightarrow> ('db, auth_user_info option) comp" where
  "Core_authorize_user_from_jwt A token r p =
     catchM
       (bindM (liftM (jwt_decode (ae_jwt A) (ae_now A) token
                  (jwt_secret A)
                  (jwt_algorithm A))) (\<lambda>payload.
        bindM (get_users (ae_db A) (ae_bcrypt A) (ae_ids A)) (\<lambda>users.
        liftM (user_of_payload payload users r p))))
       (\<lambda>e. retM None)"

definition authorize_http_key :: "string \<Rightarrow> string option \<Rightarrow> string option \<Rightarrow> auth_user_info option" where
  "authorize_http_key user_id api_key http_key =
     (if api_key = http_key then Some (AuthUserInfo user_id user_id get_full_permissions []) else None)"

definition authorize_websocket_key ::
  "string \<Rightarrow> string option \<Rightarrow> string option \<Rightarrow> auth_user_info option" where
  "authorize_websocket_key user_id api_key ws_key =
     (if api_key = ws_key then Some (AuthUserInfo user_id user_id get_base_permissions []) else None)"

definition Core_authorize_user_from_key ::
  "'db auth_env \<Rightarrow> protocol \<Rightarrow> string \<Rightarrow> string option \<Rightarrow> AuthResource \<Rightarrow> AuthPermission \<Rightarrow>
   ('db, auth_user_info option) comp" where
  "Core_authorize_user_from_key A prot user_id api_key r p =
     (let http_key = ae_env A ''CCAT_API_KEY''; ws_key = ae_env A ''CCAT_API_KEY_WS'' in
      retM (if \<not> str_truthy http_key \<and> \<not> str_truthy ws_key
            then Some (AuthUserInfo user_id user_id get_full_permissions [])
            else if prot = websocket then authorize_websocket_key user_id api_key ws_key
            else authorize_http_key user_id api_key http_key))"

definition CoreAuthHandler :: "'db auth_env \<Rightarrow> 'db auth_handler" where
  "CoreAuthHandler A =
     \<lparr>authorize_user_from_jwt = Core_authorize_user_from_jwt A,
      authorize_user_from_key = Core_authorize_user_from_key A\<rparr>"

definition CoreOnlyAuthHandler :: "'db auth_handler" where
  "CoreOnlyAuthHandler =
     \<lparr>authorize_user_from_jwt = (\<lambda>token r p. retM None),
      authorize_user_from_key = (\<lambda>prot user_id api_key r p. retM None)\<rparr>"

subsection \<open>Issuing tokens\<close>

definition password_matches :: "bcrypt_lib \<Rightarrow> string \<Rightarrow> pyval \<Rightarrow> bool" where
  "password_matches B password pw =
     (case pw of PStr hashed \<Rightarrow> check_password B password hashed | _ \<Rightarrow> False)"

lemma password_matches_iff:
  "password_matches B password pw \<longleftrightarrow> (\<exists>h. pw = PStr h \<and> check_password B password h)"
  by (cases pw) (simp_all add: password_matches_def)

fun find_login :: "bcrypt_lib \<Rightarrow> string \<Rightarrow> string \<Rightarrow> json \<Rightarrow> (string \<times> json) option result" where
  "find_login B username password [] = Inr None"
| "find_login B username password ((user_id, u) # rest) =
     bindR (as_dict u) (\<lambda>user.
     bindR (item user ''username'') (\<lambda>nm.
       if nm = PStr username then
         bindR (item user ''password'') (\<lambda>pw.
           if password_matches B password pw
           then Inr (Some (user_id, user))
           else find_login B username password rest)
       else find_login B username password rest))"

definition jwt_content :: "'db auth_env \<Rightarrow> string \<Rightarrow> string \<Rightarrow> pyval \<Rightarrow> json" where
  "jwt_content A user_id username perms =
     [(''sub'', PStr user_id), (''username'', PStr username), (''permissions'', perms),
      (''exp'', PFloat (ae_now A + ae_jwt_minutes A * 60))]"

definition issue_jwt :: "'db auth_env \<Rightarrow> string \<Rightarrow> string \<Rightarrow> ('db, string option) comp" where
  "issue_jwt A username password =
     bindM (get_users (ae_db A) (ae_bcrypt A) (ae_ids A)) (\<lambda>users.
     liftM (bindR (find_login (ae_bcrypt A) username password users) (\<lambda>found.
       case found of
         None \<Rightarrow> Inr None
       | Some (user_id, user) \<Rightarrow>
           bindR (item user ''permissions'') (\<lambda>perms.
             Inr (Some (jwt_encode (ae_jwt A) (jwt_content A user_id username perms)
               (jwt_secret A)
               (jwt_algorithm A)))))))"

subsection \<open>Connections\<close>

text \<open>
  The loop over the core and the custom handler: the first handler that knows the user wins,
  otherwise \<open>not_allowed\<close> raises. What the endpoint then does with the session is modelled in the
  theory of \<open>StrayCat\<close>.
\<close>

fun ConnectionAuth_call ::
  "jwt_lib \<Rightarrow> 'db auth_handler list \<Rightarrow> protocol \<Rightarrow> string option \<Rightarrow> AuthResource \<Rightarrow> AuthPermission \<Rightarrow>
   string \<Rightarrow> exn \<Rightarrow> ('db, auth_user_info) comp" where
  "ConnectionAuth_call J [] prot credential r p user_id not_allowed = raiseM not_allowed"
| "ConnectionAuth_call J (ah # ahs) prot credential r p user_id not_allowed =
     bindM (authorize_user_from_credential J ah prot credential r p user_id) (\<lambda>user.
       case user of
         Some u \<Rightarrow> retM u
       | None \<Rightarrow> ConnectionAuth_call J ahs prot credential r p user_id not_allowed)"

definition HTTPAuth_extract_credentials :: "(string \<Rightarrow> string option) \<Rightarrow> string \<times> string option" where
  "HTTPAuth_extract_credentials headers =
     (let user_id = (case headers ''user_id'' of Some u \<Rightarrow> u | None \<Rightarrow> ''user'');
          token = (case headers ''Authorization'' of
                     None \<Rightarrow> None
                   | Some t \<Rightarrow> if t \<noteq> [] \<and> contains ''Bearer '' t
                               then Some (replace_all ''Bearer '' [] t) else Some t);
          token = (if str_truthy token then token else headers ''access_token'');
          token = (if token = Some [] then None else token)
      in (user_id, token))"

definition HTTPAuth_not_allowed :: exn where
  "HTTPAuth_not_allowed = HTTPException 403 (PDict [(''error'', PStr ''Invalid Credentials'')])"

definition WebSocketAuth_extract_credentials ::
  "(string \<Rightarrow> string option) \<Rightarrow> (string \<Rightarrow> string option) \<Rightarrow> string \<times> string option" where
  "WebSocketAuth_extract_credentials path_params query_params =
     ((case path_params ''user_id'' of Some u \<Rightarrow> u | None \<Rightarrow> ''user''), query_params ''token'')"

definition WebSocketAuth_not_allowed :: exn where
  "WebSocketAuth_not_allowed = WebSocketException 1004 ''Invalid Credentials''"

text \<open>\<open>urlencode\<close> stands for the quoting of one query value.\<close>

definition CoreFrontendAuth_not_allowed :: "(string \<Rightarrow> string) \<Rightarrow> string \<Rightarrow> exn" where
  "CoreFrontendAuth_not_allowed urlencode url_path =
     HTTPException 307 (PDict [(''Location'', PStr (''/auth/login?referer='' @ urlencode url_path))])"

definition CoreFrontendAuth_extract_credentials ::
  "(string \<Rightarrow> string) \<Rightarrow> string \<Rightarrow> (string \<Rightarrow> string option) \<Rightarrow> (string \<times> string option) result" where
  "CoreFrontendAuth_extract_credentials urlencode url_path cookies =
     (case cookies ''ccat_user_token'' of
        None \<Rightarrow> Inl (CoreFrontendAuth_not_allowed urlencode url_path)
      | Some token \<Rightarrow>
          if token = [] then Inl (CoreFrontendAuth_not_allowed urlencode url_path)
          else Inr (''user'', Some token))"

subsection \<open>Third-party contracts\<close>

text \<open>
  PyJWT: a payload signed with a secret decodes with that secret and algorithm until its \<open>exp\<close>
  claim (cut to whole seconds) and not from then on; text claims come back unchanged; an encoded
  token has the structure of a JWT, the absent token has not.
\<close>

definition jwt_ok :: "jwt_lib \<Rightarrow> bool" where
  "jwt_ok J \<longleftrightarrow>
     (\<forall>pl e now secret alg. map_of pl ''exp'' = Some (PFloat e) \<longrightarrow> now < of_int \<lfloor>e\<rfloor> \<longrightarrow>
        (\<exists>pl'. jwt_decode J now (jwt_encode J pl secret alg) secret alg = Inr pl' \<and>
           (\<forall>k s. map_of pl k = Some (PStr s) \<longrightarrow> map_of pl' k = Some (PStr s)))) \<and>
     (\<forall>pl e now secret alg. map_of pl ''exp'' = Some (PFloat e) \<longrightarrow> of_int \<lfloor>e\<rfloor> \<le> now \<longrightarrow>
        (\<exists>err. jwt_decode J now (jwt_encode J pl secret alg) secret alg = Inl err)) \<and>
     (\<forall>pl secret alg. \<exists>pl'. jwt_decode_unverified J (Some (jwt_encode J pl secret alg)) = Inr pl') \<and>
     (\<exists>err. jwt_decode_unverified J None = Inl err)"

text \<open>bcrypt: every password has a hash, and checks against it.\<close>

definition bcrypt_ok :: "bcrypt_lib \<Rightarrow> bool" where
  "bcrypt_ok B \<longleftrightarrow> (\<forall>pw. \<exists>h. bc_hashpw B pw = Inr h \<and> bc_checkpw B pw h = Inr True)"

lemma jwt_ok_is_jwt: "jwt_ok J \<Longrightarrow> is_jwt J (Some (jwt_encode J pl secret alg))"
  unfolding jwt_ok_def is_jwt_def by (metis sum.simps(6))

lemma jwt_ok_no_token: "jwt_ok J \<Longrightarrow> \<not> is_jwt J None"
  by (auto simp: jwt_ok_def is_jwt_def)

lemma bcrypt_ok_check: "bcrypt_ok B \<Longrightarrow> check_password B pw (hash_password B pw)"
  unfolding bcrypt_ok_def check_password_def hash_password_def
  by (metis sum.simps(6))

subsection \<open>Lemmas on the user table\<close>

lemma get_users_stored:
  "get_setting_by_name T ''users'' db = Some s \<Longrightarrow> get_users T B ids db = (as_dict (set_value s), db)"
  by (simp add: get_users_def bindM_def)

lemma get_users_default:
  assumes "tinydb_table T docs" "get_setting_by_name T ''users'' db = None"
  shows "get_users T B ids db =
     (Inr (default_users B ids), snd (update_users T (fid_setting ids) (fid_now ids) (default_users B ids) db))"
proof -
  have law: "get_setting_by_name T ''users'' (snd (upsert_setting_by_name T s db)) = Some s"
    if "set_name s = ''users''" for s
    using tinydb_table.lookup_upsert [OF assms(1)] that by simp
  show ?thesis using assms(2) law
    by (simp add: get_users_def bindM_def update_users_def as_dict_def)
qed

text \<open>What the lookup of a decoded token needs and gives.\<close>

lemma user_of_payload_SomeD:
  assumes "user_of_payload payload users r p = Inr (Some u)"
  shows "\<exists>user perms granted.
     map_of payload ''sub'' = Some (PStr (aui_id u)) \<and>
     map_of payload ''username'' = Some (PStr (aui_name u)) \<and>
     map_of users (aui_id u) = Some (PDict user) \<and>
     map_of user ''permissions'' = Some (PDict perms) \<and>
     map_of perms (resource_name r) = Some (PList granted) \<and>
     PStr (permission_name p) \<in> set granted \<and> aui_extra u = user"
  using assms
  by (auto simp: user_of_payload_def bindR_Inr_iff AuthUserInfo_def
      split: option.splits if_splits)

lemma Core_jwt_never_raises: "\<exists>u db'. Core_authorize_user_from_jwt A token r p db = (Inr u, db')"
  by (auto simp: Core_authorize_user_from_jwt_def catchM_def split: prod.splits sum.splits)

lemma Core_jwt_SomeD:
  assumes "Core_authorize_user_from_jwt A token r p db = (Inr (Some u), db')"
  shows "\<exists>payload users.
     jwt_decode (ae_jwt A) (ae_now A) token
       (jwt_secret A)
       (jwt_algorithm A) = Inr payload \<and>
     get_users (ae_db A) (ae_bcrypt A) (ae_ids A) db = (Inr users, db') \<and>
     user_of_payload payload users r p = Inr (Some u)"
  using assms
  by (auto simp: Core_authorize_user_from_jwt_def catchM_def bindM_def
      split: prod.splits sum.splits)

lemma authorize_core_cases:
  "authorize_user_from_credential J (CoreAuthHandler A) prot credential r p user_id =
     (if is_jwt J credential
      then Core_authorize_user_from_jwt A (case credential of Some t \<Rightarrow> t | None \<Rightarrow> []) r p
      else Core_authorize_user_from_key A prot user_id credential r p)"
  by (simp add: authorize_user_from_credential_def CoreAuthHandler_def)

lemma authorize_core_only [simp]:
  "authorize_user_from_credential J CoreOnlyAuthHandler prot credential r p user_id db = (Inr None, db)"
  by (simp add: authorize_user_from_credential_def CoreOnlyAuthHandler_def)

lemma ConnectionAuth_core_only:
  "ConnectionAuth_call J [CoreAuthHandler A, CoreOnlyAuthHandler] prot credential r p user_id na db =
     (case authorize_user_from_credential J (CoreAuthHandler A) prot credential r p user_id db of
        (Inl e, db') \<Rightarrow> (Inl e, db')
      | (Inr None, db') \<Rightarrow> (Inl na, db')
      | (Inr (Some u), db') \<Rightarrow> (Inr u, db'))"
  by (simp add: bindM_def split: prod.splits sum.splits option.splits)

lemma find_login_SomeD:
  assumes "find_login B username password users = Inr (Some (uid, user))"
  shows "(uid, PDict user) \<in> set users \<and> map_of user ''username'' = Some (PStr username) \<and>
     (\<exists>hashed. map_of user ''password'' = Some (PStr hashed) \<and> check_password B password hashed)"
  using assms
proof (induction users)
  case (Cons x rest)
  obtain i u where x: "x = (i, u)" by (cases x)
  from Cons show ?case unfolding x
    by (auto simp: bindR_Inr_iff password_matches_iff split: if_splits)
qed simp

lemma issue_jwt_SomeD:
  assumes "issue_jwt A username password db = (Inr (Some token), db')"
  shows "\<exists>users uid user perms.
     get_users (ae_db A) (ae_bcrypt A) (ae_ids A) db = (Inr users, db') \<and>
     find_login (ae_bcrypt A) username password users = Inr (Some (uid, user)) \<and>
     map_of user ''permissions'' = Some perms \<and>
     token = jwt_encode (ae_jwt A) (jwt_content A uid username perms)
       (jwt_secret A)
       (jwt_algorithm A)"
  using assms
  by (auto simp: issue_jwt_def bindM_def bindR_Inr_iff
      split: prod.splits sum.splits option.splits)

subsection \<open>Libraries that meet the contracts\<close>

text \<open>
  A token that spells its payload out: secret, algorithm, then each claim as its key and its
  text, number of seconds or a mark for anything else. It meets \<open>jwt_ok\<close>, so the contract is
  consistent, and the concrete examples run on it.
\<close>

fun enc_str :: "string \<Rightarrow> string" where
  "enc_str [] = ''e''"
| "enc_str (c # cs) = CHR ''x'' # c # enc_str cs"

fun dec_str :: "string \<Rightarrow> (string \<times> string) option" where
  "dec_str (x # rest) =
     (if x = CHR ''e'' then Some ([], rest)
      else (case rest of
              [] \<Rightarrow> None
            | c # rest' \<Rightarrow> map_option (\<lambda>(s, r). (c # s, r)) (dec_str rest')))"
| "dec_str [] = None"

lemma dec_enc_str [simp]: "dec_str (enc_str s @ r) = Some (s, r)"
  by (induction s) simp_all

definition enc_int :: "int \<Rightarrow> string" where
  "enc_int i = (if i < 0 then ''m'' else ''p'') @ enc_str (replicate (nat \<bar>i\<bar>) CHR ''i'')"

definition enc_claim :: "string \<times> pyval \<Rightarrow> string" where
  "enc_claim kv =
     enc_str (fst kv) @
     (case snd kv of PStr s \<Rightarrow> ''s'' @ enc_str s | PFloat e \<Rightarrow> enc_int \<lfloor>e\<rfloor> | _ \<Rightarrow> ''n'')"

definition dec_value :: "string \<Rightarrow> (pyval \<times> string) option" where
  "dec_value t =
     (case t of
        [] \<Rightarrow> None
      | x # r \<Rightarrow>
          if x = CHR ''s'' then map_option (\<lambda>(s, r'). (PStr s, r')) (dec_str r)
          else if x = CHR ''p'' then map_option (\<lambda>(s, r'). (PInt (int (length s)), r')) (dec_str r)
          else if x = CHR ''m'' then map_option (\<lambda>(s, r'). (PInt (- int (length s)), r')) (dec_str r)
          else Some (PNone, r))"

fun dec_claims :: "nat \<Rightarrow> string \<Rightarrow> json" where
  "dec_claims 0 t = []"
| "dec_claims (Suc n) t =
     (case dec_str t of
        None \<Rightarrow> []
      | Some (k, r) \<Rightarrow> (case dec_value r of None \<Rightarrow> [] | Some (v, r') \<Rightarrow> (k, v) # dec_claims n r'))"

definition claim_value :: "pyval \<Rightarrow> pyval" where
  "claim_value v = (case v of PStr s \<Rightarrow> PStr s | PFloat e \<Rightarrow> PInt \<lfloor>e\<rfloor> | _ \<Rightarrow> PNone)"

lemma dec_claim: "dec_str (enc_claim (k, v) @ r) = Some (k, drop (length (enc_str k)) (enc_claim (k, v)) @ r)"
  by (simp add: enc_claim_def)

lemma dec_value_claim:
  "dec_value (drop (length (enc_str k)) (enc_claim (k, v)) @ r) = Some (claim_value v, r)"
  by (cases v) (auto simp: enc_claim_def dec_value_def claim_value_def enc_int_def)

lemma dec_claims_enc:
  "length pl \<le> n \<Longrightarrow> dec_claims n (concat (map enc_claim pl)) = map (\<lambda>(k, v). (k, claim_value v)) pl"
proof (induction pl arbitrary: n)
  case Nil
  then show ?case by (cases n) simp_all
next
  case (Cons kv pl)
  obtain k v where kv: "kv = (k, v)" by (cases kv)
  from Cons.prems obtain m where n: "n = Suc m" "length pl \<le> m" by (cases n) auto
  with Cons.IH [of m] show ?case by (simp add: kv dec_claim dec_value_claim)
qed

lemma length_enc_claims: "length pl \<le> length (concat (map enc_claim pl))"
proof (induction pl)
  case (Cons kv pl)
  have "1 \<le> length (enc_str s)" for s by (cases s) simp_all
  then have "1 \<le> length (enc_claim kv)" by (simp add: enc_claim_def trans_le_add1)
  with Cons show ?case by simp
qed simp

definition plain_jwt :: jwt_lib where
  "plain_jwt =
     \<lparr>jwt_decode = (\<lambda>now t secret alg.
        if prefix (enc_str secret @ enc_str alg) t then
          (let body = drop (length (enc_str secret @ enc_str alg)) t;
               pl = dec_claims (length body) body
           in case map_of pl ''exp'' of
                Some (PInt e) \<Rightarrow> if of_int e \<le> now then Inl (Exn ''ExpiredSignatureError'' []) else Inr pl
              | _ \<Rightarrow> Inr pl)
        else Inl (Exn ''InvalidSignatureError'' [])),
      jwt_decode_unverified = (\<lambda>t. case t of
          None \<Rightarrow> Inl (Exn ''DecodeError'' [])
        | Some s \<Rightarrow> if prefix ''x'' s \<or> prefix ''e'' s then Inr [] else Inl (Exn ''DecodeError'' [])),
      jwt_encode = (\<lambda>pl secret alg. enc_str secret @ enc_str alg @ concat (map enc_claim pl))\<rparr>"

lemma plain_jwt_decode:
  "map_of pl ''exp'' = Some (PFloat e) \<Longrightarrow>
   jwt_decode plain_jwt now (jwt_encode plain_jwt pl secret alg) secret alg =
     (if of_int \<lfloor>e\<rfloor> \<le> now then Inl (Exn ''ExpiredSignatureError'' [])
      else Inr (map (\<lambda>(k, v). (k, claim_value v)) pl))"
  by (simp add: plain_jwt_def Let_def dec_claims_enc [OF length_enc_claims] map_of_map claim_value_def)

lemma plain_jwt_ok: "jwt_ok plain_jwt"
proof -
  have "prefix ''x'' (enc_str s @ t) \<or> prefix ''e'' (enc_str s @ t)" for s t
    by (cases s) simp_all
  then have "\<exists>pl'. jwt_decode_unverified plain_jwt (Some (jwt_encode plain_jwt pl secret alg)) = Inr pl'"
    for pl secret alg by (auto simp: plain_jwt_def)
  then show ?thesis
    by (auto simp: jwt_ok_def plain_jwt_decode map_of_map claim_value_def)
      (simp add: plain_jwt_def)
qed

definition plain_bcrypt :: bcrypt_lib where
  "plain_bcrypt =
     \<lparr>bc_hashpw = (\<lambda>pw. Inr (''$2b$'' @ pw)),
      bc_gensalt = ''$2b$12$'',
      bc_checkpw = (\<lambda>pw hashed. Inr (hashed = ''$2b$'' @ pw))\<rparr>"

lemma plain_bcrypt_ok: "bcrypt_ok plain_bcrypt"
  by (simp add: bcrypt_ok_def plain_bcrypt_def)

subsection \<open>Stored permissions decide\<close>

definition valid_perms :: "perms \<Rightarrow> bool" where
  "valid_perms ps \<longleftrightarrow>
     (\<forall>(r, xs) \<in> set ps. r \<in> set (map resource_name all_resources) \<and>
        set xs \<subseteq> set (map permission_name all_permissions))"

lemma as_perms_json:
  "valid_perms ps \<Longrightarrow> as_perms (map (\<lambda>(r, xs). (r, PList (map PStr xs))) ps) = Inr ps"
  by (induction ps) (auto simp: valid_perms_def)

lemma valid_default_perms: "valid_perms get_full_permissions" "valid_perms get_base_permissions"
  by (simp_all add: valid_perms_def get_full_permissions_def get_base_permissions_def
      all_resources_def all_permissions_def)

lemma user_of_payload_stored:
  assumes "map_of payload ''sub'' = Some (PStr uid)" "map_of payload ''username'' = Some (PStr nm)"
    and "map_of users uid = Some (PDict user)"
    and "map_of user ''permissions'' = Some (perms_json ps)" "valid_perms ps"
  shows "user_of_payload payload users r p =
     Inr (if perm_allows ps r p then Some (AuthUserInfo uid nm ps user) else None)"
  using assms
  by (auto simp: user_of_payload_def item_def perms_json_def as_perms_json perm_allows_def map_of_map
      split: option.splits)

lemma Core_jwt_stored:
  assumes dec: "jwt_decode (ae_jwt A) (ae_now A) token
       (jwt_secret A)
       (jwt_algorithm A) = Inr payload"
    and claims: "map_of payload ''sub'' = Some (PStr uid)" "map_of payload ''username'' = Some (PStr nm)"
    and stored: "get_setting_by_name (ae_db A) ''users'' db = Some s" "set_value s = PDict users"
    and user: "map_of users uid = Some (PDict user)"
      "map_of user ''permissions'' = Some (perms_json ps)" "valid_perms ps"
  shows "Core_authorize_user_from_jwt A token r p db =
     (Inr (if perm_allows ps r p then Some (AuthUserInfo uid nm ps user) else None), db)"
  using get_users_stored [OF stored(1)] stored(2) user_of_payload_stored [OF claims user]
  by (simp add: Core_authorize_user_from_jwt_def catchM_def bindM_def dec)

lemma find_login_hit:
  assumes "find_login B username password users = Inr (Some (uid, user))" "dict_wf users"
  shows "map_of users uid = Some (PDict user)"
  using find_login_SomeD [OF assms(1)] assms(2) by (simp add: dict_wf_map_of_iff)

subsection \<open>Properties\<close>

text \<open>
  (C5) With an HTTP API key configured and no custom auth handler, a request over HTTP is served
  only for the key itself (then with full permissions) or for a token that decodes with the
  server's secret and names a user whose stored permissions grant the requested permission on
  the requested resource; every other request ends in the 403 response and nothing else.
\<close>

theorem http_access_sound:
  assumes "jwt_ok (ae_jwt A)" and "ae_env A ''CCAT_API_KEY'' = Some k" and "k \<noteq> []"
    and "HTTPAuth_extract_credentials headers = (uid, cred)"
    and "ConnectionAuth_call (ae_jwt A) [CoreAuthHandler A, CoreOnlyAuthHandler] http cred r p uid
           HTTPAuth_not_allowed db = (res, db')"
  shows "case res of
      Inl e \<Rightarrow> e = HTTPException 403 (PDict [(''error'', PStr ''Invalid Credentials'')])
    | Inr u \<Rightarrow>
        cred = Some k \<and> aui_id u = uid \<and> aui_permissions u = get_full_permissions \<or>
        (\<exists>token payload users user perms granted.
           cred = Some token \<and>
           jwt_decode (ae_jwt A) (ae_now A) token (jwt_secret A) (jwt_algorithm A) = Inr payload \<and>
           map_of payload ''sub'' = Some (PStr (aui_id u)) \<and>
           get_users (ae_db A) (ae_bcrypt A) (ae_ids A) db = (Inr users, db') \<and>
           map_of users (aui_id u) = Some (PDict user) \<and>
           map_of user ''permissions'' = Some (PDict perms) \<and>
           map_of perms (resource_name r) = Some (PList granted) \<and>
           PStr (permission_name p) \<in> set granted)"
proof (cases "is_jwt (ae_jwt A) cred")
  case True
  with jwt_ok_no_token [OF assms(1)] obtain t where t: "cred = Some t" by (cases cred) auto
  obtain u db1 where call: "Core_authorize_user_from_jwt A t r p db = (Inr u, db1)"
    using Core_jwt_never_raises [of A t r p db] by blast
  have res: "res = (case u of None \<Rightarrow> Inl HTTPAuth_not_allowed | Some v \<Rightarrow> Inr v)" "db' = db1"
    using assms(5) call True t
    by (auto simp del: ConnectionAuth_call.simps simp: ConnectionAuth_core_only authorize_core_cases
        split: option.splits)
  show ?thesis
  proof (cases u)
    case None
    then show ?thesis using res by (simp add: HTTPAuth_not_allowed_def)
  next
    case (Some v)
    from Core_jwt_SomeD [of A t r p db v db1] call Some obtain payload users where pl:
      "jwt_decode (ae_jwt A) (ae_now A) t (jwt_secret A) (jwt_algorithm A) = Inr payload"
      "get_users (ae_db A) (ae_bcrypt A) (ae_ids A) db = (Inr users, db1)"
      "user_of_payload payload users r p = Inr (Some v)" by auto
    from user_of_payload_SomeD [OF pl(3)] pl(1,2) res Some t show ?thesis by simp blast
  qed
next
  case False
  then show ?thesis using assms(2,3,5)
    by (auto simp del: ConnectionAuth_call.simps
        simp: ConnectionAuth_core_only authorize_core_cases Core_authorize_user_from_key_def Let_def
        str_truthy_def authorize_http_key_def HTTPAuth_not_allowed_def AuthUserInfo_def
        split: if_splits)
qed


text \<open>A server on the in-memory table, for the concrete runs.\<close>

definition demo_server :: "setting list auth_env" where
  "demo_server =
     \<lparr>ae_env = (\<lambda>k. if k = ''CCAT_API_KEY'' then Some ''meow'' else if k = ''CCAT_JWT_SECRET'' then Some ''secret''
                 else if k = ''CCAT_JWT_ALGORITHM'' then Some ''HS256'' else None),
      ae_jwt = plain_jwt, ae_bcrypt = plain_bcrypt, ae_db = list_table,
      ae_ids = \<lparr>fid_admin = ''a1'', fid_user = ''u1'', fid_setting = ''s1'', fid_now = 0\<rparr>,
      ae_now = 0, ae_jwt_minutes = 1440\<rparr>"

lemma demo_server_simps [simp]:
  "ae_env demo_server ''CCAT_API_KEY'' = Some ''meow''"
  "ae_jwt demo_server = plain_jwt" "ae_bcrypt demo_server = plain_bcrypt"
  "ae_db demo_server = list_table" "ae_now demo_server = 0" "ae_jwt_minutes demo_server = 1440"
  by (simp_all add: demo_server_def)

lemma plain_jwt_meow [simp]: "\<not> is_jwt plain_jwt (Some (CHR ''m'' # s))"
  by (simp add: is_jwt_def plain_jwt_def)

theorem http_access_sound_witness:
  "fst (ConnectionAuth_call plain_jwt [CoreAuthHandler demo_server, CoreOnlyAuthHandler] http
          (Some ''mouse'') LLM READ ''user'' HTTPAuth_not_allowed []) =
     Inl (HTTPException 403 (PDict [(''error'', PStr ''Invalid Credentials'')]))"
proof -
  let ?run = "ConnectionAuth_call plain_jwt [CoreAuthHandler demo_server, CoreOnlyAuthHandler] http
      (Some ''mouse'') LLM READ ''user'' HTTPAuth_not_allowed []"
  have cred: "HTTPAuth_extract_credentials [''Authorization'' \<mapsto> ''Bearer mouse''] = (''user'', Some ''mouse'')"
    by code_simp
  have raises: "\<exists>e. fst ?run = Inl e"
    by (simp del: ConnectionAuth_call.simps
        add: ConnectionAuth_core_only authorize_core_cases Core_authorize_user_from_key_def Let_def
        authorize_http_key_def str_truthy_def)
  then obtain e where e: "fst ?run = Inl e" ..
  have "?run = (Inl e, snd ?run)" using e by (simp add: prod_eq_iff del: ConnectionAuth_call.simps)
  with http_access_sound [of demo_server "''meow''" _ "''user''" "Some ''mouse''" LLM READ "[]" "Inl e" "snd ?run",
      OF _ _ _ cred] plain_jwt_ok
  show ?thesis using e by (simp del: ConnectionAuth_call.simps)
qed

lemma jwt_ok_decode:
  assumes "jwt_ok J" "map_of pl ''exp'' = Some (PFloat e)"
  shows "if now < of_int \<lfloor>e\<rfloor>
     then \<exists>pl'. jwt_decode J now (jwt_encode J pl secret alg) secret alg = Inr pl' \<and>
            (\<forall>k s. map_of pl k = Some (PStr s) \<longrightarrow> map_of pl' k = Some (PStr s))
     else \<exists>err. jwt_decode J now (jwt_encode J pl secret alg) secret alg = Inl err"
  using assms unfolding jwt_ok_def by (auto simp: not_less)

text \<open>The verdict on a token the server issued, at any later time and on any later user table.\<close>

lemma issued_token_verdict:
  assumes ok: "jwt_ok (ae_jwt A)"
    and stored: "get_setting_by_name (ae_db A) ''users'' db = Some s" "set_value s = PDict users"
    and user: "map_of users uid = Some (PDict user)"
      "map_of user ''permissions'' = Some (perms_json ps)" "valid_perms ps"
  shows "Core_authorize_user_from_jwt (A\<lparr>ae_now := now\<rparr>)
       (jwt_encode (ae_jwt A) (jwt_content A uid username claimed) (jwt_secret A) (jwt_algorithm A)) r p db =
     (Inr (if now < of_int \<lfloor>ae_now A + ae_jwt_minutes A * 60\<rfloor> \<and> perm_allows ps r p
           then Some (AuthUserInfo uid username ps user) else None), db)"
proof -
  let ?e = "ae_now A + ae_jwt_minutes A * 60" and ?pl = "jwt_content A uid username claimed"
  have env: "jwt_secret (A\<lparr>ae_now := now\<rparr>) = jwt_secret A" "jwt_algorithm (A\<lparr>ae_now := now\<rparr>) = jwt_algorithm A"
    by (simp_all add: jwt_secret_def jwt_algorithm_def)
  have pl: "map_of ?pl ''exp'' = Some (PFloat ?e)" "map_of ?pl ''sub'' = Some (PStr uid)"
    "map_of ?pl ''username'' = Some (PStr username)" by (simp_all add: jwt_content_def)
  note dec = jwt_ok_decode [OF ok pl(1), of now "jwt_secret A" "jwt_algorithm A"]
  show ?thesis
  proof (cases "now < of_int \<lfloor>?e\<rfloor>")
    case True
    with dec pl(2,3) obtain pl' where "jwt_decode (ae_jwt A) now
        (jwt_encode (ae_jwt A) ?pl (jwt_secret A) (jwt_algorithm A)) (jwt_secret A) (jwt_algorithm A) = Inr pl'"
      "map_of pl' ''sub'' = Some (PStr uid)" "map_of pl' ''username'' = Some (PStr username)" by auto
    with Core_jwt_stored [of "A\<lparr>ae_now := now\<rparr>" _ pl' uid username db s users user ps r p] stored user True env
    show ?thesis by simp
  next
    case False
    with dec show ?thesis
      by (auto simp: Core_authorize_user_from_jwt_def catchM_def bindM_def env)
  qed
qed

lemma find_login_default_admin:
  assumes "bcrypt_ok B" "fid_admin ids \<noteq> fid_user ids"
  shows "find_login B ''admin'' ''admin'' (default_users B ids) =
     Inr (Some (fid_admin ids, [(''id'', PStr (fid_admin ids)), (''username'', PStr ''admin''),
        (''password'', PStr (hash_password B ''admin'')), (''permissions'', perms_json get_full_permissions)]))"
  using assms bcrypt_ok_check [OF assms(1), of "''admin''"]
  by (simp add: default_users_def dict_of_def dict_merge_def user_json_def item_def password_matches_def lookup_exn_def)

lemma default_admin_token:
  assumes "tinydb_table (ae_db A) docs" "bcrypt_ok (ae_bcrypt A)"
    and "get_setting_by_name (ae_db A) ''users'' db = None"
    and "fid_admin (ae_ids A) \<noteq> fid_user (ae_ids A)"
  shows "\<exists>token. issue_jwt A ''admin'' ''admin'' db = (Inr (Some token),
     snd (update_users (ae_db A) (fid_setting (ae_ids A)) (fid_now (ae_ids A))
       (default_users (ae_bcrypt A) (ae_ids A)) db))"
  using get_users_default [OF assms(1,3), of "ae_bcrypt A" "ae_ids A"] find_login_default_admin [OF assms(2,4)]
  by (simp add: issue_jwt_def bindM_def item_def lookup_exn_def)

lemma demo_first_login: "\<exists>token db. issue_jwt demo_server ''admin'' ''admin'' [] = (Inr (Some token), db)"
  using default_admin_token [of demo_server "\<lambda>db. db" "[]"] list_table.tinydb_table_axioms plain_bcrypt_ok
  by (auto simp: demo_server_def get_setting_by_name_def list_table_def first_or_none_def)

text \<open>
  (C18) A token issued at login belongs to a user of the table whose name and password were given.
  Presented later, over either protocol and against whatever user table is stored then, it
  authorises exactly while it has not expired (to the whole second) and the permissions stored for
  that user at that moment grant the request; the permissions claimed inside the token play no
  part, so a permission taken away is lost at once.
\<close>

theorem login_token_verdict:
  assumes "jwt_ok (ae_jwt A)" "issue_jwt A username password db = (Inr (Some token), db')"
  shows "\<exists>uid user hashed users.
     get_users (ae_db A) (ae_bcrypt A) (ae_ids A) db = (Inr users, db') \<and>
     (uid, PDict user) \<in> set users \<and> map_of user ''username'' = Some (PStr username) \<and>
     map_of user ''password'' = Some (PStr hashed) \<and> check_password (ae_bcrypt A) password hashed \<and>
     (\<forall>later s users' user' ps now prot r p anyone denied.
        get_setting_by_name (ae_db A) ''users'' later = Some s \<longrightarrow> set_value s = PDict users' \<longrightarrow>
        map_of users' uid = Some (PDict user') \<longrightarrow>
        map_of user' ''permissions'' = Some (perms_json ps) \<longrightarrow> valid_perms ps \<longrightarrow>
        ConnectionAuth_call (ae_jwt A) [CoreAuthHandler (A\<lparr>ae_now := now\<rparr>), CoreOnlyAuthHandler]
            prot (Some token) r p anyone denied later =
          (if now < of_int \<lfloor>ae_now A + ae_jwt_minutes A * 60\<rfloor> \<and> perm_allows ps r p
           then Inr (AuthUserInfo uid username ps user') else Inl denied, later))"
proof -
  from issue_jwt_SomeD [OF assms(2)] obtain users uid user perms where
    login: "get_users (ae_db A) (ae_bcrypt A) (ae_ids A) db = (Inr users, db')"
      "find_login (ae_bcrypt A) username password users = Inr (Some (uid, user))"
    and token: "token = jwt_encode (ae_jwt A) (jwt_content A uid username perms) (jwt_secret A) (jwt_algorithm A)"
    by blast
  have verdict: "ConnectionAuth_call (ae_jwt A) [CoreAuthHandler (A\<lparr>ae_now := now\<rparr>), CoreOnlyAuthHandler]
            prot (Some token) r p anyone denied later =
          (if now < of_int \<lfloor>ae_now A + ae_jwt_minutes A * 60\<rfloor> \<and> perm_allows ps r p
           then Inr (AuthUserInfo uid username ps user') else Inl denied, later)"
    if "get_setting_by_name (ae_db A) ''users'' later = Some s" "set_value s = PDict users'"
      "map_of users' uid = Some (PDict user')"
      "map_of user' ''permissions'' = Some (perms_json ps)" "valid_perms ps" for later s users' user' ps now prot r p anyone denied
    using issued_token_verdict [OF assms(1) that, of now username perms r p]
      jwt_ok_is_jwt [OF assms(1), of "jwt_content A uid username perms" "jwt_secret A" "jwt_algorithm A"]
    by (simp del: ConnectionAuth_call.simps add: ConnectionAuth_core_only authorize_core_cases token)
  from find_login_SomeD [OF login(2)] login(1) verdict show ?thesis by blast
qed

text \<open>At work on the demo server: the user was demoted to the base permissions after the login.\<close>

definition demoted :: "string \<Rightarrow> setting list" where
  "demoted uid = [Setting ''s'' 0 ''users'' (PDict [(uid, user_json uid ''admin'' ''x'' get_base_permissions)]) None]"

theorem login_token_verdict_witness:
  "\<exists>token db uid extra. issue_jwt demo_server ''admin'' ''admin'' [] = (Inr (Some token), db) \<and>
     (\<forall>now r p. ConnectionAuth_call plain_jwt [CoreAuthHandler (demo_server\<lparr>ae_now := now\<rparr>), CoreOnlyAuthHandler]
          http (Some token) r p ''user'' HTTPAuth_not_allowed (demoted uid) =
        (if now < 86400 \<and> perm_allows get_base_permissions r p
         then Inr (AuthUserInfo uid ''admin'' get_base_permissions extra)
         else Inl HTTPAuth_not_allowed, demoted uid))"
proof -
  obtain token db where login: "issue_jwt demo_server ''admin'' ''admin'' [] = (Inr (Some token), db)"
    using demo_first_login by blast
  have stored: "get_setting_by_name list_table ''users'' (demoted uid) = Some (hd (demoted uid))"
    "set_value (hd (demoted uid)) = PDict [(uid, user_json uid ''admin'' ''x'' get_base_permissions)]" for uid
    by (simp_all add: demoted_def get_setting_by_name_def list_table_def first_or_none_def)
  define user where "user uid = [(''id'', PStr uid), (''username'', PStr ''admin''), (''password'', PStr ''x''),
            (''permissions'', perms_json get_base_permissions)]" for uid
  have user: "map_of [(uid, user_json uid ''admin'' ''x'' get_base_permissions)] uid = Some (PDict (user uid))"
    "map_of (user uid) ''permissions'' = Some (perms_json get_base_permissions)" for uid
    by (simp_all add: user_json_def user_def)
  from login_token_verdict [of demo_server "''admin''" "''admin''" "[]" token db] plain_jwt_ok login
  obtain uid where "\<forall>later s users' user' ps now prot r p anyone denied.
      get_setting_by_name list_table ''users'' later = Some s \<longrightarrow> set_value s = PDict users' \<longrightarrow>
      map_of users' uid = Some (PDict user') \<longrightarrow>
      map_of user' ''permissions'' = Some (perms_json ps) \<longrightarrow> valid_perms ps \<longrightarrow>
      ConnectionAuth_call plain_jwt [CoreAuthHandler (demo_server\<lparr>ae_now := now\<rparr>), CoreOnlyAuthHandler]
          prot (Some token) r p anyone denied later =
        (if now < of_int \<lfloor>0 + 1440 * 60 :: real\<rfloor> \<and> perm_allows ps r p
         then Inr (AuthUserInfo uid ''admin'' ps user') else Inl denied, later)"
    unfolding demo_server_simps by blast
  note this [rule_format, OF stored user valid_default_perms(2)]
  then show ?thesis using login
    by (intro exI [of _ token] exI [of _ db] exI [of _ uid] exI [of _ "user uid"] conjI allI)
      (simp_all del: ConnectionAuth_call.simps)
qed

text \<open>
  On a fresh installation the first login creates the two default users in the database and
  \<open>admin\<close>/\<open>admin\<close> obtains a token; the table so created is final: a later read, with whatever
  identifiers it would generate, returns it and writes nothing.
\<close>

theorem first_login:
  assumes "tinydb_table (ae_db A) docs" "bcrypt_ok (ae_bcrypt A)"
    and "get_setting_by_name (ae_db A) ''users'' db = None"
    and "fid_admin (ae_ids A) \<noteq> fid_user (ae_ids A)"
  shows "\<exists>token db'.
     issue_jwt A ''admin'' ''admin'' db = (Inr (Some token), db') \<and>
     (\<forall>ids. get_users (ae_db A) (ae_bcrypt A) ids db' = (Inr (default_users (ae_bcrypt A) (ae_ids A)), db')) \<and>
     (\<forall>nm. nm \<noteq> ''users'' \<longrightarrow> get_setting_by_name (ae_db A) nm db' = get_setting_by_name (ae_db A) nm db)"
proof -
  let ?users = "default_users (ae_bcrypt A) (ae_ids A)"
  let ?db = "snd (update_users (ae_db A) (fid_setting (ae_ids A)) (fid_now (ae_ids A)) ?users db)"
  have stored: "get_setting_by_name (ae_db A) nm ?db =
      (if nm = ''users'' then Some (Setting (fid_setting (ae_ids A)) (fid_now (ae_ids A)) ''users'' (PDict ?users) None)
       else get_setting_by_name (ae_db A) nm db)" for nm
    using tinydb_table.lookup_upsert [OF assms(1)] by (simp add: update_users_def Setting_def)
  then have "get_users (ae_db A) (ae_bcrypt A) ids ?db = (Inr ?users, ?db)" for ids
    using get_users_stored [of "ae_db A" ?db] by (simp add: Setting_def)
  moreover have "\<exists>token. issue_jwt A ''admin'' ''admin'' db = (Inr (Some token), ?db)"
    by (rule default_admin_token [OF assms])
  ultimately show ?thesis using stored by auto
qed

theorem first_login_witness:
  "\<exists>token db. issue_jwt demo_server ''admin'' ''admin'' [] = (Inr (Some token), db) \<and>
     get_setting_by_name list_table ''active_plugins'' db = None"
  using first_login [of demo_server "\<lambda>db. db" "[]"] list_table.tinydb_table_axioms plain_bcrypt_ok
  by (auto simp: demo_server_def get_setting_by_name_def list_table_def first_or_none_def)

text \<open>
  (C34) A missing key opens the channel it should guard. When only the websocket key is set, an HTTP
  request without any credential is served with full permissions, while one with a wrong key is
  refused; when only the HTTP key is set, a websocket without a token gets the base permissions.
\<close>

theorem single_key_leaves_other_channel_open:
  assumes "jwt_ok (ae_jwt A)"
    and "ae_env A ''CCAT_API_KEY'' = None" and "str_truthy (ae_env A ''CCAT_API_KEY_WS'')"
    and "ae_env B ''CCAT_API_KEY_WS'' = None" and "str_truthy (ae_env B ''CCAT_API_KEY'')"
    and "\<not> is_jwt (ae_jwt A) (Some k)"
  shows "ConnectionAuth_call (ae_jwt A) [CoreAuthHandler A, CoreOnlyAuthHandler] http None r p uid
           HTTPAuth_not_allowed db = (Inr (AuthUserInfo uid uid get_full_permissions []), db) \<and>
    ConnectionAuth_call (ae_jwt A) [CoreAuthHandler A, CoreOnlyAuthHandler] http (Some k) r p uid
           HTTPAuth_not_allowed db = (Inl HTTPAuth_not_allowed, db) \<and>
    ConnectionAuth_call (ae_jwt A) [CoreAuthHandler B, CoreOnlyAuthHandler] websocket None r p uid
           WebSocketAuth_not_allowed db = (Inr (AuthUserInfo uid uid get_base_permissions []), db)"
  using assms jwt_ok_no_token [OF assms(1)]
  by (simp del: ConnectionAuth_call.simps
      add: ConnectionAuth_core_only authorize_core_cases Core_authorize_user_from_key_def
      authorize_http_key_def authorize_websocket_key_def)

theorem single_key_leaves_other_channel_open_witness:
  "ConnectionAuth_call plain_jwt [CoreAuthHandler (demo_server\<lparr>ae_env := [''CCAT_API_KEY_WS'' \<mapsto> ''meow'']\<rparr>),
      CoreOnlyAuthHandler] http None PLUGINS DELETE ''user'' HTTPAuth_not_allowed [] =
     (Inr (AuthUserInfo ''user'' ''user'' get_full_permissions []), [])"
  using single_key_leaves_other_channel_open [of "demo_server\<lparr>ae_env := [''CCAT_API_KEY_WS'' \<mapsto> ''meow'']\<rparr>"
      "demo_server" "''m''" PLUGINS DELETE "''user''" "[]"] plain_jwt_ok
  by (simp del: ConnectionAuth_call.simps add: str_truthy_def demo_server_def)

end
