(* ===== verification/Admin_Routes.thy ===== *)
theory Admin_Routes
  imports Auth
begin

text \<open>
  The HTTP endpoints over the settings database: \<open>core/cat/routes/users.py\<close>,
  \<open>core/cat/routes/settings.py\<close> and \<open>core/cat/routes/auth.py\<close>. Each endpoint is modelled after its
  dependencies were resolved (the permission check is in the theory Auth) and its body was
  validated: the body records are the pydantic models, an optional field is a field of the request
  that may be unset. New identifiers and time stamps are arguments; \<open>update_users\<close> writes the whole
  table back. The response models are functions, since they decide what leaves the server.
\<close>

subsection \<open>routes/users.py\<close>

record user_create =
  uc_username :: string
  uc_permissions :: perms
  uc_password :: string

record user_update =
  uu_username :: "string option"
  uu_password :: "string option"
  uu_permissions :: "perms option"

definition UserCreate_valid :: "user_create \<Rightarrow> bool" where
  "UserCreate_valid u \<longleftrightarrow>
     2 \<le> length (uc_username u) \<and> 5 \<le> length (uc_password u) \<and> valid_perms (uc_permissions u)"

definition UserUpdate_valid :: "user_update \<Rightarrow> bool" where
  "UserUpdate_valid u \<longleftrightarrow>
     (case uu_username u of None \<Rightarrow> True | Some n \<Rightarrow> 2 \<le> length n) \<and>
     (case uu_password u of None \<Rightarrow> True | Some p \<Rightarrow> 4 \<le> length p) \<and>
     (case uu_permissions u of None \<Rightarrow> True | Some ps \<Rightarrow> valid_perms ps)"

text \<open>The response model keeps three fields; an entry that does not fit it is a server error.\<close>

definition user_response_fields :: "pyval \<Rightarrow> json result" where
  "user_response_fields v =
     bindR (as_dict v) (\<lambda>u.
     bindR (bindR (item u ''username'') as_str) (\<lambda>nm.
     bindR (case map_of u ''permissions'' of
              None \<Rightarrow> Inr get_base_permissions
            | Some ps \<Rightarrow> bindR (as_dict ps) as_perms) (\<lambda>ps.
     bindR (bindR (item u ''id'') as_str) (\<lambda>i.
       if length nm < 2 then Inl (Exn ''ValueError'' ''username'')
       else Inr [(''username'', PStr nm), (''permissions'', perms_json ps), (''id'', PStr i)]))))"

definition UserResponse :: "pyval \<Rightarrow> json result" where
  "UserResponse v = (case user_response_fields v of
       Inl _ \<Rightarrow> Inl (Exn ''ResponseValidationError'' [])
     | Inr r \<Rightarrow> Inr r)"

fun UserResponses :: "pyval list \<Rightarrow> json list result" where
  "UserResponses [] = Inr []"
| "UserResponses (v # vs) = bindR (UserResponse v) (\<lambda>r. bindR (UserResponses vs) (\<lambda>rs. Inr (r # rs)))"

fun username_taken :: "string \<Rightarrow> json \<Rightarrow> bool result" where
  "username_taken username [] = Inr False"
| "username_taken username ((i, v) # rest) =
     bindR (as_dict v) (\<lambda>u.
     bindR (item u ''username'') (\<lambda>nm.
       if nm = PStr username then Inr True else username_taken username rest))"

definition save_users :: "'db tinydb \<Rightarrow> string \<Rightarrow> int \<Rightarrow> json \<Rightarrow> ('db, unit) comp" where
  "save_users T sid now users db = (Inr (), snd (update_users T sid now users db))"

definition created_user :: "bcrypt_lib \<Rightarrow> string \<Rightarrow> user_create \<Rightarrow> json" where
  "created_user B new_id u =
     [(''id'', PStr new_id), (''username'', PStr (uc_username u)),
      (''permissions'', perms_json (uc_permissions u)),
      (''password'', PStr (hash_password B (uc_password u)))]"

definition create_user ::
  "'db tinydb \<Rightarrow> bcrypt_lib \<Rightarrow> fresh_ids \<Rightarrow> string \<Rightarrow> user_create \<Rightarrow> ('db, json) comp" where
  "create_user T B ids new_id new_user =
     bindM (get_users T B ids) (\<lambda>users_db.
     bindM (liftM (username_taken (uc_username new_user) users_db)) (\<lambda>taken.
       if taken then raiseM (HTTPException 403 (PDict [(''error'', PStr ''Cannot duplicate user'')]))
       else bindM (save_users T (fid_setting ids) (fid_now ids)
                (AList.update new_id (PDict (created_user B new_id new_user)) users_db)) (\<lambda>_.
            liftM (UserResponse (PDict (created_user B new_id new_user))))))"

text \<open>Python's \<open>xs[a:b]\<close>; a negative index counts from the end.\<close>

definition slice_index :: "'a list \<Rightarrow> int \<Rightarrow> nat" where
  "slice_index xs i = (if i < 0 then nat (i + int (length xs)) else min (nat i) (length xs))"

definition py_slice :: "'a list \<Rightarrow> int \<Rightarrow> int \<Rightarrow> 'a list" where
  "py_slice xs a b = drop (slice_index xs a) (take (slice_index xs b) xs)"

definition read_users ::
  "'db tinydb \<Rightarrow> bcrypt_lib \<Rightarrow> fresh_ids \<Rightarrow> int \<Rightarrow> int \<Rightarrow> ('db, json list) comp" where
  "read_users T B ids skip limit =
     bindM (get_users T B ids) (\<lambda>users_db.
     liftM (UserResponses (py_slice (dict_values users_db) skip (skip + limit))))"

definition user_not_found :: exn where
  "user_not_found = HTTPException 404 (PDict [(''error'', PStr ''User not found'')])"

definition read_user :: "'db tinydb \<Rightarrow> bcrypt_lib \<Rightarrow> fresh_ids \<Rightarrow> string \<Rightarrow> ('db, json) comp" where
  "read_user T B ids user_id =
     bindM (get_users T B ids) (\<lambda>users_db.
       case map_of users_db user_id of
         None \<Rightarrow> raiseM user_not_found
       | Some u \<Rightarrow> liftM (UserResponse u))"

text \<open>\<open>model_dump(exclude_unset=True)\<close> after the password was hashed.\<close>

definition user_changes :: "bcrypt_lib \<Rightarrow> user_update \<Rightarrow> json" where
  "user_changes B u =
     (case uu_username u of None \<Rightarrow> [] | Some n \<Rightarrow> [(''username'', PStr n)]) @
     (case uu_permissions u of None \<Rightarrow> [] | Some ps \<Rightarrow> [(''permissions'', perms_json ps)]) @
     (case uu_password u of
        None \<Rightarrow> []
      | Some p \<Rightarrow> [(''password'', PStr (if p = [] then p else hash_password B p))])"

definition update_user ::
  "'db tinydb \<Rightarrow> bcrypt_lib \<Rightarrow> fresh_ids \<Rightarrow> string \<Rightarrow> user_update \<Rightarrow> ('db, json) comp" where
  "update_user T B ids user_id user =
     bindM (get_users T B ids) (\<lambda>users_db.
       case map_of users_db user_id of
         None \<Rightarrow> raiseM user_not_found
       | Some v \<Rightarrow>
           bindM (liftM (as_dict v)) (\<lambda>stored_user.
             let updated_user = PDict (dict_merge stored_user (user_changes B user)) in
             bindM (save_users T (fid_setting ids) (fid_now ids)
                      (AList.update user_id updated_user users_db)) (\<lambda>_.
             liftM (UserResponse updated_user))))"

definition delete_user :: "'db tinydb \<Rightarrow> bcrypt_lib \<Rightarrow> fresh_ids \<Rightarrow> string \<Rightarrow> ('db, json) comp" where
  "delete_user T B ids user_id =
     bindM (get_users T B ids) (\<lambda>users_db.
       case map_of users_db user_id of
         None \<Rightarrow> raiseM user_not_found
       | Some u \<Rightarrow>
           bindM (save_users T (fid_setting ids) (fid_now ids) (AList.delete user_id users_db)) (\<lambda>_.
           liftM (UserResponse u)))"

subsection \<open>routes/settings.py\<close>

record setting_body =
  sb_name :: string
  sb_value :: pyval
  sb_category :: "string option"

definition setting_of_body :: "string \<Rightarrow> int \<Rightarrow> setting_body \<Rightarrow> setting" where
  "setting_of_body uuid now b = Setting uuid now (sb_name b) (sb_value b) (sb_category b)"

definition no_setting_error :: "string \<Rightarrow> exn" where
  "no_setting_error i = HTTPException 404 (PDict [(''error'', PStr (''No setting with this id: '' @ i))])"

definition route_get_settings ::
  "(string \<Rightarrow> string \<Rightarrow> bool) \<Rightarrow> 'db tinydb \<Rightarrow> string \<Rightarrow> ('db, setting list) comp" where
  "route_get_settings matches T srch = getM (get_settings matches T srch)"

definition route_create_setting ::
  "'db tinydb \<Rightarrow> string \<Rightarrow> int \<Rightarrow> setting_body \<Rightarrow> ('db, setting option) comp" where
  "route_create_setting T uuid now b db =
     (case create_setting T (setting_of_body uuid now b) db of (r, db') \<Rightarrow> (Inr r, db'))"

definition route_get_setting :: "'db tinydb \<Rightarrow> string \<Rightarrow> ('db, setting) comp" where
  "route_get_setting T i db =
     (case get_setting_by_id T i db of None \<Rightarrow> (Inl (no_setting_error i), db) | Some s \<Rightarrow> (Inr s, db))"

definition route_update_setting ::
  "'db tinydb \<Rightarrow> string \<Rightarrow> int \<Rightarrow> string \<Rightarrow> setting_body \<Rightarrow> ('db, setting option) comp" where
  "route_update_setting T uuid now i b db =
     (case get_setting_by_id T i db of
        None \<Rightarrow> (Inl (no_setting_error i), db)
      | Some _ \<Rightarrow>
          (case update_setting_by_id T ((setting_of_body uuid now b)\<lparr>setting_id := i\<rparr>) db of
             (r, db') \<Rightarrow> (Inr r, db')))"

definition route_delete_setting :: "'db tinydb \<Rightarrow> string \<Rightarrow> ('db, string) comp" where
  "route_delete_setting T i db =
     (case get_setting_by_id T i db of
        None \<Rightarrow> (Inl (no_setting_error i), db)
      | Some _ \<Rightarrow> (Inr i, delete_setting_by_id T i db))"

subsection \<open>routes/auth.py\<close>

definition auth_token :: "'db auth_env \<Rightarrow> string \<Rightarrow> string \<Rightarrow> ('db, string) comp" where
  "auth_token A username password =
     bindM (issue_jwt A username password) (\<lambda>access_token.
       if str_truthy access_token then liftM (lookup_exn (Exn ''TypeError'' []) access_token)
       else raiseM (HTTPException 403 (PDict [(''error'', PStr ''Invalid Credentials'')])))"

text \<open>A redirect: its status, its target and the cookie it sets.\<close>

record redirect =
  rd_status :: int
  rd_url :: string
  rd_cookie :: "(string \<times> string) option"

text \<open>\<open>urlencode\<close> stands for the quoting of a dictionary as a query string.\<close>

definition auth_login_form_post ::
  "'db auth_env \<Rightarrow> ((string \<times> string) list \<Rightarrow> string) \<Rightarrow> string \<Rightarrow> string \<Rightarrow> string \<Rightarrow> ('db, redirect) comp" where
  "auth_login_form_post A urlencode username password referer =
     bindM (issue_jwt A username password) (\<lambda>access_token.
       case access_token of
         Some t \<Rightarrow>
           if t \<noteq> [] then retM \<lparr>rd_status = 303, rd_url = referer, rd_cookie = Some (''ccat_user_token'', t)\<rparr>
           else retM \<lparr>rd_status = 303,
             rd_url = ''/auth/login?'' @ urlencode [(''referer'', referer), (''retry'', ''1'')], rd_cookie = None\<rparr>
       | None \<Rightarrow>
           retM \<lparr>rd_status = 303,
             rd_url = ''/auth/login?'' @ urlencode [(''referer'', referer), (''retry'', ''1'')], rd_cookie = None\<rparr>)"

record login_page =
  lp_referer :: string
  lp_error_message :: string
  lp_show_default_passwords :: bool

definition auth_login_form_get :: "'db auth_env \<Rightarrow> string option \<Rightarrow> int \<Rightarrow> ('db, login_page) comp" where
  "auth_login_form_get A referer retry =
     bindM (get_users (ae_db A) (ae_bcrypt A) (ae_ids A)) (\<lambda>users.
     retM \<lparr>lp_referer = (case referer of None \<Rightarrow> ''/admin/'' | Some r \<Rightarrow> r),
           lp_error_message = (if retry = 1 then ''Invalid Credentials'' else []),
           lp_show_default_passwords = (length (keys users) = 2)\<rparr>)"

definition get_available_permissions :: perms where
  "get_available_permissions = get_full_permissions"

subsection \<open>The user table as the endpoints keep it\<close>

definition user_entry_ok :: "string \<Rightarrow> pyval \<Rightarrow> bool" where
  "user_entry_ok i v \<longleftrightarrow>
     (\<exists>u nm hashed ps. v = PDict u \<and> map_of u ''id'' = Some (PStr i) \<and>
        map_of u ''username'' = Some (PStr nm) \<and> 2 \<le> length nm \<and>
        map_of u ''password'' = Some (PStr hashed) \<and>
        map_of u ''permissions'' = Some (perms_json ps) \<and> valid_perms ps)"

definition users_wf :: "json \<Rightarrow> bool" where
  "users_wf users \<longleftrightarrow> dict_wf users \<and> (\<forall>(i, v) \<in> set users. user_entry_ok i v)"

definition user_named :: "json \<Rightarrow> string \<Rightarrow> bool" where
  "user_named users nm \<longleftrightarrow>
     (\<exists>i u. (i, PDict u) \<in> set users \<and> map_of u ''username'' = Some (PStr nm))"

lemma user_named_Cons:
  "user_named ((i, v) # users) nm \<longleftrightarrow>
     (\<exists>u. v = PDict u \<and> map_of u ''username'' = Some (PStr nm)) \<or> user_named users nm"
  by (auto simp: user_named_def)

lemma users_wf_entry: "users_wf users \<Longrightarrow> map_of users i = Some v \<Longrightarrow> user_entry_ok i v"
  unfolding users_wf_def using map_of_SomeD by fastforce

lemma username_taken_wf:
  "\<forall>(i, v) \<in> set users. user_entry_ok i v \<Longrightarrow> username_taken nm users = Inr (user_named users nm)"
proof (induction users)
  case (Cons x users)
  obtain i v where x: "x = (i, v)" by (cases x)
  with Cons.prems have "user_entry_ok i v" by simp
  then show ?case using Cons unfolding x
    by (auto simp: user_entry_ok_def user_named_Cons item_def lookup_exn_def)
qed (simp add: user_named_def)

lemma find_login_miss:
  "\<forall>(i, v) \<in> set users. user_entry_ok i v \<Longrightarrow> \<not> user_named users nm \<Longrightarrow>
   find_login B nm pw (users @ rest) = find_login B nm pw rest"
proof (induction users)
  case (Cons x users)
  obtain i v where x: "x = (i, v)" by (cases x)
  with Cons.prems have "user_entry_ok i v" by simp
  then show ?case using Cons unfolding x
    by (auto simp: user_entry_ok_def user_named_Cons item_def lookup_exn_def)
qed simp

lemma user_response_ok:
  "user_entry_ok i v \<Longrightarrow>
   \<exists>nm ps. UserResponse v = Inr [(''username'', PStr nm), (''permissions'', perms_json ps), (''id'', PStr i)]"
  by (auto simp: user_entry_ok_def UserResponse_def user_response_fields_def item_def lookup_exn_def
      perms_json_def as_perms_json)

lemma created_user_ok: "UserCreate_valid u \<Longrightarrow> user_entry_ok i (PDict (created_user B i u))"
  by (auto simp: user_entry_ok_def created_user_def UserCreate_valid_def)

lemma users_wf_update: "users_wf users \<Longrightarrow> user_entry_ok i v \<Longrightarrow> users_wf (AList.update i v users)"
  unfolding users_wf_def using set_update_subset [of i v users] by auto

lemma users_wf_delete: "users_wf users \<Longrightarrow> users_wf (AList.delete i users)"
  by (auto simp: users_wf_def delete_filter dict_wf_filter)

lemma update_user_entry_ok:
  assumes "user_entry_ok i (PDict u)" "UserUpdate_valid ch"
  shows "user_entry_ok i (PDict (dict_merge u (user_changes B ch)))"
proof -
  have "dict_wf (user_changes B ch)"
    by (auto simp: dict_wf_def keys_def user_changes_def split: option.splits)
  then show ?thesis using assms
    by (auto simp: user_entry_ok_def UserUpdate_valid_def user_changes_def map_of_dict_merge_wf
        split: option.splits)
qed

lemma map_of_user_changes:
  "map_of (dict_merge u (user_changes B ch)) ''username'' =
     (case uu_username ch of None \<Rightarrow> map_of u ''username'' | Some n \<Rightarrow> Some (PStr n))"
  "map_of (dict_merge u (user_changes B ch)) ''permissions'' =
     (case uu_permissions ch of None \<Rightarrow> map_of u ''permissions'' | Some ps \<Rightarrow> Some (perms_json ps))"
  "map_of (dict_merge u (user_changes B ch)) ''password'' =
     (case uu_password ch of
        None \<Rightarrow> map_of u ''password''
      | Some p \<Rightarrow> Some (PStr (if p = [] then p else hash_password B p)))"
proof -
  have "dict_wf (user_changes B ch)"
    by (auto simp: dict_wf_def user_changes_def split: option.splits)
  note merge = map_of_dict_merge_wf [OF this]
  show "map_of (dict_merge u (user_changes B ch)) ''username'' =
     (case uu_username ch of None \<Rightarrow> map_of u ''username'' | Some n \<Rightarrow> Some (PStr n))"
   "map_of (dict_merge u (user_changes B ch)) ''permissions'' =
     (case uu_permissions ch of None \<Rightarrow> map_of u ''permissions'' | Some ps \<Rightarrow> Some (perms_json ps))"
   "map_of (dict_merge u (user_changes B ch)) ''password'' =
     (case uu_password ch of
        None \<Rightarrow> map_of u ''password''
      | Some p \<Rightarrow> Some (PStr (if p = [] then p else hash_password B p)))"
    unfolding merge by (simp_all add: user_changes_def split: option.split)
qed

lemma save_users_read:
  assumes "tinydb_table T docs"
  shows "get_users T B ids' (snd (save_users T sid now users db)) = (Inr users, snd (save_users T sid now users db))"
proof -
  have "get_setting_by_name T ''users'' (snd (save_users T sid now users db)) =
      Some (Setting sid now ''users'' (PDict users) None)"
    using tinydb_table.lookup_upsert [OF assms] by (simp add: save_users_def update_users_def)
  then show ?thesis using get_users_stored by fastforce
qed

subsection \<open>Properties\<close>

text \<open>
  A user created through the endpoint can log in with the password that was sent, the new
  entry is stored under its own identifier with the hash and not the password, the table stays well
  formed, and the response carries no password. The token names the new user. A second creation
  with the same name is refused with 403 and changes nothing.
\<close>

theorem create_user_then_login:
  assumes db: "tinydb_table (ae_db A) docs" and lib: "bcrypt_ok (ae_bcrypt A)"
    and stored: "get_users (ae_db A) (ae_bcrypt A) (ae_ids A) db = (Inr users, db0)" "users_wf users"
    and body: "UserCreate_valid u" "\<not> user_named users (uc_username u)"
    and fresh: "map_of users new_id = None"
  shows "\<exists>response db' users' token.
     create_user (ae_db A) (ae_bcrypt A) (ae_ids A) new_id u db = (Inr response, db') \<and>
     keys response = [''username'', ''permissions'', ''id''] \<and>
     get_users (ae_db A) (ae_bcrypt A) (ae_ids A) db' = (Inr users', db') \<and> users_wf users' \<and>
     (\<forall>i. i \<noteq> new_id \<longrightarrow> map_of users' i = map_of users i) \<and>
     issue_jwt A (uc_username u) (uc_password u) db' = (Inr (Some token), db') \<and>
     token = jwt_encode (ae_jwt A)
       (jwt_content A new_id (uc_username u) (perms_json (uc_permissions u))) (jwt_secret A) (jwt_algorithm A) \<and>
     create_user (ae_db A) (ae_bcrypt A) (ae_ids A) other_id u db' =
       (Inl (HTTPException 403 (PDict [(''error'', PStr ''Cannot duplicate user'')])), db')"
proof -
  let ?B = "ae_bcrypt A" and ?T = "ae_db A"
  let ?new = "PDict (created_user ?B new_id u)"
  let ?users = "AList.update new_id ?new users"
  let ?db = "snd (save_users ?T (fid_setting (ae_ids A)) (fid_now (ae_ids A)) ?users db0)"
  have ok: "\<forall>(i, v) \<in> set users. user_entry_ok i v" using stored(2) by (simp add: users_wf_def)
  note new = created_user_ok [OF body(1), of new_id ?B]
  have users: "?users = users @ [(new_id, ?new)]"
    using fresh by (rule update_absent)
  obtain resp where resp: "UserResponse ?new = Inr resp" "keys resp = [''username'', ''permissions'', ''id'']"
    using user_response_ok [OF new] by (auto simp: keys_def)
  have create: "create_user ?T ?B (ae_ids A) new_id u db = (Inr resp, ?db)"
    using stored(1) resp(1) username_taken_wf [OF ok] body(2)
    by (simp add: create_user_def bindM_def save_users_def)
  have read: "get_users ?T ?B (ae_ids A) ?db = (Inr ?users, ?db)" by (rule save_users_read [OF db])
  have named: "username_taken (uc_username u) ?users = Inr True"
  proof -
    have "user_named ?users (uc_username u)"
      unfolding user_named_def users
      by (intro exI [of _ new_id] exI [of _ "created_user ?B new_id u"]) (simp add: created_user_def)
    then show ?thesis using username_taken_wf [of ?users] users_wf_update [OF stored(2) new]
      by (simp add: users_wf_def)
  qed
  have login: "find_login ?B (uc_username u) (uc_password u) ?users = Inr (Some (new_id, created_user ?B new_id u))"
    unfolding users using find_login_miss [OF ok body(2)] bcrypt_ok_check [OF lib]
    by (simp add: created_user_def item_def lookup_exn_def password_matches_def)
  have issue: "issue_jwt A (uc_username u) (uc_password u) ?db = (Inr (Some (jwt_encode (ae_jwt A)
       (jwt_content A new_id (uc_username u) (perms_json (uc_permissions u))) (jwt_secret A) (jwt_algorithm A))), ?db)"
    using read login by (simp add: issue_jwt_def bindM_def created_user_def item_def lookup_exn_def)
  have again: "create_user ?T ?B (ae_ids A) other_id u ?db =
       (Inl (HTTPException 403 (PDict [(''error'', PStr ''Cannot duplicate user'')])), ?db)"
    using read named by (simp add: create_user_def bindM_def)
  show ?thesis
    using create resp(2) read users_wf_update [OF stored(2) new] issue again
    by (auto simp: update_conv')
qed

text \<open>The demo table: one user, stored on the in-memory table.\<close>

definition alice_table :: json where
  "alice_table = [(''a'', user_json ''a'' ''alice'' ''$2b$wonder'' get_base_permissions)]"

definition alice_db :: "setting list" where
  "alice_db = [Setting ''s1'' 0 ''users'' (PDict alice_table) None]"

lemma alice_read: "get_users list_table B ids alice_db = (Inr alice_table, alice_db)"
  using get_users_stored [of list_table alice_db]
  by (simp add: alice_db_def get_setting_by_name_def list_table_def first_or_none_def)

lemma alice_wf: "users_wf alice_table"
  by (auto simp: users_wf_def alice_table_def dict_wf_def user_entry_ok_def user_json_def
      valid_default_perms(2))

lemma alice_entry: "map_of alice_table ''a'' = Some (user_json ''a'' ''alice'' ''$2b$wonder'' get_base_permissions)"
  by (simp add: alice_table_def)

lemma alice_named [simp]: "user_named alice_table nm \<longleftrightarrow> nm = ''alice''"
  by (auto simp: user_named_def alice_table_def user_json_def)

theorem create_user_then_login_witness:
  "\<exists>response db' token.
     create_user list_table plain_bcrypt (ae_ids demo_server) ''h''
       \<lparr>uc_username = ''hatter'', uc_permissions = get_base_permissions, uc_password = ''teatime''\<rparr> alice_db =
       (Inr response, db') \<and> map_of response ''password'' = None \<and>
     issue_jwt demo_server ''hatter'' ''teatime'' db' = (Inr (Some token), db')"
proof -
  let ?u = "\<lparr>uc_username = ''hatter'', uc_permissions = get_base_permissions, uc_password = ''teatime''\<rparr>"
  have "UserCreate_valid ?u" "\<not> user_named alice_table (uc_username ?u)" "map_of alice_table ''h'' = None"
    using valid_default_perms(2) by (simp_all add: UserCreate_valid_def) (simp add: alice_table_def)
  from create_user_then_login [of demo_server "\<lambda>db. db" alice_db alice_table alice_db, OF _ _ _ alice_wf this, of "''x''"]
  obtain response db' token where
    "create_user list_table plain_bcrypt (ae_ids demo_server) ''h'' ?u alice_db = (Inr response, db')"
    and keys: "keys response = [''username'', ''permissions'', ''id'']"
    and "issue_jwt demo_server ''hatter'' ''teatime'' db' = (Inr (Some token), db')"
    using list_table.tinydb_table_axioms plain_bcrypt_ok by (auto simp: alice_read)
  moreover from keys have "map_of response ''password'' = None"
    by (simp add: map_of_eq_None_iff keys_def [symmetric] flip: set_map)
  ultimately show ?thesis by blast
qed

text \<open>
  (C33) Deleting a user revokes every token issued to it: from then on the core handler rejects each
  token whose subject is the deleted user, whatever its expiry, while the entries of the other
  users are untouched.
\<close>

theorem delete_user_revokes:
  assumes db: "tinydb_table (ae_db A) docs"
    and stored: "get_users (ae_db A) (ae_bcrypt A) (ae_ids A) db = (Inr users, db0)" "users_wf users"
    and user: "map_of users uid = Some v"
  shows "\<exists>response db' users'.
     delete_user (ae_db A) (ae_bcrypt A) (ae_ids A) uid db = (Inr response, db') \<and>
     get_users (ae_db A) (ae_bcrypt A) (ae_ids A) db' = (Inr users', db') \<and> users_wf users' \<and>
     (\<forall>i. map_of users' i = (if i = uid then None else map_of users i)) \<and>
     (\<forall>token payload now r p.
        jwt_decode (ae_jwt A) now token (jwt_secret A) (jwt_algorithm A) = Inr payload \<longrightarrow>
        map_of payload ''sub'' = Some (PStr uid) \<longrightarrow>
        Core_authorize_user_from_jwt (A\<lparr>ae_now := now\<rparr>) token r p db' = (Inr None, db'))"
proof -
  let ?B = "ae_bcrypt A" and ?T = "ae_db A"
  let ?users = "AList.delete uid users"
  let ?db = "snd (save_users ?T (fid_setting (ae_ids A)) (fid_now (ae_ids A)) ?users db0)"
  obtain resp where resp: "UserResponse v = Inr resp"
    using user_response_ok [OF users_wf_entry [OF stored(2) user]] by auto
  have "delete_user ?T ?B (ae_ids A) uid db = (Inr resp, ?db)"
    using stored(1) resp user by (simp add: delete_user_def bindM_def save_users_def)
  moreover have read: "get_users ?T ?B ids ?db = (Inr ?users, ?db)" for ids by (rule save_users_read [OF db])
  moreover have "map_of ?users i = (if i = uid then None else map_of users i)" for i
    by (simp add: delete_conv')
  moreover have "Core_authorize_user_from_jwt (A\<lparr>ae_now := now\<rparr>) token r p ?db = (Inr None, ?db)"
    if "jwt_decode (ae_jwt A) now token (jwt_secret A) (jwt_algorithm A) = Inr payload"
      "map_of payload ''sub'' = Some (PStr uid)" for token payload now r p
  proof -
    have env: "jwt_secret (A\<lparr>ae_now := now\<rparr>) = jwt_secret A" "jwt_algorithm (A\<lparr>ae_now := now\<rparr>) = jwt_algorithm A"
      by (simp_all add: jwt_secret_def jwt_algorithm_def)
    have "user_of_payload payload ?users r p = Inr None"
      using that(2) by (simp add: user_of_payload_def item_def lookup_exn_def delete_conv')
    then show ?thesis using that(1) read
      by (simp add: Core_authorize_user_from_jwt_def catchM_def bindM_def env)
  qed
  ultimately show ?thesis using users_wf_delete [OF stored(2)] by (intro exI conjI allI impI) auto
qed

theorem delete_user_revokes_witness:
  "\<exists>response db'. delete_user list_table plain_bcrypt (ae_ids demo_server) ''a'' alice_db = (Inr response, db') \<and>
     get_users list_table plain_bcrypt (ae_ids demo_server) db' = (Inr [], db')"
proof -
  obtain response db' users' where
    "delete_user list_table plain_bcrypt (ae_ids demo_server) ''a'' alice_db = (Inr response, db')"
    "get_users list_table plain_bcrypt (ae_ids demo_server) db' = (Inr users', db')"
    "\<forall>i. map_of users' i = (if i = ''a'' then None else map_of alice_table i)"
    using delete_user_revokes [of demo_server "\<lambda>db. db" alice_db alice_table alice_db "''a''", OF _ _ alice_wf alice_entry]
      list_table.tinydb_table_axioms by (auto simp: alice_read)
  moreover from this(3) have "users' = []"
    using map_of_eq_empty_iff [of users'] by (auto simp: alice_table_def fun_eq_iff split: if_splits)
  ultimately show ?thesis by blast
qed

text \<open>
  An update changes exactly the fields that were sent, keeps the identifier and the table well
  formed, and works for a name that belongs to another user: unlike the creation, it never
  answers 403, so that afterwards two entries carry the same user name. The only refusal is the 404
  for an unknown identifier, which writes nothing.
\<close>

theorem update_user_effect:
  assumes "tinydb_table T docs"
    and "get_users T B ids db = (Inr users, db0)" "users_wf users" "UserUpdate_valid ch"
  shows "case map_of users uid of
      None \<Rightarrow> update_user T B ids uid ch db = (Inl user_not_found, db0)
    | Some v \<Rightarrow> \<exists>response db' users' u u'.
        update_user T B ids uid ch db = (Inr response, db') \<and> map_of response ''id'' = Some (PStr uid) \<and>
        get_users T B ids db' = (Inr users', db') \<and> users_wf users' \<and>
        (\<forall>i. i \<noteq> uid \<longrightarrow> map_of users' i = map_of users i) \<and>
        v = PDict u \<and> map_of users' uid = Some (PDict u') \<and>
        map_of u' ''username'' = (case uu_username ch of None \<Rightarrow> map_of u ''username'' | Some n \<Rightarrow> Some (PStr n)) \<and>
        map_of u' ''permissions'' =
          (case uu_permissions ch of None \<Rightarrow> map_of u ''permissions'' | Some ps \<Rightarrow> Some (perms_json ps)) \<and>
        map_of u' ''password'' =
          (case uu_password ch of None \<Rightarrow> map_of u ''password'' | Some p \<Rightarrow> Some (PStr (hash_password B p)))"
proof (cases "map_of users uid")
  case None
  then show ?thesis using assms(2) by (simp add: update_user_def bindM_def)
next
  case (Some v)
  from users_wf_entry [OF assms(3) Some] obtain u where u: "v = PDict u" by (auto simp: user_entry_ok_def)
  let ?u = "dict_merge u (user_changes B ch)"
  let ?users = "AList.update uid (PDict ?u) users"
  let ?db = "snd (save_users T (fid_setting ids) (fid_now ids) ?users db0)"
  have ok: "user_entry_ok uid (PDict ?u)"
    using update_user_entry_ok users_wf_entry [OF assms(3) Some] assms(4) u by simp
  then obtain response where resp: "UserResponse (PDict ?u) = Inr response" "map_of response ''id'' = Some (PStr uid)"
    using user_response_ok [OF ok] by auto
  have "update_user T B ids uid ch db = (Inr response, ?db)"
    using assms(2) Some u resp(1) by (simp add: update_user_def bindM_def save_users_def)
  moreover have "uu_password ch \<noteq> Some []" using assms(4) by (auto simp: UserUpdate_valid_def)
  moreover have "map_of ?users uid = Some (PDict ?u)" "i \<noteq> uid \<Longrightarrow> map_of ?users i = map_of users i" for i
    by (simp_all add: update_conv')
  ultimately show ?thesis
    unfolding Some option.case u
    using resp(2) save_users_read [OF assms(1)] users_wf_update [OF assms(3) ok]
    by (intro exI [of _ response] exI [of _ ?db] exI [of _ ?users] exI [of _ u] exI [of _ ?u])
      (simp add: map_of_user_changes split: option.split)
qed

theorem update_user_effect_witness:
  "\<exists>response db'. update_user list_table plain_bcrypt (ae_ids demo_server) ''a''
     \<lparr>uu_username = None, uu_password = Some ''white rabbit'', uu_permissions = None\<rparr> alice_db = (Inr response, db') \<and>
     map_of response ''id'' = Some (PStr ''a'')"
  using update_user_effect [of list_table "\<lambda>db. db" plain_bcrypt "ae_ids demo_server" alice_db alice_table alice_db
      "\<lparr>uu_username = None, uu_password = Some ''white rabbit'', uu_permissions = None\<rparr>" "''a''",
      OF list_table.tinydb_table_axioms alice_read alice_wf]
  unfolding alice_entry option.case by (fastforce simp: UserUpdate_valid_def)

text \<open>
  The settings endpoints on a new identifier: a created setting is read back by its
  identifier; an update replaces name, value and category but keeps the identifier; a deletion
  restores the documents as they were, after which reading, updating and deleting answer 404. The
  list endpoint never shows the user table.
\<close>

theorem settings_endpoints_lifecycle:
  assumes T: "tinydb_table T docs" and fresh: "get_setting_by_id T uuid db = None"
  shows "\<exists>db1 db2 db3.
     route_create_setting T uuid now b db = (Inr (Some (setting_of_body uuid now b)), db1) \<and>
     route_get_setting T uuid db1 = (Inr (setting_of_body uuid now b), db1) \<and>
     route_update_setting T uuid' now' uuid b' db1 = (Inr (Some (setting_of_body uuid now' b')), db2) \<and>
     route_get_setting T uuid db2 = (Inr (setting_of_body uuid now' b'), db2) \<and>
     route_delete_setting T uuid db2 = (Inr uuid, db3) \<and> docs db3 = docs db \<and>
     fst (route_get_setting T uuid db3) = Inl (no_setting_error uuid) \<and>
     route_update_setting T uuid' now' uuid b' db3 = (Inl (no_setting_error uuid), db3) \<and>
     route_delete_setting T uuid db3 = (Inl (no_setting_error uuid), db3) \<and>
     (\<forall>s \<in> set (get_settings matches T srch db1). set_name s \<noteq> ''users'')"
proof -
  note [simp] = tinydb_table.by_id_find [OF T] tinydb_table.td_insert [OF T]
    tinydb_table.td_update [OF T] tinydb_table.td_remove [OF T]
  have none: "\<forall>s \<in> set (docs db). setting_id s \<noteq> uuid" using fresh by (auto simp: find_None_iff)
  then have keep: "map (\<lambda>d. if setting_id d = uuid then s else d) (docs db) = docs db"
    "filter (\<lambda>d. setting_id d \<noteq> uuid) (docs db) = docs db" for s
    by (auto intro!: map_idI)
  let ?s = "setting_of_body uuid now b" and ?s' = "setting_of_body uuid now' b'"
  let ?db1 = "td_insert T ?s db"
  let ?db2 = "td_update T ?s' (\<lambda>s. setting_id s = uuid) ?db1"
  let ?db3 = "td_remove T (\<lambda>s. setting_id s = uuid) ?db2"
  have ids [simp]: "setting_id (setting_of_body i t x) = i" for i t x by (simp add: setting_of_body_def)
  have upd: "(setting_of_body uuid' now' b')\<lparr>setting_id := uuid\<rparr> = ?s'"
    by (simp add: setting_of_body_def Setting_def)
  have find1: "find (\<lambda>s. setting_id s = uuid) (docs ?db1) = Some ?s"
    using fresh by (simp add: find_append)
  have find2: "find (\<lambda>s. setting_id s = uuid) (docs ?db2) = Some ?s'"
    using fresh by (simp add: keep find_append)
  have docs3: "docs ?db3 = docs db" using none by (simp add: keep)
  have create: "route_create_setting T uuid now b db = (Inr (Some ?s), ?db1)"
    using find1 by (simp add: route_create_setting_def create_setting_def Let_def)
  have update: "route_update_setting T uuid' now' uuid b' ?db1 = (Inr (Some ?s'), ?db2)"
    using find1 find2 by (simp add: route_update_setting_def update_setting_by_id_def Let_def upd)
  have delete: "route_delete_setting T uuid ?db2 = (Inr uuid, ?db3)"
    using find2 by (simp add: route_delete_setting_def delete_setting_by_id_def)
  have gone: "find (\<lambda>s. setting_id s = uuid) (docs ?db3) = None" using docs3 fresh by simp
  have reads: "route_get_setting T uuid ?db1 = (Inr ?s, ?db1)" "route_get_setting T uuid ?db2 = (Inr ?s', ?db2)"
    "fst (route_get_setting T uuid ?db3) = Inl (no_setting_error uuid)"
    "route_update_setting T uuid' now' uuid b' ?db3 = (Inl (no_setting_error uuid), ?db3)"
    "route_delete_setting T uuid ?db3 = (Inl (no_setting_error uuid), ?db3)"
    using find1 find2 gone
    unfolding route_get_setting_def route_update_setting_def route_delete_setting_def
      tinydb_table.by_id_find [OF T] by simp_all
  show ?thesis using create update delete docs3 reads
    by (intro exI [of _ ?db1] exI [of _ ?db2] exI [of _ ?db3]) (simp add: get_settings_def)
qed

theorem settings_endpoints_lifecycle_witness:
  "\<exists>db. route_create_setting list_table ''n1'' 5 \<lparr>sb_name = ''llm_selected'', sb_value = PNone, sb_category = Some ''llm''\<rparr> alice_db
     = (Inr (Some (Setting ''n1'' 5 ''llm_selected'' PNone (Some ''llm''))), db) \<and>
     route_get_setting list_table ''n1'' db = (Inr (Setting ''n1'' 5 ''llm_selected'' PNone (Some ''llm'')), db)"
proof -
  have "get_setting_by_id list_table ''n1'' alice_db = None"
    by (simp add: get_setting_by_id_def list_table_def alice_db_def first_or_none_def)
  from settings_endpoints_lifecycle [OF list_table.tinydb_table_axioms this, of 5
      "\<lparr>sb_name = ''llm_selected'', sb_value = PNone, sb_category = Some ''llm''\<rparr>" "''n2''" 6
      "\<lparr>sb_name = ''llm_selected'', sb_value = PNone, sb_category = None\<rparr>" "\<lambda>_ _. True" "[]"]
  show ?thesis by (auto simp: setting_of_body_def)
qed

end
