(* ===== verification/Cache.thy ===== *)
theory Cache
  imports Py_Strings
begin

text \<open>
  The session caches of \<open>core/cat/cache\<close>: \<open>CacheItem\<close>, \<open>InMemoryCache\<close> (a dictionary with
  eviction of the oldest tenth when it is full), \<open>FileSystemCache\<close> (one pickled file per key) and
  \<open>CacheManager\<close>, which picks one of the two. The contract of \<open>BaseCache\<close> is the locale
  \<open>base_cache\<close>; both caches and the cache the manager builds are interpretations of it.
  \<open>time.time()\<close> is the argument \<open>now\<close>. Pickling is the identity on values.
\<close>

subsection \<open>Cache items\<close>

record 'v cache_item =
  ci_key :: string
  ci_value :: 'v
  ci_ttl :: "real option"
  ci_created_at :: real

definition CacheItem :: "real \<Rightarrow> string \<Rightarrow> 'v \<Rightarrow> real option \<Rightarrow> 'v cache_item" where
  "CacheItem now key val ttl =
     \<lparr>ci_key = key, ci_value = val, ci_ttl = ttl, ci_created_at = now\<rparr>"

definition is_expired :: "real \<Rightarrow> 'v cache_item \<Rightarrow> bool" where
  "is_expired now it =
     (case ci_ttl it of
        None \<Rightarrow> False
      | Some t \<Rightarrow> if t = - 1 then False else ci_created_at it + t < now)"

lemma is_expired_mono: "now \<le> later \<Longrightarrow> is_expired now it \<Longrightarrow> is_expired later it"
  by (auto simp: is_expired_def split: option.splits if_splits)

lemma CacheItem_sel [simp]:
  "ci_key (CacheItem now k v t) = k"
  "ci_value (CacheItem now k v t) = v"
  "ci_ttl (CacheItem now k v t) = t"
  "ci_created_at (CacheItem now k v t) = now"
  by (simp_all add: CacheItem_def)

lemma CacheItem_forever [simp]:
  "\<not> is_expired later (CacheItem now k v (Some (- 1)))"
  "\<not> is_expired later (CacheItem now k v None)"
  by (simp_all add: CacheItem_def is_expired_def)

subsection \<open>InMemoryCache\<close>

record 'v in_memory_cache =
  items :: "(string, 'v cache_item) dict"
  max_items :: nat

definition InMemoryCache_init :: "'v in_memory_cache" where
  "InMemoryCache_init = \<lparr>items = [], max_items = 100\<rparr>"

definition InMemoryCache_delete :: "string \<Rightarrow> 'v in_memory_cache \<Rightarrow> 'v in_memory_cache" where
  "InMemoryCache_delete k c =
     (if k \<in> set (keys (items c)) then c\<lparr>items := AList.delete k (items c)\<rparr> else c)"

definition InMemoryCache_insert :: "'v in_memory_cache \<Rightarrow> 'v cache_item \<Rightarrow> 'v in_memory_cache" where
  "InMemoryCache_insert c it =
     (let c1 = c\<lparr>items := AList.update (ci_key it) it (items c)\<rparr> in
      if length (items c1) \<ge> max_items c1 then
        (let sorted_items = sort_key (\<lambda>x. ci_created_at (snd x)) (items c1)
         in foldl (\<lambda>c' (k, v). InMemoryCache_delete k c') c1
              (take (max_items c1 div 10) sorted_items))
      else c1)"

definition InMemoryCache_get_item ::
  "real \<Rightarrow> string \<Rightarrow> 'v in_memory_cache \<Rightarrow> 'v cache_item option \<times> 'v in_memory_cache" where
  "InMemoryCache_get_item now k c =
     (case map_of (items c) k of
        None \<Rightarrow> (None, c)
      | Some it \<Rightarrow>
          if is_expired now it then (None, c\<lparr>items := AList.delete k (items c)\<rparr>)
          else (Some it, c))"

definition InMemoryCache_get_value ::
  "real \<Rightarrow> string \<Rightarrow> 'v in_memory_cache \<Rightarrow> 'v option \<times> 'v in_memory_cache" where
  "InMemoryCache_get_value now k c =
     (case InMemoryCache_get_item now k c of (it, c') \<Rightarrow> (map_option ci_value it, c'))"

subsection \<open>FileSystemCache\<close>

text \<open>
  The file system as the cache sees it: the directories that exist and the content of the cache
  files. Paths are compared as text. \<open>open\<close> in write mode fails when the directory part of the
  path does not exist.
\<close>

record 'v file_system =
  fs_dirs :: "string list"
  fs_files :: "(string, 'v cache_item) dict"

record 'v file_system_cache =
  cache_dir :: string
  disk :: "'v file_system"

definition path_join :: "string \<Rightarrow> string \<Rightarrow> string" where
  "path_join a b =
     (if prefix ''/'' b then b
      else if a = [] \<or> last a = CHR ''/'' then a @ b
      else a @ ''/'' @ b)"

definition norm_dir :: "string \<Rightarrow> string" where
  "norm_dir d =
     (if d \<noteq> [] \<and> (\<forall>c \<in> set d. c = CHR ''/'') then ''/''
      else rev (dropWhile (\<lambda>c. c = CHR ''/'') (rev d)))"

definition path_dirname :: "string \<Rightarrow> string" where
  "path_dirname p = norm_dir (rev (dropWhile (\<lambda>c. c \<noteq> CHR ''/'') (rev p)))"

definition dir_exists :: "'v file_system \<Rightarrow> string \<Rightarrow> bool" where
  "dir_exists fs d \<longleftrightarrow> norm_dir d \<in> set (map norm_dir (fs_dirs fs))"

text \<open>\<open>os.makedirs\<close> creates the directory and every missing parent of it.\<close>

definition parent_dirs :: "string \<Rightarrow> string list" where
  "parent_dirs d = filter (\<lambda>q. q = d \<or> q \<noteq> [] \<and> last q = CHR ''/'') (prefixes d)"

definition FileSystemCache_init ::
  "string \<Rightarrow> 'v file_system \<Rightarrow> 'v file_system_cache result" where
  "FileSystemCache_init dir fs =
     (if dir \<noteq> [] \<and> dir_exists fs dir then Inr \<lparr>cache_dir = dir, disk = fs\<rparr>
      else if dir = [] then Inl (Exn ''FileNotFoundError'' dir)
      else Inr \<lparr>cache_dir = dir, disk = fs\<lparr>fs_dirs := fs_dirs fs @ parent_dirs dir\<rparr>\<rparr>)"

definition get_file_path :: "'v file_system_cache \<Rightarrow> string \<Rightarrow> string" where
  "get_file_path c k = path_join (cache_dir c) (k @ ''.cache'')"

definition FileSystemCache_insert ::
  "'v file_system_cache \<Rightarrow> 'v cache_item \<Rightarrow> 'v file_system_cache result" where
  "FileSystemCache_insert c it =
     (let p = get_file_path c (ci_key it) in
      if path_dirname p = [] \<or> dir_exists (disk c) (path_dirname p)
      then Inr (c\<lparr>disk := (disk c)\<lparr>fs_files := AList.update p it (fs_files (disk c))\<rparr>\<rparr>)
      else Inl (Exn ''FileNotFoundError'' p))"

definition FileSystemCache_get_item ::
  "real \<Rightarrow> string \<Rightarrow> 'v file_system_cache \<Rightarrow> 'v cache_item option \<times> 'v file_system_cache" where
  "FileSystemCache_get_item now k c =
     (let p = get_file_path c k in
      case map_of (fs_files (disk c)) p of
        None \<Rightarrow> (None, c)
      | Some it \<Rightarrow>
          if is_expired now it
          then (None, c\<lparr>disk := (disk c)\<lparr>fs_files := AList.delete p (fs_files (disk c))\<rparr>\<rparr>)
          else (Some it, c))"

definition FileSystemCache_get_value ::
  "real \<Rightarrow> string \<Rightarrow> 'v file_system_cache \<Rightarrow> 'v option \<times> 'v file_system_cache" where
  "FileSystemCache_get_value now k c =
     (case FileSystemCache_get_item now k c of (it, c') \<Rightarrow> (map_option ci_value it, c'))"

definition FileSystemCache_delete ::
  "string \<Rightarrow> 'v file_system_cache \<Rightarrow> 'v file_system_cache" where
  "FileSystemCache_delete k c =
     (let p = get_file_path c k in
      if p \<in> set (keys (fs_files (disk c)))
      then c\<lparr>disk := (disk c)\<lparr>fs_files := AList.delete p (fs_files (disk c))\<rparr>\<rparr>
      else c)"

subsection \<open>CacheManager and the cache it builds\<close>

datatype 'v cache = InMemory "'v in_memory_cache" | FileSystem "'v file_system_cache"

definition CacheManager_init ::
  "(string \<Rightarrow> string option) \<Rightarrow> 'v file_system \<Rightarrow> 'v cache result" where
  "CacheManager_init get_env fs =
     (let cache_type = get_env ''CCAT_CACHE_TYPE'' in
      if cache_type = Some ''in_memory'' then Inr (InMemory InMemoryCache_init)
      else if cache_type = Some ''file_system'' then
        (case get_env ''CCAT_CACHE_DIR'' of
           None \<Rightarrow> Inl (Exn ''TypeError'' ''cache_dir'')
         | Some cdir \<Rightarrow> map_sum id FileSystem (FileSystemCache_init cdir fs))
      else Inl (Exn ''ValueError'' ''Cache type not supported''))"

fun cache_insert :: "'v cache \<Rightarrow> 'v cache_item \<Rightarrow> 'v cache result" where
  "cache_insert (InMemory c) it = Inr (InMemory (InMemoryCache_insert c it))"
| "cache_insert (FileSystem c) it = map_sum id FileSystem (FileSystemCache_insert c it)"

fun cache_get_item :: "real \<Rightarrow> string \<Rightarrow> 'v cache \<Rightarrow> 'v cache_item option \<times> 'v cache" where
  "cache_get_item now k (InMemory c) = map_prod id InMemory (InMemoryCache_get_item now k c)"
| "cache_get_item now k (FileSystem c) = map_prod id FileSystem (FileSystemCache_get_item now k c)"

fun cache_get_value :: "real \<Rightarrow> string \<Rightarrow> 'v cache \<Rightarrow> 'v option \<times> 'v cache" where
  "cache_get_value now k (InMemory c) = map_prod id InMemory (InMemoryCache_get_value now k c)"
| "cache_get_value now k (FileSystem c) = map_prod id FileSystem (FileSystemCache_get_value now k c)"

fun cache_delete :: "string \<Rightarrow> 'v cache \<Rightarrow> 'v cache" where
  "cache_delete k (InMemory c) = InMemory (InMemoryCache_delete k c)"
| "cache_delete k (FileSystem c) = FileSystem (FileSystemCache_delete k c)"

subsection \<open>The contract of a cache\<close>

text \<open>
  \<open>view c k\<close> is the item stored under \<open>k\<close>, expired or not; \<open>ok\<close> says which keys the cache can
  hold and \<open>fresh c it\<close> when an insertion is guaranteed to keep the new item (the in-memory
  cache evicts by age, so the item has to be newer than the stored ones).
\<close>

locale base_cache =
  fixes ins :: "'c \<Rightarrow> 'v cache_item \<Rightarrow> 'c result"
    and get :: "real \<Rightarrow> string \<Rightarrow> 'c \<Rightarrow> 'v cache_item option \<times> 'c"
    and del :: "string \<Rightarrow> 'c \<Rightarrow> 'c"
    and view :: "'c \<Rightarrow> string \<Rightarrow> 'v cache_item option"
    and inv :: "'c \<Rightarrow> bool"
    and ok :: "'c \<Rightarrow> string \<Rightarrow> bool"
    and fresh :: "'c \<Rightarrow> 'v cache_item \<Rightarrow> bool"
  assumes ins_ok: "inv c \<Longrightarrow> ok c (ci_key it) \<Longrightarrow> \<exists>c'. ins c it = Inr c'"
    and ins_inv: "inv c \<Longrightarrow> ok c (ci_key it) \<Longrightarrow> ins c it = Inr c' \<Longrightarrow> inv c'"
    and ins_keys: "ins c it = Inr c' \<Longrightarrow> ok c' k = ok c k"
    and ins_same: "inv c \<Longrightarrow> ok c (ci_key it) \<Longrightarrow> fresh c it \<Longrightarrow> ins c it = Inr c' \<Longrightarrow>
      view c' (ci_key it) = Some it"
    and ins_other: "inv c \<Longrightarrow> ok c (ci_key it) \<Longrightarrow> ok c k \<Longrightarrow> k \<noteq> ci_key it \<Longrightarrow>
      ins c it = Inr c' \<Longrightarrow> view c' k = view c k \<or> view c' k = None"
    and get_result: "inv c \<Longrightarrow> ok c k \<Longrightarrow>
      fst (get now k c) =
        (case view c k of None \<Rightarrow> None | Some it \<Rightarrow> if is_expired now it then None else Some it)"
    and get_inv: "inv c \<Longrightarrow> inv (snd (get now k c))"
    and get_view: "inv c \<Longrightarrow> ok c k \<Longrightarrow> ok c j \<Longrightarrow>
      view (snd (get now k c)) j =
        (if j = k \<and> (\<exists>it. view c k = Some it \<and> is_expired now it) then None else view c j)"
    and del_inv: "inv c \<Longrightarrow> inv (del k c)"
    and del_view: "inv c \<Longrightarrow> ok c k \<Longrightarrow> ok c j \<Longrightarrow>
      view (del k c) j = (if j = k then None else view c j)"
    and get_keys: "ok (snd (get now k c)) j = ok c j"
    and del_keys: "ok (del k c) j = ok c j"
    and ins_sound: "inv c \<Longrightarrow> ok c (ci_key it) \<Longrightarrow> ins c it = Inr c' \<Longrightarrow>
      view c' (ci_key it) = Some it \<or> view c' (ci_key it) = None"
begin

text \<open>What the session layer relies on.\<close>

lemma get_after_insert:
  assumes "inv c" "ok c (ci_key it)" "fresh c it" "ins c it = Inr c'" "\<not> is_expired now it"
  shows "fst (get now (ci_key it) c') = Some it"
proof -
  have "inv c'" using assms by (blast intro: ins_inv)
  moreover have "ok c' (ci_key it)" using assms ins_keys by metis
  moreover have "view c' (ci_key it) = Some it" using assms by (blast intro: ins_same)
  ultimately show ?thesis using assms(5) by (simp add: get_result)
qed

lemma get_not_expired:
  "inv c \<Longrightarrow> ok c k \<Longrightarrow> fst (get now k c) = Some it \<Longrightarrow> \<not> is_expired now it"
  by (auto simp: get_result split: option.splits if_splits)

lemma get_after_delete: "inv c \<Longrightarrow> ok c k \<Longrightarrow> fst (get now k (del k c)) = None"
  by (simp add: get_result del_inv del_view del_keys)

text \<open>Inserting under one key never makes another key return something it did not return before.\<close>

lemma insert_isolated:
  assumes "inv c" "ok c (ci_key it)" "ok c k" "k \<noteq> ci_key it" "ins c it = Inr c'"
    and got: "fst (get now k c') = Some other"
  shows "fst (get now k c) = Some other"
proof -
  have c': "inv c'" "ok c' k" using assms ins_inv ins_keys by (blast, metis)
  have "view c' k = view c k \<or> view c' k = None" by (rule ins_other [OF assms(1-5)])
  with got c' assms(1,3) show ?thesis
    by (cases "view c k") (auto simp: get_result split: option.splits)
qed

text \<open>An expired entry is gone after it was asked for: asking again finds nothing stored.\<close>

lemma expired_removed:
  assumes "inv c" "ok c k" "view c k = Some it" "is_expired now it"
  shows "fst (get now k c) = None" and "view (snd (get now k c)) k = None"
  using assms by (simp_all add: get_result get_view)

end

subsection \<open>InMemoryCache meets the contract\<close>

lemma InMemoryCache_delete_sel [simp]:
  "items (InMemoryCache_delete k c) = AList.delete k (items c)"
  "max_items (InMemoryCache_delete k c) = max_items c"
  by (simp_all add: InMemoryCache_delete_def delete_absent)

lemma foldl_delete_sel:
  "items (foldl (\<lambda>c' (k, v). InMemoryCache_delete k c') c L) =
     filter (\<lambda>p. fst p \<notin> fst ` set L) (items c)
   \<and> max_items (foldl (\<lambda>c' (k, v). InMemoryCache_delete k c') c L) = max_items c"
  by (induction L arbitrary: c) (auto simp: delete_filter case_prod_beta intro: filter_cong)

lemma dict_wf_sort: "dict_wf d \<Longrightarrow> dict_wf (sort_key f d)"
proof -
  assume wf: "dict_wf d"
  have "mset (map fst (sort_key f d)) = mset (map fst d)" by simp
  then show ?thesis
    using wf mset_eq_imp_distinct_iff unfolding dict_wf_def by blast
qed

lemma filter_drop_keys:
  assumes "dict_wf s"
  shows "filter (\<lambda>p. fst p \<notin> fst ` set (take n s)) s = drop n s"
proof -
  let ?P = "\<lambda>p. fst p \<notin> fst ` set (take n s)"
  have "distinct (map fst (take n s @ drop n s))" using assms by (simp add: dict_wf_def)
  then have "fst ` set (take n s) \<inter> fst ` set (drop n s) = {}"
    by (simp only: map_append distinct_append set_map)
  then have "filter ?P (drop n s) = drop n s" by (simp add: filter_id_conv disjoint_iff image_iff) blast
  moreover have "filter ?P (take n s) = []" by (auto simp: filter_empty_conv)
  moreover have "filter ?P s = filter ?P (take n s) @ filter ?P (drop n s)"
    by (metis append_take_drop_id filter_append)
  ultimately show ?thesis by simp
qed

lemma length_evict:
  assumes "dict_wf d"
  shows "length (filter (\<lambda>p. fst p \<notin> fst ` set (take n (sort_key f d))) d) = length d - n"
proof -
  let ?s = "sort_key f d"
  let ?P = "\<lambda>p. fst p \<notin> fst ` set (take n ?s)"
  have "mset (filter ?P d) = mset (filter ?P ?s)" by simp
  then have "length (filter ?P d) = length (filter ?P ?s)" by (rule mset_eq_length)
  then show ?thesis using filter_drop_keys [OF dict_wf_sort [OF assms, of f], of n] by simp
qed

text \<open>The strictly newest entry survives when fewer entries are evicted than there are.\<close>

lemma newest_survives:
  assumes wf: "dict_wf d" and mem: "(k, it) \<in> set d" and n: "n < length d"
    and newest: "\<forall>(j, x) \<in> set d. j \<noteq> k \<longrightarrow> ci_created_at x < ci_created_at it"
  shows "k \<notin> fst ` set (take n (sort_key (\<lambda>x. ci_created_at (snd x)) d))"
proof
  let ?s = "sort_key (\<lambda>x. ci_created_at (snd x)) d"
  assume "k \<in> fst ` set (take n ?s)"
  then obtain i where i: "i < n" "fst (?s ! i) = k"
    by (auto simp: in_set_conv_nth)
  have len: "length ?s = length d" by simp
  have dist: "distinct (map fst ?s)" using dict_wf_sort [OF wf] by (simp add: dict_wf_def)
  have "?s ! i \<in> set ?s" by (rule nth_mem) (use i n len in simp)
  then have "?s ! i \<in> set d" by simp
  with i have "map_of d k = Some (snd (?s ! i))" using wf dict_wf_map_of_iff by fastforce
  moreover have "map_of d k = Some it" using mem wf dict_wf_map_of_iff by fastforce
  ultimately have si: "snd (?s ! i) = it" by simp
  have "map fst ?s ! i \<noteq> map fst ?s ! n"
    using nth_eq_iff_index_eq [OF dist, of i n] i n len by simp
  with i n len have neq: "fst (?s ! n) \<noteq> k" by simp
  have "?s ! n \<in> set ?s" by (rule nth_mem) (use n len in simp)
  then have "?s ! n \<in> set d" by simp
  with newest neq have "ci_created_at (snd (?s ! n)) < ci_created_at it" by (cases "?s ! n") auto
  moreover have "ci_created_at (snd (?s ! i)) \<le> ci_created_at (snd (?s ! n))"
  proof -
    have "sorted (map (\<lambda>x. ci_created_at (snd x)) ?s)" by simp
    from sorted_nth_mono [OF this, of i n] i n show ?thesis by simp
  qed
  ultimately show False using si by simp
qed

text \<open>An evicted entry is at least as old as a kept one.\<close>

lemma evicted_older:
  assumes wf: "dict_wf d" and x: "(k, x) \<in> set d"
    and out: "k \<in> fst ` set (take n (sort_key (\<lambda>x. ci_created_at (snd x)) d))"
    and y: "(j, y) \<in> set d"
    and kept: "j \<notin> fst ` set (take n (sort_key (\<lambda>x. ci_created_at (snd x)) d))"
  shows "ci_created_at x \<le> ci_created_at y"
proof -
  let ?s = "sort_key (\<lambda>x. ci_created_at (snd x)) d"
  have "set ?s = set (take n ?s) \<union> set (drop n ?s)" by (metis append_take_drop_id set_append)
  then have "(j, y) \<in> set (drop n ?s)" using y kept by force
  moreover obtain x' where "(k, x') \<in> set (take n ?s)" using out by auto
  moreover have "x' = x"
    using calculation(2) x wf by (metis dict_wf_map_of_iff in_set_takeD option.inject set_sort)
  moreover have "sorted (map (\<lambda>x. ci_created_at (snd x)) (take n ?s @ drop n ?s))"
    by (simp only: append_take_drop_id) simp
  ultimately show ?thesis unfolding map_append sorted_append by fastforce
qed

definition mem_inv :: "'v in_memory_cache \<Rightarrow> bool" where
  "mem_inv c \<longleftrightarrow> dict_wf (items c) \<and> length (items c) < max_items c \<and> 10 \<le> max_items c"

definition mem_fresh :: "'v in_memory_cache \<Rightarrow> 'v cache_item \<Rightarrow> bool" where
  "mem_fresh c it \<longleftrightarrow>
     (\<forall>(j, x) \<in> set (items c). j \<noteq> ci_key it \<longrightarrow> ci_created_at x < ci_created_at it)"

text \<open>The keys an insertion evicts.\<close>

definition mem_evicted :: "'v in_memory_cache \<Rightarrow> 'v cache_item \<Rightarrow> string set" where
  "mem_evicted c it =
     (let d = AList.update (ci_key it) it (items c) in
      if length d \<ge> max_items c
      then fst ` set (take (max_items c div 10) (sort_key (\<lambda>x. ci_created_at (snd x)) d))
      else {})"

lemma InMemoryCache_insert_sel:
  "items (InMemoryCache_insert c it) =
     filter (\<lambda>p. fst p \<notin> mem_evicted c it) (AList.update (ci_key it) it (items c))"
  "max_items (InMemoryCache_insert c it) = max_items c"
  by (simp_all add: InMemoryCache_insert_def mem_evicted_def Let_def foldl_delete_sel)

lemma tenth_bounds: "10 \<le> n \<Longrightarrow> 0 < n div 10 \<and> n div 10 < (n::nat)"
  by simp

lemma InMemoryCache_insert_inv: "mem_inv c \<Longrightarrow> mem_inv (InMemoryCache_insert c it)"
proof -
  assume inv: "mem_inv c"
  let ?d = "AList.update (ci_key it) it (items c)"
  have wf: "dict_wf ?d" using inv by (simp add: mem_inv_def)
  have le: "length ?d \<le> max_items c"
    using length_update_le [of "ci_key it" it "items c"] inv by (simp add: mem_inv_def)
  have "length (items (InMemoryCache_insert c it)) < max_items c"
  proof (cases "max_items c \<le> length ?d")
    case True
    from length_evict [OF wf] True
    have "length (items (InMemoryCache_insert c it)) = length ?d - max_items c div 10"
      by (simp add: InMemoryCache_insert_sel mem_evicted_def Let_def)
    moreover have "0 < max_items c div 10"
      using inv tenth_bounds unfolding mem_inv_def by blast
    ultimately show ?thesis using le True by linarith
  next
    case False
    then show ?thesis by (simp add: InMemoryCache_insert_sel mem_evicted_def)
  qed
  then show ?thesis
    using inv wf by (simp add: mem_inv_def InMemoryCache_insert_sel dict_wf_filter)
qed

lemma InMemoryCache_insert_same:
  assumes "mem_inv c" "mem_fresh c it"
  shows "map_of (items (InMemoryCache_insert c it)) (ci_key it) = Some it"
proof -
  let ?d = "AList.update (ci_key it) it (items c)"
  have wf: "dict_wf ?d" using assms by (simp add: mem_inv_def)
  have got: "map_of ?d (ci_key it) = Some it" by (simp add: update_conv')
  have "ci_key it \<notin> mem_evicted c it"
  proof (cases "max_items c \<le> length ?d")
    case True
    then have "max_items c div 10 < length ?d"
      using assms(1) tenth_bounds unfolding mem_inv_def by (meson order_less_le_trans)
    moreover have "(ci_key it, it) \<in> set ?d" using got by (rule map_of_SomeD)
    moreover have "\<forall>(j, x) \<in> set ?d. j \<noteq> ci_key it \<longrightarrow> ci_created_at x < ci_created_at it"
      using assms(2) set_update_subset [of "ci_key it" it "items c"]
      by (fastforce simp: mem_fresh_def)
    ultimately show ?thesis using True by (simp add: mem_evicted_def Let_def newest_survives [OF wf])
  qed (simp add: mem_evicted_def)
  then show ?thesis using got by (simp add: InMemoryCache_insert_sel map_of_filter_notin)
qed

lemma InMemoryCache_insert_other:
  "k \<noteq> ci_key it \<Longrightarrow>
   map_of (items (InMemoryCache_insert c it)) k =
     (if k \<in> mem_evicted c it then None else map_of (items c) k)"
  by (simp add: InMemoryCache_insert_sel map_of_filter_notin update_conv')

interpretation mem: base_cache
  "\<lambda>c it. Inr (InMemoryCache_insert c it)" InMemoryCache_get_item InMemoryCache_delete
  "\<lambda>c. map_of (items c)" mem_inv "\<lambda>_ _. True" mem_fresh
proof (unfold_locales, goal_cases)
  case (4 c it c')
  then show ?case by (auto simp: InMemoryCache_insert_same)
next
  case (5 c it k c')
  then have "c' = InMemoryCache_insert c it" by simp
  with 5 show ?case by (simp add: InMemoryCache_insert_other)
next
  case (7 c now k)
  then show ?case
    by (auto simp: InMemoryCache_get_item_def mem_inv_def intro: le_less_trans [OF length_delete_le]
        split: option.splits)
next
  case (9 c k)
  then show ?case by (auto simp: mem_inv_def intro: le_less_trans [OF length_delete_le])
next
  case (13 c it c')
  then have "c' = InMemoryCache_insert c it" by simp
  then show ?case by (auto simp: InMemoryCache_insert_sel map_of_filter_notin update_conv')
qed (auto simp: InMemoryCache_insert_inv InMemoryCache_get_item_def delete_conv' split: option.splits)

subsection \<open>FileSystemCache meets the contract\<close>

definition no_slash :: "string \<Rightarrow> bool" where
  "no_slash k \<longleftrightarrow> CHR ''/'' \<notin> set k"

definition fs_inv :: "'v file_system_cache \<Rightarrow> bool" where
  "fs_inv c \<longleftrightarrow> dict_wf (fs_files (disk c)) \<and> cache_dir c \<noteq> [] \<and> dir_exists (disk c) (cache_dir c)"

lemma norm_dir_idem [simp]: "norm_dir (norm_dir d) = norm_dir d"
proof (cases "d \<noteq> [] \<and> (\<forall>c \<in> set d. c = CHR ''/'')")
  case True
  then show ?thesis by (simp add: norm_dir_def)
next
  case False
  let ?r = "dropWhile (\<lambda>c. c = CHR ''/'') (rev d)"
  have n: "norm_dir d = rev ?r" using False by (auto simp: norm_dir_def)
  show ?thesis
  proof (cases ?r)
    case Nil
    then show ?thesis using n by (simp add: norm_dir_def)
  next
    case (Cons c cs)
    then have "c \<noteq> CHR ''/''"
      using hd_dropWhile [of "\<lambda>c. c = CHR ''/''" "rev d"] by simp
    with Cons n show ?thesis by (simp add: norm_dir_def)
  qed
qed

lemma path_join_no_slash:
  "no_slash b \<Longrightarrow> b \<noteq> [] \<Longrightarrow>
   path_join a b = (if a = [] \<or> last a = CHR ''/'' then a else a @ ''/'') @ b"
  by (cases b) (auto simp: path_join_def no_slash_def)

lemma dirname_path_join:
  assumes "no_slash b" "b \<noteq> []" "a \<noteq> []"
  shows "path_dirname (path_join a b) = norm_dir a"
proof -
  have drop: "dropWhile (\<lambda>c. c \<noteq> CHR ''/'') (rev b @ xs) =
      dropWhile (\<lambda>c. c \<noteq> CHR ''/'') xs" for xs
    using assms(1) by (intro dropWhile_append2) (auto simp: no_slash_def)
  obtain a0 c where a: "a = a0 @ [c]" using assms(3) by (cases a rule: rev_cases) auto
  show ?thesis
  proof (cases "c = CHR ''/''")
    case True
    then show ?thesis using assms a by (simp add: path_join_no_slash path_dirname_def drop)
  next
    case False
    then show ?thesis using assms a
      by (simp add: path_join_no_slash path_dirname_def drop norm_dir_def)
  qed
qed

lemma get_file_path_disk [simp]: "get_file_path (c\<lparr>disk := x\<rparr>) = get_file_path c"
  by (rule ext) (simp add: get_file_path_def)

lemma get_file_path_inj:
  "no_slash k \<Longrightarrow> no_slash j \<Longrightarrow> get_file_path c k = get_file_path c j \<longleftrightarrow> k = j"
  using path_join_no_slash [of "k @ ''.cache''" "cache_dir c"]
    path_join_no_slash [of "j @ ''.cache''" "cache_dir c"]
  by (auto simp: get_file_path_def no_slash_def)

lemma FileSystemCache_insert_ok:
  assumes "fs_inv c" "no_slash (ci_key it)"
  shows "FileSystemCache_insert c it =
     Inr (c\<lparr>disk := (disk c)\<lparr>fs_files :=
            AList.update (get_file_path c (ci_key it)) it (fs_files (disk c))\<rparr>\<rparr>)"
proof -
  have "no_slash (ci_key it @ ''.cache'')" using assms(2) by (simp add: no_slash_def)
  then have "path_dirname (get_file_path c (ci_key it)) = norm_dir (cache_dir c)"
    using assms(1) by (simp add: get_file_path_def fs_inv_def dirname_path_join)
  then show ?thesis using assms(1)
    by (simp add: FileSystemCache_insert_def fs_inv_def dir_exists_def)
qed

lemma FileSystemCache_init_inv:
  "FileSystemCache_init dir fs = Inr c \<Longrightarrow> dict_wf (fs_files fs) \<Longrightarrow> fs_inv c"
  by (auto simp: FileSystemCache_init_def fs_inv_def dir_exists_def parent_dirs_def split: if_splits)

definition fs_ok :: "'v file_system_cache \<Rightarrow> string \<Rightarrow> bool" where
  "fs_ok c k \<longleftrightarrow> no_slash k"

definition fs_view :: "'v file_system_cache \<Rightarrow> string \<Rightarrow> 'v cache_item option" where
  "fs_view c k = map_of (fs_files (disk c)) (get_file_path c k)"

lemma FileSystemCache_get_item_eq:
  "FileSystemCache_get_item now k c =
     (case fs_view c k of
        None \<Rightarrow> (None, c)
      | Some it \<Rightarrow> if is_expired now it then (None, FileSystemCache_delete k c) else (Some it, c))"
  by (auto simp: FileSystemCache_get_item_def fs_view_def FileSystemCache_delete_def Let_def
      in_keys_iff split: option.splits)

lemma FileSystemCache_delete_view:
  "no_slash k \<Longrightarrow> no_slash j \<Longrightarrow>
   fs_view (FileSystemCache_delete k c) j = (if j = k then None else fs_view c j)"
  by (auto simp: FileSystemCache_delete_def fs_view_def Let_def delete_conv' get_file_path_inj
      in_keys_iff)

lemma FileSystemCache_delete_inv: "fs_inv c \<Longrightarrow> fs_inv (FileSystemCache_delete k c)"
  by (simp add: FileSystemCache_delete_def fs_inv_def dir_exists_def Let_def)

interpretation fs: base_cache
  FileSystemCache_insert FileSystemCache_get_item FileSystemCache_delete
  fs_view fs_inv fs_ok "\<lambda>_ _. True"
proof (unfold_locales, goal_cases)
  case (2 c it c')
  then show ?case by (auto simp: fs_ok_def FileSystemCache_insert_ok fs_inv_def dir_exists_def)
next
  case (5 c it k c')
  then have "c' = c\<lparr>disk := (disk c)\<lparr>fs_files :=
      AList.update (get_file_path c (ci_key it)) it (fs_files (disk c))\<rparr>\<rparr>"
    by (simp add: fs_ok_def FileSystemCache_insert_ok)
  with 5 get_file_path_inj [of k "ci_key it" c] show ?case
    by (simp add: fs_ok_def fs_view_def update_conv')
next
  case (8 c k j now)
  then show ?case
    by (auto simp: FileSystemCache_get_item_eq FileSystemCache_delete_view fs_ok_def
        split: option.splits)
next
  case (4 c it c')
  then show ?case by (auto simp: fs_ok_def FileSystemCache_insert_ok fs_view_def update_conv')
next
  case (13 c it c')
  then show ?case by (auto simp: fs_ok_def FileSystemCache_insert_ok fs_view_def update_conv')
qed (auto simp: fs_ok_def FileSystemCache_insert_ok FileSystemCache_get_item_eq FileSystemCache_delete_inv FileSystemCache_delete_view
      split: option.splits)

subsection \<open>The cache the manager builds meets the contract\<close>

fun cache_view :: "'v cache \<Rightarrow> string \<Rightarrow> 'v cache_item option" where
  "cache_view (InMemory c) k = map_of (items c) k"
| "cache_view (FileSystem c) k = fs_view c k"

fun cache_inv :: "'v cache \<Rightarrow> bool" where
  "cache_inv (InMemory c) = mem_inv c"
| "cache_inv (FileSystem c) = fs_inv c"

fun cache_ok :: "'v cache \<Rightarrow> string \<Rightarrow> bool" where
  "cache_ok (InMemory c) k = True"
| "cache_ok (FileSystem c) k = fs_ok c k"

fun cache_fresh :: "'v cache \<Rightarrow> 'v cache_item \<Rightarrow> bool" where
  "cache_fresh (InMemory c) it = mem_fresh c it"
| "cache_fresh (FileSystem c) it = True"

lemma cache_insert_cases:
  "cache_insert c it = Inr c' \<longleftrightarrow>
     (\<exists>m. c = InMemory m \<and> c' = InMemory (InMemoryCache_insert m it)) \<or>
     (\<exists>m m'. c = FileSystem m \<and> FileSystemCache_insert m it = Inr m' \<and> c' = FileSystem m')"
  by (cases c; cases "FileSystemCache_insert (case c of FileSystem m \<Rightarrow> m) it") auto

interpretation cm: base_cache
  cache_insert cache_get_item cache_delete cache_view cache_inv cache_ok cache_fresh
proof (unfold_locales, goal_cases)
  case (1 c it)
  then show ?case by (cases c) (auto dest: fs.ins_ok)
next
  case (2 c it c')
  then show ?case
    by (auto simp: cache_insert_cases InMemoryCache_insert_inv dest: fs.ins_inv)
next
  case (3 c it c' k)
  then show ?case by (auto simp: cache_insert_cases fs_ok_def)
next
  case (4 c it c')
  then show ?case by (auto simp: cache_insert_cases InMemoryCache_insert_same dest: fs.ins_same)
next
  case (5 c it k c')
  then show ?case
    using mem.ins_other fs.ins_other by (fastforce simp: cache_insert_cases)
next
  case (6 c k now)
  then show ?case by (cases c) (auto simp: mem.get_result fs.get_result)
next
  case (7 c now k)
  then show ?case by (cases c) (auto simp: mem.get_inv fs.get_inv)
next
  case (8 c k j now)
  then show ?case by (cases c) (auto simp: mem.get_view fs.get_view)
next
  case (9 c k)
  then show ?case by (cases c) (auto simp: mem.del_inv fs.del_inv)
next
  case (10 c k j)
  then show ?case by (cases c) (auto simp: delete_conv' fs.del_view)
next
  case (11 now k c j)
  then show ?case by (cases c) (auto simp: fs_ok_def)
next
  case (12 k c j)
  then show ?case by (cases c) (auto simp: fs_ok_def)
next
  case (13 c it c')
  then show ?case
    using fs.ins_sound [of "case c of FileSystem m \<Rightarrow> m" it] mem.ins_sound [of "case c of InMemory m \<Rightarrow> m" it]
    by (cases c; cases "FileSystemCache_insert (case c of FileSystem m \<Rightarrow> m) it") auto
qed

lemma cache_get_value_item:
  "cache_get_value now k c = (map_option ci_value (fst (cache_get_item now k c)), snd (cache_get_item now k c))"
  by (cases c)
    (auto simp: InMemoryCache_get_value_def FileSystemCache_get_value_def split: prod.splits)

lemma CacheManager_init_inv:
  "CacheManager_init get_env fs = Inr c \<Longrightarrow> dict_wf (fs_files fs) \<Longrightarrow> cache_inv c"
  by (auto simp: CacheManager_init_def InMemoryCache_init_def mem_inv_def Let_def
      map_sum_def FileSystemCache_init_inv split: if_splits option.splits sum.splits)

subsection \<open>Properties\<close>

text \<open>The calls a client can make on an in-memory cache, and their effect.\<close>

datatype 'v cache_op = Op_insert "'v cache_item" | Op_get real string | Op_delete string

fun mem_step :: "'v in_memory_cache \<Rightarrow> 'v cache_op \<Rightarrow> 'v in_memory_cache" where
  "mem_step c (Op_insert it) = InMemoryCache_insert c it"
| "mem_step c (Op_get now k) = snd (InMemoryCache_get_value now k c)"
| "mem_step c (Op_delete k) = InMemoryCache_delete k c"

lemma mem_step_inv: "mem_inv c \<Longrightarrow> mem_inv (mem_step c op)"
  using mem.get_inv [of c]
  by (cases op)
    (auto simp: InMemoryCache_insert_inv mem.del_inv InMemoryCache_get_value_def case_prod_beta)

lemma mem_step_max: "max_items (mem_step c op) = max_items c"
  by (cases op)
    (auto simp: InMemoryCache_insert_sel InMemoryCache_get_value_def InMemoryCache_get_item_def
      split: prod.splits option.splits if_splits)

lemma mem_run_inv:
  "mem_inv c \<Longrightarrow> mem_inv (foldl mem_step c ops) \<and> max_items (foldl mem_step c ops) = max_items c"
  by (induction ops arbitrary: c) (simp_all add: mem_step_inv mem_step_max)

text \<open>
  (C25) Whatever sequence of insertions, reads and deletions is made, the in-memory cache holds
  fewer than 100 items and never two items under one key.
\<close>

theorem in_memory_cache_bounded:
  "length (items (foldl mem_step InMemoryCache_init ops)) < 100 \<and>
   distinct (keys (items (foldl mem_step InMemoryCache_init ops)))"
proof -
  have "mem_inv (InMemoryCache_init :: 'a in_memory_cache)"
    by (simp add: mem_inv_def InMemoryCache_init_def)
  from mem_run_inv [OF this, of ops] show ?thesis
    by (auto simp: mem_inv_def dict_wf_def keys_def InMemoryCache_init_def)
qed

text \<open>
  An insertion that fills the in-memory cache removes a tenth of the entries, and what it
  removes is at least as old as everything it keeps.
\<close>

theorem in_memory_evicts_oldest:
  assumes "mem_inv c" and "map_of (items c) (ci_key it) = None"
    and full: "Suc (length (items c)) = max_items c"
  shows "length (items (InMemoryCache_insert c it)) = max_items c - max_items c div 10 \<and>
    (\<forall>(k, x) \<in> set (AList.update (ci_key it) it (items c)).
       k \<notin> set (keys (items (InMemoryCache_insert c it))) \<longrightarrow>
       (\<forall>(j, y) \<in> set (items (InMemoryCache_insert c it)). ci_created_at x \<le> ci_created_at y))"
proof -
  let ?d = "AList.update (ci_key it) it (items c)"
  let ?n = "max_items c div 10"
  let ?s = "sort_key (\<lambda>x. ci_created_at (snd x)) ?d"
  have len: "length ?d = max_items c" using assms(2) full by (simp add: length_update_new)
  have wf: "dict_wf ?d" using assms(1) by (simp add: mem_inv_def)
  have items: "items (InMemoryCache_insert c it) = filter (\<lambda>p. fst p \<notin> fst ` set (take ?n ?s)) ?d"
    using len by (simp add: InMemoryCache_insert_sel mem_evicted_def)
  have "ci_created_at x \<le> ci_created_at y"
    if "(k, x) \<in> set ?d" "k \<notin> set (keys (items (InMemoryCache_insert c it)))"
      "(j, y) \<in> set (items (InMemoryCache_insert c it))" for k x j y
  proof (rule evicted_older [OF wf])
    show "(k, x) \<in> set ?d" by (rule that(1))
    show "k \<in> fst ` set (take ?n ?s)" using that(1,2) by (force simp: items keys_def image_iff)
    show "(j, y) \<in> set ?d" "j \<notin> fst ` set (take ?n ?s)" using that(3) by (auto simp: items)
  qed
  moreover have "length (items (InMemoryCache_insert c it)) = max_items c - ?n"
    using length_evict [OF wf] len by (simp add: items)
  ultimately show ?thesis by blast
qed

definition ten_slots :: "nat in_memory_cache" where
  "ten_slots =
     \<lparr>items = map (\<lambda>i. ([char_of (97 + i)], CacheItem (real i) [char_of (97 + i)] i None)) [0..<9],
      max_items = 10\<rparr>"

lemma ten_slots_eval:
  "mem_inv ten_slots" "map_of (items ten_slots) ''z'' = None"
  "Suc (length (items ten_slots)) = max_items ten_slots"
  by (simp_all add: ten_slots_def mem_inv_def dict_wf_def upt_rec char_of_def)

theorem in_memory_evicts_oldest_witness:
  "length (items (InMemoryCache_insert ten_slots (CacheItem 20 ''z'' 42 None))) = 9"
  using in_memory_evicts_oldest [OF ten_slots_eval(1), of "CacheItem 20 ''z'' 42 None"]
    ten_slots_eval by (simp add: ten_slots_def)

text \<open>
  (C26) What the session layer stores it gets back: after an insertion into either kind of cache,
  under a key the cache can hold, and by an item newer than the stored ones, a read before the
  item expires returns the stored value, and a read after it expired returns nothing.
\<close>

theorem cache_roundtrip:
  assumes "cache_inv c" and "cache_ok c k" and "cache_fresh c (CacheItem now k v ttl)"
    and "cache_insert c (CacheItem now k v ttl) = Inr c'"
  shows "fst (cache_get_value later k c') =
     (case ttl of
        None \<Rightarrow> Some v
      | Some t \<Rightarrow> if t = - 1 \<or> later \<le> now + t then Some v else None)"
proof -
  let ?it = "CacheItem now k v ttl"
  have inv': "cache_inv c'" using assms cm.ins_inv [of c ?it c'] by simp
  have ok': "cache_ok c' k" using assms cm.ins_keys [of c ?it c'] by simp
  have "cache_view c' k = Some ?it" using assms cm.ins_same [of c ?it c'] by simp
  then show ?thesis
    using inv' ok' cm.get_result [of c' k later]
    by (auto simp: cache_get_value_item is_expired_def not_less split: option.splits)
qed

theorem cache_roundtrip_witness:
  "fst (cache_get_value 5 ''u_working_memory''
     (InMemory (InMemoryCache_insert InMemoryCache_init
        (CacheItem 2 ''u_working_memory'' (7::nat) (Some 10))))) = Some 7"
  using cache_roundtrip [of "InMemory InMemoryCache_init" "''u_working_memory''" 2 "7::nat" "Some 10"
      "InMemory (InMemoryCache_insert InMemoryCache_init
        (CacheItem 2 ''u_working_memory'' (7::nat) (Some 10)))" 5]
  by (simp add: mem_inv_def mem_fresh_def InMemoryCache_init_def)

text \<open>
  Storing under one key cannot make the cache return a different value for another key: what
  is read there afterwards was already there before (entries of others can only disappear).
\<close>

theorem cache_isolation:
  assumes "cache_inv c" and "cache_ok c (ci_key it)" and "cache_ok c k" and "k \<noteq> ci_key it"
    and "cache_insert c it = Inr c'" and "fst (cache_get_value now k c') = Some v"
  shows "fst (cache_get_value now k c) = Some v"
  using assms cm.insert_isolated [of c it k c' now] by (auto simp: cache_get_value_item)

theorem cache_isolation_witness:
  "fst (cache_get_value 3 ''a'' (InMemory (InMemoryCache_insert InMemoryCache_init
      (CacheItem 1 ''a'' (7::nat) None)))) = Some 7"
  using cache_isolation
    [of "InMemory (InMemoryCache_insert InMemoryCache_init (CacheItem 1 ''a'' (7::nat) None))"
      "CacheItem 2 ''b'' 8 None" "''a''"
      "InMemory (InMemoryCache_insert (InMemoryCache_insert InMemoryCache_init
         (CacheItem 1 ''a'' (7::nat) None)) (CacheItem 2 ''b'' 8 None))" 3 7]
  by (simp add: mem_inv_def InMemoryCache_init_def InMemoryCache_insert_def Let_def
      InMemoryCache_get_value_def InMemoryCache_get_item_def dict_wf_def)

end
