(* ===== verification/Utils.thy ===== *)
theory Utils
  imports Env
begin

text \<open>
  \<open>core/cat/utils.py\<close>: text helpers, paths and urls, the cleaning of a language model's JSON, the
  matching of prompt variables with a template, and the \<open>singleton\<close> decorator. The JSON parser and
  the template parser of langchain are parameters. The functions that only log or inspect the
  Python stack are in the theory Logging.
\<close>

definition to_camel_case :: "string \<Rightarrow> string result" where
  "to_camel_case txt =
     (let s = split_ws (capitalize (replace_all ''_'' '' '' (replace_all ''-'' '' '' txt)))
      in if txt = [] then Inr txt
         else case s of
                [] \<Rightarrow> Inl (Exn ''IndexError'' ''list index out of range'')
              | w # ws \<Rightarrow> Inr (w @ join [] (map capitalize ws)))"

text \<open>A \<open>timedelta\<close> is normalised: any number of days and \<open>0 \<le> seconds < 86400\<close>.\<close>

record timedelta =
  td_days :: int
  td_seconds :: int

definition verbal_timedelta :: "timedelta \<Rightarrow> string" where
  "verbal_timedelta td =
     (let abs_delta =
        (if td_days td \<noteq> 0 then
           (if \<bar>td_days td\<bar> > 7 then str_int (td_days td div 7) @ '' weeks''
            else str_int (td_days td) @ '' days'')
         else
           (let abs_minutes = \<bar>td_seconds td\<bar> div 60 in
            if abs_minutes > 60 then str_int (abs_minutes div 60) @ '' hours''
            else str_int abs_minutes @ '' minutes''))
      in abs_delta @ '' ago'')"

definition get_base_url :: "(string, string) dict \<Rightarrow> string" where
  "get_base_url environ =
     (let secure = (if get_env environ ''CCAT_CORE_USE_SECURE_PROTOCOLS'' \<in> {Some ''true'', Some ''1''}
                    then ''s'' else [])
      in ''http'' @ secure @ ''://'' @ the (get_env environ ''CCAT_CORE_HOST'') @ '':'' @
         the (get_env environ ''CCAT_CORE_PORT'') @ ''/'')"

text \<open>The parser of URLs gives scheme, location and path, or raises.\<close>

definition is_https :: "(string \<Rightarrow> (string \<times> string \<times> string) result) \<Rightarrow> string \<Rightarrow> bool" where
  "is_https urlparse url = (case urlparse url of Inr (scheme, netloc, path) \<Rightarrow> scheme = ''https'' | Inl e \<Rightarrow> False)"

definition extract_domain_from_url :: "(string \<Rightarrow> (string \<times> string \<times> string) result) \<Rightarrow> string \<Rightarrow> string" where
  "extract_domain_from_url urlparse url = (case urlparse url of Inr (scheme, netloc, path) \<Rightarrow> netloc @ path | Inl e \<Rightarrow> url)"

definition get_base_path :: string where
  "get_base_path = ''cat/''"

definition get_plugins_path :: string where
  "get_plugins_path = get_base_path @ ''plugins/''"

definition get_static_url :: "(string, string) dict \<Rightarrow> string" where
  "get_static_url environ = get_base_url environ @ ''static/''"

definition get_static_path :: string where
  "get_static_path = get_base_path @ ''static/''"

definition billing_message :: string where
  "billing_message =
     ''Your OpenAI key is not active or you did not add a payment method.'' @ newline @
     ''You need a credit card - and money in it - to use OpenAI api.'' @ newline @
     ''HOW TO FIX: go to your OpenAI accont and add a credit card''"

definition explicit_error_message :: "string \<Rightarrow> string" where
  "explicit_error_message e = (if contains ''billing details'' e then billing_message else e)"

subsection \<open>JSON answers of the language model\<close>

definition json_replaces :: "(string \<times> string) list" where
  "json_replaces =
     [(backslash @ ''_'', ''_''), (backslash @ ''-'', ''-''), (''None'', ''null''),
      (''{{'', ''{''), (''}}'', ''}'')]"

definition clean_json :: "string \<Rightarrow> string" where
  "clean_json s = foldl (\<lambda>s (k, v). replace_all k v s) s json_replaces"

text \<open>\<open>parse\<close> is the langchain parser, \<open>build\<close> the pydantic model that may be asked for.\<close>

definition parse_json ::
  "(string \<Rightarrow> json result) \<Rightarrow> (json \<Rightarrow> json result) option \<Rightarrow> string \<Rightarrow> json result" where
  "parse_json parse pydantic_model json_string =
     (let s = clean_json json_string in
      case find_sub ''{'' s of
        None \<Rightarrow> Inl (Exn ''ValueError'' ''substring not found'')
      | Some start_index \<Rightarrow>
          bindR (parse (drop start_index s)) (\<lambda>parsed.
            case pydantic_model of None \<Rightarrow> Inr parsed | Some build \<Rightarrow> build parsed))"

subsection \<open>Prompt variables\<close>

text \<open>
  \<open>input_variables\<close> lists the placeholders langchain finds in the template. The mismatches are a
  Python set, so the order in which the loop takes them is not fixed: \<open>order\<close> is any enumeration
  of the set, given as a function of one listing of it.
\<close>

definition prompt_mismatches :: "(string, 'v) dict \<Rightarrow> string list \<Rightarrow> string list" where
  "prompt_mismatches prompt_variables input_variables =
     filter (\<lambda>k. k \<notin> set input_variables) (keys prompt_variables) @
     filter (\<lambda>k. k \<notin> set (keys prompt_variables)) (remdups input_variables)"

definition match_step ::
  "string list \<Rightarrow> (string, 'v) dict \<times> string \<Rightarrow> string \<Rightarrow> (string, 'v) dict \<times> string" where
  "match_step input_variables st m =
     (let (vs, template) = st;
          vs' = (if m \<in> set (keys vs) then AList.delete m vs else vs);
          template' = (if m \<in> set input_variables then replace_all (''{'' @ m @ ''}'') [] template else template)
      in (vs', template'))"

definition match_prompt_variables ::
  "(string list \<Rightarrow> string list) \<Rightarrow> (string \<Rightarrow> string list) \<Rightarrow> (string, 'v) dict \<Rightarrow> string \<Rightarrow>
   (string, 'v) dict \<times> string" where
  "match_prompt_variables order template_vars prompt_variables prompt_template =
     (let input_variables = template_vars prompt_template
      in foldl (match_step input_variables) (prompt_variables, prompt_template)
           (order (prompt_mismatches prompt_variables input_variables)))"

lemma fst_match_fold:
  "fst (foldl (match_step iv) (vs, t) ms) = filter (\<lambda>p. fst p \<notin> set ms) vs"
proof (induction ms arbitrary: vs t)
  case (Cons m ms)
  have "fst (match_step iv (vs, t) m) = filter (\<lambda>p. fst p \<noteq> m) vs"
    by (auto simp: match_step_def Let_def delete_filter keys_def intro!: filter_True [symmetric])
  then obtain t' where step: "match_step iv (vs, t) m = (filter (\<lambda>p. fst p \<noteq> m) vs, t')"
    by (metis prod.collapse)
  have "filter (\<lambda>p. fst p \<notin> set ms) (filter (\<lambda>p. fst p \<noteq> m) vs) = filter (\<lambda>p. fst p \<notin> set (m # ms)) vs"
    by (auto intro: filter_cong)
  with Cons step show ?case by simp
qed simp

text \<open>The variables that survive are those of the template, in their order, whatever the order
  of the set.\<close>

lemma match_prompt_variables_kept:
  assumes "\<And>xs. set (order xs) = set xs"
  shows "fst (match_prompt_variables order tv vars template) = filter (\<lambda>p. fst p \<in> set (tv template)) vars"
  by (auto simp: match_prompt_variables_def Let_def fst_match_fold assms prompt_mismatches_def keys_def
      intro!: filter_cong)

lemma match_prompt_variables_id:
  assumes "\<And>xs. set (order xs) = set xs" "set (keys vars) = set (tv template)"
  shows "match_prompt_variables order tv vars template = (vars, template)"
proof -
  have "prompt_mismatches vars (tv template) = []"
    using assms(2) by (auto simp: prompt_mismatches_def)
  moreover have "order [] = []" using assms(1) [of "[]"] by simp
  ultimately show ?thesis by (simp add: match_prompt_variables_def Let_def)
qed

subsection \<open>The singleton decorator\<close>

definition getinstance :: "'c \<Rightarrow> 'i \<Rightarrow> ('c, 'i) dict \<Rightarrow> 'i \<times> ('c, 'i) dict" where
  "getinstance cls fresh instances =
     (case map_of instances cls of
        Some i \<Rightarrow> (i, instances)
      | None \<Rightarrow> (fresh, AList.update cls fresh instances))"

lemma getinstance_once:
  "getinstance c fresh is = (i, is') \<Longrightarrow> getinstance c fresh' is' = (i, is')"
  by (auto simp: getinstance_def update_conv' split: option.splits)

subsection \<open>Properties of the helpers\<close>

lemma replace_char_map: "replace_all [c] [d] s = map (\<lambda>x. if x = c then d else x) s"
  by (induction s) auto

lemma is_space_code: "is_space c \<longleftrightarrow> (of_char c :: nat) \<in> {32, 9, 10, 11, 12, 13}"
  unfolding is_space_def of_char_eq_iff [symmetric, where 'a = nat] by simp

lemma is_space_upper [simp]: "is_space (upper_char c) \<longleftrightarrow> is_space c"
  by (auto simp: is_space_code upper_char_def Let_def)

lemma is_space_lower [simp]: "is_space (lower_char c) \<longleftrightarrow> is_space c"
  by (auto simp: is_space_code lower_char_def Let_def)

lemma spaces_capitalize: "(\<forall>c \<in> set (capitalize s). is_space c) \<longleftrightarrow> (\<forall>c \<in> set s. is_space c)"
  by (cases s) (auto simp: lower_def)

text \<open>The conversion fails exactly on a text of separators and blanks only, a case its
  description does not mention.\<close>

lemma to_camel_case_fails_iff:
  "(\<exists>e. to_camel_case txt = Inl e) \<longleftrightarrow>
     txt \<noteq> [] \<and> (\<forall>c \<in> set txt. c = CHR ''-'' \<or> c = CHR ''_'' \<or> is_space c)"
proof -
  let ?dash = "\<lambda>x. if x = CHR ''-'' then CHR '' '' else x"
  let ?under = "\<lambda>x. if x = CHR ''_'' then CHR '' '' else x"
  have "is_space CHR '' ''" by (simp add: is_space_def)
  then have "is_space (?under (?dash x)) \<longleftrightarrow> x = CHR ''-'' \<or> x = CHR ''_'' \<or> is_space x" for x
    by simp
  then have "split_ws (capitalize (replace_all ''_'' '' '' (replace_all ''-'' '' '' txt))) = [] \<longleftrightarrow>
      (\<forall>c \<in> set txt. c = CHR ''-'' \<or> c = CHR ''_'' \<or> is_space c)"
    unfolding split_ws_Nil_iff spaces_capitalize replace_char_map set_map ball_simps by simp
  then show ?thesis
    by (cases "split_ws (capitalize (replace_all ''_'' '' '' (replace_all ''-'' '' '' txt)))")
      (simp_all add: to_camel_case_def Let_def)
qed

end
