(* ===== verification/Plugins.thy ===== *)
theory Plugins
  imports Utils Settings_Store
begin

text \<open>
  A plugin in memory: \<open>core/cat/mad_hatter/plugin.py\<close> and the decorators of
  \<open>core/cat/mad_hatter/decorators/\<close>.

  What a plugin brings along is code that is not part of the repository, so it is a value of the
  model: a hook is a function on the tea cup and the other arguments that runs on the state \<open>'c\<close> of
  the cat, may raise and may return None; a tool is a function on its input; the \<open>@plugin\<close>
  overrides run on the state \<open>'w\<close> the plugin itself keeps. Importing a module, pip, the requirement
  parser and the answer of FastAPI's router are fields of the \<open>host\<close>.

  The \<open>machine\<close> is the part of the process the plugin class changes: the plugin folders on disk (of a
  folder the files the code reads and writes), \<open>sys.modules\<close>, the routes of the FastAPI app, the
  endpoint objects that were bound to the app (the code shares these objects between the plugin and
  the MadHatter, so they are told apart by an identity), and the plugins' own state.
\<close>

subsection \<open>Decorators\<close>

record 'b pyfun =
  fn_name :: string
  fn_doc :: "string option"
  fn_signature :: string
  fn_body :: 'b

datatype 'b decorator_arg = ArgName string | ArgFun "'b pyfun"

type_synonym ('c, 'v) hook_body = "'v list \<Rightarrow> ('c, 'v option) comp"

record ('c, 'v) cat_hook =
  hk_function :: "('c, 'v) hook_body"
  hk_name :: string
  hk_priority :: int
  hk_plugin_id :: string

definition CatHook :: "string \<Rightarrow> ('c, 'v) hook_body \<Rightarrow> int \<Rightarrow> ('c, 'v) cat_hook" where
  "CatHook nm f prio = \<lparr>hk_function = f, hk_name = nm, hk_priority = prio, hk_plugin_id = []\<rparr>"

text \<open>\<open>@hook\<close> applied to the function \<open>func\<close> below it.\<close>

definition hook ::
  "('c, 'v) hook_body decorator_arg list \<Rightarrow> int \<Rightarrow> ('c, 'v) hook_body pyfun \<Rightarrow> ('c, 'v) cat_hook result" where
  "hook args prio func =
     (case args of
        [ArgName n] \<Rightarrow> Inr (CatHook n (fn_body func) prio)
      | [ArgFun g] \<Rightarrow> Inr (CatHook (fn_name g) (fn_body g) prio)
      | [] \<Rightarrow> Inr (CatHook (fn_name func) (fn_body func) prio)
      | _ \<Rightarrow> Inl (Exn ''ValueError'' ''Too many arguments for hook decorator''))"

type_synonym 'c tool_body = "pyval \<Rightarrow> ('c, string) comp"

record 'c cat_tool =
  tl_func :: "'c tool_body"
  tl_name :: string
  tl_description :: string
  tl_return_direct :: bool
  tl_triggers_map :: "(string \<times> string list) list"
  tl_signature :: string
  tl_plugin_id :: string

definition CatTool :: "string \<Rightarrow> 'c tool_body pyfun \<Rightarrow> bool \<Rightarrow> string list \<Rightarrow> 'c cat_tool result" where
  "CatTool nm func return_direct examples =
     (case fn_doc func of
        None \<Rightarrow> Inl (Exn ''AttributeError'' ''strip'')
      | Some doc \<Rightarrow>
          Inr \<lparr>tl_func = fn_body func, tl_name = nm, tl_description = strip doc,
               tl_return_direct = return_direct,
               tl_triggers_map = [(''description'', [nm @ '': '' @ strip doc]), (''start_example'', examples)],
               tl_signature = replace_all '', cat)'' '')'' (fn_signature func), tl_plugin_id = []\<rparr>)"

definition make_tool :: "string \<Rightarrow> 'c tool_body pyfun \<Rightarrow> bool \<Rightarrow> string list \<Rightarrow> 'c cat_tool result" where
  "make_tool nm func return_direct examples =
     (if \<not> str_truthy (fn_doc func) then Inl (Exn ''AssertionError'' ''Function must have a docstring'')
      else CatTool nm func return_direct examples)"

definition tool ::
  "'c tool_body decorator_arg list \<Rightarrow> bool \<Rightarrow> string list \<Rightarrow> 'c tool_body pyfun \<Rightarrow> 'c cat_tool result" where
  "tool args return_direct examples func =
     (case args of
        [ArgName n] \<Rightarrow> make_tool n func return_direct examples
      | [ArgFun g] \<Rightarrow> make_tool (fn_name g) g return_direct examples
      | [] \<Rightarrow> make_tool (fn_name func) func return_direct examples
      | _ \<Rightarrow> Inl (Exn ''ValueError'' ''Too many arguments for tool decorator''))"

definition start_examples :: "'c cat_tool \<Rightarrow> string list" where
  "start_examples t = (case map_of (tl_triggers_map t) ''start_example'' of Some xs \<Rightarrow> xs | None \<Rightarrow> [])"

definition tool_run :: "'c cat_tool \<Rightarrow> pyval \<Rightarrow> ('c, string) comp" where
  "tool_run t input_by_llm = tl_func t input_by_llm"

subsection \<open>Custom endpoints\<close>

record api_route =
  rt_path :: string
  rt_methods :: "string set"
  rt_owner :: string

record custom_endpoint =
  ep_identity :: nat
  ep_prefix :: string
  ep_path :: string
  ep_function :: string
  ep_methods :: "string set"
  ep_tags :: "string list"
  ep_plugin_id :: string

definition ep_name :: "custom_endpoint \<Rightarrow> string" where
  "ep_name e = ep_prefix e @ ep_path e"

definition default_prefix :: string where
  "default_prefix = ''/custom''"

definition default_tags :: "string list" where
  "default_tags = [''Custom Endpoints'']"

definition make_endpoint :: "string \<Rightarrow> string set \<Rightarrow> string \<Rightarrow> string list \<Rightarrow> nat \<Rightarrow> string \<Rightarrow> custom_endpoint" where
  "make_endpoint path methods pfx tags ident f =
     \<lparr>ep_identity = ident, ep_prefix = pfx, ep_path = path, ep_function = f, ep_methods = methods,
      ep_tags = tags, ep_plugin_id = []\<rparr>"

definition endpoint_get :: "string \<Rightarrow> string \<Rightarrow> string list \<Rightarrow> nat \<Rightarrow> string \<Rightarrow> custom_endpoint" where
  "endpoint_get path pfx tags = make_endpoint path {''GET''} pfx tags"

definition endpoint_post :: "string \<Rightarrow> string \<Rightarrow> string list \<Rightarrow> nat \<Rightarrow> string \<Rightarrow> custom_endpoint" where
  "endpoint_post path pfx tags = make_endpoint path {''POST''} pfx tags"

definition endpoint_put :: "string \<Rightarrow> string \<Rightarrow> string list \<Rightarrow> nat \<Rightarrow> string \<Rightarrow> custom_endpoint" where
  "endpoint_put path pfx tags = make_endpoint path {''PUT''} pfx tags"

definition endpoint_delete :: "string \<Rightarrow> string \<Rightarrow> string list \<Rightarrow> nat \<Rightarrow> string \<Rightarrow> custom_endpoint" where
  "endpoint_delete path pfx tags = make_endpoint path {''DELETE''} pfx tags"

subsection \<open>Overrides, modules and forms\<close>

text \<open>A settings model: its JSON schema and its default instance, absent when a field is required.\<close>

record settings_model =
  sm_schema :: json
  sm_defaults :: "json option"

definition PluginSettingsModel :: settings_model where
  "PluginSettingsModel =
     \<lparr>sm_schema = [(''properties'', PDict []), (''title'', PStr ''PluginSettingsModel''), (''type'', PStr ''object'')],
      sm_defaults = Some []\<rparr>"

datatype 'w override =
  Activated "('w, unit) comp"
| Deactivated "('w, unit) comp"
| SettingsSchema "('w, json) comp"
| SettingsModel "('w, settings_model) comp"
| LoadSettings "('w, pyval) comp"
| SaveSettings "json \<Rightarrow> ('w, json) comp"
| OtherOverride string

fun override_name :: "'w override \<Rightarrow> string" where
  "override_name (Activated f) = ''activated''"
| "override_name (Deactivated f) = ''deactivated''"
| "override_name (SettingsSchema f) = ''settings_schema''"
| "override_name (SettingsModel f) = ''settings_model''"
| "override_name (LoadSettings f) = ''load_settings''"
| "override_name (SaveSettings f) = ''save_settings''"
| "override_name (OtherOverride n) = n"

record 'f form_class =
  fc_name :: string
  fc_description :: string
  fc_start_examples :: "string list"
  fc_stop_examples :: "string list"
  fc_body :: 'f
  fc_plugin_id :: string

text \<open>What \<open>getmembers\<close> finds in an imported module, by kind.\<close>

record ('w, 'c, 'v, 'f) modul =
  md_hooks :: "('c, 'v) cat_hook list"
  md_tools :: "'c cat_tool list"
  md_forms :: "'f form_class list"
  md_endpoints :: "custom_endpoint list"
  md_overrides :: "'w override list"

record ('w, 'c, 'v, 'f) host =
  ho_import :: "string \<Rightarrow> ('w, 'c, 'v, 'f) modul result"
  ho_requirement :: "string \<Rightarrow> string result"
  ho_installed :: "string list"
  ho_pip_install :: "string list \<Rightarrow> bool"
  ho_pip_uninstall :: "string list \<Rightarrow> bool"
  ho_include_router :: "custom_endpoint \<Rightarrow> bool"
  ho_can_write :: "string \<Rightarrow> bool"
  ho_list_set :: "string list \<Rightarrow> string list"

text \<open>A file is absent, or it cannot be parsed, or it holds a JSON value.\<close>

record folder =
  fd_py_files :: "string list"
  fd_manifest :: "pyval result option"
  fd_settings :: "pyval result option"
  fd_requirements :: "string list option"

record 'w machine =
  mc_disk :: "(string, folder) dict"
  mc_modules :: "string set"
  mc_routes :: "api_route list"
  mc_bound :: "nat set"
  mc_own :: 'w

record ('w, 'c, 'v, 'f) plugin =
  pl_path :: string
  pl_py_files :: "string list"
  pl_id :: string
  pl_manifest :: json
  pl_hooks :: "('c, 'v) cat_hook list"
  pl_tools :: "'c cat_tool list"
  pl_forms :: "'f form_class list"
  pl_endpoints :: "custom_endpoint list"
  pl_overrides :: "(string, 'w override) dict"
  pl_active :: bool

type_synonym ('w, 'c, 'v, 'f, 'a) plugin_comp = "(('w, 'c, 'v, 'f) plugin \<times> 'w machine, 'a) comp"

subsection \<open>Endpoint activation\<close>

definition upper :: "string \<Rightarrow> string" where
  "upper s = map upper_char s"

definition route_matches :: "custom_endpoint \<Rightarrow> api_route \<Rightarrow> bool" where
  "route_matches e r \<longleftrightarrow> rt_path r = ep_name e \<and> rt_methods r = ep_methods e"

definition CustomEndpoint_activate ::
  "('w, 'c, 'v, 'f) host \<Rightarrow> custom_endpoint \<Rightarrow> 'w machine \<Rightarrow> 'w machine" where
  "CustomEndpoint_activate H e mc =
     (let mc1 = mc\<lparr>mc_bound := insert (ep_identity e) (mc_bound mc)\<rparr> in
      if \<exists>r \<in> set (mc_routes mc). route_matches e r then mc1
      else if \<not> ho_include_router H e then mc1
      else mc1\<lparr>mc_routes := mc_routes mc @
             [\<lparr>rt_path = ep_name e, rt_methods = upper ` ep_methods e, rt_owner = ep_function e\<rparr>]\<rparr>)"

fun remove_first :: "('a \<Rightarrow> bool) \<Rightarrow> 'a list \<Rightarrow> 'a list" where
  "remove_first P [] = []"
| "remove_first P (x # xs) = (if P x then xs else x # remove_first P xs)"

definition CustomEndpoint_deactivate :: "custom_endpoint \<Rightarrow> 'w machine \<Rightarrow> 'w machine" where
  "CustomEndpoint_deactivate e mc =
     (if ep_identity e \<in> mc_bound mc then mc\<lparr>mc_routes := remove_first (route_matches e) (mc_routes mc)\<rparr>
      else mc)"

subsection \<open>The Plugin class\<close>

text \<open>\<open>os.path.basename(os.path.normpath(path))\<close>\<close>

definition folder_name :: "string \<Rightarrow> string" where
  "folder_name path =
     (case filter (\<lambda>c. c \<noteq> [] \<and> c \<noteq> ''.'') (split_char CHR ''/'' path) of [] \<Rightarrow> ''.'' | cs \<Rightarrow> last cs)"

text \<open>A folder is the same with or without slashes at the end of its path.\<close>

definition norm_path :: "string \<Rightarrow> string" where
  "norm_path path = rev (dropWhile (\<lambda>c. c = CHR ''/'') (rev path))"

definition manifest_field :: "json \<Rightarrow> string \<Rightarrow> string \<Rightarrow> string \<times> pyval" where
  "manifest_field data k default_value =
     (k, case map_of data k of Some v \<Rightarrow> v | None \<Rightarrow> PStr default_value)"

definition load_manifest :: "string \<Rightarrow> folder \<Rightarrow> json result" where
  "load_manifest plugin_id fd =
     bindR (case fd_manifest fd of
              None \<Rightarrow> Inr []
            | Some (Inl e) \<Rightarrow> Inr []
            | Some (Inr v) \<Rightarrow> (case v of PDict d \<Rightarrow> Inr d | _ \<Rightarrow> Inl (Exn ''AttributeError'' ''get''))) (\<lambda>data.
     bindR (to_camel_case plugin_id) (\<lambda>camel.
       Inr [(''id'', PStr plugin_id), manifest_field data ''name'' camel,
            manifest_field data ''description''
              (''Description not found for this plugin. Please create a '' @ backquote @ ''plugin.json'' @
               backquote @ '' in the plugin folder.''),
            manifest_field data ''author_name'' ''Unknown author'', manifest_field data ''author_url'' [],
            manifest_field data ''plugin_url'' [], manifest_field data ''tags'' ''unknown'',
            manifest_field data ''thumb'' [], manifest_field data ''version'' ''0.0.1'',
            manifest_field data ''min_cat_version'' [], manifest_field data ''max_cat_version'' []]))"

definition Plugin_init :: "string \<Rightarrow> 'w machine \<Rightarrow> ('w, 'c, 'v, 'f) plugin result" where
  "Plugin_init path mc =
     (case map_of (mc_disk mc) (norm_path path) of
        None \<Rightarrow> Inl (Exn ''Exception'' (path @ '' does not exist or is not a folder. Cannot create Plugin.''))
      | Some fd \<Rightarrow>
          if fd_py_files fd = []
          then Inl (Exn ''Exception'' (path @ '' does not contain any python files. Cannot create Plugin.''))
          else bindR (load_manifest (folder_name path) fd) (\<lambda>manifest.
            Inr \<lparr>pl_path = path, pl_py_files = fd_py_files fd, pl_id = folder_name path,
                 pl_manifest = manifest, pl_hooks = [], pl_tools = [], pl_forms = [], pl_endpoints = [],
                 pl_overrides = [], pl_active = False\<rparr>))"

text \<open>An override runs on the plugins' own state.\<close>

definition on_own :: "('w, 'a) comp \<Rightarrow> ('w, 'c, 'v, 'f, 'a) plugin_comp" where
  "on_own f = (\<lambda>(p, mc). case f (mc_own mc) of (r, w) \<Rightarrow> (r, (p, mc\<lparr>mc_own := w\<rparr>)))"

definition plugin_folder :: "('w, 'c, 'v, 'f) plugin \<times> 'w machine \<Rightarrow> folder option" where
  "plugin_folder s = map_of (mc_disk (snd s)) (norm_path (pl_path (fst s)))"

fun unmet_requirements :: "(string \<Rightarrow> string result) \<Rightarrow> string list \<Rightarrow> string list \<Rightarrow> string list" where
  "unmet_requirements req_name installed [] = []"
| "unmet_requirements req_name installed (r # rs) =
     (case req_name r of
        Inl _ \<Rightarrow> []
      | Inr nm \<Rightarrow> (if nm \<in> set installed then [] else [r]) @ unmet_requirements req_name installed rs)"

definition install_requirements :: "('w, 'c, 'v, 'f) host \<Rightarrow> ('w, 'c, 'v, 'f, unit) plugin_comp" where
  "install_requirements H =
     bindM (getM (\<lambda>s. (plugin_folder s, pl_id (fst s)))) (\<lambda>(fd, i).
       case Option.bind fd fd_requirements of
         None \<Rightarrow> retM ()
       | Some requirements \<Rightarrow>
           let filtered = unmet_requirements (ho_requirement H) (ho_installed H) requirements in
           if filtered = [] then retM ()
           else if ho_pip_install H filtered then retM ()
           else if \<not> ho_pip_uninstall H filtered then raiseM (Exn ''CalledProcessError'' ''pip uninstall'')
           else raiseM (Exn ''Exception'' (''Error during plugin '' @ i @ '' requirements installation'')))"

definition load_module_name :: "string \<Rightarrow> string" where
  "load_module_name py_file = replace_all ''/'' ''.'' (replace_all ''.py'' [] py_file)"

definition unload_module_name :: "string \<Rightarrow> string" where
  "unload_module_name py_file = replace_all ''.py'' [] (replace_all ''/'' ''.'' py_file)"

definition empty_module :: "('w, 'c, 'v, 'f) modul" where
  "empty_module = \<lparr>md_hooks = [], md_tools = [], md_forms = [], md_endpoints = [], md_overrides = []\<rparr>"

definition join_modules :: "('w, 'c, 'v, 'f) modul \<Rightarrow> ('w, 'c, 'v, 'f) modul \<Rightarrow> ('w, 'c, 'v, 'f) modul" where
  "join_modules a b =
     \<lparr>md_hooks = md_hooks a @ md_hooks b, md_tools = md_tools a @ md_tools b,
      md_forms = md_forms a @ md_forms b, md_endpoints = md_endpoints a @ md_endpoints b,
      md_overrides = md_overrides a @ md_overrides b\<rparr>"

text \<open>The loop over the files: a module that cannot be imported is left out and the loop goes on.\<close>

fun import_files ::
  "('w, 'c, 'v, 'f) host \<Rightarrow> string list \<Rightarrow> string set \<Rightarrow> ('w, 'c, 'v, 'f) modul \<times> string set" where
  "import_files H [] mods = (empty_module, mods)"
| "import_files H (f # fs) mods =
     (case ho_import H (load_module_name f) of
        Inl _ \<Rightarrow> import_files H fs mods
      | Inr m \<Rightarrow> (case import_files H fs (insert (load_module_name f) mods) of
                  (rest, mods') \<Rightarrow> (join_modules m rest, mods')))"

text \<open>Each object is told its plugin.\<close>

definition clean_hook :: "string \<Rightarrow> ('c, 'v) cat_hook \<Rightarrow> ('c, 'v) cat_hook" where
  [simp]: "clean_hook i h = h\<lparr>hk_plugin_id := i\<rparr>"

definition clean_tool :: "string \<Rightarrow> 'c cat_tool \<Rightarrow> 'c cat_tool" where
  [simp]: "clean_tool i t = t\<lparr>tl_plugin_id := i\<rparr>"

definition clean_form :: "string \<Rightarrow> 'f form_class \<Rightarrow> 'f form_class" where
  [simp]: "clean_form i f = f\<lparr>fc_plugin_id := i\<rparr>"

definition clean_endpoint :: "string \<Rightarrow> custom_endpoint \<Rightarrow> custom_endpoint" where
  [simp]: "clean_endpoint i e = e\<lparr>ep_plugin_id := i\<rparr>"

definition load_decorated_functions :: "('w, 'c, 'v, 'f) host \<Rightarrow> ('w, 'c, 'v, 'f, unit) plugin_comp" where
  "load_decorated_functions H =
     modM (\<lambda>(p, mc). case import_files H (pl_py_files p) (mc_modules mc) of (m, mods) \<Rightarrow>
       (p\<lparr>pl_hooks := map (clean_hook (pl_id p)) (md_hooks m), pl_tools := map (clean_tool (pl_id p)) (md_tools m),
          pl_forms := map (clean_form (pl_id p)) (md_forms m), pl_endpoints := map (clean_endpoint (pl_id p)) (md_endpoints m),
          pl_overrides := dict_of (map (\<lambda>ov. (override_name ov, ov)) (md_overrides m))\<rparr>,
        mc\<lparr>mc_modules := mods\<rparr>))"

definition Plugin_settings_model :: "('w, 'c, 'v, 'f, settings_model) plugin_comp" where
  "Plugin_settings_model =
     bindM (getM (\<lambda>(p, mc). map_of (pl_overrides p) ''settings_model'')) (\<lambda>ov.
       case ov of Some (SettingsModel f) \<Rightarrow> on_own f | _ \<Rightarrow> retM PluginSettingsModel)"

definition Plugin_settings_schema :: "('w, 'c, 'v, 'f, json) plugin_comp" where
  "Plugin_settings_schema =
     bindM (getM (\<lambda>(p, mc). map_of (pl_overrides p) ''settings_schema'')) (\<lambda>ov.
       case ov of
         Some (SettingsSchema f) \<Rightarrow> on_own f
       | _ \<Rightarrow> bindM Plugin_settings_model (\<lambda>m. retM (sm_schema m)))"

definition write_settings :: "pyval \<Rightarrow> ('w, 'c, 'v, 'f) plugin \<times> 'w machine \<Rightarrow> ('w, 'c, 'v, 'f) plugin \<times> 'w machine" where
  "write_settings v = (\<lambda>(p, mc).
     case map_of (mc_disk mc) (norm_path (pl_path p)) of
       None \<Rightarrow> (p, mc)
     | Some fd \<Rightarrow> (p, mc\<lparr>mc_disk := AList.update (norm_path (pl_path p)) (fd\<lparr>fd_settings := Some (Inr v)\<rparr>) (mc_disk mc)\<rparr>))"

text \<open>The settings file can be opened for writing when its folder is there and the host allows it.\<close>

definition can_write_settings ::
  "('w, 'c, 'v, 'f) host \<Rightarrow> ('w, 'c, 'v, 'f) plugin \<times> 'w machine \<Rightarrow> bool" where
  "can_write_settings H s \<longleftrightarrow> plugin_folder s \<noteq> None \<and> ho_can_write H (pl_path (fst s))"

definition settings_file :: "('w, 'c, 'v, 'f) plugin \<times> 'w machine \<Rightarrow> pyval result option" where
  "settings_file s = Option.bind (plugin_folder s) fd_settings"

definition create_settings_from_model :: "('w, 'c, 'v, 'f) host \<Rightarrow> ('w, 'c, 'v, 'f, bool) plugin_comp" where
  "create_settings_from_model H =
     catchM
       (bindM Plugin_settings_model (\<lambda>model.
          case sm_defaults model of
            None \<Rightarrow> raiseM (Exn ''ValidationError'' ''field required'')
          | Some settings \<Rightarrow>
              bindM (getM (\<lambda>s. can_write_settings H s \<and> settings_file s = None)) (\<lambda>ok.
                if ok then bindM (modM (write_settings (PDict settings))) (\<lambda>_. retM True)
                else raiseM (Exn ''OSError'' ''settings.json''))))
       (\<lambda>e. case e of Exn cls msg \<Rightarrow> if cls = ''ValidationError'' then retM False else raiseM e | _ \<Rightarrow> raiseM e)"

definition Plugin_load_settings :: "('w, 'c, 'v, 'f) host \<Rightarrow> ('w, 'c, 'v, 'f, pyval) plugin_comp" where
  "Plugin_load_settings H =
     bindM (getM (\<lambda>s. (map_of (pl_overrides (fst s)) ''load_settings'', settings_file s))) (\<lambda>(ov, file).
       case ov of
         Some (LoadSettings f) \<Rightarrow> on_own f
       | _ \<Rightarrow>
           bindM (if file = None then create_settings_from_model H else retM True) (\<lambda>there.
             if \<not> there then retM (PDict [])
             else bindM (getM settings_file) (\<lambda>file.
               case file of None \<Rightarrow> retM PNone | Some content \<Rightarrow> liftM content)))"

definition Plugin_save_settings :: "('w, 'c, 'v, 'f) host \<Rightarrow> json \<Rightarrow> ('w, 'c, 'v, 'f, json) plugin_comp" where
  "Plugin_save_settings H settings =
     bindM (getM (\<lambda>(p, mc). map_of (pl_overrides p) ''save_settings'')) (\<lambda>ov.
       case ov of
         Some (SaveSettings f) \<Rightarrow> on_own (f settings)
       | _ \<Rightarrow>
           bindM (Plugin_load_settings H) (\<lambda>v.
           bindM (liftM (as_dict v)) (\<lambda>old_settings.
             let updated_settings = dict_merge old_settings settings in
             bindM (getM (can_write_settings H)) (\<lambda>ok.
               if ok then bindM (modM (write_settings (PDict updated_settings))) (\<lambda>_. retM updated_settings)
               else retM []))))"

text \<open>The two overrides that run at activation and deactivation.\<close>

definition activated_override :: "('w, 'c, 'v, 'f) plugin \<Rightarrow> ('w, 'c, 'v, 'f, unit) plugin_comp" where
  "activated_override p =
     (case map_of (pl_overrides p) ''activated'' of Some (Activated f) \<Rightarrow> on_own f | _ \<Rightarrow> retM ())"

definition deactivated_override :: "('w, 'c, 'v, 'f) plugin \<Rightarrow> ('w, 'c, 'v, 'f, unit) plugin_comp" where
  "deactivated_override p =
     (case map_of (pl_overrides p) ''deactivated'' of Some (Deactivated f) \<Rightarrow> on_own f | _ \<Rightarrow> retM ())"

definition Plugin_activate :: "('w, 'c, 'v, 'f) host \<Rightarrow> ('w, 'c, 'v, 'f, unit) plugin_comp" where
  "Plugin_activate H =
     bindM (install_requirements H) (\<lambda>_.
     bindM (load_decorated_functions H) (\<lambda>_.
     bindM (getM settings_file) (\<lambda>file.
     bindM (if file = None then create_settings_from_model H else retM True) (\<lambda>_.
     bindM (modM (\<lambda>(p, mc). (p\<lparr>pl_active := True\<rparr>, mc))) (\<lambda>_.
     bindM (getM fst) activated_override)))))"

definition deactivate_endpoints ::
  "('w, 'c, 'v, 'f) plugin \<times> 'w machine \<Rightarrow> ('w, 'c, 'v, 'f) plugin \<times> 'w machine" where
  "deactivate_endpoints = (\<lambda>(p, mc).
     (p\<lparr>pl_endpoints := []\<rparr>, foldl (\<lambda>mc e. CustomEndpoint_deactivate e mc) mc (pl_endpoints p)))"

definition Plugin_deactivate :: "('w, 'c, 'v, 'f, unit) plugin_comp" where
  "Plugin_deactivate =
     bindM (bindM (getM fst) deactivated_override) (\<lambda>_.
     bindM (modM (\<lambda>(p, mc).
        (p\<lparr>pl_hooks := [], pl_tools := [], pl_forms := []\<rparr>,
         mc\<lparr>mc_modules := mc_modules mc - set (map unload_module_name (pl_py_files p))\<rparr>))) (\<lambda>_.
     bindM (modM deactivate_endpoints) (\<lambda>_.
     modM (\<lambda>(p, mc). (p\<lparr>pl_overrides := [], pl_active := False\<rparr>, mc)))))"

definition plugin_specific_error_message :: "('w, 'c, 'v, 'f) plugin \<Rightarrow> string" where
  "plugin_specific_error_message p =
     (let show = (\<lambda>v. case v of Some (PStr s) \<Rightarrow> s | _ \<Rightarrow> ''None'');
          nm = show (map_of (pl_manifest p) ''name''); url = map_of (pl_manifest p) ''plugin_url''
      in if truthy_opt url
         then ''To resolve any problem related to '' @ nm @
              '' plugin, contact the creator using github issue at the link '' @ show url
         else ''Error in '' @ nm @ '' plugin, contact the creator'')"

subsection \<open>Module names\<close>

text \<open>Activation and deactivation compute the name of a module in two different ways.\<close>

lemma replace_py_suffix:
  "\<not> contains ''.py'' stem \<Longrightarrow> replace_all ''.py'' [] (stem @ ''.py'') = stem"
proof (induction stem)
  case (Cons c cs)
  have "\<not> prefix ''.py'' (c # cs @ ''.py'')"
    using Cons.prems by (cases cs; cases "tl cs") auto
  then have "replace_all ''.py'' [] (c # cs @ ''.py'') = c # replace_all ''.py'' [] (cs @ ''.py'')"
    by (intro replace_all_step) simp_all
  with Cons show ?case by simp
qed simp

lemma contains_map_slash:
  assumes "\<not> contains ''.py'' s" "\<not> contains ''/py'' s"
  shows "\<not> contains ''.py'' (map (\<lambda>x. if x = CHR ''/'' then CHR ''.'' else x) s)"
  using assms
proof (induction s)
  case (Cons c cs)
  have "\<not> prefix ''.py'' (map (\<lambda>x. if x = CHR ''/'' then CHR ''.'' else x) (c # cs))"
    using Cons.prems by (cases cs; cases "tl cs") (auto split: if_splits)
  with Cons show ?case by simp
qed simp

lemma module_names_agree:
  assumes "\<not> contains ''.py'' stem" "\<not> contains ''/py'' stem"
  shows "unload_module_name (stem @ ''.py'') = load_module_name (stem @ ''.py'')"
proof -
  let ?f = "\<lambda>x. if x = CHR ''/'' then CHR ''.'' else x"
  have "load_module_name (stem @ ''.py'') = map ?f stem"
    using assms by (simp add: load_module_name_def replace_py_suffix replace_char_map)
  moreover have "replace_all ''/'' ''.'' (stem @ ''.py'') = map ?f stem @ ''.py''"
    by (simp add: replace_char_map)
  then have "unload_module_name (stem @ ''.py'') = map ?f stem"
    using replace_py_suffix [OF contains_map_slash [OF assms]] by (simp add: unload_module_name_def)
  ultimately show ?thesis by simp
qed

text \<open>A path component that begins with \<open>py\<close> makes them differ.\<close>

lemma module_names_differ:
  "load_module_name ''cat/plugins/pylib/a.py'' = ''cat.plugins.pylib.a''"
  "unload_module_name ''cat/plugins/pylib/a.py'' = ''cat.pluginslib.a''"
  by (simp_all add: load_module_name_def unload_module_name_def)

subsection \<open>Lemmas on activation\<close>

text \<open>An override leaves the plugin object, the disk, the modules and the routes alone.\<close>

definition same_machinery ::
  "('w, 'c, 'v, 'f) plugin \<times> 'w machine \<Rightarrow> ('w, 'c, 'v, 'f) plugin \<times> 'w machine \<Rightarrow> bool" where
  "same_machinery s s' \<longleftrightarrow> fst s' = fst s \<and> (\<exists>w. snd s' = snd s\<lparr>mc_own := w\<rparr>)"

lemma same_machinery_refl [simp]: "same_machinery s s"
  by (simp add: same_machinery_def exI [of _ "mc_own (snd s)"])

lemma on_own_keeps: "same_machinery s (snd (on_own f s))"
  by (cases "f (mc_own (snd s))") (auto simp: on_own_def same_machinery_def split: prod.splits)

lemma overrides_keep:
  "same_machinery s (snd (activated_override p s))" "same_machinery s (snd (deactivated_override p s))"
  by (auto simp: activated_override_def deactivated_override_def on_own_keeps
      split: option.splits override.splits)

lemma fold_deactivate:
  "mc_modules (foldl (\<lambda>mc e. CustomEndpoint_deactivate e mc) mc es) = mc_modules mc"
  "mc_disk (foldl (\<lambda>mc e. CustomEndpoint_deactivate e mc) mc es) = mc_disk mc"
  "mc_own (foldl (\<lambda>mc e. CustomEndpoint_deactivate e mc) mc es) = mc_own mc"
  "mc_bound (foldl (\<lambda>mc e. CustomEndpoint_deactivate e mc) mc es) = mc_bound mc"
  by (induction es arbitrary: mc) (auto simp: CustomEndpoint_deactivate_def)

lemma set_remove_first: "set (remove_first P xs) \<subseteq> set xs"
  by (induction xs) auto

lemma remove_first_absent: "\<forall>x \<in> set xs. \<not> P x \<Longrightarrow> remove_first P xs = xs"
  by (induction xs) auto

lemma remove_first_snoc: "\<forall>x \<in> set xs. \<not> P x \<Longrightarrow> P y \<Longrightarrow> remove_first P (xs @ [y]) = xs"
  by (induction xs) auto

lemma length_remove_first: "\<exists>x \<in> set xs. P x \<Longrightarrow> Suc (length (remove_first P xs)) = length xs"
  by (induction xs) auto

text \<open>Deactivation either fails in the plugin's own override, and then nothing else happens, or
  it runs to its end.\<close>

lemma Plugin_deactivate_run:
  assumes "Plugin_deactivate (p, mc) = (Inr (), (p', mc'))"
  shows "pl_hooks p' = [] \<and> pl_tools p' = [] \<and> pl_forms p' = [] \<and> pl_endpoints p' = [] \<and>
     pl_overrides p' = [] \<and> \<not> pl_active p' \<and> pl_id p' = pl_id p \<and> pl_path p' = pl_path p \<and>
     pl_manifest p' = pl_manifest p \<and> pl_py_files p' = pl_py_files p \<and>
     mc_modules mc' = mc_modules mc - set (map unload_module_name (pl_py_files p)) \<and>
     mc_disk mc' = mc_disk mc \<and>
     mc_routes mc' = mc_routes (foldl (\<lambda>mc e. CustomEndpoint_deactivate e mc) mc (pl_endpoints p))"
proof -
  obtain r p1 mc1 where run: "deactivated_override p (p, mc) = (r, (p1, mc1))"
    by (metis prod.exhaust)
  with overrides_keep(2) [of "(p, mc)" p] obtain w where keep: "p1 = p" "mc1 = mc\<lparr>mc_own := w\<rparr>"
    by (auto simp: same_machinery_def)
  have routes: "mc_routes (foldl (\<lambda>mc e. CustomEndpoint_deactivate e mc) (mc\<lparr>mc_own := w, mc_modules := ms\<rparr>) es) =
      mc_routes (foldl (\<lambda>mc e. CustomEndpoint_deactivate e mc) mc es)" for w ms es and mc :: "'a machine"
  proof (induction es arbitrary: mc)
    case (Cons e es)
    have "CustomEndpoint_deactivate e (mc\<lparr>mc_own := w, mc_modules := ms\<rparr>) =
        (CustomEndpoint_deactivate e mc)\<lparr>mc_own := w, mc_modules := ms\<rparr>"
      by (simp add: CustomEndpoint_deactivate_def)
    with Cons show ?case by simp
  qed simp
  from assms run keep show ?thesis
    by (auto simp: Plugin_deactivate_def bindM_def deactivate_endpoints_def fold_deactivate routes
        split: sum.splits)
qed

lemma Plugin_deactivate_total:
  assumes "map_of (pl_overrides p) ''deactivated'' = None"
  shows "\<exists>p' mc'. Plugin_deactivate (p, mc) = (Inr (), (p', mc'))"
  using assms by (simp add: Plugin_deactivate_def bindM_apply deactivated_override_def case_prod_beta)

text \<open>What the settings code may change: the settings file and the plugins' own state.\<close>

definition settings_only ::
  "('w, 'c, 'v, 'f) plugin \<times> 'w machine \<Rightarrow> ('w, 'c, 'v, 'f) plugin \<times> 'w machine \<Rightarrow> bool" where
  "settings_only s s' \<longleftrightarrow> fst s' = fst s \<and> mc_modules (snd s') = mc_modules (snd s) \<and>
     mc_routes (snd s') = mc_routes (snd s) \<and> mc_bound (snd s') = mc_bound (snd s)"

lemma settings_only_preorder: "reflp settings_only" "transp settings_only"
  by (auto simp: reflp_def transp_def settings_only_def)

lemma same_settings_only: "same_machinery s s' \<Longrightarrow> settings_only s s'"
  by (auto simp: same_machinery_def settings_only_def)

lemma write_settings_only: "settings_only s (write_settings v s)"
  by (auto simp: write_settings_def settings_only_def split: prod.splits option.splits)

lemma Plugin_settings_model_steps: "stepsM settings_only Plugin_settings_model"
  unfolding stepsM_def Plugin_settings_model_def
  by (auto simp: on_own_keeps same_settings_only reflpD [OF settings_only_preorder(1)]
      split: option.splits override.splits)

lemma create_settings_steps: "stepsM settings_only (create_settings_from_model H)"
  unfolding create_settings_from_model_def
  by (intro stepsM_catch stepsM_bind settings_only_preorder Plugin_settings_model_steps)
    (auto simp: stepsM_def write_settings_only reflpD [OF settings_only_preorder(1)]
      split: option.splits exn.splits)

lemma install_requirements_state: "snd (install_requirements H s) = s"
  by (auto simp: install_requirements_def Let_def split: option.splits)

lemma import_files_module: "fst (import_files H fs mods) = fst (import_files H fs {})"
  by (induction fs arbitrary: mods) (auto split: sum.splits prod.splits, (metis fst_conv)+)

lemma import_files_mods:
  "snd (import_files H fs mods) =
     mods \<union> {load_module_name f |f. f \<in> set fs \<and> (\<exists>m. ho_import H (load_module_name f) = Inr m)}"
proof (induction fs arbitrary: mods)
  case (Cons f fs)
  show ?case
  proof (cases "ho_import H (load_module_name f)")
    case (Inr m)
    have "snd (import_files H (f # fs) mods) = snd (import_files H fs (insert (load_module_name f) mods))"
      by (simp add: Inr split: prod.splits)
    then show ?thesis unfolding Cons by (auto simp: Inr)
  qed (use Cons in auto)
qed simp

definition imported :: "('w, 'c, 'v, 'f) host \<Rightarrow> string list \<Rightarrow> ('w, 'c, 'v, 'f) modul" where
  "imported H fs = fst (import_files H fs {})"

text \<open>A successful activation loads what the files decorate, tagged with the plugin's id.\<close>

lemma Plugin_activate_run:
  assumes "Plugin_activate H (p, mc) = (Inr (), (p', mc'))"
  shows "pl_active p' \<and>
     pl_hooks p' = map (\<lambda>h. h\<lparr>hk_plugin_id := pl_id p\<rparr>) (md_hooks (imported H (pl_py_files p))) \<and>
     pl_tools p' = map (\<lambda>t. t\<lparr>tl_plugin_id := pl_id p\<rparr>) (md_tools (imported H (pl_py_files p))) \<and>
     pl_forms p' = map (\<lambda>f. f\<lparr>fc_plugin_id := pl_id p\<rparr>) (md_forms (imported H (pl_py_files p))) \<and>
     pl_endpoints p' = map (\<lambda>e. e\<lparr>ep_plugin_id := pl_id p\<rparr>) (md_endpoints (imported H (pl_py_files p))) \<and>
     pl_id p' = pl_id p \<and> pl_path p' = pl_path p \<and> pl_manifest p' = pl_manifest p \<and>
     pl_py_files p' = pl_py_files p \<and> mc_routes mc' = mc_routes mc \<and> mc_bound mc' = mc_bound mc \<and>
     mc_modules mc' = snd (import_files H (pl_py_files p) (mc_modules mc))"
proof -
  define s1 where "s1 = snd (load_decorated_functions H (p, mc))"
  define create where "create = (if settings_file s1 = None then create_settings_from_model H else retM True)"
  define s2 where "s2 = snd (create s1)"
  define s3 where "s3 = (fst s2\<lparr>pl_active := True\<rparr>, snd s2)"
  have create_steps: "settings_only s1 s2"
    using stepsMD [OF create_settings_steps [of H], of s1] reflpD [OF settings_only_preorder(1), of s1]
    by (cases "settings_file s1") (simp_all add: s2_def create_def)
  have act: "same_machinery s3 (snd (activated_override (fst s3) s3))" by (rule overrides_keep(1))
  have load: "load_decorated_functions H (p, mc) = (Inr (), s1)"
    by (simp add: s1_def load_decorated_functions_def)
  from assms obtain u t1 where inst: "install_requirements H (p, mc) = (Inr u, t1)"
    unfolding Plugin_activate_def bindM_result_Inr by blast
  then have "t1 = (p, mc)" using install_requirements_state [of H "(p, mc)"] by simp
  with assms load inst have "bindM create (\<lambda>_. bindM (modM (\<lambda>(p, mc). (p\<lparr>pl_active := True\<rparr>, mc))) (\<lambda>_.
      bindM (getM fst) activated_override)) s1 = (Inr (), (p', mc'))"
    by (simp add: Plugin_activate_def bindM_Inr create_def)
  then obtain b t2 where "create s1 = (Inr b, t2)"
    "activated_override (fst t2\<lparr>pl_active := True\<rparr>) (fst t2\<lparr>pl_active := True\<rparr>, snd t2) = (Inr (), (p', mc'))"
    unfolding bindM_result_Inr [of create] by (auto simp: case_prod_beta)
  then have "activated_override (fst s3) s3 = (Inr (), (p', mc'))" by (simp add: s2_def s3_def)
  then have "p' = fst s3" "mc_routes mc' = mc_routes (snd s3)" "mc_bound mc' = mc_bound (snd s3)"
    "mc_modules mc' = mc_modules (snd s3)"
    using act by (auto simp: same_machinery_def)
  then show ?thesis using create_steps import_files_module [of H "pl_py_files p" "mc_modules mc"]
    by (auto simp: s3_def s1_def settings_only_def load_decorated_functions_def case_prod_beta imported_def)
qed

subsection \<open>Properties\<close>

text \<open>
  (C32) Saving settings and loading them: on a plugin that does not override the settings functions,
  whose settings file holds a dictionary or does not exist yet, the saved settings are merged over
  the stored ones (the new values win, the other keys stay), the merge is returned, and loading
  gives it back without touching anything.
\<close>

theorem plugin_settings_roundtrip:
  assumes "map_of (pl_overrides p) ''load_settings'' = None" "map_of (pl_overrides p) ''save_settings'' = None"
    and "map_of (pl_overrides p) ''settings_model'' = None"
    and "can_write_settings H (p, mc)"
    and "settings_file (p, mc) = map_option (\<lambda>d. Inr (PDict d)) stored"
  shows "\<exists>mc'. Plugin_save_settings H new (p, mc) = (Inr (dict_merge (case stored of None \<Rightarrow> [] | Some d \<Rightarrow> d) new), (p, mc')) \<and>
     Plugin_load_settings H (p, mc') =
       (Inr (PDict (dict_merge (case stored of None \<Rightarrow> [] | Some d \<Rightarrow> d) new)), (p, mc')) \<and>
     settings_only (p, mc) (p, mc') \<and> mc_own mc' = mc_own mc"
proof -
  let ?merged = "dict_merge (case stored of None \<Rightarrow> [] | Some d \<Rightarrow> d) new"
  have wr: "\<exists>mc'. write_settings v (p, mc) = (p, mc') \<and> settings_file (p, mc') = Some (Inr v) \<and>
      can_write_settings H (p, mc') \<and> settings_only (p, mc) (p, mc') \<and> mc_own mc' = mc_own mc"
    if "can_write_settings H (p, mc)" for v mc
    using that by (auto simp: write_settings_def settings_file_def can_write_settings_def plugin_folder_def
        settings_only_def update_conv')
  have load: "\<exists>mc1. Plugin_load_settings H (p, mc) = (Inr (PDict (case stored of None \<Rightarrow> [] | Some d \<Rightarrow> d)), (p, mc1)) \<and>
      can_write_settings H (p, mc1) \<and> settings_only (p, mc) (p, mc1) \<and> mc_own mc1 = mc_own mc"
  proof (cases stored)
    case (Some d)
    with assms show ?thesis
      by (auto simp: Plugin_load_settings_def settings_only_def)
  next
    case None
    from wr [OF assms(4), of "PDict []"] obtain mc1 where mc1: "write_settings (PDict []) (p, mc) = (p, mc1)"
      "settings_file (p, mc1) = Some (Inr (PDict []))" "can_write_settings H (p, mc1)"
      "settings_only (p, mc) (p, mc1)" "mc_own mc1 = mc_own mc" by blast
    with None assms show ?thesis
      by (auto simp: Plugin_load_settings_def create_settings_from_model_def catchM_def bindM_def
          Plugin_settings_model_def PluginSettingsModel_def)
  qed
  then obtain mc1 where mc1: "Plugin_load_settings H (p, mc) = (Inr (PDict (case stored of None \<Rightarrow> [] | Some d \<Rightarrow> d)), (p, mc1))"
      "can_write_settings H (p, mc1)" "settings_only (p, mc) (p, mc1)" "mc_own mc1 = mc_own mc" by blast
  from wr [OF mc1(2), of "PDict ?merged"] obtain mc' where mc': "write_settings (PDict ?merged) (p, mc1) = (p, mc')"
    "settings_file (p, mc') = Some (Inr (PDict ?merged))" "settings_only (p, mc1) (p, mc')" "mc_own mc' = mc_own mc1" by blast
  have save: "Plugin_save_settings H new (p, mc) = (Inr ?merged, (p, mc'))"
    using mc1 mc' assms(2) by (simp add: Plugin_save_settings_def bindM_def Let_def)
  have reload: "Plugin_load_settings H (p, mc') = (Inr (PDict ?merged), (p, mc'))"
    using mc'(2) assms(1) by (simp add: Plugin_load_settings_def)
  show ?thesis
    using save reload transpD [OF settings_only_preorder(2) mc1(3) mc'(3)] mc'(4) mc1(4) by auto
qed

text \<open>
  Deactivating a plugin removes its code from the process: the object holds no hook, tool, form,
  endpoint or override any more and counts as inactive, and none of its modules stays loaded, so
  that the next activation reads the files again. This needs that no directory or file name of the
  plugin begins with \<open>py\<close> and that \<open>.py\<close> is only the extension; the plugin folder itself is
  untouched.
\<close>

theorem deactivate_forgets_code:
  assumes "Plugin_deactivate (p, mc) = (Inr (), (p', mc'))"
    and "\<forall>f \<in> set (pl_py_files p). \<exists>stem. f = stem @ ''.py'' \<and> \<not> contains ''.py'' stem \<and> \<not> contains ''/py'' stem"
  shows "(\<forall>f \<in> set (pl_py_files p). load_module_name f \<notin> mc_modules mc') \<and>
     pl_hooks p' = [] \<and> pl_tools p' = [] \<and> pl_forms p' = [] \<and> pl_endpoints p' = [] \<and> pl_overrides p' = [] \<and>
     \<not> pl_active p' \<and> mc_disk mc' = mc_disk mc"
proof -
  have "load_module_name f \<notin> mc_modules mc'" if f: "f \<in> set (pl_py_files p)" for f
  proof -
    from assms(2) f obtain stem where "f = stem @ ''.py''" "\<not> contains ''.py'' stem" "\<not> contains ''/py'' stem"
      by blast
    then have "unload_module_name f = load_module_name f" using module_names_agree by simp
    with f have "load_module_name f \<in> set (map unload_module_name (pl_py_files p))" by force
    with Plugin_deactivate_run [OF assms(1)] show ?thesis by simp
  qed
  with Plugin_deactivate_run [OF assms(1)] show ?thesis by simp
qed

definition cheese_plugin :: "('w, 'c, 'v, 'f) plugin" where
  "cheese_plugin =
     \<lparr>pl_path = ''cat/plugins/cheese/'', pl_py_files = [''cat/plugins/cheese/a.py''], pl_id = ''cheese'',
      pl_manifest = [], pl_hooks = [], pl_tools = [], pl_forms = [], pl_endpoints = [], pl_overrides = [],
      pl_active = True\<rparr>"

definition cheese_machine :: "unit machine" where
  "cheese_machine =
     \<lparr>mc_disk = [(''cat/plugins/cheese'', \<lparr>fd_py_files = [''cat/plugins/cheese/a.py''], fd_manifest = None,
                   fd_settings = None, fd_requirements = None\<rparr>)],
      mc_modules = {''cat.plugins.cheese.a'', ''cat.utils''}, mc_routes = [], mc_bound = {}, mc_own = ()\<rparr>"

definition quiet_host :: "('w, 'c, 'v, 'f) host" where
  "quiet_host =
     \<lparr>ho_import = (\<lambda>m. Inr empty_module), ho_requirement = Inr, ho_installed = [], ho_pip_install = (\<lambda>r. True),
      ho_pip_uninstall = (\<lambda>r. True), ho_include_router = (\<lambda>e. True), ho_can_write = (\<lambda>p. True), ho_list_set = remdups\<rparr>"

theorem plugin_settings_roundtrip_witness:
  "\<exists>mc'. Plugin_save_settings (quiet_host :: (unit, unit, unit, unit) host) [(''milk'', PBool True)] (cheese_plugin, cheese_machine) =
     (Inr [(''milk'', PBool True)], (cheese_plugin, mc')) \<and>
     Plugin_load_settings (quiet_host :: (unit, unit, unit, unit) host) (cheese_plugin, mc') = (Inr (PDict [(''milk'', PBool True)]), (cheese_plugin, mc'))"
  using plugin_settings_roundtrip [of cheese_plugin "quiet_host :: (unit, unit, unit, unit) host" cheese_machine None "[(''milk'', PBool True)]"]
  by (auto simp: cheese_plugin_def cheese_machine_def quiet_host_def can_write_settings_def plugin_folder_def
      settings_file_def dict_merge_def norm_path_def)

theorem deactivate_forgets_code_witness:
  "\<exists>p' mc'. Plugin_deactivate (cheese_plugin :: (unit, unit, unit, unit) plugin, cheese_machine) = (Inr (), (p', mc')) \<and>
     ''cat.plugins.cheese.a'' \<notin> mc_modules mc'"
proof -
  obtain p' mc' where run: "Plugin_deactivate (cheese_plugin :: (unit, unit, unit, unit) plugin, cheese_machine) = (Inr (), (p', mc'))"
    using Plugin_deactivate_total [of "cheese_plugin :: (unit, unit, unit, unit) plugin" cheese_machine] by (auto simp: cheese_plugin_def)
  have "load_module_name ''cat/plugins/cheese/a.py'' = ''cat.plugins.cheese.a''"
    by (simp add: load_module_name_def)
  with deactivate_forgets_code [OF run] run show ?thesis
    by (auto simp: cheese_plugin_def intro!: exI [of _ "''cat/plugins/cheese/a''"])
qed

text \<open>
  Switching a custom endpoint on and off again. If no route had its path and methods, the routes
  of the app are exactly what they were. If one had, activation adds nothing, but deactivation
  still removes the first such route, which belongs to the core or to another plugin.
\<close>

theorem endpoint_on_off:
  assumes "upper ` ep_methods e = ep_methods e"
  shows "mc_routes (CustomEndpoint_deactivate e (CustomEndpoint_activate H e mc)) =
     (if \<exists>r \<in> set (mc_routes mc). route_matches e r then remove_first (route_matches e) (mc_routes mc)
      else mc_routes mc)"
  using assms
  by (auto simp: CustomEndpoint_deactivate_def CustomEndpoint_activate_def Let_def remove_first_snoc
      remove_first_absent route_matches_def)

theorem endpoint_on_off_witness:
  "mc_routes (CustomEndpoint_deactivate (endpoint_get ''/'' [] default_tags 0 ''spy'')
     (CustomEndpoint_activate (quiet_host :: (unit, unit, unit, unit) host) (endpoint_get ''/'' [] default_tags 0 ''spy'')
       (cheese_machine\<lparr>mc_routes := [\<lparr>rt_path = ''/'', rt_methods = {''GET''}, rt_owner = ''core''\<rparr>]\<rparr>))) = []"
  using endpoint_on_off [of "endpoint_get ''/'' [] default_tags 0 ''spy''" "quiet_host :: (unit, unit, unit, unit) host"
      "cheese_machine\<lparr>mc_routes := [\<lparr>rt_path = ''/'', rt_methods = {''GET''}, rt_owner = ''core''\<rparr>]\<rparr>"]
  by (simp add: endpoint_get_def make_endpoint_def upper_def upper_char_def route_matches_def ep_name_def)

end
