(* ===== verification/Mad_Hatter.thy ===== *)
theory Mad_Hatter
  imports Plugins
begin

text \<open>
  The plugin manager: \<open>core/cat/mad_hatter/mad_hatter.py\<close> and
  \<open>core/cat/mad_hatter/plugin_extractor.py\<close>.

  Its state is the record \<open>hatter\<close>: the plugin objects by id, the registry of what the active plugins
  bring (hooks by name, tools, forms, endpoints), the list of active plugins, the machine of the
  theory Plugins and the settings database. The callback that is told about a finished sync is an
  argument. \<open>list(set(...))\<close> is a field of the host, since the order of a Python set is not fixed.
\<close>

subsection \<open>State\<close>

record ('w, 'c, 'v, 'f, 'db) hatter =
  mh_plugins :: "(string, ('w, 'c, 'v, 'f) plugin) dict"
  mh_hooks :: "(string, ('c, 'v) cat_hook list) dict"
  mh_tools :: "'c cat_tool list"
  mh_forms :: "'f form_class list"
  mh_endpoints :: "custom_endpoint list"
  mh_active :: "string list"
  mh_machine :: "'w machine"
  mh_db :: 'db

type_synonym ('w, 'c, 'v, 'f, 'db, 'a) hatter_comp = "(('w, 'c, 'v, 'f, 'db) hatter, 'a) comp"

record ('w, 'c, 'v, 'f, 'db) hatter_env =
  he_host :: "('w, 'c, 'v, 'f) host"
  he_table :: "'db tinydb"
  he_uuid :: string
  he_now :: int
  he_callback :: "('w, 'c, 'v, 'f, 'db, unit) hatter_comp"

subsection \<open>The registry\<close>

definition add_hook ::
  "(string, ('c, 'v) cat_hook list) dict \<Rightarrow> ('c, 'v) cat_hook \<Rightarrow> (string, ('c, 'v) cat_hook list) dict" where
  "add_hook hooks h =
     (let hooks = (if hk_name h \<notin> set (keys hooks) then AList.update (hk_name h) [] hooks else hooks)
      in AList.update (hk_name h) ((case map_of hooks (hk_name h) of Some hs \<Rightarrow> hs | None \<Rightarrow> []) @ [h]) hooks)"

definition active_of :: "(string, ('w, 'c, 'v, 'f) plugin) dict \<Rightarrow> string list \<Rightarrow> ('w, 'c, 'v, 'f) plugin list" where
  "active_of plugins active = filter (\<lambda>p. pl_id p \<in> set active) (dict_values plugins)"

definition hook_table :: "('c, 'v) cat_hook list \<Rightarrow> (string, ('c, 'v) cat_hook list) dict" where
  "hook_table hs =
     map (\<lambda>(n, l). (n, sort_desc hk_priority l)) (foldl add_hook [] hs)"

definition registry_of :: "('w, 'c, 'v, 'f, 'db) hatter \<Rightarrow> ('w, 'c, 'v, 'f, 'db) hatter" where
  "registry_of s =
     (let ps = active_of (mh_plugins s) (mh_active s) in
      s\<lparr>mh_hooks := hook_table (concat (map pl_hooks ps)), mh_tools := concat (map pl_tools ps),
        mh_forms := concat (map pl_forms ps), mh_endpoints := concat (map pl_endpoints ps)\<rparr>)"

definition sync_hooks_tools_and_forms ::
  "('w, 'c, 'v, 'f, 'db) hatter_env \<Rightarrow> ('w, 'c, 'v, 'f, 'db, unit) hatter_comp" where
  "sync_hooks_tools_and_forms E = bindM (modM registry_of) (\<lambda>_. he_callback E)"

definition procedures :: "('w, 'c, 'v, 'f, 'db) hatter \<Rightarrow> ('c cat_tool + 'f form_class) list" where
  "procedures s = map Inl (mh_tools s) @ map Inr (mh_forms s)"

subsection \<open>Plugins and the list of active ones\<close>

definition plugin_exists :: "string \<Rightarrow> ('w, 'c, 'v, 'f, 'db) hatter \<Rightarrow> bool" where
  "plugin_exists i s \<longleftrightarrow> i \<in> set (keys (mh_plugins s))"

definition load_active_plugins_from_db :: "'db tinydb \<Rightarrow> 'db \<Rightarrow> string list result" where
  "load_active_plugins_from_db T db =
     bindR (case get_setting_by_name T ''active_plugins'' db of
              None \<Rightarrow> Inr []
            | Some st \<Rightarrow> bindR (as_list (set_value st)) as_str_list) (\<lambda>active.
     Inr (if ''core_plugin'' \<in> set active then active else active @ [''core_plugin'']))"

definition save_active_plugins_to_db ::
  "('w, 'c, 'v, 'f, 'db) hatter_env \<Rightarrow> string list \<Rightarrow> ('w, 'c, 'v, 'f, 'db, unit) hatter_comp" where
  "save_active_plugins_to_db E active =
     modM (\<lambda>s. s\<lparr>mh_db := snd (upsert_setting_by_name (he_table E)
       (Setting (he_uuid E) (he_now E) ''active_plugins'' (PList (map PStr active)) None) (mh_db s))\<rparr>)"

text \<open>A method of the plugin object stored under an id.\<close>

definition on_plugin ::
  "string \<Rightarrow> ('w, 'c, 'v, 'f, 'a) plugin_comp \<Rightarrow> ('w, 'c, 'v, 'f, 'db, 'a) hatter_comp" where
  "on_plugin i m s =
     (case map_of (mh_plugins s) i of
        None \<Rightarrow> (Inl (Exn ''KeyError'' i), s)
      | Some p \<Rightarrow> (case m (p, mh_machine s) of
          (r, (p', mc')) \<Rightarrow> (r, s\<lparr>mh_plugins := AList.update i p' (mh_plugins s), mh_machine := mc'\<rparr>)))"

definition toggle_plugin ::
  "('w, 'c, 'v, 'f, 'db) hatter_env \<Rightarrow> string \<Rightarrow> ('w, 'c, 'v, 'f, 'db, unit) hatter_comp" where
  "toggle_plugin E i =
     bindM (getM (\<lambda>s. (plugin_exists i s, i \<in> set (mh_active s)))) (\<lambda>(there, is_active).
       if there then
         bindM (if is_active
                then bindM (on_plugin i Plugin_deactivate) (\<lambda>_.
                     modM (\<lambda>s. s\<lparr>mh_active := remove1 i (mh_active s)\<rparr>))
                else bindM (on_plugin i (Plugin_activate (he_host E))) (\<lambda>_.
                     modM (\<lambda>s. s\<lparr>mh_active := mh_active s @ [i]\<rparr>))) (\<lambda>_.
         bindM (getM mh_active) (\<lambda>active.
         bindM (save_active_plugins_to_db E (ho_list_set (he_host E) active)) (\<lambda>_.
         sync_hooks_tools_and_forms E)))
       else raiseM (Exn ''Exception'' ''Plugin {plugin_id} not present in plugins folder''))"

definition load_plugin :: "string \<Rightarrow> ('w, 'c, 'v, 'f, 'db, unit) hatter_comp" where
  "load_plugin path =
     modM (\<lambda>s. case Plugin_init path (mh_machine s) of
       Inl _ \<Rightarrow> s
     | Inr p \<Rightarrow> s\<lparr>mh_plugins := AList.update (pl_id p) p (mh_plugins s)\<rparr>)"

definition core_plugin_folder :: string where
  "core_plugin_folder = ''cat/mad_hatter/core_plugin/''"

definition plugin_folders :: "'w machine \<Rightarrow> string list" where
  "plugin_folders mc =
     core_plugin_folder # map (\<lambda>k. k @ ''/'') (filter (prefix get_plugins_path) (keys (mc_disk mc)))"

definition discover_plugin ::
  "('w, 'c, 'v, 'f, 'db) hatter_env \<Rightarrow> string \<Rightarrow> ('w, 'c, 'v, 'f, 'db, unit) hatter_comp" where
  "discover_plugin E path =
     bindM (load_plugin path) (\<lambda>_.
     bindM (getM (\<lambda>s. folder_name path \<in> set (mh_active s))) (\<lambda>is_active.
       if is_active then
         catchM (on_plugin (folder_name path) (Plugin_activate (he_host E)))
           (\<lambda>e. bindM (getM (\<lambda>s. folder_name path \<in> set (mh_active s))) (\<lambda>still.
                bindM (if still then toggle_plugin E (folder_name path) else retM ()) (\<lambda>_.
                raiseM e)))
       else retM ()))"

definition find_plugins :: "('w, 'c, 'v, 'f, 'db) hatter_env \<Rightarrow> ('w, 'c, 'v, 'f, 'db, unit) hatter_comp" where
  "find_plugins E =
     bindM (modM (\<lambda>s. s\<lparr>mh_plugins := []\<rparr>)) (\<lambda>_.
     bindM (\<lambda>s. (load_active_plugins_from_db (he_table E) (mh_db s), s)) (\<lambda>active.
     bindM (modM (\<lambda>s. s\<lparr>mh_active := active\<rparr>)) (\<lambda>_.
     bindM (getM (\<lambda>s. plugin_folders (mh_machine s))) (\<lambda>folders.
     bindM (forM folders (discover_plugin E)) (\<lambda>_.
     sync_hooks_tools_and_forms E)))))"

text \<open>
  A plugin asks for its own object. The call stack gives the path of the file with the calling code, relative to the working
  directory; this path is an argument.
\<close>

definition get_plugin :: "string \<Rightarrow> ('w, 'c, 'v, 'f, 'db) hatter \<Rightarrow> ('w, 'c, 'v, 'f) plugin result" where
  "get_plugin rel_path h =
     (let plugin_suffix = replace_all get_plugins_path [] rel_path;
          name = hd (split_char CHR ''/'' plugin_suffix)
      in lookup_exn (Exn ''KeyError'' name) (map_of (mh_plugins h) name))"

definition MadHatter_init :: "'w machine \<Rightarrow> 'db \<Rightarrow> ('w, 'c, 'v, 'f, 'db) hatter" where
  "MadHatter_init mc db =
     \<lparr>mh_plugins = [], mh_hooks = [], mh_tools = [], mh_forms = [], mh_endpoints = [], mh_active = [],
      mh_machine = mc, mh_db = db\<rparr>"

subsection \<open>Installing and uninstalling\<close>

text \<open>
  A package: its file name, the MIME type guessed from it, the slug of the name without extension,
  and what unpacking gives: the entries at the top, directories with their content, and the whole
  seen as one folder.
\<close>

record package =
  pk_file :: string
  pk_content_type :: "string option"
  pk_slug :: string
  pk_entries :: "(string \<times> folder option) list"
  pk_flat :: folder

datatype extension = Tar | Zip

record extractor =
  ex_extension :: extension
  ex_package :: package
  ex_id :: string

definition PluginExtractor_init :: "package \<Rightarrow> extractor result" where
  "PluginExtractor_init pk =
     (if pk_content_type pk = Some ''application/x-tar''
      then Inr \<lparr>ex_extension = Tar, ex_package = pk, ex_id = pk_slug pk\<rparr>
      else if pk_content_type pk = Some ''application/zip''
      then Inr \<lparr>ex_extension = Zip, ex_package = pk, ex_id = pk_slug pk\<rparr>
      else Inl (Exn ''Exception'' ''Invalid package extension. Valid extensions are: [application/zip, application/x-tar]''))"

definition folder_to_copy :: "package \<Rightarrow> folder" where
  "folder_to_copy pk =
     (case pk_entries pk of [(nm, Some fd)] \<Rightarrow> fd | _ \<Rightarrow> pk_flat pk)"

text \<open>An existing folder is replaced, but its settings file is carried over.\<close>

definition extract_to :: "extractor \<Rightarrow> string \<Rightarrow> 'w machine \<Rightarrow> string \<times> 'w machine" where
  "extract_to ex to mc =
     (let extracted_path = to @ ex_id ex;
          new = folder_to_copy (ex_package ex);
          new = (case map_of (mc_disk mc) extracted_path of
                   None \<Rightarrow> new
                 | Some old \<Rightarrow> (case fd_settings old of None \<Rightarrow> new | Some st \<Rightarrow> new\<lparr>fd_settings := Some st\<rparr>))
      in (extracted_path, mc\<lparr>mc_disk := AList.update extracted_path new (mc_disk mc)\<rparr>))"

definition install_plugin ::
  "('w, 'c, 'v, 'f, 'db) hatter_env \<Rightarrow> package \<Rightarrow> ('w, 'c, 'v, 'f, 'db, unit) hatter_comp" where
  "install_plugin E pk =
     bindM (liftM (PluginExtractor_init pk)) (\<lambda>ex.
     bindM (getM (\<lambda>s. fst (extract_to ex get_plugins_path (mh_machine s)))) (\<lambda>plugin_path.
     bindM (modM (\<lambda>s. s\<lparr>mh_machine := snd (extract_to ex get_plugins_path (mh_machine s))\<rparr>)) (\<lambda>_.
     bindM (load_plugin plugin_path) (\<lambda>_.
     toggle_plugin E (folder_name plugin_path)))))"

definition uninstall_plugin ::
  "('w, 'c, 'v, 'f, 'db) hatter_env \<Rightarrow> string \<Rightarrow> ('w, 'c, 'v, 'f, 'db, unit) hatter_comp" where
  "uninstall_plugin E i =
     bindM (getM (\<lambda>s. plugin_exists i s \<and> i \<noteq> ''core_plugin'')) (\<lambda>ok.
       if ok then
         bindM (getM (\<lambda>s. i \<in> set (mh_active s))) (\<lambda>is_active.
         bindM (if is_active then toggle_plugin E i else retM ()) (\<lambda>_.
         bindM (\<lambda>s. (lookup_exn (Exn ''KeyError'' i) (map_of (mh_plugins s) i), s)) (\<lambda>p.
         modM (\<lambda>s. s\<lparr>mh_plugins := AList.delete i (mh_plugins s),
                    mh_machine := (mh_machine s)\<lparr>mc_disk :=
                      AList.delete (norm_path (pl_path p)) (mc_disk (mh_machine s))\<rparr>\<rparr>))))
       else retM ())"

subsection \<open>Executing hooks\<close>

text \<open>
  A hook that raises is skipped: the error handler only looks up the plugin to print a message.
  The tea cup goes through all hooks; a hook that returns None leaves it as it is.
\<close>

definition hook_error :: "string list \<Rightarrow> ('c, 'v) cat_hook \<Rightarrow> ('c, unit) comp" where
  "hook_error plugins h =
     (if hk_plugin_id h \<in> set plugins then retM () else raiseM (Exn ''KeyError'' (hk_plugin_id h)))"

fun run_hooks :: "string list \<Rightarrow> ('c, 'v) cat_hook list \<Rightarrow> ('c, unit) comp" where
  "run_hooks plugins [] = retM ()"
| "run_hooks plugins (h # hs) =
     bindM (catchM (bindM (hk_function h []) (\<lambda>_. retM ())) (\<lambda>e. hook_error plugins h)) (\<lambda>_.
     run_hooks plugins hs)"

fun pipe_hooks :: "string list \<Rightarrow> 'v list \<Rightarrow> ('c, 'v) cat_hook list \<Rightarrow> 'v \<Rightarrow> ('c, 'v) comp" where
  "pipe_hooks plugins args [] tea_cup = retM tea_cup"
| "pipe_hooks plugins args (h # hs) tea_cup =
     bindM (catchM
       (bindM (hk_function h (tea_cup # args)) (\<lambda>tea_spoon.
          retM (case tea_spoon of None \<Rightarrow> tea_cup | Some t \<Rightarrow> t)))
       (\<lambda>e. bindM (hook_error plugins h) (\<lambda>_. retM tea_cup)))
     (pipe_hooks plugins args hs)"

definition execute_hook ::
  "('w, 'c, 'v, 'f, 'db) hatter \<Rightarrow> string \<Rightarrow> 'v list \<Rightarrow> ('c, 'v option) comp" where
  "execute_hook mh hook_name args =
     (case map_of (mh_hooks mh) hook_name of
        None \<Rightarrow> raiseM (Exn ''Exception'' (''Hook '' @ hook_name @ '' not present in any plugin''))
      | Some hs \<Rightarrow>
          (case args of
             [] \<Rightarrow> bindM (run_hooks (keys (mh_plugins mh)) hs) (\<lambda>_. retM None)
           | tea # rest \<Rightarrow>
               bindM (pipe_hooks (keys (mh_plugins mh)) rest hs tea) (\<lambda>t. retM (Some t))))"

subsection \<open>The hook table\<close>

definition hooks_at :: "(string, ('c, 'v) cat_hook list) dict \<Rightarrow> string \<Rightarrow> ('c, 'v) cat_hook list" where
  "hooks_at d n = (case map_of d n of None \<Rightarrow> [] | Some l \<Rightarrow> l)"

lemma hooks_at_add: "hooks_at (add_hook d h) n = hooks_at d n @ (if hk_name h = n then [h] else [])"
  by (auto simp: hooks_at_def add_hook_def Let_def update_conv' in_keys_iff split: option.splits)

lemma hooks_at_fold: "hooks_at (foldl add_hook d hs) n = hooks_at d n @ filter (\<lambda>h. hk_name h = n) hs"
  by (induction hs arbitrary: d) (auto simp: hooks_at_add)

lemma keys_add_hook: "set (keys (add_hook d h)) = insert (hk_name h) (set (keys d))"
  by (auto simp: add_hook_def Let_def keys_update)

lemma keys_fold_add: "set (keys (foldl add_hook d hs)) = set (keys d) \<union> hk_name ` set hs"
  by (induction hs arbitrary: d) (auto simp: keys_add_hook)

text \<open>Under a name the table has the hooks of that name, by descending priority, and hooks of
  equal priority in the order in which the plugins were loaded.\<close>

lemma map_of_hook_table:
  "map_of (hook_table hs) n =
     (if n \<in> hk_name ` set hs then Some (sort_desc hk_priority (filter (\<lambda>h. hk_name h = n) hs)) else None)"
proof -
  have key: "n \<in> set (keys (foldl add_hook [] hs)) \<longleftrightarrow> n \<in> hk_name ` set hs"
    by (simp add: keys_fold_add)
  have at: "hooks_at (foldl add_hook [] hs) n = filter (\<lambda>h. hk_name h = n) hs"
    using hooks_at_fold [of "[]" hs n] by (simp add: hooks_at_def)
  show ?thesis
  proof (cases "map_of (foldl add_hook [] hs) n")
    case None
    then show ?thesis using key by (simp add: hook_table_def map_of_map in_keys_iff)
  next
    case (Some l)
    then show ?thesis using key at by (simp add: hook_table_def map_of_map in_keys_iff hooks_at_def)
  qed
qed

subsection \<open>What the plugin methods keep of the plugin object\<close>

definition same_plugin ::
  "('w, 'c, 'v, 'f) plugin \<times> 'w machine \<Rightarrow> ('w, 'c, 'v, 'f) plugin \<times> 'w machine \<Rightarrow> bool" where
  "same_plugin s s' \<longleftrightarrow>
     pl_id (fst s') = pl_id (fst s) \<and> pl_path (fst s') = pl_path (fst s) \<and>
     ((\<forall>h \<in> set (pl_hooks (fst s)). hk_plugin_id h = pl_id (fst s)) \<longrightarrow>
      (\<forall>h \<in> set (pl_hooks (fst s')). hk_plugin_id h = pl_id (fst s)))"

lemma same_plugin_preorder: "reflp same_plugin" "transp same_plugin"
  by (auto simp: reflp_def transp_def same_plugin_def)

lemma settings_same_plugin: "settings_only s s' \<Longrightarrow> same_plugin s s'"
  by (simp add: settings_only_def same_plugin_def)

lemma machinery_same_plugin: "same_machinery s s' \<Longrightarrow> same_plugin s s'"
  by (simp add: same_machinery_def same_plugin_def)

lemma Plugin_activate_steps: "stepsM same_plugin (Plugin_activate H)"
proof -
  have "stepsM same_plugin (install_requirements H)"
    by (rule stepsMI) (simp add: install_requirements_state same_plugin_def)
  moreover have "stepsM same_plugin (load_decorated_functions H)"
    by (auto simp: stepsM_def load_decorated_functions_def same_plugin_def case_prod_beta)
  moreover have "stepsM same_plugin (create_settings_from_model H)"
    by (rule stepsM_mono [OF create_settings_steps settings_same_plugin])
  moreover have "stepsM same_plugin (activated_override p)" for p
    by (intro stepsMI machinery_same_plugin overrides_keep)
  moreover have "stepsM same_plugin (modM (\<lambda>(p, mc). (p\<lparr>pl_active := True\<rparr>, mc)))"
    by (auto simp: stepsM_def same_plugin_def)
  ultimately show ?thesis
    unfolding Plugin_activate_def
    by (intro stepsM_bind same_plugin_preorder) (auto intro: stepsM_pure same_plugin_preorder)
qed

lemma Plugin_deactivate_steps: "stepsM same_plugin Plugin_deactivate"
proof -
  have "stepsM same_plugin (deactivated_override p)" for p
    by (intro stepsMI machinery_same_plugin overrides_keep)
  then show ?thesis
    unfolding Plugin_deactivate_def
    by (intro stepsM_bind same_plugin_preorder)
      (auto intro: stepsM_pure same_plugin_preorder simp: stepsM_def same_plugin_def deactivate_endpoints_def)
qed

text \<open>A deactivation that fails leaves the plugin object as it was.\<close>

lemma Plugin_deactivate_fails:
  assumes "Plugin_deactivate (p, mc) = (Inl e, (p', mc'))"
  shows "p' = p"
proof -
  obtain r t where run: "deactivated_override p (p, mc) = (r, t)" by (cases "deactivated_override p (p, mc)")
  with overrides_keep(2) [of "(p, mc)" p] have "fst t = p" by (simp add: same_machinery_def)
  with assms run show ?thesis
    by (cases r) (auto simp: Plugin_deactivate_def bindM_def)
qed

subsection \<open>The invariant of the plugin manager\<close>

definition plugins_ok :: "('w, 'c, 'v, 'f, 'db) hatter \<Rightarrow> bool" where
  "plugins_ok s \<longleftrightarrow> dict_wf (mh_plugins s) \<and>
     (\<forall>(i, p) \<in> set (mh_plugins s). pl_id p = i \<and> (\<forall>h \<in> set (pl_hooks p). hk_plugin_id h = i))"

definition hatter_inv :: "('w, 'c, 'v, 'f, 'db) hatter \<Rightarrow> bool" where
  "hatter_inv s \<longleftrightarrow> plugins_ok s \<and> distinct (mh_active s) \<and> registry_of s = s"

text \<open>The callback is notified and does not manage plugins itself.\<close>

definition same_registry :: "('w, 'c, 'v, 'f, 'db) hatter \<Rightarrow> ('w, 'c, 'v, 'f, 'db) hatter \<Rightarrow> bool" where
  "same_registry s s' \<longleftrightarrow> (\<exists>mc. s' = s\<lparr>mh_machine := mc\<rparr>)"

lemma registry_of_idem [simp]: "registry_of (registry_of s) = registry_of s"
  by (simp add: registry_of_def Let_def)

lemma registry_fields [simp]:
  "mh_plugins (registry_of s) = mh_plugins s" "mh_active (registry_of s) = mh_active s"
  "mh_db (registry_of s) = mh_db s" "mh_machine (registry_of s) = mh_machine s"
  by (simp_all add: registry_of_def Let_def)

lemma registry_of_cong:
  assumes "active_of (mh_plugins s') (mh_active s') = active_of (mh_plugins s) (mh_active s)"
    "registry_of s = s" "mh_hooks s' = mh_hooks s" "mh_tools s' = mh_tools s"
    "mh_forms s' = mh_forms s" "mh_endpoints s' = mh_endpoints s"
  shows "registry_of s' = s'"
proof -
  have "mh_hooks (registry_of s) = mh_hooks s" "mh_tools (registry_of s) = mh_tools s"
    "mh_forms (registry_of s) = mh_forms s" "mh_endpoints (registry_of s) = mh_endpoints s"
    using assms(2) by simp_all
  then show ?thesis using assms by (simp add: registry_of_def Let_def)
qed

lemma plugins_ok_registry [simp]: "plugins_ok (registry_of s) = plugins_ok s"
  by (simp add: plugins_ok_def)

lemma plugins_ok_entry: "plugins_ok s \<Longrightarrow> map_of (mh_plugins s) i = Some p \<Longrightarrow>
   pl_id p = i \<and> (\<forall>h \<in> set (pl_hooks p). hk_plugin_id h = i)"
  unfolding plugins_ok_def using map_of_SomeD by fastforce

lemma plugins_ok_update:
  assumes "plugins_ok s" "pl_id p = i" "\<forall>h \<in> set (pl_hooks p). hk_plugin_id h = i"
  shows "plugins_ok (s\<lparr>mh_plugins := AList.update i p (mh_plugins s), mh_machine := mc\<rparr>)"
  using assms unfolding plugins_ok_def by (auto dest!: subsetD [OF set_update_subset])

lemma on_plugin_steps:
  assumes "stepsM same_plugin m" "on_plugin i m s = (r, s')" "plugins_ok s"
  shows "plugins_ok s' \<and> mh_active s' = mh_active s \<and> mh_db s' = mh_db s \<and> mh_hooks s' = mh_hooks s \<and>
     mh_tools s' = mh_tools s \<and> mh_forms s' = mh_forms s \<and> mh_endpoints s' = mh_endpoints s \<and>
     set (keys (mh_plugins s')) = set (keys (mh_plugins s)) \<and>
     (\<forall>p. map_of (mh_plugins s) i = Some p \<longrightarrow> (\<exists>p'. map_of (mh_plugins s') i = Some p' \<and> pl_path p' = pl_path p))"
proof (cases "map_of (mh_plugins s) i")
  case None
  then show ?thesis using assms by (simp add: on_plugin_def)
next
  case (Some p)
  obtain p' mc' where run: "m (p, mh_machine s) = (r, (p', mc'))"
    and s': "s' = s\<lparr>mh_plugins := AList.update i p' (mh_plugins s), mh_machine := mc'\<rparr>"
    using assms(2) Some by (auto simp: on_plugin_def split: prod.splits)
  have "same_plugin (p, mh_machine s) (p', mc')" using stepsMD [OF assms(1), of "(p, mh_machine s)"] run by simp
  moreover have "i \<in> set (keys (mh_plugins s))" using Some by (simp add: in_keys_iff)
  ultimately show ?thesis using plugins_ok_entry [OF assms(3) Some] plugins_ok_update [OF assms(3)] s'
    by (auto simp: same_plugin_def keys_update update_conv' Some)
qed

lemma active_of_update:
  assumes "\<forall>(j, q) \<in> set ps. pl_id q = j" "pl_id p = i" "i \<notin> set active"
  shows "active_of (AList.update i p ps) active = active_of ps active"
  using assms by (induction ps) (auto simp: active_of_def dict_values_def)

lemma active_of_same: "map_of ps i = Some p \<Longrightarrow> AList.update i p ps = ps"
  by (induction ps) (auto split: if_splits)

text \<open>Whatever happens in a toggle, errors of the plugin and of the callback included.\<close>

lemma toggle_cases:
  assumes "plugin_exists i s"
  shows "toggle_plugin E i s =
     (case on_plugin i (if i \<in> set (mh_active s) then Plugin_deactivate else Plugin_activate (he_host E)) s of
        (Inl e, s1) \<Rightarrow> (Inl e, s1)
      | (Inr u, s1) \<Rightarrow>
          (let active = (if i \<in> set (mh_active s) then remove1 i (mh_active s1) else mh_active s1 @ [i]);
               s2 = s1\<lparr>mh_active := active, mh_db := snd (upsert_setting_by_name (he_table E)
                 (Setting (he_uuid E) (he_now E) ''active_plugins''
                   (PList (map PStr (ho_list_set (he_host E) active))) None) (mh_db s1))\<rparr>
           in he_callback E (registry_of s2)))"
  using assms
  by (auto simp: toggle_plugin_def bindM_def Let_def save_active_plugins_to_db_def
      sync_hooks_tools_and_forms_def split: prod.splits sum.splits)

lemma same_registry_inv: "same_registry s s' \<Longrightarrow> hatter_inv s \<Longrightarrow> hatter_inv s'"
proof -
  assume "same_registry s s'" "hatter_inv s"
  then obtain mc where s': "s' = s\<lparr>mh_machine := mc\<rparr>" by (auto simp: same_registry_def)
  have "registry_of s' = s'" using \<open>hatter_inv s\<close>
    by (intro registry_of_cong [of s' s]) (simp_all add: s' hatter_inv_def)
  with \<open>hatter_inv s\<close> show ?thesis by (simp add: hatter_inv_def plugins_ok_def s')
qed

lemma on_plugin_fails_inv:
  assumes inv: "hatter_inv s"
    and run: "on_plugin i (if i \<in> set (mh_active s) then Plugin_deactivate else Plugin_activate H) s = (Inl e, s')"
  shows "hatter_inv s'"
proof (cases "map_of (mh_plugins s) i")
  case None
  then show ?thesis using assms by (simp add: on_plugin_def)
next
  case (Some p)
  let ?m = "if i \<in> set (mh_active s) then Plugin_deactivate else Plugin_activate H"
  have ok: "plugins_ok s" using inv by (simp add: hatter_inv_def)
  obtain p' mc' where m: "?m (p, mh_machine s) = (Inl e, (p', mc'))"
    and s': "s' = s\<lparr>mh_plugins := AList.update i p' (mh_plugins s), mh_machine := mc'\<rparr>"
    using run Some by (auto simp: on_plugin_def split: prod.splits)
  have "stepsM same_plugin ?m" by (simp add: Plugin_activate_steps Plugin_deactivate_steps)
  from on_plugin_steps [OF this run ok] have keep: "plugins_ok s'" "mh_active s' = mh_active s"
    "mh_hooks s' = mh_hooks s" "mh_tools s' = mh_tools s" "mh_forms s' = mh_forms s" "mh_endpoints s' = mh_endpoints s"
    by simp_all
  have ids: "\<forall>(j, q) \<in> set (mh_plugins s). pl_id q = j" using ok by (auto simp: plugins_ok_def)
  have "active_of (mh_plugins s') (mh_active s') = active_of (mh_plugins s) (mh_active s)"
  proof (cases "i \<in> set (mh_active s)")
    case True
    with m have "p' = p" using Plugin_deactivate_fails [of p "mh_machine s" e p' mc'] by simp
    then show ?thesis using s' active_of_same [OF Some] by simp
  next
    case False
    have "same_plugin (p, mh_machine s) (p', mc')"
      using stepsMD [OF Plugin_activate_steps, of "(p, mh_machine s)" H] m False by simp
    then have "pl_id p' = i" using plugins_ok_entry [OF ok Some] by (simp add: same_plugin_def)
    then show ?thesis using s' active_of_update [OF ids _ False] by simp
  qed
  then show ?thesis using inv keep registry_of_cong [of s' s] by (simp add: hatter_inv_def)
qed

lemma toggle_keeps_inv:
  assumes cb: "stepsM same_registry (he_callback E)" and inv: "hatter_inv s"
  shows "hatter_inv (snd (toggle_plugin E i s))"
proof (cases "plugin_exists i s")
  case False
  then show ?thesis using inv by (simp add: toggle_plugin_def)
next
  case True
  let ?m = "if i \<in> set (mh_active s) then Plugin_deactivate else Plugin_activate (he_host E)"
  obtain r s1 where run: "on_plugin i ?m s = (r, s1)" by (cases "on_plugin i ?m s")
  show ?thesis
  proof (cases r)
    case (Inl e)
    with run on_plugin_fails_inv [OF inv, of i "he_host E" e s1] show ?thesis
      by (simp add: toggle_cases [OF True])
  next
    case (Inr u)
    have "stepsM same_plugin ?m" by (simp add: Plugin_activate_steps Plugin_deactivate_steps)
    from on_plugin_steps [OF this run] inv have s1: "plugins_ok s1" "mh_active s1 = mh_active s"
      by (simp_all add: hatter_inv_def)
    let ?active = "if i \<in> set (mh_active s) then remove1 i (mh_active s1) else mh_active s1 @ [i]"
    define s2 where "s2 = s1\<lparr>mh_active := ?active, mh_db := snd (upsert_setting_by_name (he_table E)
                 (Setting (he_uuid E) (he_now E) ''active_plugins''
                   (PList (map PStr (ho_list_set (he_host E) ?active))) None) (mh_db s1))\<rparr>"
    have "hatter_inv (registry_of s2)" using s1 inv
      by (auto simp: hatter_inv_def plugins_ok_def s2_def)
    moreover have "toggle_plugin E i s = he_callback E (registry_of s2)"
      using run Inr by (simp add: toggle_cases [OF True] s2_def Let_def)
    ultimately show ?thesis using same_registry_inv stepsMD [OF cb] by metis
  qed
qed

lemma toggle_result:
  assumes "stepsM same_registry (he_callback E)" "plugins_ok s" "toggle_plugin E i s = (Inr (), s')"
  shows "plugin_exists i s \<and> set (keys (mh_plugins s')) = set (keys (mh_plugins s)) \<and>
     mh_active s' = (if i \<in> set (mh_active s) then remove1 i (mh_active s) else mh_active s @ [i]) \<and>
     mh_db s' = snd (upsert_setting_by_name (he_table E)
        (Setting (he_uuid E) (he_now E) ''active_plugins''
          (PList (map PStr (ho_list_set (he_host E) (mh_active s')))) None) (mh_db s)) \<and>
     plugins_ok s' \<and> registry_of s' = s' \<and>
     (\<forall>p. map_of (mh_plugins s) i = Some p \<longrightarrow> (\<exists>p'. map_of (mh_plugins s') i = Some p' \<and> pl_path p' = pl_path p))"
proof -
  have ex: "plugin_exists i s" using assms(3) by (auto simp: toggle_plugin_def split: if_splits)
  let ?m = "if i \<in> set (mh_active s) then Plugin_deactivate else Plugin_activate (he_host E)"
  obtain r s1 where run: "on_plugin i ?m s = (r, s1)" by (cases "on_plugin i ?m s")
  with assms(3) obtain u where r: "r = Inr u" by (cases r) (auto simp: toggle_cases [OF ex])
  have "stepsM same_plugin ?m" by (simp add: Plugin_activate_steps Plugin_deactivate_steps)
  from on_plugin_steps [OF this run] assms(2) have s1: "mh_active s1 = mh_active s" "mh_db s1 = mh_db s"
    "set (keys (mh_plugins s1)) = set (keys (mh_plugins s))" "plugins_ok s1"
    and path: "\<forall>p. map_of (mh_plugins s) i = Some p \<longrightarrow> (\<exists>p'. map_of (mh_plugins s1) i = Some p' \<and> pl_path p' = pl_path p)"
    by simp_all
  let ?active = "if i \<in> set (mh_active s) then remove1 i (mh_active s1) else mh_active s1 @ [i]"
  define s2 where "s2 = s1\<lparr>mh_active := ?active, mh_db := snd (upsert_setting_by_name (he_table E)
                 (Setting (he_uuid E) (he_now E) ''active_plugins''
                   (PList (map PStr (ho_list_set (he_host E) ?active))) None) (mh_db s1))\<rparr>"
  have "toggle_plugin E i s = he_callback E (registry_of s2)"
    using run r by (simp add: toggle_cases [OF ex] s2_def Let_def)
  with assms(3) have "same_registry (registry_of s2) s'"
    using stepsMD [OF assms(1), of "registry_of s2"] by simp
  then obtain mc where s': "s' = (registry_of s2)\<lparr>mh_machine := mc\<rparr>" by (auto simp: same_registry_def)
  have "mh_plugins s' = mh_plugins s1" "mh_active s' = ?active" "mh_db s' = mh_db s2"
    by (simp_all add: s' s2_def)
  moreover have "registry_of s' = s'"
    by (rule registry_of_cong [of s' "registry_of s2"]) (simp_all add: s')
  moreover have "plugins_ok s'" using s1(4) by (simp add: plugins_ok_def \<open>mh_plugins s' = mh_plugins s1\<close>)
  ultimately show ?thesis using s1 path run r ex by (simp add: s2_def)
qed

text \<open>The hooks that run under a name, seen from the plugins.\<close>

lemma registry_hooks:
  assumes "hatter_inv s"
  shows "map_of (mh_hooks s) n =
     (let hs = filter (\<lambda>h. hk_name h = n) (concat (map pl_hooks (active_of (mh_plugins s) (mh_active s))))
      in if hs = [] then None else Some (sort_desc hk_priority hs))"
proof -
  have "mh_hooks s = hook_table (concat (map pl_hooks (active_of (mh_plugins s) (mh_active s))))"
  proof -
    have "mh_hooks (registry_of s) = hook_table (concat (map pl_hooks (active_of (mh_plugins s) (mh_active s))))"
      by (simp add: registry_of_def Let_def)
    then show ?thesis using assms by (simp add: hatter_inv_def)
  qed
  then show ?thesis by (auto simp: map_of_hook_table Let_def filter_empty_conv image_iff)
qed

lemma registry_hook_owner:
  assumes "hatter_inv s" "map_of (mh_hooks s) n = Some hs" "h \<in> set hs"
  shows "hk_plugin_id h \<in> set (mh_active s) \<and> hk_plugin_id h \<in> set (keys (mh_plugins s)) \<and> hk_name h = n"
proof -
  from assms(2,3) registry_hooks [OF assms(1), of n] obtain p where
    p: "p \<in> set (active_of (mh_plugins s) (mh_active s))" "h \<in> set (pl_hooks p)" "hk_name h = n"
    by (auto simp: Let_def split: if_splits)
  then obtain i where i: "(i, p) \<in> set (mh_plugins s)" "pl_id p \<in> set (mh_active s)"
    by (auto simp: active_of_def dict_values_def)
  with assms(1) p have "pl_id p = i" "hk_plugin_id h = i"
    by (auto simp: hatter_inv_def plugins_ok_def)
  with i p show ?thesis by (force simp: keys_def)
qed

subsection \<open>Hooks as an exception-free pipeline\<close>

definition hook_effect :: "'v list \<Rightarrow> ('c, 'v) cat_hook \<Rightarrow> 'v \<times> 'c \<Rightarrow> 'v \<times> 'c" where
  "hook_effect args h tc =
     (case hk_function h (fst tc # args) (snd tc) of
        (Inr (Some t), c) \<Rightarrow> (t, c)
      | (_, c) \<Rightarrow> (fst tc, c))"

lemma pipe_hooks_fold:
  assumes "\<forall>h \<in> set hs. hk_plugin_id h \<in> set plugins"
  shows "pipe_hooks plugins args hs tea c =
     (Inr (fst (fold (hook_effect args) hs (tea, c))), snd (fold (hook_effect args) hs (tea, c)))"
  using assms
proof (induction hs arbitrary: tea c)
  case (Cons h hs)
  obtain r c1 where run: "hk_function h (tea # args) c = (r, c1)" by (cases "hk_function h (tea # args) c")
  have "pipe_hooks plugins args (h # hs) tea c =
      pipe_hooks plugins args hs (fst (hook_effect args h (tea, c))) (snd (hook_effect args h (tea, c)))"
    using Cons.prems run
    by (cases r) (auto simp: bindM_def catchM_def hook_error_def hook_effect_def split: option.splits)
  then show ?case using Cons by simp
qed simp

lemma run_hooks_total:
  assumes "\<forall>h \<in> set hs. hk_plugin_id h \<in> set plugins"
  shows "\<exists>c'. run_hooks plugins hs c = (Inr (), c')"
  using assms
proof (induction hs arbitrary: c)
  case (Cons h hs)
  obtain r c1 where run: "hk_function h [] c = (r, c1)" by (cases "hk_function h [] c")
  have "run_hooks plugins (h # hs) c = run_hooks plugins hs c1"
    using Cons.prems run by (cases r) (auto simp: bindM_def catchM_def hook_error_def)
  with Cons show ?case by simp
qed simp

subsection \<open>Properties\<close>

text \<open>
  (C7) Toggling a plugin. In every case, also when the plugin's own code, pip or the notified callback
  raises, the manager stays consistent: hooks, tools, forms and endpoints in the registry are exactly
  those of the active plugins, hooks by descending priority. When it succeeds the plugin has
  switched sides, the others keep theirs, and a restart would read the same set of active plugins
  from the database (with the core plugin). An unknown plugin is refused and nothing changes.
\<close>

theorem toggle_plugin_correct:
  assumes "stepsM same_registry (he_callback E)" "hatter_inv s"
    and "tinydb_table (he_table E) docs" "\<And>xs. set (ho_list_set (he_host E) xs) = set xs"
  shows "case toggle_plugin E i s of
      (Inl e, s') \<Rightarrow> hatter_inv s' \<and> (\<not> plugin_exists i s \<longrightarrow> s' = s)
    | (Inr u, s') \<Rightarrow> hatter_inv s' \<and> plugin_exists i s \<and>
        set (mh_active s') = (if i \<in> set (mh_active s) then set (mh_active s) - {i} else insert i (set (mh_active s))) \<and>
        (\<exists>stored. load_active_plugins_from_db (he_table E) (mh_db s') = Inr stored \<and>
           set stored = insert ''core_plugin'' (set (mh_active s'))) \<and>
        (\<forall>n hs h. map_of (mh_hooks s') n = Some hs \<longrightarrow> h \<in> set hs \<longrightarrow>
           hk_plugin_id h \<in> set (mh_active s') \<and> sorted (map (\<lambda>h. - hk_priority h) hs))"
proof -
  obtain r s' where run: "toggle_plugin E i s = (r, s')" by (cases "toggle_plugin E i s")
  have inv: "hatter_inv s'" using toggle_keeps_inv [OF assms(1,2), of i] run by simp
  show ?thesis
  proof (cases r)
    case (Inl e)
    have "\<not> plugin_exists i s \<Longrightarrow> s' = s" using run by (simp add: toggle_plugin_def)
    with Inl run inv show ?thesis by simp
  next
    case (Inr u)
    with run have "toggle_plugin E i s = (Inr (), s')" by simp
    note res = toggle_result [OF assms(1) _ this]
    have "distinct (mh_active s)" using assms(2) by (simp add: hatter_inv_def)
    then have active: "set (mh_active s') =
        (if i \<in> set (mh_active s) then set (mh_active s) - {i} else insert i (set (mh_active s)))"
      using res assms(2) by (simp add: hatter_inv_def)
    have "\<exists>stored. load_active_plugins_from_db (he_table E) (mh_db s') = Inr stored \<and>
        set stored = insert ''core_plugin'' (set (mh_active s'))"
      using res assms(2,4) by (auto simp: hatter_inv_def load_active_plugins_from_db_def tinydb_table.lookup_upsert [OF assms(3)])
    moreover have "hk_plugin_id h \<in> set (mh_active s') \<and> sorted (map (\<lambda>h. - hk_priority h) hs)"
      if "map_of (mh_hooks s') n = Some hs" "h \<in> set hs" for n hs h
      using registry_hook_owner [OF inv that] that(1) registry_hooks [OF inv, of n] sorted_sort_desc
      by (auto simp: Let_def split: if_splits)
    ultimately show ?thesis using Inr run inv res active assms(2) by (simp add: hatter_inv_def)
  qed
qed

text \<open>
  (C6) Executing a hook. If some active plugin defines it, \<open>execute_hook\<close> never raises: it runs all
  hooks of that name by descending priority (equal priorities in loading order), hands each the
  tea cup of the one before, keeps the cup when a hook raises or returns None, and returns the last
  cup. If no active plugin defines it, it raises and runs nothing.
\<close>

theorem execute_hook_pipeline:
  assumes "hatter_inv mh"
  shows "execute_hook mh n (tea # args) c =
     (let hs = filter (\<lambda>h. hk_name h = n) (concat (map pl_hooks (active_of (mh_plugins mh) (mh_active mh)))) in
      if hs = [] then (Inl (Exn ''Exception'' (''Hook '' @ n @ '' not present in any plugin'')), c)
      else case fold (hook_effect args) (sort_desc hk_priority hs) (tea, c) of (t, c') \<Rightarrow> (Inr (Some t), c'))"
proof -
  have "\<forall>h \<in> set hs. hk_plugin_id h \<in> set (keys (mh_plugins mh))" if "map_of (mh_hooks mh) n = Some hs" for hs
    using registry_hook_owner [OF assms that] by simp
  then show ?thesis using registry_hooks [OF assms, of n]
    by (simp add: execute_hook_def Let_def bindM_def pipe_hooks_fold case_prod_beta split: if_splits)
qed

lemma load_plugin_ok:
  assumes "plugins_ok s"
  shows "plugins_ok (snd (load_plugin path s)) \<and> mh_active (snd (load_plugin path s)) = mh_active s \<and>
     mh_db (snd (load_plugin path s)) = mh_db s \<and> mh_machine (snd (load_plugin path s)) = mh_machine s"
proof (cases "Plugin_init path (mh_machine s) :: ('a, 'b, 'c, 'd) plugin result")
  case (Inr p)
  then have "pl_hooks p = []"
    by (auto simp: Plugin_init_def bindR_Inr_iff split: option.splits if_splits)
  then show ?thesis
    using Inr plugins_ok_update [OF assms, of p "pl_id p" "mh_machine s"] by (simp add: load_plugin_def)
qed (use assms in \<open>simp add: load_plugin_def\<close>)

text \<open>
  (C31) Installing a package switches the plugin: a plugin that was not active is active afterwards,
  but installing a new version of a plugin that is active leaves it deactivated. The other plugins
  keep their state and the registry is consistent.
\<close>

theorem install_plugin_switches:
  assumes "stepsM same_registry (he_callback E)" "hatter_inv s" "install_plugin E pk s = (Inr (), s')"
  shows "hatter_inv s' \<and>
     (folder_name (get_plugins_path @ pk_slug pk) \<in> set (mh_active s') \<longleftrightarrow>
        folder_name (get_plugins_path @ pk_slug pk) \<notin> set (mh_active s)) \<and>
     (\<forall>j. j \<noteq> folder_name (get_plugins_path @ pk_slug pk) \<longrightarrow>
        (j \<in> set (mh_active s') \<longleftrightarrow> j \<in> set (mh_active s)))"
proof -
  let ?i = "folder_name (get_plugins_path @ pk_slug pk)"
  obtain ex where ex: "PluginExtractor_init pk = Inr ex" and id: "ex_id ex = pk_slug pk"
    using assms(3) by (cases "PluginExtractor_init pk")
      (auto simp: install_plugin_def PluginExtractor_init_def split: if_splits)
  define s1 where "s1 = s\<lparr>mh_machine := snd (extract_to ex get_plugins_path (mh_machine s))\<rparr>"
  define s2 where "s2 = snd (load_plugin (get_plugins_path @ pk_slug pk) s1)"
  have "plugins_ok s1" using assms(2) by (simp add: hatter_inv_def plugins_ok_def s1_def)
  from load_plugin_ok [OF this, of "get_plugins_path @ pk_slug pk"]
  have s2: "plugins_ok s2" "mh_active s2 = mh_active s" by (simp_all add: s2_def s1_def)
  have "fst (extract_to ex get_plugins_path mc) = get_plugins_path @ pk_slug pk" for mc :: "'a machine"
    by (simp add: extract_to_def Let_def id)
  then have "toggle_plugin E ?i s2 = (Inr (), s')"
    using assms(3) by (simp add: install_plugin_def ex load_plugin_def s2_def s1_def)
  from toggle_result [OF assms(1) s2(1) this] s2(2) assms(2) show ?thesis
    by (auto simp: hatter_inv_def)
qed

text \<open>
  Uninstalling removes a plugin completely: its object, its entry in the list of active plugins,
  everything it registered and its folder. The core plugin and unknown plugins are left alone.
\<close>

theorem uninstall_plugin_removes:
  assumes "stepsM same_registry (he_callback E)" "hatter_inv s" "uninstall_plugin E i s = (Inr (), s')"
  shows "if plugin_exists i s \<and> i \<noteq> ''core_plugin''
     then hatter_inv s' \<and> \<not> plugin_exists i s' \<and> i \<notin> set (mh_active s') \<and>
       (\<forall>j. j \<noteq> i \<longrightarrow> (plugin_exists j s' \<longleftrightarrow> plugin_exists j s) \<and> (j \<in> set (mh_active s') \<longleftrightarrow> j \<in> set (mh_active s))) \<and>
       (\<forall>p. map_of (mh_plugins s) i = Some p \<longrightarrow> norm_path (pl_path p) \<notin> set (keys (mc_disk (mh_machine s'))))
     else s' = s"
proof (cases "plugin_exists i s \<and> i \<noteq> ''core_plugin''")
  case False
  then show ?thesis using assms(3) by (auto simp: uninstall_plugin_def)
next
  case True
  let ?first = "if i \<in> set (mh_active s) then toggle_plugin E i else retM ()"
  obtain u s1 where run: "?first s = (Inr u, s1)" using assms(3) True
    by (cases "?first s"; cases "fst (?first s)") (auto simp: uninstall_plugin_def bindM_def split: if_splits)
  have s1: "hatter_inv s1" "i \<notin> set (mh_active s1)" "set (keys (mh_plugins s1)) = set (keys (mh_plugins s))"
    "\<forall>j. j \<noteq> i \<longrightarrow> (j \<in> set (mh_active s1) \<longleftrightarrow> j \<in> set (mh_active s))"
    using run assms(2) toggle_result [OF assms(1), of s i s1]
    by (auto simp: hatter_inv_def split: if_splits)
  obtain p0 where p0: "map_of (mh_plugins s) i = Some p0" using True by (auto simp: plugin_exists_def in_keys_iff)
  then obtain p where p: "map_of (mh_plugins s1) i = Some p" "pl_path p = pl_path p0"
    using run assms(2) toggle_result [OF assms(1), of s i s1] by (auto simp: hatter_inv_def split: if_splits)
  have s': "s' = s1\<lparr>mh_plugins := AList.delete i (mh_plugins s1), mh_machine := (mh_machine s1)\<lparr>mc_disk :=
                      AList.delete (norm_path (pl_path p)) (mc_disk (mh_machine s1))\<rparr>\<rparr>"
    using assms(3) run p(1) True by (auto simp: uninstall_plugin_def bindM_def split: if_splits)
  have "pl_id q \<noteq> i \<Longrightarrow> j \<noteq> i" if "(j, q) \<in> set (mh_plugins s1)" for j q
    using s1(1) that by (auto simp: hatter_inv_def plugins_ok_def)
  then have "active_of (AList.delete i (mh_plugins s1)) (mh_active s1) = active_of (mh_plugins s1) (mh_active s1)"
    using s1(1,2) by (auto simp: active_of_def dict_values_def delete_filter hatter_inv_def plugins_ok_def
        filter_map o_def intro!: arg_cong [where f = "map snd"] filter_cong)
  then have "registry_of s' = s'" using s1(1)
    by (intro registry_of_cong [of s' s1]) (simp_all add: s' hatter_inv_def)
  moreover have "plugins_ok s'" using s1(1)
    by (auto simp: hatter_inv_def plugins_ok_def s' delete_filter dict_wf_filter)
  moreover have "norm_path (pl_path p) \<notin> set (keys (mc_disk (mh_machine s')))" by (simp add: s' keys_delete)
  ultimately show ?thesis using True s1 p0 p(2)
    by (auto simp: hatter_inv_def plugin_exists_def s' keys_delete)
qed

lemma discover_plugin_ok:
  assumes "discover_plugin E path s = (Inr (), s')" "plugins_ok s"
  shows "plugins_ok s' \<and> mh_active s' = mh_active s \<and> mh_db s' = mh_db s"
proof -
  define s1 where "s1 = snd (load_plugin path s)"
  have load0: "load_plugin path s = (Inr (), s1)" by (simp add: s1_def load_plugin_def)
  have load: "bindM (load_plugin path) f s = f () s1" for f :: "unit \<Rightarrow> ('a, 'b, 'c, 'd, 'e, unit) hatter_comp"
    using load0 by (simp add: bindM_def)
  note s1 = load_plugin_ok [OF assms(2), of path, folded s1_def]
  show ?thesis
  proof (cases "folder_name path \<in> set (mh_active s1)")
    case False
    then show ?thesis using assms(1) s1 by (simp add: discover_plugin_def load)
  next
    case True
    obtain r s2 where run: "on_plugin (folder_name path) (Plugin_activate (he_host E)) s1 = (r, s2)"
      by (cases "on_plugin (folder_name path) (Plugin_activate (he_host E)) s1")
    have "r = Inr () \<and> s' = s2"
    proof (cases r)
      case (Inl e)
      then show ?thesis using assms(1) True run
        by (auto simp: discover_plugin_def load0 catchM_def bindM_def split: prod.splits sum.splits if_splits)
    qed (use assms(1) True run in \<open>simp add: discover_plugin_def load catchM_def\<close>)
    with on_plugin_steps [OF Plugin_activate_steps run] s1 show ?thesis by simp
  qed
qed

lemma discover_all_ok:
  assumes "forM paths (discover_plugin E) s = (Inr (), s')" "plugins_ok s"
  shows "plugins_ok s' \<and> mh_active s' = mh_active s \<and> mh_db s' = mh_db s"
  using assms
proof (induction paths arbitrary: s)
  case (Cons path paths)
  then obtain u s1 where s1: "discover_plugin E path s = (Inr u, s1)"
    and rest: "forM paths (discover_plugin E) s1 = (Inr (), s')" by (auto simp: bindM_result_Inr)
  from discover_plugin_ok [of E path s s1] s1 Cons.prems(2)
  have "plugins_ok s1" "mh_active s1 = mh_active s" "mh_db s1 = mh_db s" by simp_all
  with Cons.IH [OF rest] show ?case by simp
qed simp


subsection \<open>The plugin of the caller\<close>

lemma split_char_head: "c \<notin> set w \<Longrightarrow> hd (split_char c (w @ c # s)) = w"
  by (induction w) (auto split: list.splits)

text \<open>Code in the folder of a plugin gets the object of this plugin, if the path does not name the folder of the plugins once more.\<close>

lemma get_plugin_of_file:
  assumes "CHR ''/'' \<notin> set plugin_id" "\<not> contains get_plugins_path (plugin_id @ ''/'' @ path)"
  shows "get_plugin (get_plugins_path @ plugin_id @ ''/'' @ path) h =
     lookup_exn (Exn ''KeyError'' plugin_id) (map_of (mh_plugins h) plugin_id)"
proof -
  have "replace_all get_plugins_path [] (get_plugins_path @ plugin_id @ ''/'' @ path) =
      replace_all get_plugins_path [] (plugin_id @ ''/'' @ path)"
    by (simp add: get_plugins_path_def get_base_path_def)
  also have "\<dots> = plugin_id @ ''/'' @ path"
    by (rule replace_all_id [OF _ assms(2)]) (simp add: get_plugins_path_def)
  finally show ?thesis using split_char_head [OF assms(1), of path] by (simp add: get_plugin_def Let_def)
qed

text \<open>
  Otherwise the name is wrong: the code of a plugin whose name ends in \<open>cat\<close>, in a subfolder \<open>plugins\<close>, does not find its plugin, and
  neither does the code of the core plugin, whose folder is elsewhere.
\<close>

lemma get_plugin_elsewhere:
  "get_plugin ''cat/plugins/tomcat/plugins/tool.py'' h = lookup_exn (Exn ''KeyError'' ''tomtool.py'') (map_of (mh_plugins h) ''tomtool.py'')"
  "get_plugin ''cat/mad_hatter/core_plugin/hooks/flow.py'' h = lookup_exn (Exn ''KeyError'' ''cat'') (map_of (mh_plugins h) ''cat'')"
  by (simp_all add: get_plugin_def Let_def get_plugins_path_def get_base_path_def)

subsection \<open>Concrete runs\<close>

definition demo_env :: "(unit, unit, string, unit, setting list) hatter_env" where
  "demo_env =
     \<lparr>he_host = quiet_host, he_table = list_table, he_uuid = ''s9'', he_now = 0, he_callback = retM ()\<rparr>"

definition sugar_hook :: "int \<Rightarrow> string \<Rightarrow> (unit, string) cat_hook" where
  "sugar_hook prio t =
     \<lparr>hk_function = (\<lambda>args. retM (case args of [] \<Rightarrow> None | cup # _ \<Rightarrow> Some (cup @ t))),
      hk_name = ''before_cat_sends_message'', hk_priority = prio, hk_plugin_id = ''cheese''\<rparr>"

definition demo_hatter :: "(unit, unit, string, unit, setting list) hatter" where
  "demo_hatter =
     registry_of \<lparr>mh_plugins = [(''cheese'', cheese_plugin\<lparr>pl_hooks := [sugar_hook 1 '' milk'', sugar_hook 3 '' sugar'']\<rparr>)],
      mh_hooks = [], mh_tools = [], mh_forms = [], mh_endpoints = [], mh_active = [''cheese''],
      mh_machine = cheese_machine, mh_db = []\<rparr>"

lemma demo_hatter_inv: "hatter_inv demo_hatter"
  by (simp add: hatter_inv_def demo_hatter_def plugins_ok_def dict_wf_def cheese_plugin_def sugar_hook_def)

lemma demo_env_facts:
  "stepsM same_registry (he_callback demo_env)" "tinydb_table (he_table demo_env) (\<lambda>db. db)"
  "set (ho_list_set (he_host demo_env) xs) = set xs"
proof -
  have "same_registry s s" for s :: "(unit, unit, string, unit, setting list) hatter"
    unfolding same_registry_def by (rule exI [of _ "mh_machine s"]) simp
  then show "stepsM same_registry (he_callback demo_env)" by (simp add: stepsM_def demo_env_def)
  show "tinydb_table (he_table demo_env) (\<lambda>db. db)"
    using list_table.tinydb_table_axioms by (simp add: demo_env_def)
  show "set (ho_list_set (he_host demo_env) xs) = set xs" by (simp add: demo_env_def quiet_host_def)
qed

lemma demo_toggle: "\<exists>s'. toggle_plugin demo_env ''cheese'' demo_hatter = (Inr (), s')"
  by (simp add: toggle_plugin_def plugin_exists_def demo_hatter_def keys_def on_plugin_def bindM_apply
      cheese_plugin_def Plugin_deactivate_def deactivated_override_def case_prod_beta Let_def
      sync_hooks_tools_and_forms_def save_active_plugins_to_db_def demo_env_def)

theorem toggle_plugin_correct_witness:
  "\<exists>s'. toggle_plugin demo_env ''cheese'' demo_hatter = (Inr (), s') \<and> hatter_inv s' \<and> set (mh_active s') = {}"
  using toggle_plugin_correct [of demo_env demo_hatter "\<lambda>db. db" "''cheese''", OF demo_env_facts(1) demo_hatter_inv demo_env_facts(2,3)]
    demo_toggle by (auto simp: demo_hatter_def)

theorem execute_hook_pipeline_witness:
  "execute_hook demo_hatter ''before_cat_sends_message'' [''tea''] () = (Inr (Some ''tea sugar milk''), ()) \<and>
   execute_hook demo_hatter ''agent_fast_reply'' [''tea''] () =
     (Inl (Exn ''Exception'' ''Hook agent_fast_reply not present in any plugin''), ())"
proof -
  have hooks: "concat (map pl_hooks (active_of (mh_plugins demo_hatter) (mh_active demo_hatter))) =
      [sugar_hook 1 '' milk'', sugar_hook 3 '' sugar'']"
    by (simp add: demo_hatter_def active_of_def dict_values_def cheese_plugin_def)
  have sorted: "sort_desc hk_priority [sugar_hook 1 '' milk'', sugar_hook 3 '' sugar''] =
      [sugar_hook 3 '' sugar'', sugar_hook 1 '' milk'']"
    by (simp add: sort_desc_def sugar_hook_def)
  show ?thesis
    using execute_hook_pipeline [OF demo_hatter_inv, of "''before_cat_sends_message''" "''tea''" "[]" "()"]
      execute_hook_pipeline [OF demo_hatter_inv, of "''agent_fast_reply''" "''tea''" "[]" "()"]
    by (simp add: hooks sorted Let_def) (simp add: sugar_hook_def hook_effect_def)
qed

definition cheese_package :: "string \<Rightarrow> package" where
  "cheese_package slug =
     \<lparr>pk_file = slug @ ''.zip'', pk_content_type = Some ''application/zip'', pk_slug = slug, pk_entries = [],
      pk_flat = \<lparr>fd_py_files = [''cat/plugins/cheese/a.py''], fd_manifest = None, fd_settings = None,
                 fd_requirements = None\<rparr>\<rparr>"

lemma toggle_off_total:
  assumes "map_of (mh_plugins s) i = Some p" "map_of (pl_overrides p) ''deactivated'' = None"
    and "i \<in> set (mh_active s)" "he_callback E = retM ()"
  shows "\<exists>s'. toggle_plugin E i s = (Inr (), s')"
proof -
  obtain p' mc' where "Plugin_deactivate (p, mh_machine s) = (Inr (), (p', mc'))"
    using Plugin_deactivate_total [OF assms(2)] by blast
  then have "\<exists>s1. on_plugin i Plugin_deactivate s = (Inr (), s1)" using assms(1) by (simp add: on_plugin_def)
  moreover have "plugin_exists i s" using assms(1) by (simp add: plugin_exists_def in_keys_iff)
  ultimately show ?thesis using assms(3,4) by (auto simp: toggle_cases Let_def)
qed

lemma demo_install: "\<exists>s'. install_plugin demo_env (cheese_package ''cheese'') demo_hatter = (Inr (), s')"
proof -
  have path: "get_plugins_path = ''cat/plugins/''" "folder_name ''cat/plugins/cheese'' = ''cheese''"
    "norm_path ''cat/plugins/cheese'' = ''cat/plugins/cheese''"
    by (simp_all add: get_plugins_path_def get_base_path_def folder_name_def norm_path_def)
  obtain camel where camel: "to_camel_case ''cheese'' = Inr camel"
    using to_camel_case_fails_iff [of "''cheese''"] by (cases "to_camel_case ''cheese''") (auto simp: is_space_def)
  let ?ex = "\<lparr>ex_extension = Zip, ex_package = cheese_package ''cheese'', ex_id = ''cheese''\<rparr>"
  let ?s = "demo_hatter\<lparr>mh_machine := snd (extract_to ?ex get_plugins_path (mh_machine demo_hatter))\<rparr>"
  have ex: "PluginExtractor_init (cheese_package ''cheese'') = Inr ?ex"
    by (simp add: PluginExtractor_init_def cheese_package_def)
  have where_to: "fst (extract_to ?ex get_plugins_path mc) = ''cat/plugins/cheese''" for mc :: "unit machine"
    by (simp add: extract_to_def Let_def path)
  have "\<exists>p :: (unit, unit, string, unit) plugin. Plugin_init ''cat/plugins/cheese'' (mh_machine ?s) = Inr p \<and>
      pl_id p = ''cheese'' \<and> pl_overrides p = []"
    using camel
    by (simp add: path Plugin_init_def extract_to_def Let_def demo_hatter_def cheese_machine_def cheese_package_def
        folder_to_copy_def load_manifest_def)
  then obtain p :: "(unit, unit, string, unit) plugin" where
    p: "Plugin_init ''cat/plugins/cheese'' (mh_machine ?s) = Inr p" "pl_id p = ''cheese''" "pl_overrides p = []" by blast
  let ?s2 = "?s\<lparr>mh_plugins := AList.update ''cheese'' p (mh_plugins ?s)\<rparr>"
  have "install_plugin demo_env (cheese_package ''cheese'') demo_hatter = toggle_plugin demo_env ''cheese'' ?s2"
    using p path where_to by (simp add: install_plugin_def ex load_plugin_def)
  moreover have "\<exists>s'. toggle_plugin demo_env ''cheese'' ?s2 = (Inr (), s')"
    by (rule toggle_off_total [of _ _ p]) (simp_all add: p update_conv' demo_hatter_def demo_env_def)
  ultimately show ?thesis by simp
qed

theorem install_plugin_switches_witness:
  "\<exists>s'. install_plugin demo_env (cheese_package ''cheese'') demo_hatter = (Inr (), s') \<and>
     ''cheese'' \<in> set (mh_active demo_hatter) \<and> ''cheese'' \<notin> set (mh_active s')"
proof -
  obtain s' where run: "install_plugin demo_env (cheese_package ''cheese'') demo_hatter = (Inr (), s')"
    using demo_install by blast
  have "folder_name (get_plugins_path @ pk_slug (cheese_package ''cheese'')) = ''cheese''"
    by (simp add: get_plugins_path_def get_base_path_def folder_name_def cheese_package_def)
  with install_plugin_switches [OF demo_env_facts(1) demo_hatter_inv run] run show ?thesis
    by (simp add: demo_hatter_def)
qed

theorem uninstall_plugin_removes_witness:
  "\<exists>s'. uninstall_plugin demo_env ''cheese'' demo_hatter = (Inr (), s') \<and> \<not> plugin_exists ''cheese'' s' \<and>
     mh_hooks s' = []"
proof -
  obtain s1 where s1: "toggle_plugin demo_env ''cheese'' demo_hatter = (Inr (), s1)" using demo_toggle by blast
  have here: "plugin_exists ''cheese'' demo_hatter" "''cheese'' \<in> set (mh_active demo_hatter)"
    by (simp_all add: plugin_exists_def demo_hatter_def keys_def)
  have "''cheese'' \<in> set (keys (mh_plugins s1))"
    using toggle_result [OF demo_env_facts(1) _ s1] demo_hatter_inv here(1)
    by (simp add: hatter_inv_def plugin_exists_def)
  then obtain p where "map_of (mh_plugins s1) ''cheese'' = Some p" by (auto simp: in_keys_iff)
  with s1 here obtain s' where run: "uninstall_plugin demo_env ''cheese'' demo_hatter = (Inr (), s')"
    by (simp add: uninstall_plugin_def bindM_def)
  from uninstall_plugin_removes [OF demo_env_facts(1) demo_hatter_inv run] here
  have out: "hatter_inv s'" "\<not> plugin_exists ''cheese'' s'"
    "\<forall>j. j \<noteq> ''cheese'' \<longrightarrow> (plugin_exists j s' \<longleftrightarrow> plugin_exists j demo_hatter)" by simp_all
  then have "\<not> plugin_exists j s'" for j
    by (cases "j = ''cheese''") (auto simp: plugin_exists_def demo_hatter_def keys_def)
  then have "mh_plugins s' = []" by (cases "mh_plugins s'") (auto simp: plugin_exists_def keys_def)
  then have "mh_hooks (registry_of s') = []"
    by (simp add: registry_of_def Let_def active_of_def dict_values_def hook_table_def)
  then show ?thesis using out run by (auto simp: hatter_inv_def)
qed

lemma quiet_activation:
  assumes "plugin_folder (p, mc) = Some fd" "fd_requirements fd = None"
  shows "\<exists>s'. Plugin_activate (quiet_host :: ('w, 'c, 'v, 'f) host) (p, mc) = (Inr (), s')"
proof -
  have imp: "\<exists>mods'. import_files (quiet_host :: ('w, 'c, 'v, 'f) host) fs mods = (empty_module, mods')" for fs mods
  proof (induction fs arbitrary: mods)
    case (Cons f fs)
    have "ho_import (quiet_host :: ('w, 'c, 'v, 'f) host) n = Inr empty_module" for n by (simp add: quiet_host_def)
    moreover obtain mods' where "import_files (quiet_host :: ('w, 'c, 'v, 'f) host) fs
        (insert (load_module_name f) mods) = (empty_module, mods')" using Cons by blast
    ultimately show ?case by (simp add: join_modules_def empty_module_def)
  qed simp
  obtain mods' where mods': "import_files (quiet_host :: ('w, 'c, 'v, 'f) host) (pl_py_files p) (mc_modules mc) = (empty_module, mods')"
    using imp by blast
  let ?H = "quiet_host :: ('w, 'c, 'v, 'f) host"
  define s1 where "s1 = snd (load_decorated_functions ?H (p, mc))"
  have load: "load_decorated_functions ?H (p, mc) = (Inr (), s1)"
    by (simp add: s1_def load_decorated_functions_def)
  have s1: "pl_overrides (fst s1) = []" "plugin_folder s1 = Some fd"
    using mods' assms(1) by (simp_all add: s1_def load_decorated_functions_def empty_module_def dict_of_def
        dict_merge_def plugin_folder_def)
  define m where "m = (if settings_file s1 = None then create_settings_from_model ?H else retM True)"
  have create: "m s1 = (Inr True, snd (m s1))"
    using s1 by (simp add: m_def create_settings_from_model_def catchM_def bindM_def Plugin_settings_model_def
        PluginSettingsModel_def can_write_settings_def quiet_host_def case_prod_beta)
  have "settings_only s1 (snd (m s1))"
    using stepsMD [OF create_settings_steps [of ?H], of s1] reflpD [OF settings_only_preorder(1), of s1]
    by (cases "settings_file s1") (simp_all add: m_def)
  then have ov: "pl_overrides (fst (snd (m s1))) = []" using s1 by (simp add: settings_only_def)
  have inst: "install_requirements ?H (p, mc) = (Inr (), (p, mc))"
    using assms by (simp add: install_requirements_def)
  have "Plugin_activate ?H (p, mc) = bindM m (\<lambda>_. bindM (modM (\<lambda>(p, mc). (p\<lparr>pl_active := True\<rparr>, mc))) (\<lambda>_.
      bindM (getM fst) activated_override)) s1"
    using inst load by (simp add: Plugin_activate_def bindM_Inr m_def)
  then show ?thesis using create ov
    by (auto simp: bindM_Inr activated_override_def case_prod_beta)
qed

definition core_machine :: "unit machine" where
  "core_machine = cheese_machine\<lparr>mc_disk := [(''cat/mad_hatter/core_plugin'',
     \<lparr>fd_py_files = [''cat/mad_hatter/core_plugin/a.py''], fd_manifest = None, fd_settings = None, fd_requirements = None\<rparr>)]\<rparr>"


end
