(* ===== verification/Working_Memory.thy ===== *)
theory Working_Memory
  imports Utils
begin

text \<open>
  Messages and the working memory: \<open>core/cat/convo/messages.py\<close>,
  \<open>core/cat/convo/model_interactions.py\<close> and \<open>core/cat/memory/working_memory.py\<close>.

  A message is a record of the fields of \<open>ConversationMessage\<close>, with the subclass as a constructor.
  The history holds at most \<open>MAX_WORKING_HISTORY_LENGTH\<close> messages, as long as it is changed by
  \<open>update_history\<close>. The active form is a type parameter; what is recalled from a vector
  collection are documents with their score, vector and point id. Downloading an image
  (\<open>requests\<close>, Pillow) is a parameter. The langchain message types are data types here.
\<close>

subsection \<open>Interactions with the models\<close>

datatype model_interaction =
  LLMModelInteraction (mi_source: string) (mi_prompt: "string list") (mi_input_tokens: int)
    (mi_started_at: real) (llm_reply: string) (mi_output_tokens: int) (mi_ended_at: real)
| EmbedderModelInteraction (mi_source: string) (mi_prompt: "string list") (mi_input_tokens: int)
    (mi_started_at: real) (embedder_reply: "real list")

subsection \<open>Messages\<close>

datatype Role = AI | Human

record document =
  page_content :: string
  metadata :: json

record recalled =
  rc_document :: document
  rc_score :: real
  rc_vector :: "real list"
  rc_id :: string

record message_why =
  why_input :: string
  why_intermediate_steps :: "pyval list"
  why_memory :: "(string \<times> recalled list) list"
  why_model_interactions :: "model_interaction list"
  why_agent_output :: "json option"

record conversation_message =
  cm_user_id :: string
  cm_when :: real
  cm_who :: string
  cm_text :: "string option"
  cm_image :: "string option"
  cm_audio :: "string option"

datatype message =
  CatMessage (msg_base: conversation_message) (msg_why: "message_why option")
| UserMessage (msg_base: conversation_message)

fun message_role :: "message \<Rightarrow> Role" where
  "message_role (CatMessage m w) = AI"
| "message_role (UserMessage m) = Human"

definition msg_text :: "message \<Rightarrow> string option" where
  "msg_text m = cm_text (msg_base m)"

definition msg_who :: "message \<Rightarrow> string" where
  "msg_who m = cm_who (msg_base m)"

text \<open>
  The constructors with their defaults. An agent step is a nested list of values; \<open>why.agent_output\<close> is the extra
  attribute the cat adds to the explanation of its answer.
\<close>

definition new_message :: "string \<Rightarrow> string \<Rightarrow> real \<Rightarrow> string option \<Rightarrow> conversation_message" where
  "new_message user_id who now txt =
     \<lparr>cm_user_id = user_id, cm_when = now, cm_who = who, cm_text = txt, cm_image = None, cm_audio = None\<rparr>"

datatype content_part = TextPart string | ImagePart string

datatype base_message =
  AIMessage string string
| HumanMessage string "content_part list"

text \<open>The answer to the download of an image: status, body text, image format and base64 body.\<close>

record image_response =
  ir_status :: int
  ir_mime :: string
  ir_base64 :: string

definition langchainfy_image :: "(string \<Rightarrow> image_response result) \<Rightarrow> string \<Rightarrow> content_part option result" where
  "langchainfy_image download img =
     (if prefix ''http'' img then
        bindR (download img) (\<lambda>response.
          if ir_status response = 200
          then Inr (Some (ImagePart (''data:image/'' @ lower (ir_mime response) @ '';base64,'' @ ir_base64 response)))
          else Inr None)
      else Inr (Some (ImagePart img)))"

fun langchainfy :: "(string \<Rightarrow> image_response result) \<Rightarrow> message \<Rightarrow> base_message result" where
  "langchainfy download (CatMessage m w) =
     bindR (lookup_exn (Exn ''ValidationError'' ''content'') (cm_text m)) (\<lambda>txt.
     Inr (AIMessage (cm_who m) txt))"
| "langchainfy download (UserMessage m) =
     (let txt = (case cm_text m of Some t \<Rightarrow> if t = [] then [] else [TextPart t] | None \<Rightarrow> []) in
      bindR (case cm_image m of
               Some i \<Rightarrow> if i = [] then Inr None else langchainfy_image download i
             | None \<Rightarrow> Inr None) (\<lambda>formatted_image.
      Inr (HumanMessage (cm_who m)
             (txt @ (case formatted_image of None \<Rightarrow> [] | Some p \<Rightarrow> [p])))))"

subsection \<open>Working memory\<close>

abbreviation MAX_WORKING_HISTORY_LENGTH :: nat where
  "MAX_WORKING_HISTORY_LENGTH \<equiv> 20"

record 'form working_memory =
  history :: "message list"
  user_message_json :: "message option"
  active_form :: "'form option"
  recall_query :: string
  episodic_memories :: "recalled list"
  declarative_memories :: "recalled list"
  procedural_memories :: "recalled list"
  model_interactions :: "model_interaction list"

definition WorkingMemory :: "'form working_memory" where
  "WorkingMemory =
     \<lparr>history = [], user_message_json = None, active_form = None, recall_query = [],
      episodic_memories = [], declarative_memories = [], procedural_memories = [],
      model_interactions = []\<rparr>"

definition update_history :: "message \<Rightarrow> 'form working_memory \<Rightarrow> 'form working_memory" where
  "update_history m wm = wm\<lparr>history := last_n MAX_WORKING_HISTORY_LENGTH (history wm @ [m])\<rparr>"

text \<open>The deprecated variant: \<open>why\<close> is the validated argument, an error when validation fails.\<close>

definition update_conversation_history ::
  "real \<Rightarrow> string \<Rightarrow> string \<Rightarrow> message_why option result \<Rightarrow> ('form working_memory, unit) comp" where
  "update_conversation_history now msg who why =
     bindM (getM user_message_json) (\<lambda>um.
     bindM (liftM (lookup_exn (Exn ''AttributeError'' ''user_id'') um)) (\<lambda>um.
     bindM (if who = ''AI''
            then bindM (liftM why) (\<lambda>w. retM (CatMessage (new_message (cm_user_id (msg_base um)) who now (Some msg)) w))
            else retM (UserMessage (new_message (cm_user_id (msg_base um)) who now (Some msg)))) (\<lambda>m.
     modM (\<lambda>wm. wm\<lparr>history := history wm @ [m]\<rparr>))))"

text \<open>\<open>None\<close> formats as the text \<open>None\<close>; a zero \<open>latest_n\<close> takes the whole history.\<close>

definition turn_text :: "message \<Rightarrow> string" where
  "turn_text m = newline @ '' - '' @ msg_who m @ '': '' @ (case msg_text m of Some t \<Rightarrow> t | None \<Rightarrow> ''None'')"

definition latest :: "int \<Rightarrow> 'a list \<Rightarrow> 'a list" where
  "latest n xs = (if 0 \<le> n then last_n (nat n) xs else drop (nat (- n)) xs)"

definition stringify_chat_history :: "int \<Rightarrow> 'form working_memory \<Rightarrow> string" where
  "stringify_chat_history latest_n wm = concat (map turn_text (latest latest_n (history wm)))"

fun langchainfy_all :: "(string \<Rightarrow> image_response result) \<Rightarrow> message list \<Rightarrow> base_message list result" where
  "langchainfy_all download [] = Inr []"
| "langchainfy_all download (m # ms) =
     bindR (langchainfy download m) (\<lambda>b. bindR (langchainfy_all download ms) (\<lambda>bs. Inr (b # bs)))"

definition langchainfy_chat_history ::
  "(string \<Rightarrow> image_response result) \<Rightarrow> int \<Rightarrow> 'form working_memory \<Rightarrow> base_message list result" where
  "langchainfy_chat_history download latest_n wm =
     langchainfy_all download (latest latest_n (history wm))"

subsection \<open>Lemmas\<close>

lemma last_n_snoc_last_n:
  assumes "0 < n" shows "last_n n (last_n n xs @ [x]) = last_n n (xs @ [x])"
proof (cases "n \<le> length xs")
  case True
  then have "Suc (length xs) - n + (length xs - n) - (length xs - n) = Suc (length xs) - n" by simp
  with True assms show ?thesis by (simp add: last_n_def Suc_diff_le)
qed (use assms in \<open>simp add: last_n_def\<close>)

lemma fold_update_history:
  "fold update_history ms wm =
     (if ms = [] then wm else wm\<lparr>history := last_n MAX_WORKING_HISTORY_LENGTH (history wm @ ms)\<rparr>)"
proof (induction ms rule: rev_induct)
  case (snoc m ms)
  then show ?case
    using last_n_snoc_last_n [of MAX_WORKING_HISTORY_LENGTH "history wm @ ms" m]
    by (simp add: update_history_def)
qed simp

lemma update_history_other [simp]:
  "user_message_json (update_history m wm) = user_message_json wm"
  "active_form (update_history m wm) = active_form wm"
  "model_interactions (update_history m wm) = model_interactions wm"
  "recall_query (update_history m wm) = recall_query wm"
  by (simp_all add: update_history_def)

lemma length_update_history: "length (history (update_history m wm)) \<le> MAX_WORKING_HISTORY_LENGTH"
  by (simp add: update_history_def length_last_n)

lemma langchainfy_all_length: "langchainfy_all download ms = Inr bs \<Longrightarrow> length bs = length ms"
  by (induction ms arbitrary: bs) (auto simp: bindR_Inr_iff)

subsection \<open>Properties\<close>

text \<open>
  The working memory keeps exactly the latest twenty messages: after any non-empty sequence of
  \<open>update_history\<close> calls the history is the last twenty of everything that was ever appended, in
  order, and nothing else of the working memory has changed.
\<close>

theorem history_keeps_latest:
  "history (fold update_history (ms @ [m]) wm) = last_n 20 (history wm @ ms @ [m]) \<and>
   length (history (fold update_history (ms @ [m]) wm)) \<le> 20 \<and>
   fold update_history (ms @ [m]) wm = wm\<lparr>history := last_n 20 (history wm @ ms @ [m])\<rparr>"
  unfolding fold_update_history by (simp add: length_last_n)

text \<open>
  The deprecated \<open>update_conversation_history\<close> appends one message without the bound, so a
  full history grows beyond twenty messages; it fails, leaving the memory as it is, when no user
  message was received yet or when the explanation of an AI message does not validate, which is so
  for its default, the empty dictionary.
\<close>

theorem update_conversation_history_effect:
  "case update_conversation_history now msg who why wm of
     (Inl e, wm') \<Rightarrow> wm' = wm \<and> (user_message_json wm = None \<or> who = ''AI'' \<and> why = Inl e)
   | (Inr u, wm') \<Rightarrow> wm' = wm\<lparr>history := history wm'\<rparr> \<and> (\<exists>m. history wm' = history wm @ [m] \<and>
        length (history wm') = Suc (length (history wm)) \<and>
        msg_text m = Some msg \<and> msg_who m = who \<and> (message_role m = AI \<longleftrightarrow> who = ''AI''))"
proof (cases "user_message_json wm")
  case None
  then show ?thesis
    by (simp add: update_conversation_history_def bindM_def lookup_exn_def)
next
  case (Some um)
  note defs = update_conversation_history_def bindM_def lookup_exn_def msg_text_def msg_who_def new_message_def
  show ?thesis
  proof (cases "who = ''AI''")
    case True
    with Some show ?thesis by (cases why) (simp_all add: defs)
  next
    case False
    with Some show ?thesis by (simp add: defs)
  qed
qed

end
