(* ===== verification/Vector_Memory.thy ===== *)
theory Vector_Memory
  imports Working_Memory
begin

text \<open>
  The vector memory: \<open>core/cat/memory/vector_memory_collection.py\<close>,
  \<open>core/cat/memory/vector_memory.py\<close> and \<open>core/cat/memory/long_term_memory.py\<close>.

  Qdrant is a third-party data base, so its client is a parameter: the record \<open>qdrant\<close> has the calls
  the code makes, on a state \<open>'q\<close>. The locale \<open>qdrant_db\<close> states what they do in terms of \<open>info\<close>, which
  gives for each collection its vector size, its aliases and its points. On top of it stands
  \<open>point_store\<close>, the contract of the repository's own collection class, which the rest of the
  program relies on. The record \<open>qdrant_server\<close> has what the dump of a collection to disk needs besides
  the client; writing a file in a folder that is there does not fail.
\<close>

subsection \<open>Points, conditions and the client\<close>

record point =
  pt_id :: string
  pt_page_content :: string
  pt_metadata :: "json option"
  pt_vector :: "real list"

record field_condition =
  fc_key :: string
  fc_match :: pyval

type_synonym qfilter = "field_condition list"

record scored_point =
  sp_point :: point
  sp_score :: real

record 'q qdrant =
  qd_get_collections :: "'q \<Rightarrow> string list"
  qd_get_size :: "string \<Rightarrow> 'q \<Rightarrow> nat result"
  qd_get_aliases :: "string \<Rightarrow> 'q \<Rightarrow> string list"
  qd_recreate :: "string \<Rightarrow> nat \<Rightarrow> 'q \<Rightarrow> 'q"
  qd_create_alias :: "string \<Rightarrow> string \<Rightarrow> 'q \<Rightarrow> 'q"
  qd_delete_collection :: "string \<Rightarrow> 'q \<Rightarrow> 'q"
  qd_upsert :: "string \<Rightarrow> point \<Rightarrow> ('q, bool) comp"
  qd_delete_where :: "string \<Rightarrow> qfilter option \<Rightarrow> ('q, unit) comp"
  qd_delete_ids :: "string \<Rightarrow> string list \<Rightarrow> ('q, unit) comp"
  qd_search :: "string \<Rightarrow> real list \<Rightarrow> qfilter option \<Rightarrow> int \<Rightarrow> real option \<Rightarrow> 'q \<Rightarrow> scored_point list"
  qd_retrieve :: "string \<Rightarrow> string list \<Rightarrow> 'q \<Rightarrow> point list"
  qd_scroll :: "string \<Rightarrow> nat \<Rightarrow> string option \<Rightarrow> 'q \<Rightarrow> point list \<times> string option"

subsection \<open>VectorMemoryCollection\<close>

record 'q collection =
  vc_client :: "'q qdrant"
  vc_name :: string
  vc_embedder_name :: string
  vc_embedder_size :: nat

definition alias_name :: "'q collection \<Rightarrow> string" where
  "alias_name C = vc_embedder_name C @ ''_'' @ vc_name C"

definition create_collection :: "'q collection \<Rightarrow> 'q \<Rightarrow> 'q" where
  "create_collection C q =
     qd_create_alias (vc_client C) (vc_name C) (alias_name C)
       (qd_recreate (vc_client C) (vc_name C) (vc_embedder_size C) q)"

definition create_db_collection_if_not_exists :: "'q collection \<Rightarrow> 'q \<Rightarrow> 'q" where
  "create_db_collection_if_not_exists C q =
     (if vc_name C \<in> set (qd_get_collections (vc_client C) q) then q else create_collection C q)"

text \<open>
  What \<open>save_dump\<close> uses besides the client: the snapshots of a Qdrant server, the answer (status and content) to a GET request
  without headers, and the folder of the dumps with the files in it, if it is there.
\<close>

record 'q qdrant_server =
  qs_remote :: bool
  qs_host :: string
  qs_port :: int
  qs_create_snapshot :: "string \<Rightarrow> ('q, string) comp"
  qs_list_snapshots :: "string \<Rightarrow> ('q, string list) comp"
  qs_delete_snapshot :: "string \<Rightarrow> string \<Rightarrow> ('q, unit) comp"
  qs_http_get :: "string \<Rightarrow> ('q, nat \<times> string) comp"
  qs_folder :: "string \<Rightarrow> 'q \<Rightarrow> (string, string) dict option"
  qs_set_folder :: "string \<Rightarrow> (string, string) dict \<Rightarrow> 'q \<Rightarrow> 'q"

definition snapshot_url :: "'q qdrant_server \<Rightarrow> string \<Rightarrow> string \<Rightarrow> string" where
  "snapshot_url S collection_name snapshot =
     ''http://'' @ qs_host S @ '':'' @ str_int (qs_port S) @ ''/collections/'' @ collection_name @ ''/snapshots/'' @ snapshot"

definition dump_name :: "string \<Rightarrow> string" where
  "dump_name alias = replace_all ''/'' ''-'' alias @ ''.snapshot''"

definition write_dump :: "string \<Rightarrow> string \<Rightarrow> string \<Rightarrow> (string, string) dict \<Rightarrow> (string, string) dict" where
  "write_dump snapshot new_name content files =
     AList.update new_name content (if new_name = snapshot then files else AList.delete snapshot files)"

definition save_dump :: "'q qdrant_server \<Rightarrow> string \<Rightarrow> 'q collection \<Rightarrow> ('q, unit) comp" where
  "save_dump S folder C =
     (if \<not> qs_remote S then retM ()
      else
        bindM (modM (\<lambda>q. if qs_folder S folder q = None then qs_set_folder S folder [] q else q)) (\<lambda>_.
        bindM (qs_create_snapshot S (vc_name C)) (\<lambda>snapshot.
        bindM (getM (qd_get_aliases (vc_client C) (vc_name C))) (\<lambda>aliases.
          case aliases of
            [] \<Rightarrow> raiseM (Exn ''IndexError'' ''list index out of range'')
          | alias # _ \<Rightarrow>
              bindM (qs_http_get S (snapshot_url S (vc_name C) snapshot)) (\<lambda>(status, content).
              bindM (modM (\<lambda>q. qs_set_folder S folder (write_dump snapshot (dump_name alias) content
                (case qs_folder S folder q of None \<Rightarrow> [] | Some files \<Rightarrow> files)) q)) (\<lambda>_.
              bindM (qs_list_snapshots S (vc_name C)) (\<lambda>snapshots.
              forM snapshots (qs_delete_snapshot S (vc_name C)))))))))"

definition check_embedding_size :: "bool \<Rightarrow> 'q qdrant_server \<Rightarrow> 'q collection \<Rightarrow> ('q, unit) comp" where
  "check_embedding_size snapshots S C =
     bindM (\<lambda>q. (qd_get_size (vc_client C) (vc_name C) q, q)) (\<lambda>size.
     bindM (getM (qd_get_aliases (vc_client C) (vc_name C))) (\<lambda>aliases.
       case aliases of
         [] \<Rightarrow> raiseM (Exn ''IndexError'' ''list index out of range'')
       | a # _ \<Rightarrow>
           if alias_name C = a \<and> size = vc_embedder_size C then retM ()
           else bindM (if snapshots then save_dump S ''dormouse/'' C else retM ()) (\<lambda>_.
                bindM (modM (qd_delete_collection (vc_client C) (vc_name C))) (\<lambda>_.
                modM (create_collection C)))))"

definition VectorMemoryCollection_init :: "bool \<Rightarrow> 'q qdrant_server \<Rightarrow> 'q collection \<Rightarrow> ('q, unit) comp" where
  "VectorMemoryCollection_init snapshots S C =
     bindM (modM (create_db_collection_if_not_exists C)) (\<lambda>_. check_embedding_size snapshots S C)"

subsubsection \<open>Filters\<close>

definition meta_condition :: "string \<Rightarrow> pyval \<Rightarrow> field_condition" where
  "meta_condition key v = \<lparr>fc_key = ''metadata.'' @ key, fc_match = v\<rparr>"

text \<open>The two loops of \<open>_build_condition\<close> over a dictionary and over a list.\<close>

function (sequential)
  build_condition :: "string \<Rightarrow> pyval \<Rightarrow> qfilter" and
  build_dict :: "string \<Rightarrow> (string \<times> pyval) list \<Rightarrow> qfilter" and
  build_list :: "string \<Rightarrow> pyval list \<Rightarrow> qfilter" where
  "build_condition key (PDict d) = build_dict key d"
| "build_condition key (PList xs) = build_list key xs"
| "build_condition key v = [meta_condition key v]"
| "build_dict key [] = []"
| "build_dict key ((k, v) # kvs) = build_condition (key @ ''.'' @ k) v @ build_dict key kvs"
| "build_list key [] = []"
| "build_list key (PDict d # vs) = build_condition (key @ ''[]'') (PDict d) @ build_list key vs"
| "build_list key (v # vs) = build_condition key v @ build_list key vs"
  by pat_completeness auto
termination
  by (relation "measure (\<lambda>x. case x of
       Inl (k, v) \<Rightarrow> 2 * size v
     | Inr (Inl (k, d)) \<Rightarrow> Suc (2 * size_list (size_prod (\<lambda>x. 0) size) d)
     | Inr (Inr (k, xs)) \<Rightarrow> Suc (2 * size_list size xs))")
    auto

definition qdrant_filter_from_dict :: "json option \<Rightarrow> qfilter option" where
  "qdrant_filter_from_dict fil =
     (case fil of
        None \<Rightarrow> None
      | Some d \<Rightarrow> if d = [] then None else Some (concat (map (\<lambda>(k, v). build_condition k v) d)))"

subsubsection \<open>Points\<close>

definition add_point ::
  "'q collection \<Rightarrow> string \<Rightarrow> string \<Rightarrow> real list \<Rightarrow> json option \<Rightarrow> string option \<Rightarrow> ('q, point option) comp" where
  "add_point C uuid content vec meta i =
     (let point = \<lparr>pt_id = (case i of Some s \<Rightarrow> if s = [] then uuid else s | None \<Rightarrow> uuid),
                   pt_page_content = content, pt_metadata = meta, pt_vector = vec\<rparr>
      in bindM (qd_upsert (vc_client C) (vc_name C) point) (\<lambda>completed.
         retM (if completed then Some point else None)))"

definition delete_points_by_metadata_filter :: "'q collection \<Rightarrow> json option \<Rightarrow> ('q, unit) comp" where
  "delete_points_by_metadata_filter C meta =
     qd_delete_where (vc_client C) (vc_name C) (qdrant_filter_from_dict meta)"

definition delete_points :: "'q collection \<Rightarrow> string list \<Rightarrow> ('q, unit) comp" where
  "delete_points C points_ids = qd_delete_ids (vc_client C) (vc_name C) points_ids"

definition document_of_point :: "scored_point \<Rightarrow> recalled" where
  "document_of_point m =
     \<lparr>rc_document = \<lparr>page_content = pt_page_content (sp_point m),
                     metadata = (case pt_metadata (sp_point m) of None \<Rightarrow> [] | Some d \<Rightarrow> d)\<rparr>,
      rc_score = sp_score m, rc_vector = pt_vector (sp_point m), rc_id = pt_id (sp_point m)\<rparr>"

definition recall_memories_from_embedding ::
  "'q collection \<Rightarrow> real list \<Rightarrow> json option \<Rightarrow> int \<Rightarrow> real option \<Rightarrow> 'q \<Rightarrow> recalled list" where
  "recall_memories_from_embedding C embedding meta k threshold q =
     map document_of_point
       (qd_search (vc_client C) (vc_name C) embedding (qdrant_filter_from_dict meta) k threshold q)"

definition get_points :: "'q collection \<Rightarrow> string list \<Rightarrow> 'q \<Rightarrow> point list" where
  "get_points C ids q = qd_retrieve (vc_client C) (vc_name C) ids q"

definition get_all_points :: "'q collection \<Rightarrow> nat \<Rightarrow> string option \<Rightarrow> 'q \<Rightarrow> point list \<times> string option" where
  "get_all_points C limit offset q = qd_scroll (vc_client C) (vc_name C) limit offset q"

subsection \<open>VectorMemory\<close>

record 'q vector_memory =
  vm_client :: "'q qdrant"
  vm_collections :: "(string, 'q collection) dict"

definition collection_names :: "string list" where
  "collection_names = [''episodic'', ''declarative'', ''procedural'']"

definition VectorMemory_init ::
  "bool \<Rightarrow> 'q qdrant_server \<Rightarrow> 'q qdrant \<Rightarrow> string \<Rightarrow> nat \<Rightarrow> ('q, 'q vector_memory) comp" where
  "VectorMemory_init snapshots S Q embedder_name embedder_size =
     (let mk = (\<lambda>n. \<lparr>vc_client = Q, vc_name = n, vc_embedder_name = embedder_name, vc_embedder_size = embedder_size\<rparr>)
      in bindM (forM collection_names (\<lambda>n. VectorMemoryCollection_init snapshots S (mk n))) (\<lambda>_.
         retM \<lparr>vm_client = Q, vm_collections = map (\<lambda>n. (n, mk n)) collection_names\<rparr>))"

definition VectorMemory_delete_collection :: "'q vector_memory \<Rightarrow> string \<Rightarrow> 'q \<Rightarrow> 'q" where
  "VectorMemory_delete_collection V n q = qd_delete_collection (vm_client V) n q"

definition VectorMemory_get_collection :: "'q vector_memory \<Rightarrow> string \<Rightarrow> 'q \<Rightarrow> nat result" where
  "VectorMemory_get_collection V n q = qd_get_size (vm_client V) n q"

subsection \<open>What Qdrant and the collections promise\<close>

record coll_info =
  ci_size :: nat
  ci_aliases :: "string list"
  ci_points :: "string \<Rightarrow> point option"

text \<open>A metadata key is plain when it is not a path.\<close>

definition plain_key :: "string \<Rightarrow> bool" where
  "plain_key k \<longleftrightarrow> CHR ''.'' \<notin> set k \<and> CHR ''['' \<notin> set k"

text \<open>Qdrant's \<open>match\<close>: the value itself, or a member when the stored value is a list.\<close>

definition metadata_matches :: "point \<Rightarrow> string \<Rightarrow> pyval \<Rightarrow> bool" where
  "metadata_matches p k v \<longleftrightarrow>
     (case pt_metadata p of
        None \<Rightarrow> False
      | Some m \<Rightarrow> (case map_of m k of
                   None \<Rightarrow> False
                 | Some w \<Rightarrow> w = v \<or> (\<exists>xs. w = PList xs \<and> v \<in> set xs)))"

locale qdrant_db =
  fixes Q :: "'q qdrant"
    and info :: "'q \<Rightarrow> string \<Rightarrow> coll_info option"
    and sat :: "point \<Rightarrow> field_condition \<Rightarrow> bool"
  assumes collections: "n \<in> set (qd_get_collections Q q) \<longleftrightarrow> info q n \<noteq> None"
    and get_size: "info q n = Some i \<Longrightarrow> qd_get_size Q n q = Inr (ci_size i)"
    and get_aliases: "info q n = Some i \<Longrightarrow> qd_get_aliases Q n q = ci_aliases i"
    and recreate: "info (qd_recreate Q n w q) = (info q)(n \<mapsto> \<lparr>ci_size = w, ci_aliases = [], ci_points = Map.empty\<rparr>)"
    and create_alias: "info q n = Some i \<Longrightarrow>
      info (qd_create_alias Q n a q) = (info q)(n \<mapsto> i\<lparr>ci_aliases := ci_aliases i @ [a]\<rparr>)"
    and delete_collection: "info (qd_delete_collection Q n q) = (info q)(n := None)"
    and upsert: "info q n = Some i \<Longrightarrow> length (pt_vector p) = ci_size i \<Longrightarrow>
      \<exists>q'. qd_upsert Q n p q = (Inr True, q') \<and> info q' = (info q)(n \<mapsto> i\<lparr>ci_points := (ci_points i)(pt_id p \<mapsto> p)\<rparr>)"
    and upsert_bad: "info q n = Some i \<Longrightarrow> length (pt_vector p) \<noteq> ci_size i \<Longrightarrow> \<exists>e. qd_upsert Q n p q = (Inl e, q)"
    and delete_ids: "info q n = Some i \<Longrightarrow>
      \<exists>q'. qd_delete_ids Q n ids q = (Inr (), q') \<and>
        info q' = (info q)(n \<mapsto> i\<lparr>ci_points := (\<lambda>k. if k \<in> set ids then None else ci_points i k)\<rparr>)"
    and delete_where: "info q n = Some i \<Longrightarrow>
      \<exists>q'. qd_delete_where Q n (Some f) q = (Inr (), q') \<and>
        info q' = (info q)(n \<mapsto> i\<lparr>ci_points := (\<lambda>k. case ci_points i k of
          None \<Rightarrow> None | Some p \<Rightarrow> if \<forall>c \<in> set f. sat p c then None else Some p)\<rparr>)"
    and retrieve: "info q n = Some i \<Longrightarrow> set (qd_retrieve Q n ids q) = {p. \<exists>k \<in> set ids. ci_points i k = Some p}"
    and search_length: "length (qd_search Q n vec flt topn t q) \<le> nat topn"
    and search_sound: "info q n = Some i \<Longrightarrow> m \<in> set (qd_search Q n vec flt topn t q) \<Longrightarrow>
      ci_points i (pt_id (sp_point m)) = Some (sp_point m) \<and>
      (case flt of None \<Rightarrow> True | Some cs \<Rightarrow> \<forall>c \<in> set cs. sat (sp_point m) c) \<and>
      (case t of None \<Rightarrow> True | Some r \<Rightarrow> r \<le> sp_score m)"
    and search_sorted: "sorted (map (\<lambda>m. - sp_score m) (qd_search Q n vec flt topn t q))"
    and scroll: "info q n = Some i \<Longrightarrow> finite (dom (ci_points i)) \<Longrightarrow> card (dom (ci_points i)) \<le> limit \<Longrightarrow>
      set (fst (qd_scroll Q n limit None q)) = ran (ci_points i)"
    and sat_plain: "plain_key key \<Longrightarrow> sat p (meta_condition key v) \<longleftrightarrow> metadata_matches p key v"

text \<open>A collection of the vector memory as its users see it: a finite map of points.\<close>

definition new_point :: "string \<Rightarrow> string \<Rightarrow> real list \<Rightarrow> json option \<Rightarrow> string option \<Rightarrow> point" where
  "new_point uuid content vec meta i =
     \<lparr>pt_id = (case i of Some s \<Rightarrow> if s = [] then uuid else s | None \<Rightarrow> uuid),
      pt_page_content = content, pt_metadata = meta, pt_vector = vec\<rparr>"

locale point_store =
  fixes ready :: "'q \<Rightarrow> bool"
    and pts :: "'q \<Rightarrow> string \<Rightarrow> point option"
    and width :: nat
    and add :: "string \<Rightarrow> string \<Rightarrow> real list \<Rightarrow> json option \<Rightarrow> string option \<Rightarrow> ('q, point option) comp"
    and del :: "string list \<Rightarrow> ('q, unit) comp"
    and get :: "string list \<Rightarrow> 'q \<Rightarrow> point list"
  assumes add_ok: "ready q \<Longrightarrow> length vec = width \<Longrightarrow>
      \<exists>q'. add uuid content vec meta i q = (Inr (Some (new_point uuid content vec meta i)), q') \<and> ready q' \<and>
        pts q' = (pts q)(pt_id (new_point uuid content vec meta i) \<mapsto> new_point uuid content vec meta i)"
    and del_ok: "ready q \<Longrightarrow> \<exists>q'. del ids q = (Inr (), q') \<and> ready q' \<and>
        pts q' = (\<lambda>k. if k \<in> set ids then None else pts q k)"
    and get_ok: "ready q \<Longrightarrow> set (get ids q) = {p. \<exists>k \<in> set ids. pts q k = Some p}"
begin

text \<open>What was added is found, and deleting it again restores the collection.\<close>

lemma add_get:
  assumes "ready q" "length vec = width" "add uuid content vec meta i q = (Inr (Some p), q')"
  shows "set (get [pt_id p] q') = {p} \<and> pt_page_content p = content \<and> pt_vector p = vec"
proof -
  from add_ok [OF assms(1,2), of uuid content meta i] assms(3)
  have "ready q'" "p = new_point uuid content vec meta i" "pts q' = (pts q)(pt_id p \<mapsto> p)" by auto
  then show ?thesis using get_ok [of q' "[pt_id p]"] by (simp add: new_point_def)
qed

lemma add_del:
  assumes "ready q" "length vec = width" "add uuid content vec meta i q = (Inr (Some p), q')" "pts q (pt_id p) = None"
  shows "\<exists>q''. del [pt_id p] q' = (Inr (), q'') \<and> ready q'' \<and> pts q'' = pts q"
proof -
  from add_ok [OF assms(1,2), of uuid content meta i] assms(3)
  have q': "ready q'" "pts q' = (pts q)(pt_id p \<mapsto> p)" by auto
  with del_ok [of q' "[pt_id p]"] assms(4) show ?thesis by (auto simp: fun_eq_iff)
qed

text \<open>A loop that adds points: their contents and vectors, with the identifiers they get.\<close>

lemma add_all:
  assumes "ready q" "\<forall>(u, c, v, m) \<in> set xs. length v = width"
  shows "\<exists>q'. forM xs (\<lambda>(u, c, v, m). bindM (add u c v m None) (\<lambda>_. retM ())) q = (Inr (), q') \<and> ready q' \<and>
     pts q' = pts q ++ map_of (rev (map (\<lambda>(u, c, v, m). (u, new_point u c v m None)) xs))"
  using assms
proof (induction xs arbitrary: q)
  case (Cons x xs)
  obtain u c v m where x: "x = (u, c, v, m)" by (cases x)
  with Cons.prems have len: "length v = width" by simp
  from add_ok [OF Cons.prems(1) this, of u c m None] obtain q1 where
    q1: "add u c v m None q = (Inr (Some (new_point u c v m None)), q1)" "ready q1"
      "pts q1 = (pts q)(u \<mapsto> new_point u c v m None)" by (auto simp: new_point_def)
  have rest: "\<forall>(u, c, v, m) \<in> set xs. length v = width" using Cons.prems(2) by simp
  from Cons.IH [OF q1(2) rest] obtain q' where
    q': "forM xs (\<lambda>(u, c, v, m). bindM (add u c v m None) (\<lambda>_. retM ())) q1 = (Inr (), q')" "ready q'"
      "pts q' = pts q1 ++ map_of (rev (map (\<lambda>(u, c, v, m). (u, new_point u c v m None)) xs))" by blast
  have run: "forM (x # xs) (\<lambda>(u, c, v, m). bindM (add u c v m None) (\<lambda>_. retM ())) q = (Inr (), q')"
  proof -
    have "bindM (add u c v m None) (\<lambda>_. retM ()) q = (Inr (), q1)" using q1(1) by (simp add: bindM_def)
    note step = bindM_Inr [of "bindM (add u c v m None) (\<lambda>_. retM ())", OF this]
    show ?thesis using q'(1) by (simp add: x step)
  qed
  have "pts q' = pts q ++ map_of (rev (map (\<lambda>(u, c, v, m). (u, new_point u c v m None)) (x # xs)))"
    using q1(3) q'(3) by (simp add: x map_add_def fun_eq_iff split: option.split)
  with run q'(2) show ?case by blast
qed simp

end

subsection \<open>The collection class implements the contract\<close>

text \<open>The collection exists in Qdrant and has vectors of the size of the embedder.\<close>

definition collection_ready :: "'q qdrant \<Rightarrow> ('q \<Rightarrow> string \<Rightarrow> coll_info option) \<Rightarrow> 'q collection \<Rightarrow> 'q \<Rightarrow> bool" where
  "collection_ready Q info C q \<longleftrightarrow> vc_client C = Q \<and>
     (\<exists>i. info q (vc_name C) = Some i \<and> ci_size i = vc_embedder_size C)"

definition collection_points :: "('q \<Rightarrow> string \<Rightarrow> coll_info option) \<Rightarrow> 'q collection \<Rightarrow> 'q \<Rightarrow> string \<Rightarrow> point option" where
  "collection_points info C q = (case info q (vc_name C) of None \<Rightarrow> Map.empty | Some i \<Rightarrow> ci_points i)"

sublocale qdrant_db \<subseteq> coll: point_store "collection_ready Q info C" "collection_points info C" "vc_embedder_size C"
  "add_point C" "delete_points C" "get_points C" for C
proof
  fix q uuid content meta i and vec :: "real list"
  assume r: "collection_ready Q info C q" and len: "length vec = vc_embedder_size C"
  then obtain ci where ci: "vc_client C = Q" "info q (vc_name C) = Some ci" "ci_size ci = vc_embedder_size C"
    by (auto simp: collection_ready_def)
  have "length (pt_vector (new_point uuid content vec meta i)) = ci_size ci" using len ci by (simp add: new_point_def)
  from upsert [OF ci(2) this] show "\<exists>q'. add_point C uuid content vec meta i q =
      (Inr (Some (new_point uuid content vec meta i)), q') \<and> collection_ready Q info C q' \<and>
      collection_points info C q' = (collection_points info C q)(pt_id (new_point uuid content vec meta i) \<mapsto> new_point uuid content vec meta i)"
    using ci by (auto simp: add_point_def Let_def bindM_def collection_ready_def collection_points_def new_point_def)
next
  fix q ids
  assume "collection_ready Q info C q"
  then obtain ci where ci: "vc_client C = Q" "info q (vc_name C) = Some ci" "ci_size ci = vc_embedder_size C"
    by (auto simp: collection_ready_def)
  from delete_ids [OF ci(2), of ids] show "\<exists>q'. delete_points C ids q = (Inr (), q') \<and> collection_ready Q info C q' \<and>
      collection_points info C q' = (\<lambda>k. if k \<in> set ids then None else collection_points info C q k)"
    using ci by (auto simp: delete_points_def collection_ready_def collection_points_def cong: if_cong)
  show "set (get_points C ids q) = {p. \<exists>k \<in> set ids. collection_points info C q k = Some p}"
    using retrieve [OF ci(2)] ci by (simp add: get_points_def collection_points_def)
qed

text \<open>Saving a dump succeeds and leaves the collections alone; a client without a server saves none.\<close>

definition dumps :: "('q \<Rightarrow> string \<Rightarrow> coll_info option) \<Rightarrow> 'q qdrant_server \<Rightarrow> 'q collection \<Rightarrow> bool" where
  "dumps info S C \<longleftrightarrow> (\<forall>q i. info q (vc_name C) = Some i \<and> ci_aliases i \<noteq> [] \<longrightarrow>
     (\<exists>q'. save_dump S ''dormouse/'' C q = (Inr (), q') \<and> info q' = info q))"

lemma dumpsD: "dumps info S C \<Longrightarrow> info q (vc_name C) = Some i \<Longrightarrow> ci_aliases i \<noteq> [] \<Longrightarrow>
    \<exists>q'. save_dump S ''dormouse/'' C q = (Inr (), q') \<and> info q' = info q"
  unfolding dumps_def by blast

lemma dumps_local: "\<not> qs_remote S \<Longrightarrow> dumps info S C"
  by (simp add: dumps_def save_dump_def)

subsection \<open>Lemmas over the contract\<close>

definition scalar :: "pyval \<Rightarrow> bool" where
  "scalar v \<longleftrightarrow> (case v of PDict _ \<Rightarrow> False | PList _ \<Rightarrow> False | _ \<Rightarrow> True)"

lemma build_condition_scalar: "scalar v \<Longrightarrow> build_condition k v = [meta_condition k v]"
  by (cases v) (simp_all add: scalar_def)

lemma filter_flat:
  assumes "d \<noteq> []" "\<forall>(k, v) \<in> set d. scalar v"
  shows "qdrant_filter_from_dict (Some d) = Some (map (\<lambda>(k, v). meta_condition k v) d)"
proof -
  have "concat (map (\<lambda>(k, v). build_condition k v) d) = map (\<lambda>(k, v). meta_condition k v) d"
    using assms(2) by (induction d) (auto simp: build_condition_scalar)
  then show ?thesis using assms(1) by (simp add: qdrant_filter_from_dict_def)
qed

context qdrant_db
begin

lemma sat_flat:
  assumes "\<forall>(k, v) \<in> set d. plain_key k"
  shows "(\<forall>c \<in> set (map (\<lambda>(k, v). meta_condition k v) d). sat p c) \<longleftrightarrow>
     (\<forall>(k, v) \<in> set d. metadata_matches p k v)"
  using assms by (induction d) (auto simp: sat_plain)

lemma collection_add_roundtrip:
  assumes "collection_ready Q info C q" "length vec = vc_embedder_size C"
  shows "\<exists>p q'. add_point C uuid content vec meta i q = (Inr (Some p), q') \<and> collection_ready Q info C q' \<and>
     set (get_points C [pt_id p] q') = {p} \<and> pt_page_content p = content \<and> pt_metadata p = meta \<and> pt_vector p = vec \<and>
     collection_points info C q' = (collection_points info C q)(pt_id p \<mapsto> p) \<and>
     (collection_points info C q (pt_id p) = None \<longrightarrow>
       (\<exists>q''. delete_points C [pt_id p] q' = (Inr (), q'') \<and> collection_points info C q'' = collection_points info C q))"
proof -
  let ?p = "new_point uuid content vec meta i"
  from coll.add_ok [OF assms, of uuid content meta i] obtain q' where q':
    "add_point C uuid content vec meta i q = (Inr (Some ?p), q')" "collection_ready Q info C q'"
    "collection_points info C q' = (collection_points info C q)(pt_id ?p \<mapsto> ?p)" by blast
  have "pt_metadata ?p = meta" by (simp add: new_point_def)
  with q' coll.add_get [OF assms q'(1)] coll.add_del [OF assms q'(1)] show ?thesis
    by (intro exI [of _ ?p] exI [of _ q']) auto
qed

lemma create_collection_info:
  assumes "vc_client C = Q"
  shows "info (create_collection C q) = (info q)(vc_name C \<mapsto>
     \<lparr>ci_size = vc_embedder_size C, ci_aliases = [alias_name C], ci_points = Map.empty\<rparr>)"
  using create_alias [of "qd_recreate Q (vc_name C) (vc_embedder_size C) q" "vc_name C"]
  by (simp add: create_collection_def assms recreate)

lemma collection_init:
  assumes C: "vc_client C = Q" and dump: "dumps info S C"
    and named: "\<And>i. info q (vc_name C) = Some i \<Longrightarrow> ci_aliases i \<noteq> []"
  shows "\<exists>q'. VectorMemoryCollection_init snapshots S C q = (Inr (), q') \<and>
     collection_ready Q info C q' \<and> (\<exists>i. info q' (vc_name C) = Some i \<and> hd (ci_aliases i) = alias_name C) \<and>
     collection_points info C q' =
       (case info q (vc_name C) of
          Some i \<Rightarrow> if hd (ci_aliases i) = alias_name C \<and> ci_size i = vc_embedder_size C then ci_points i else Map.empty
        | None \<Rightarrow> Map.empty) \<and>
     (\<forall>n. n \<noteq> vc_name C \<longrightarrow> info q' n = info q n)"
proof (cases "info q (vc_name C)")
  case None
  then have "vc_name C \<notin> set (qd_get_collections Q q)" using collections by simp
  then show ?thesis using C None get_size [of "create_collection C q" "vc_name C"]
      get_aliases [of "create_collection C q" "vc_name C"]
    by (auto simp: VectorMemoryCollection_init_def create_db_collection_if_not_exists_def check_embedding_size_def
        bindM_def create_collection_info collection_ready_def collection_points_def)
next
  case (Some i)
  then have "vc_name C \<in> set (qd_get_collections Q q)" using collections by simp
  moreover obtain a as where "ci_aliases i = a # as" using named [OF Some] by (cases "ci_aliases i") auto
  moreover from dumpsD [OF dump Some] this obtain q' where "save_dump S ''dormouse/'' C q = (Inr (), q')" "info q' = info q"
    by auto
  ultimately show ?thesis using C Some get_size [OF Some] get_aliases [OF Some]
    by (cases "alias_name C = a \<and> ci_size i = vc_embedder_size C"; cases snapshots)
      (auto simp: VectorMemoryCollection_init_def create_db_collection_if_not_exists_def check_embedding_size_def
        bindM_def create_collection_info collection_ready_def collection_points_def delete_collection)
qed

lemma delete_flat:
  assumes "collection_ready Q info C q" "d \<noteq> []" "\<forall>(k, v) \<in> set d. plain_key k \<and> scalar v"
  shows "\<exists>q'. delete_points_by_metadata_filter C (Some d) q = (Inr (), q') \<and>
     (\<forall>k. collection_points info C q' k = (case collection_points info C q k of
        None \<Rightarrow> None
      | Some p \<Rightarrow> if \<forall>(k, v) \<in> set d. metadata_matches p k v then None else Some p))"
proof -
  from assms(1) obtain i where i: "vc_client C = Q" "info q (vc_name C) = Some i" by (auto simp: collection_ready_def)
  have "qdrant_filter_from_dict (Some d) = Some (map (\<lambda>(k, v). meta_condition k v) d)"
    using assms(2,3) by (intro filter_flat) auto
  moreover have "\<forall>(k, v) \<in> set d. plain_key k" using assms(3) by auto
  note sat_flat [OF this]
  ultimately show ?thesis
    using delete_where [OF i(2), of "map (\<lambda>(k, v). meta_condition k v) d"] i
    by (auto simp: delete_points_by_metadata_filter_def collection_points_def cong: option.case_cong if_cong)
qed

lemma delete_vacuous:
  assumes "collection_ready Q info C q" "v = PList [] \<or> v = PDict []"
  shows "\<exists>q'. delete_points_by_metadata_filter C (Some [(k, v)]) q = (Inr (), q') \<and>
     collection_points info C q' = Map.empty"
proof -
  from assms(1) obtain i where i: "vc_client C = Q" "info q (vc_name C) = Some i" by (auto simp: collection_ready_def)
  have "qdrant_filter_from_dict (Some [(k, v)]) = Some []"
    using assms(2) by (auto simp: qdrant_filter_from_dict_def)
  moreover from delete_where [OF i(2), of "[]"] obtain q' where "qd_delete_where Q (vc_name C) (Some []) q = (Inr (), q')"
    "info q' = (info q)(vc_name C \<mapsto> i\<lparr>ci_points := (\<lambda>k. case ci_points i k of None \<Rightarrow> None | Some p \<Rightarrow> None)\<rparr>)"
    by (auto cong: option.case_cong)
  ultimately show ?thesis using i
    by (intro exI [of _ q'])
      (auto simp: delete_points_by_metadata_filter_def collection_points_def fun_eq_iff split: option.split)
qed

lemma add_point_bad:
  assumes "collection_ready Q info C q" "length vec \<noteq> vc_embedder_size C"
  shows "\<exists>e. add_point C uuid content vec meta i q = (Inl e, q)"
proof -
  from assms(1) obtain ci where ci: "vc_client C = Q" "info q (vc_name C) = Some ci" "ci_size ci = vc_embedder_size C"
    by (auto simp: collection_ready_def)
  have "length (pt_vector (new_point uuid content vec meta i)) \<noteq> ci_size ci" using assms(2) ci by (simp add: new_point_def)
  from upsert_bad [OF ci(2) this] obtain e where "qd_upsert Q (vc_name C) (new_point uuid content vec meta i) q = (Inl e, q)" ..
  with ci(1) show ?thesis by (simp add: add_point_def new_point_def bindM_def Let_def)
qed

lemma add_point_returns:
  assumes "collection_ready Q info C q" "add_point C uuid content vec meta i q = (Inr r, q')"
  shows "collection_points info C q' =
      (collection_points info C q)(pt_id (new_point uuid content vec meta i) \<mapsto> new_point uuid content vec meta i)"
proof -
  have "length vec = vc_embedder_size C"
    using add_point_bad [OF assms(1), of vec uuid content meta i] assms(2) by fastforce
  from coll.add_ok [OF assms(1) this, of uuid content meta i] assms(2) show ?thesis by auto
qed

lemma add_point_keeps:
  assumes "collection_ready Q info C q" "add_point C uuid content vec meta i q = (r, q')"
  shows "collection_ready Q info C q'"
proof (cases "length vec = vc_embedder_size C")
  case True
  from coll.add_ok [OF assms(1) True, of uuid content meta i] assms(2) show ?thesis by auto
next
  case False
  from add_point_bad [OF assms(1) False, of uuid content meta i] assms show ?thesis by auto
qed

lemma recall_results:
  assumes "collection_ready Q info C q" "d \<noteq> []" "\<forall>(k, v) \<in> set d. plain_key k \<and> scalar v"
  shows "length (recall_memories_from_embedding C e (Some d) k t q) \<le> nat k \<and>
     sorted (map (\<lambda>m. - rc_score m) (recall_memories_from_embedding C e (Some d) k t q)) \<and>
     (\<forall>m \<in> set (recall_memories_from_embedding C e (Some d) k t q).
        (case t of None \<Rightarrow> True | Some r \<Rightarrow> r \<le> rc_score m) \<and>
        (\<exists>p. collection_points info C q (rc_id m) = Some p \<and> page_content (rc_document m) = pt_page_content p \<and>
           metadata (rc_document m) = (case pt_metadata p of None \<Rightarrow> [] | Some d \<Rightarrow> d) \<and> rc_vector m = pt_vector p \<and> (\<forall>(k, v) \<in> set d. metadata_matches p k v)))"
proof -
  from assms(1) obtain i where i: "vc_client C = Q" "info q (vc_name C) = Some i" by (auto simp: collection_ready_def)
  let ?f = "map (\<lambda>(k, v). meta_condition k v) d"
  have f: "qdrant_filter_from_dict (Some d) = Some ?f" using assms(2,3) by (intro filter_flat) auto
  have plain: "\<forall>(k, v) \<in> set d. plain_key k" using assms(3) by auto
  let ?r = "qd_search Q (vc_name C) e (Some ?f) k t q"
  have r: "recall_memories_from_embedding C e (Some d) k t q = map document_of_point ?r"
    by (simp add: recall_memories_from_embedding_def f i)
  have "sorted (map (\<lambda>m. - rc_score m) (map document_of_point ?r))"
    using search_sorted [of "vc_name C" e "Some ?f" k t q] by (simp add: document_of_point_def o_def)
  moreover have found: "(case t of None \<Rightarrow> True | Some r \<Rightarrow> r \<le> sp_score m) \<and>
      ci_points i (pt_id (sp_point m)) = Some (sp_point m) \<and> (\<forall>(k, v) \<in> set d. metadata_matches (sp_point m) k v)"
    if "m \<in> set ?r" for m
    using search_sound [OF i(2) that] sat_flat [OF plain, of "sp_point m"] by simp
  have "(case t of None \<Rightarrow> True | Some r \<Rightarrow> r \<le> rc_score m) \<and>
        (\<exists>p. collection_points info C q (rc_id m) = Some p \<and> page_content (rc_document m) = pt_page_content p \<and>
           metadata (rc_document m) = (case pt_metadata p of None \<Rightarrow> [] | Some d \<Rightarrow> d) \<and> rc_vector m = pt_vector p \<and> (\<forall>(k, v) \<in> set d. metadata_matches p k v))"
    if "m \<in> set (map document_of_point ?r)" for m
  proof -
    from that obtain sp where sp: "m = document_of_point sp" "sp \<in> set ?r" by auto
    with found [OF sp(2)] i(2) show ?thesis
      by (cases t) (simp_all add: collection_points_def document_of_point_def)
  qed
  ultimately show ?thesis unfolding r using search_length [of "vc_name C" e "Some ?f" k t q]
    by (intro conjI ballI) simp_all
qed

end

subsection \<open>A vector store in memory\<close>

text \<open>
  Qdrant's documented behaviour on plain lists, scoring by the inner product. It shows that the laws
  of \<open>qdrant_db\<close> can hold together and carries the concrete examples.
\<close>

record lcoll =
  lc_size :: nat
  lc_aliases :: "string list"
  lc_points :: "(string, point) dict"

type_synonym lstore = "(string, lcoll) dict"

definition linfo :: "lstore \<Rightarrow> string \<Rightarrow> coll_info option" where
  "linfo q n =
     map_option (\<lambda>c. \<lparr>ci_size = lc_size c, ci_aliases = lc_aliases c, ci_points = map_of (lc_points c)\<rparr>) (map_of q n)"

definition lsat :: "point \<Rightarrow> field_condition \<Rightarrow> bool" where
  "lsat p c \<longleftrightarrow> prefix ''metadata.'' (fc_key c) \<and> metadata_matches p (drop 9 (fc_key c)) (fc_match c)"

definition lall :: "lcoll \<Rightarrow> point list" where
  "lall c = List.map_filter (map_of (lc_points c)) (remdups (keys (lc_points c)))"

definition lscore :: "real list \<Rightarrow> point \<Rightarrow> real" where
  "lscore v p = sum_list (map2 (*) v (pt_vector p))"

definition list_qdrant :: "lstore qdrant" where
  "list_qdrant =
     \<lparr>qd_get_collections = keys,
      qd_get_size = (\<lambda>n q. case map_of q n of None \<Rightarrow> Inl (Exn ''ValueError'' n) | Some c \<Rightarrow> Inr (lc_size c)),
      qd_get_aliases = (\<lambda>n q. case map_of q n of None \<Rightarrow> [] | Some c \<Rightarrow> lc_aliases c),
      qd_recreate = (\<lambda>n k q. AList.update n \<lparr>lc_size = k, lc_aliases = [], lc_points = []\<rparr> q),
      qd_create_alias = (\<lambda>n a q. case map_of q n of None \<Rightarrow> q
         | Some c \<Rightarrow> AList.update n (c\<lparr>lc_aliases := lc_aliases c @ [a]\<rparr>) q),
      qd_delete_collection = (\<lambda>n q. AList.delete n q),
      qd_upsert = (\<lambda>n p q. case map_of q n of None \<Rightarrow> (Inl (Exn ''ValueError'' n), q)
         | Some c \<Rightarrow> if length (pt_vector p) = lc_size c
             then (Inr True, AList.update n (c\<lparr>lc_points := AList.update (pt_id p) p (lc_points c)\<rparr>) q)
             else (Inl (Exn ''ValueError'' ''dimension''), q)),
      qd_delete_where = (\<lambda>n f q. case map_of q n of None \<Rightarrow> (Inl (Exn ''ValueError'' n), q)
         | Some c \<Rightarrow> (case f of None \<Rightarrow> (Inl (Exn ''ValueError'' ''selector''), q)
             | Some cs \<Rightarrow> (Inr (), AList.update n (c\<lparr>lc_points := filter (\<lambda>(k, _).
                 \<not> (\<forall>x \<in> set cs. lsat (the (map_of (lc_points c) k)) x)) (lc_points c)\<rparr>) q))),
      qd_delete_ids = (\<lambda>n ids q. case map_of q n of None \<Rightarrow> (Inl (Exn ''ValueError'' n), q)
         | Some c \<Rightarrow> (Inr (), AList.update n (c\<lparr>lc_points := filter (\<lambda>(k, _). k \<notin> set ids) (lc_points c)\<rparr>) q)),
      qd_search = (\<lambda>n v f k t q. case map_of q n of None \<Rightarrow> []
         | Some c \<Rightarrow> take (nat k) (sort_key (\<lambda>m. - sp_score m)
             (filter (\<lambda>m. map_of (lc_points c) (pt_id (sp_point m)) = Some (sp_point m) \<and>
                 (case f of None \<Rightarrow> True | Some cs \<Rightarrow> \<forall>x \<in> set cs. lsat (sp_point m) x) \<and>
                 (case t of None \<Rightarrow> True | Some r \<Rightarrow> r \<le> sp_score m))
               (map (\<lambda>p. \<lparr>sp_point = p, sp_score = lscore v p\<rparr>) (lall c))))),
      qd_retrieve = (\<lambda>n ids q. case map_of q n of None \<Rightarrow> [] | Some c \<Rightarrow> List.map_filter (map_of (lc_points c)) ids),
      qd_scroll = (\<lambda>n limit off q. case map_of q n of None \<Rightarrow> ([], None) | Some c \<Rightarrow> (take limit (lall c), None))\<rparr>"

lemma map_of_filter_key: "map_of (filter (\<lambda>(k, _). P k) d) = (\<lambda>k. if P k then map_of d k else None)"
proof
  show "map_of (filter (\<lambda>(k, _). P k) d) k = (if P k then map_of d k else None)" for k
    by (induction d) auto
qed

lemma set_lall: "set (lall c) = ran (map_of (lc_points c))"
proof -
  have "p \<in> set (lall c) \<longleftrightarrow> (\<exists>k. k \<in> set (keys (lc_points c)) \<and> map_of (lc_points c) k = Some p)" for p
    by (force simp: lall_def map_filter_def)
  then show ?thesis by (auto simp: ran_def in_keys_iff)
qed

lemma length_lall: "length (lall c) = card (dom (map_of (lc_points c)))"
proof -
  have "length (List.map_filter f xs) = length xs" if "\<forall>x \<in> set xs. f x \<noteq> None"
    for f :: "string \<Rightarrow> point option" and xs :: "string list"
    using that by (induction xs) (auto simp: map_filter_simps split: option.splits)
  from this [of "remdups (keys (lc_points c))" "map_of (lc_points c)"]
  have "length (lall c) = length (remdups (keys (lc_points c)))"
    by (simp add: lall_def in_keys_iff del: length_remdups_card_conv)
  then show ?thesis by (simp add: length_remdups_card_conv dom_map_of_conv_image_fst keys_def)
qed

lemma linfo_update:
  "linfo (AList.update n c q) = (linfo q)(n \<mapsto> \<lparr>ci_size = lc_size c, ci_aliases = lc_aliases c, ci_points = map_of (lc_points c)\<rparr>)"
  by (auto simp: linfo_def update_conv' fun_eq_iff)

lemma linfo_Some:
  "linfo q n = Some i \<longleftrightarrow> (\<exists>c. map_of q n = Some c \<and>
     i = \<lparr>ci_size = lc_size c, ci_aliases = lc_aliases c, ci_points = map_of (lc_points c)\<rparr>)"
  by (auto simp: linfo_def)

interpretation list_qdrant: qdrant_db list_qdrant linfo lsat
proof (unfold_locales, goal_cases)
  case (1 n q)
  then show ?case by (simp add: list_qdrant_def linfo_def in_keys_iff)
next
  case (8 q n i p)
  then show ?case by (auto simp: list_qdrant_def linfo_Some)
next
  case (9 q n i ids)
  then obtain c where "map_of q n = Some c"
    "i = \<lparr>ci_size = lc_size c, ci_aliases = lc_aliases c, ci_points = map_of (lc_points c)\<rparr>"
    by (auto simp: linfo_Some)
  moreover have "(\<lambda>k. if k \<notin> set ids then map_of d k else None) = (\<lambda>k. if k \<in> set ids then None else map_of d k)"
    for d :: "(string, point) dict" by auto
  ultimately show ?case by (simp add: list_qdrant_def linfo_update map_of_filter_key cong: if_cong)
next
  case (10 q n i f)
  then obtain c where c: "map_of q n = Some c"
    "i = \<lparr>ci_size = lc_size c, ci_aliases = lc_aliases c, ci_points = map_of (lc_points c)\<rparr>"
    by (auto simp: linfo_Some)
  have "(\<lambda>k. if \<not> (\<forall>x \<in> set f. lsat (the (map_of (lc_points c) k)) x) then map_of (lc_points c) k else None) =
      (\<lambda>k. case map_of (lc_points c) k of None \<Rightarrow> None | Some p \<Rightarrow> if \<forall>x \<in> set f. lsat p x then None else Some p)"
    by (rule ext) (auto split: option.split)
  with c show ?case by (simp add: list_qdrant_def linfo_update map_of_filter_key)
next
  case (11 q n i ids)
  then show ?case by (force simp: list_qdrant_def linfo_Some map_filter_def)
next
  case (13 q n i m vec flt topn t)
  then show ?case by (auto simp: list_qdrant_def linfo_Some dest: in_set_takeD)
next
  case (14 n vec flt topn t q)
  then show ?case by (auto simp: list_qdrant_def take_map [symmetric] intro: sorted_wrt_take split: option.splits)
next
  case (15 q n i limit)
  then show ?case by (auto simp: list_qdrant_def linfo_Some set_lall length_lall)
next
  case (16 key p v)
  then show ?case by (simp add: lsat_def meta_condition_def)
qed (auto simp: list_qdrant_def linfo_Some linfo_update linfo_def delete_conv' fun_eq_iff update_conv'
  split: option.splits)

definition local_server :: "'q qdrant_server" where
  "local_server =
     \<lparr>qs_remote = False, qs_host = [], qs_port = 0, qs_create_snapshot = (\<lambda>_. retM []), qs_list_snapshots = (\<lambda>_. retM []),
      qs_delete_snapshot = (\<lambda>_ _. retM ()), qs_http_get = (\<lambda>_. retM (404, [])), qs_folder = (\<lambda>_ _. None), qs_set_folder = (\<lambda>_ _ q. q)\<rparr>"

definition demo_collection :: "lstore collection" where
  "demo_collection =
     \<lparr>vc_client = list_qdrant, vc_name = ''episodic'', vc_embedder_name = ''dumb'', vc_embedder_size = 2\<rparr>"

definition demo_store :: lstore where
  "demo_store = [(''episodic'', \<lparr>lc_size = 2, lc_aliases = [''dumb_episodic''],
     lc_points = [(''p1'', \<lparr>pt_id = ''p1'', pt_page_content = ''meow'', pt_metadata = Some [(''source'', PStr ''alice'')],
       pt_vector = [1, 0]\<rparr>)]\<rparr>)]"

lemma demo_store_ready: "collection_ready list_qdrant linfo demo_collection demo_store"
  by (simp add: collection_ready_def demo_collection_def demo_store_def linfo_def)

lemma demo_store_points: "collection_points linfo demo_collection demo_store =
   [''p1'' \<mapsto> \<lparr>pt_id = ''p1'', pt_page_content = ''meow'', pt_metadata = Some [(''source'', PStr ''alice'')], pt_vector = [1, 0]\<rparr>]"
  by (auto simp: collection_points_def demo_collection_def demo_store_def linfo_def fun_eq_iff)

subsection \<open>Properties\<close>

text \<open>
  (C22) After a collection was opened it exists, its vectors have the size of the embedder and it
  carries the embedder's alias. The points survive exactly when the collection was there with this
  size and alias, that is, when the embedder did not change; other collections are untouched.
\<close>

theorem collection_follows_embedder:
  assumes "qdrant_db Q info sat" "vc_client C = Q" "dumps info S C"
    and "\<And>i. info q (vc_name C) = Some i \<Longrightarrow> ci_aliases i \<noteq> []"
  shows "\<exists>q'. VectorMemoryCollection_init snapshots S C q = (Inr (), q') \<and>
     collection_ready Q info C q' \<and> (\<exists>i. info q' (vc_name C) = Some i \<and> hd (ci_aliases i) = alias_name C) \<and>
     collection_points info C q' =
       (case info q (vc_name C) of
          Some i \<Rightarrow> if hd (ci_aliases i) = alias_name C \<and> ci_size i = vc_embedder_size C then ci_points i else Map.empty
        | None \<Rightarrow> Map.empty) \<and>
     (\<forall>n. n \<noteq> vc_name C \<longrightarrow> info q' n = info q n)"
  by (rule qdrant_db.collection_init [OF assms])

theorem collection_follows_embedder_witness:
  "\<exists>q'. VectorMemoryCollection_init True local_server (demo_collection\<lparr>vc_embedder_name := ''openai''\<rparr>) demo_store = (Inr (), q') \<and>
     collection_points linfo demo_collection q' = Map.empty"
proof -
  let ?C = "demo_collection\<lparr>vc_embedder_name := ''openai''\<rparr>"
  have al: "linfo demo_store (vc_name ?C) = Some i \<Longrightarrow> ci_aliases i \<noteq> []" for i
    by (auto simp: demo_collection_def demo_store_def linfo_def)
  obtain q' where run: "VectorMemoryCollection_init True local_server ?C demo_store = (Inr (), q')"
    and "collection_points linfo ?C q' =
       (case linfo demo_store (vc_name ?C) of
          Some i \<Rightarrow> if hd (ci_aliases i) = alias_name ?C \<and> ci_size i = vc_embedder_size ?C then ci_points i else Map.empty
        | None \<Rightarrow> Map.empty)"
    using collection_follows_embedder [of list_qdrant linfo lsat ?C local_server demo_store True,
        OF list_qdrant.qdrant_db_axioms _ dumps_local al] by (auto simp: demo_collection_def local_server_def)
  then have "collection_points linfo ?C q' = Map.empty"
    by (simp add: demo_collection_def demo_store_def linfo_def alias_name_def)
  then show ?thesis using run by (auto simp: collection_points_def)
qed

text \<open>
  A point that is added is found by its identifier with its text, metadata and vector, every
  other point stays, and deleting it again restores the collection if the identifier was new.
\<close>

theorem add_point_roundtrip:
  assumes "qdrant_db Q info sat" "collection_ready Q info C q" "length vec = vc_embedder_size C"
  shows "\<exists>p q'. add_point C uuid content vec meta i q = (Inr (Some p), q') \<and> collection_ready Q info C q' \<and>
     set (get_points C [pt_id p] q') = {p} \<and> pt_page_content p = content \<and> pt_metadata p = meta \<and> pt_vector p = vec \<and>
     collection_points info C q' = (collection_points info C q)(pt_id p \<mapsto> p) \<and>
     (collection_points info C q (pt_id p) = None \<longrightarrow>
       (\<exists>q''. delete_points C [pt_id p] q' = (Inr (), q'') \<and> collection_points info C q'' = collection_points info C q))"
  by (rule qdrant_db.collection_add_roundtrip [OF assms])

theorem add_point_roundtrip_witness:
  "\<exists>p q'. add_point demo_collection ''u7'' ''purr'' [0, 1] None None demo_store = (Inr (Some p), q') \<and>
     set (get_points demo_collection [pt_id p] q') = {p} \<and> pt_page_content p = ''purr''"
  using add_point_roundtrip [OF list_qdrant.qdrant_db_axioms demo_store_ready, of "[0, 1]" "''u7''" "''purr''" None None]
  by (auto simp: demo_collection_def)



text \<open>
  A filter entry whose value is an empty list or an empty dictionary yields no condition at all,
  and the filter without conditions matches everything: such a deletion empties the collection.
\<close>

theorem delete_by_empty_value_clears:
  assumes "qdrant_db Q info sat" "collection_ready Q info C q" "v = PList [] \<or> v = PDict []"
  shows "\<exists>q'. delete_points_by_metadata_filter C (Some [(k, v)]) q = (Inr (), q') \<and>
     collection_points info C q' = Map.empty"
  by (rule qdrant_db.delete_vacuous [OF assms])

theorem delete_by_empty_value_clears_witness:
  "\<exists>q'. delete_points_by_metadata_filter demo_collection (Some [(''source'', PList [])]) demo_store = (Inr (), q') \<and>
     collection_points linfo demo_collection q' = Map.empty"
  using delete_by_empty_value_clears [OF list_qdrant.qdrant_db_axioms demo_store_ready, of "PList []" "''source''"] by simp

text \<open>
  A recall with a metadata filter returns at most the requested number of memories, the best
  first, all of them points stored in the collection that satisfy the filter and reach the threshold.
\<close>

theorem recall_sound:
  assumes "qdrant_db Q info sat" "collection_ready Q info C q" "d \<noteq> []" "\<forall>(k, v) \<in> set d. plain_key k \<and> scalar v"
  shows "length (recall_memories_from_embedding C e (Some d) k t q) \<le> nat k \<and>
     sorted (map (\<lambda>m. - rc_score m) (recall_memories_from_embedding C e (Some d) k t q)) \<and>
     (\<forall>m \<in> set (recall_memories_from_embedding C e (Some d) k t q).
        (case t of None \<Rightarrow> True | Some r \<Rightarrow> r \<le> rc_score m) \<and>
        (\<exists>p. collection_points info C q (rc_id m) = Some p \<and> page_content (rc_document m) = pt_page_content p \<and>
           metadata (rc_document m) = (case pt_metadata p of None \<Rightarrow> [] | Some d \<Rightarrow> d) \<and> rc_vector m = pt_vector p \<and> (\<forall>(k, v) \<in> set d. metadata_matches p k v)))"
  by (rule qdrant_db.recall_results [OF assms])

theorem recall_sound_witness:
  "length (recall_memories_from_embedding demo_collection [1, 1] (Some [(''source'', PStr ''alice'')]) 3 None demo_store) \<le> 3"
  using recall_sound [OF list_qdrant.qdrant_db_axioms demo_store_ready, of "[(''source'', PStr ''alice'')]" "[1, 1]" 3 None]
  by (simp add: plain_key_def scalar_def)

end
