(* ===== verification/Cat_Form.thy ===== *)
theory Cat_Form
  imports Plugins
begin

text \<open>
  Conversational forms: \<open>core/cat/experimental/form/cat_form.py\<close> and
  \<open>core/cat/experimental/form/form_decorator.py\<close>.

  A form is a state machine driven by the answers of the language model. Its class, written by a
  plugin, is the record \<open>form_def\<close>: the fields of the pydantic model, the validation (the list of
  errors pydantic reports), the confirmation flag and \<open>submit\<close>. What the form needs of the cat
  is the record \<open>form_cat\<close>: the language model, the text of the user message, the stringified history,
  the JSON printer and parser. The object is the record \<open>form\<close>, and a step runs on the form
  together with the state \<open>'c\<close> of the cat.
\<close>

datatype CatFormState = INCOMPLETE | COMPLETE | WAIT_CONFIRM | CLOSED

record form =
  fm_state :: CatFormState
  fm_model :: json
  fm_errors :: "string list"
  fm_missing_fields :: "string list"

text \<open>One entry of \<open>ValidationError.errors()\<close>: the head of its location, its type and message.\<close>

record validation_error =
  ve_field :: "string option"
  ve_missing :: bool
  ve_msg :: string

record model_field =
  mf_name :: string
  mf_description :: "string option"
  mf_type :: string

record 'c form_def =
  fd_class_name :: string
  fd_name :: "string option"
  fd_description :: string
  fd_start_examples :: "string list"
  fd_stop_examples :: "string list"
  fd_ask_confirm :: bool
  fd_fields :: "model_field list"
  fd_validate :: "json \<Rightarrow> validation_error list"
  fd_submit :: "json \<Rightarrow> ('c, json) comp"

record 'c form_cat =
  fx_llm :: "string \<Rightarrow> ('c, string) comp"
  fx_user_text :: "'c \<Rightarrow> string result"
  fx_history :: "'c \<Rightarrow> string"
  fx_dumps :: "json \<Rightarrow> string"
  fx_parse :: "string \<Rightarrow> json result"

type_synonym ('c, 'a) form_comp = "(form \<times> 'c, 'a) comp"

definition CatForm_init :: form where
  "CatForm_init = \<lparr>fm_state = INCOMPLETE, fm_model = [], fm_errors = [], fm_missing_fields = []\<rparr>"

text \<open>The \<open>form\<close> decorator names the form after its class and adds its triggers.\<close>

definition form_decorator :: "'c form_def \<Rightarrow> 'c form_def form_class" where
  "form_decorator D =
     (let nm = (case fd_name D of Some n \<Rightarrow> n | None \<Rightarrow> fd_class_name D)
      in \<lparr>fc_name = nm, fc_description = fd_description D, fc_start_examples = fd_start_examples D,
          fc_stop_examples = fd_stop_examples D, fc_body = D\<lparr>fd_name := Some nm\<rparr>, fc_plugin_id = []\<rparr>)"

definition form_triggers_map :: "'f form_class \<Rightarrow> (string \<times> string list) list" where
  "form_triggers_map F =
     [(''start_example'', fc_start_examples F), (''description'', [fc_name F @ '': '' @ fc_description F])]"

subsection \<open>Running on the cat and on the form\<close>

definition on_cat :: "('c, 'a) comp \<Rightarrow> ('c, 'a) form_comp" where
  "on_cat m = (\<lambda>(f, c). case m c of (r, c') \<Rightarrow> (r, (f, c')))"

definition set_state :: "CatFormState \<Rightarrow> ('c, unit) form_comp" where
  "set_state st = modM (\<lambda>(f, c). (f\<lparr>fm_state := st\<rparr>, c))"

definition user_message :: "'c form_cat \<Rightarrow> ('c, string) comp" where
  "user_message X c = (fx_user_text X c, c)"

subsection \<open>Questions to the language model\<close>

definition code_fence :: string where
  "code_fence = backquote @ backquote @ backquote"

definition confirm_prompt :: "string \<Rightarrow> string" where
  "confirm_prompt msg =
     ''Your task is to produce a JSON representing whether a user is confirming or not.'' @ newline @
     ''JSON must be in this format:'' @ newline @ code_fence @ ''json'' @ newline @ ''{'' @ newline @
     ''    '' @ quote @ ''confirm'' @ quote @ '': // type boolean, must be '' @ backquote @ ''true'' @ backquote @
     '' or '' @ backquote @ ''false'' @ backquote @ '' '' @ newline @ ''}'' @ newline @ code_fence @ newline @ newline @
     ''User said '' @ quote @ msg @ quote @ newline @ newline @ ''JSON:'' @ newline @ ''{'' @ newline @
     ''    '' @ quote @ ''confirm'' @ quote @ '': ''"

definition confirm :: "'c form_cat \<Rightarrow> ('c, bool) comp" where
  "confirm X =
     bindM (user_message X) (\<lambda>msg.
     bindM (fx_llm X (confirm_prompt msg)) (\<lambda>response.
     retM (contains ''true'' (lower response))))"

definition exit_prompt :: "string list \<Rightarrow> string \<Rightarrow> string" where
  "exit_prompt stops msg =
     (let stop_examples = newline @ ''Examples where {'' @ quote @ ''exit'' @ quote @ '': true}:'' @ newline @
            ''- exit form'' @ newline @ ''- stop it'' @ concat (map (\<lambda>se. newline @ ''- '' @ se) stops)
      in ''Your task is to produce a JSON representing whether a user wants to exit or not.'' @ newline @
         ''JSON must be in this format:'' @ newline @ code_fence @ ''json'' @ newline @ ''{'' @ newline @
         ''    '' @ quote @ ''exit'' @ quote @ '': // type boolean, must be '' @ backquote @ ''true'' @ backquote @
         '' or '' @ backquote @ ''false'' @ backquote @ newline @ ''}'' @ newline @ code_fence @ newline @ newline @
         stop_examples @ newline @ newline @ ''User said '' @ quote @ msg @ quote @ newline @ newline @
         ''JSON:'' @ newline)"

definition check_exit_intent :: "'c form_def \<Rightarrow> 'c form_cat \<Rightarrow> ('c, bool) comp" where
  "check_exit_intent D X =
     bindM (user_message X) (\<lambda>msg.
     bindM (fx_llm X (exit_prompt (fd_stop_examples D) msg)) (\<lambda>response.
     retM (contains ''true'' (lower response))))"

definition json_structure :: "model_field list \<Rightarrow> string" where
  "json_structure mfs =
     ''{'' @ concat (map (\<lambda>mf. newline @ [CHR 0x09] @ quote @ mf_name mf @ quote @ '': // '' @
        (case mf_description mf of Some d \<Rightarrow> d | None \<Rightarrow> []) @ '' Must be of type '' @ backquote @ mf_type mf @
        backquote @ '' or '' @ backquote @ ''null'' @ backquote) mfs) @ newline @ ''}''"

definition extraction_prompt :: "'c form_def \<Rightarrow> 'c form_cat \<Rightarrow> form \<Rightarrow> 'c \<Rightarrow> string" where
  "extraction_prompt D X f c =
     replace_all ''}'' ''}}'' (replace_all ''{'' ''{{''
       (''Your task is to fill up a JSON out of a conversation.'' @ newline @
        ''The JSON must have this format:'' @ newline @ code_fence @ ''json'' @ newline @
        json_structure (fd_fields D) @ newline @ code_fence @ newline @ newline @
        ''This is the current JSON:'' @ newline @ code_fence @ ''json'' @ newline @
        fx_dumps X (fm_model f) @ newline @ code_fence @ newline @ newline @
        ''This is the conversation:'' @ newline @ fx_history X c @ newline @ newline @
        ''Updated JSON:'' @ newline))"

definition extract_model :: "'c form_def \<Rightarrow> 'c form_cat \<Rightarrow> ('c, json) form_comp" where
  "extract_model D X =
     bindM (getM (\<lambda>(f, c). extraction_prompt D X f c)) (\<lambda>prompt.
     bindM (on_cat (fx_llm X prompt)) (\<lambda>json_str.
     retM (case parse_json (fx_parse X) None json_str of Inl _ \<Rightarrow> [] | Inr output_model \<Rightarrow> output_model)))"

subsection \<open>Updating the model\<close>

definition null_fields :: "pyval list" where
  "null_fields = [PNone, PStr [], PStr ''None'', PStr ''null'', PStr ''lower-case'', PStr ''unknown'', PStr ''missing'']"

definition sanitize :: "json \<Rightarrow> json" where
  "sanitize model = filter (\<lambda>(k, v). v \<notin> set null_fields) model"

text \<open>The loop over the validation errors. Deleting a field that is already gone is a KeyError.\<close>

fun collect_errors :: "validation_error list \<Rightarrow> (form, unit) comp" where
  "collect_errors [] = retM ()"
| "collect_errors (e # es) =
     bindM (liftM (lookup_exn (Exn ''IndexError'' ''tuple index out of range'') (ve_field e))) (\<lambda>field_name.
     bindM (if ve_missing e
            then modM (\<lambda>f. f\<lparr>fm_missing_fields := fm_missing_fields f @ [field_name]\<rparr>)
            else bindM (modM (\<lambda>f. f\<lparr>fm_errors := fm_errors f @ [field_name @ '': '' @ ve_msg e]\<rparr>)) (\<lambda>_.
                 bindM (getM (\<lambda>f. field_name \<in> set (keys (fm_model f)))) (\<lambda>there.
                   if there then modM (\<lambda>f. f\<lparr>fm_model := AList.delete field_name (fm_model f)\<rparr>)
                   else raiseM (Exn ''KeyError'' field_name)))) (\<lambda>_.
     collect_errors es))"

definition validate :: "'c form_def \<Rightarrow> (form, unit) comp" where
  "validate D =
     bindM (modM (\<lambda>f. f\<lparr>fm_missing_fields := [], fm_errors := []\<rparr>)) (\<lambda>_.
     bindM (getM (\<lambda>f. fd_validate D (fm_model f))) (\<lambda>errors.
       if errors = [] then modM (\<lambda>f. f\<lparr>fm_state := COMPLETE\<rparr>)
       else bindM (collect_errors errors) (\<lambda>_. modM (\<lambda>f. f\<lparr>fm_state := INCOMPLETE\<rparr>))))"

definition on_form :: "(form, 'a) comp \<Rightarrow> ('c, 'a) form_comp" where
  "on_form m = (\<lambda>(f, c). case m f of (r, f') \<Rightarrow> (r, (f', c)))"

definition update :: "'c form_def \<Rightarrow> 'c form_cat \<Rightarrow> ('c, unit) form_comp" where
  "update D X =
     bindM (extract_model D X) (\<lambda>json_details.
     bindM (modM (\<lambda>(f, c). (f\<lparr>fm_model := dict_merge (fm_model f) (sanitize json_details)\<rparr>, c))) (\<lambda>_.
     on_form (validate D)))"

subsection \<open>Messages\<close>

definition generate_base_message :: "'c form_cat \<Rightarrow> form \<Rightarrow> string" where
  "generate_base_message X f =
     (let separator = newline @ '' - '';
          missing_fields = (if fm_missing_fields f = [] then []
            else newline @ ''Missing fields:'' @ separator @ join separator (fm_missing_fields f));
          invalid_fields = (if fm_errors f = [] then []
            else newline @ ''Invalid fields:'' @ separator @ join separator (fm_errors f))
      in ''Info until now:'' @ newline @ newline @ code_fence @ ''json'' @ newline @ fx_dumps X (fm_model f) @ newline @
         code_fence @ newline @ missing_fields @ newline @ invalid_fields @ newline)"

definition output_json :: "string \<Rightarrow> json" where
  "output_json s = [(''output'', PStr s)]"

definition message :: "'c form_def \<Rightarrow> 'c form_cat \<Rightarrow> form \<Rightarrow> json" where
  "message D X f =
     output_json (case fm_state f of
        CLOSED \<Rightarrow> ''Form '' @ fd_class_name D @ '' closed''
      | WAIT_CONFIRM \<Rightarrow> generate_base_message X f @ newline @ '' --> Confirm? Yes or no?''
      | INCOMPLETE \<Rightarrow> generate_base_message X f
      | COMPLETE \<Rightarrow> ''Invalid state'')"

subsection \<open>The dialogue step\<close>

text \<open>The part of \<open>next\<close> after the confirmation was dealt with.\<close>

definition continue_form :: "'c form_def \<Rightarrow> 'c form_cat \<Rightarrow> ('c, json) form_comp" where
  "continue_form D X =
     bindM (on_cat (check_exit_intent D X)) (\<lambda>leave.
     bindM (if leave then set_state CLOSED else retM ()) (\<lambda>_.
     bindM (getM (\<lambda>(f, c). fm_state f)) (\<lambda>st.
     bindM (if st = INCOMPLETE then update D X else retM ()) (\<lambda>_.
     bindM (getM (\<lambda>(f, c). fm_state f)) (\<lambda>st.
       if st = COMPLETE then
         if fd_ask_confirm D
         then bindM (set_state WAIT_CONFIRM) (\<lambda>_. getM (\<lambda>(f, c). message D X f))
         else bindM (set_state CLOSED) (\<lambda>_.
              bindM (getM (\<lambda>(f, c). fm_model f)) (\<lambda>model. on_cat (fd_submit D model)))
       else getM (\<lambda>(f, c). message D X f))))))"

definition next_step :: "'c form_def \<Rightarrow> 'c form_cat \<Rightarrow> ('c, json) form_comp" where
  "next_step D X =
     bindM (getM (\<lambda>(f, c). fm_state f)) (\<lambda>st.
       if st = WAIT_CONFIRM then
         bindM (on_cat (confirm X)) (\<lambda>yes.
           if yes then
             bindM (set_state CLOSED) (\<lambda>_.
             bindM (getM (\<lambda>(f, c). fm_model f)) (\<lambda>model. on_cat (fd_submit D model)))
           else
             bindM (on_cat (check_exit_intent D X)) (\<lambda>leave.
             bindM (set_state (if leave then CLOSED else INCOMPLETE)) (\<lambda>_.
             continue_form D X)))
       else continue_form D X)"

subsection \<open>Lemmas\<close>

lemma on_cat_form: "on_cat m (f, c) = (fst (m c), (f, snd (m c)))"
  by (simp add: on_cat_def case_prod_beta)

lemma on_form_cat: "on_form m (f, c) = (fst (m f), (snd (m f), c))"
  by (simp add: on_form_def case_prod_beta)

lemma collect_errors_state: "fm_state (snd (collect_errors es f)) = fm_state f"
proof (induction es arbitrary: f)
  case (Cons e es)
  then show ?case by (cases "ve_field e") (auto simp: bindM_def)
qed simp

lemma validate_result:
  "if fd_validate D (fm_model f) = []
   then validate D f = (Inr (), f\<lparr>fm_missing_fields := [], fm_errors := [], fm_state := COMPLETE\<rparr>)
   else case validate D f of
          (Inl e, f') \<Rightarrow> fm_state f' = fm_state f
        | (Inr u, f') \<Rightarrow> fm_state f' = INCOMPLETE"
  using collect_errors_state [of "fd_validate D (fm_model f)" "f\<lparr>fm_missing_fields := [], fm_errors := []\<rparr>"]
  by (auto simp: validate_def bindM_apply split: sum.splits)

text \<open>An update leaves the form incomplete, or complete with a model that validates.\<close>

lemma update_result:
  assumes "fm_state f = INCOMPLETE" "update D X (f, c) = (r, (f', c'))"
  shows "fm_state f' = INCOMPLETE \<or> fm_state f' = COMPLETE \<and> r = Inr () \<and> fd_validate D (fm_model f') = []"
proof -
  have "fst (snd (extract_model D X (f, c))) = f"
    by (cases "fst (fx_llm X (extraction_prompt D X f c) c)") (simp_all add: extract_model_def bindM_apply on_cat_form)
  then obtain re c1 where ex: "extract_model D X (f, c) = (re, (f, c1))"
    by (cases "extract_model D X (f, c)") auto
  show ?thesis
  proof (cases re)
    case (Inl e)
    then show ?thesis using assms ex by (auto simp: update_def bindM_def)
  next
    case (Inr details)
    let ?f = "f\<lparr>fm_model := dict_merge (fm_model f) (sanitize details)\<rparr>"
    have "update D X (f, c) = (fst (validate D ?f), (snd (validate D ?f), c1))"
      using ex Inr by (simp add: update_def bindM_def on_form_cat)
    with assms validate_result [of D ?f] show ?thesis
      by (auto split: if_splits prod.splits sum.splits)
  qed
qed

definition form_inv :: "'c form_def \<Rightarrow> form \<Rightarrow> bool" where
  "form_inv D f \<longleftrightarrow> fm_state f \<noteq> COMPLETE \<and> (fm_state f = WAIT_CONFIRM \<longrightarrow> fd_validate D (fm_model f) = [])"

text \<open>The part of a step after the exit question, as a function of what \<open>update\<close> gives.\<close>

definition finish_form :: "'c form_def \<Rightarrow> 'c form_cat \<Rightarrow> ('c, json) form_comp" where
  "finish_form D X = (\<lambda>(f, c).
     if fm_state f = COMPLETE then
       if fd_ask_confirm D then (Inr (message D X (f\<lparr>fm_state := WAIT_CONFIRM\<rparr>)), (f\<lparr>fm_state := WAIT_CONFIRM\<rparr>, c))
       else on_cat (fd_submit D (fm_model f)) (f\<lparr>fm_state := CLOSED\<rparr>, c)
     else (Inr (message D X f), (f, c)))"

lemma continue_form_cases:
  "continue_form D X (f, c) =
     (case check_exit_intent D X c of
        (Inl e, c1) \<Rightarrow> (Inl e, (f, c1))
      | (Inr leave, c1) \<Rightarrow>
          (let f1 = (if leave then f\<lparr>fm_state := CLOSED\<rparr> else f) in
           if fm_state f1 = INCOMPLETE then bindM (update D X) (\<lambda>_. finish_form D X) (f1, c1)
           else finish_form D X (f1, c1)))"
proof -
  have fin: "bindM (getM (\<lambda>(f, c). fm_state f)) (\<lambda>st.
       if st = COMPLETE then
         if fd_ask_confirm D
         then bindM (set_state WAIT_CONFIRM) (\<lambda>_. getM (\<lambda>(f, c). message D X f))
         else bindM (set_state CLOSED) (\<lambda>_.
              bindM (getM (\<lambda>(f, c). fm_model f)) (\<lambda>model. on_cat (fd_submit D model)))
       else getM (\<lambda>(f, c). message D X f)) = finish_form D X"
    by (auto simp: finish_form_def set_state_def fun_eq_iff)
  show ?thesis unfolding continue_form_def fin
    by (auto simp: bindM_apply on_cat_form set_state_def Let_def split: sum.splits prod.splits)
qed

lemma finish_form_inv:
  "fm_state f = COMPLETE \<longrightarrow> fd_validate D (fm_model f) = [] \<Longrightarrow> fm_state f \<noteq> WAIT_CONFIRM \<Longrightarrow>
   form_inv D (fst (snd (finish_form D X (f, c))))"
  by (auto simp: finish_form_def on_cat_form form_inv_def)

lemma continue_form_inv:
  assumes "fm_state f \<noteq> COMPLETE" "fm_state f \<noteq> WAIT_CONFIRM"
  shows "form_inv D (fst (snd (continue_form D X (f, c))))"
proof -
  obtain r c1 where ex: "check_exit_intent D X c = (r, c1)" by (cases "check_exit_intent D X c")
  show ?thesis
  proof (cases r)
    case (Inl e)
    then show ?thesis using ex assms by (simp add: continue_form_cases form_inv_def)
  next
    case (Inr leave)
    let ?f1 = "if leave then f\<lparr>fm_state := CLOSED\<rparr> else f"
    show ?thesis
    proof (cases "fm_state ?f1 = INCOMPLETE")
      case False
      have "form_inv D (fst (snd (finish_form D X (?f1, c1))))"
        using assms by (intro finish_form_inv) auto
      then show ?thesis using False ex Inr by (simp add: continue_form_cases Let_def)
    next
      case True
      obtain ru f2 c2 where up: "update D X (?f1, c1) = (ru, (f2, c2))" by (cases "update D X (?f1, c1)") auto
      note res = update_result [OF True up]
      have "form_inv D (fst (snd (bindM (update D X) (\<lambda>_. finish_form D X) (?f1, c1))))"
      proof (cases ru)
        case (Inl e)
        then show ?thesis using up res by (simp add: bindM_def form_inv_def)
      next
        case (Inr u)
        then show ?thesis using up res finish_form_inv [of f2 D X c2] by (auto simp: bindM_def)
      qed
      then show ?thesis using True ex Inr by (simp add: continue_form_cases Let_def)
    qed
  qed
qed

lemma next_step_inv:
  assumes "form_inv D f"
  shows "form_inv D (fst (snd (next_step D X (f, c))))"
proof (cases "fm_state f = WAIT_CONFIRM")
  case False
  then show ?thesis using assms continue_form_inv [of f D X c] by (simp add: next_step_def form_inv_def)
next
  case True
  obtain r c1 where conf: "confirm X c = (r, c1)" by (cases "confirm X c")
  obtain r' c2 where ex: "check_exit_intent D X c1 = (r', c2)" by (cases "check_exit_intent D X c1")
  have closed: "form_inv D (f\<lparr>fm_state := CLOSED\<rparr>)" by (simp add: form_inv_def)
  note [simp] = next_step_def bindM_def on_cat_form set_state_def True conf
  show ?thesis
  proof (cases r)
    case (Inl e)
    then show ?thesis using assms by simp
  next
    case (Inr yes)
    show ?thesis
    proof (cases yes)
      case True
      then show ?thesis using Inr closed by simp
    next
      case False
      then show ?thesis
        using Inr ex assms continue_form_inv [of "f\<lparr>fm_state := st\<rparr>" D X c2 for st]
        by (cases r') auto
    qed
  qed
qed

subsection \<open>What a form can reach\<close>

text \<open>The states of a form over a dialogue, whatever the model answers and whatever raises.\<close>

inductive form_reach :: "'c form_def \<Rightarrow> 'c form_cat \<Rightarrow> form \<Rightarrow> bool" for D X where
  start: "form_reach D X CatForm_init"
| step: "form_reach D X f \<Longrightarrow> next_step D X (f, c) = (r, (f', c')) \<Longrightarrow> form_reach D X f'"

lemma form_reach_inv: "form_reach D X f \<Longrightarrow> form_inv D f"
proof (induction rule: form_reach.induct)
  case start
  show ?case by (simp add: form_inv_def CatForm_init_def)
next
  case (step f c r f' c')
  then show ?case using next_step_inv [OF step.IH, of X c] by simp
qed

lemma set_submit_same [simp]:
  "check_exit_intent (D\<lparr>fd_submit := S\<rparr>) X = check_exit_intent D X"
  "update (D\<lparr>fd_submit := S\<rparr>) X = update D X"
  "message (D\<lparr>fd_submit := S\<rparr>) X = message D X"
proof -
  show "check_exit_intent (D\<lparr>fd_submit := S\<rparr>) X = check_exit_intent D X"
    "update (D\<lparr>fd_submit := S\<rparr>) X = update D X"
    by (simp_all add: check_exit_intent_def update_def extract_model_def extraction_prompt_def [abs_def] validate_def)
  show "message (D\<lparr>fd_submit := S\<rparr>) X = message D X"
    by (auto simp: message_def fun_eq_iff split: CatFormState.split)
qed

lemma finish_form_submit:
  assumes "\<And>m. fd_validate D m = [] \<Longrightarrow> S m = fd_submit D m"
    and "fm_state f = COMPLETE \<Longrightarrow> fd_validate D (fm_model f) = []"
  shows "finish_form (D\<lparr>fd_submit := S\<rparr>) X (f, c) = finish_form D X (f, c)"
  using assms by (simp add: finish_form_def)

lemma continue_form_submit:
  assumes S: "\<And>m. fd_validate D m = [] \<Longrightarrow> S m = fd_submit D m" and "fm_state f \<noteq> COMPLETE"
  shows "continue_form (D\<lparr>fd_submit := S\<rparr>) X (f, c) = continue_form D X (f, c)"
proof -
  have "bindM (update D X) (\<lambda>_. finish_form (D\<lparr>fd_submit := S\<rparr>) X) (f1, c1) =
      bindM (update D X) (\<lambda>_. finish_form D X) (f1, c1)" if "fm_state f1 = INCOMPLETE" for f1 c1
  proof -
    obtain r f2 c2 where up: "update D X (f1, c1) = (r, (f2, c2))" by (cases "update D X (f1, c1)") auto
    with update_result [OF that up] finish_form_submit [OF S, of f2 X c2] show ?thesis
      by (cases r) (auto simp: bindM_def)
  qed
  moreover have "finish_form (D\<lparr>fd_submit := S\<rparr>) X (f1, c1) = finish_form D X (f1, c1)"
    if "fm_state f1 \<noteq> COMPLETE" for f1 c1
    using finish_form_submit [OF S, of f1 X c1] that by simp
  ultimately show ?thesis using assms(2)
    by (auto simp: continue_form_cases Let_def split: prod.splits sum.splits)
qed

lemma collect_errors_ok:
  assumes "\<forall>e \<in> set es. ve_field e \<noteq> None"
    and "distinct (map ve_field (filter (\<lambda>e. \<not> ve_missing e) es))"
    and "\<forall>e \<in> set es. \<not> ve_missing e \<longrightarrow> the (ve_field e) \<in> set (keys (fm_model f))"
  shows "collect_errors es f = (Inr (), f\<lparr>
     fm_missing_fields := fm_missing_fields f @ map (\<lambda>e. the (ve_field e)) (filter ve_missing es),
     fm_errors := fm_errors f @ map (\<lambda>e. the (ve_field e) @ '': '' @ ve_msg e) (filter (\<lambda>e. \<not> ve_missing e) es),
     fm_model := filter (\<lambda>p. fst p \<notin> the ` ve_field ` {e \<in> set es. \<not> ve_missing e}) (fm_model f)\<rparr>)"
  using assms
proof (induction es arbitrary: f)
  case (Cons e es)
  then obtain n where n: "ve_field e = Some n" by auto
  show ?case
  proof (cases "ve_missing e")
    case True
    have "{x. (x = e \<or> x \<in> set es) \<and> \<not> ve_missing x} = {x \<in> set es. \<not> ve_missing x}" using True by auto
    then show ?thesis using Cons.prems True
      by (simp add: n Cons.IH)
  next
    case False
    let ?f = "f\<lparr>fm_errors := fm_errors f @ [n @ '': '' @ ve_msg e], fm_model := AList.delete n (fm_model f)\<rparr>"
    have other: "the (ve_field x) \<noteq> n" if "x \<in> set es" "\<not> ve_missing x" for x
    proof -
      have "ve_field x \<noteq> None" "ve_field x \<noteq> Some n" using Cons.prems(1,2) that False n by (auto simp: image_iff)
      then show ?thesis by auto
    qed
    have there: "n \<in> set (keys (fm_model f))" using Cons.prems(3) False n by auto
    have "collect_errors es ?f = (Inr (), ?f\<lparr>
       fm_missing_fields := fm_missing_fields f @ map (\<lambda>e. the (ve_field e)) (filter ve_missing es),
       fm_errors := (fm_errors f @ [n @ '': '' @ ve_msg e]) @ map (\<lambda>e. the (ve_field e) @ '': '' @ ve_msg e) (filter (\<lambda>e. \<not> ve_missing e) es),
       fm_model := filter (\<lambda>p. fst p \<notin> the ` ve_field ` {e \<in> set es. \<not> ve_missing e}) (AList.delete n (fm_model f))\<rparr>)"
      using Cons.prems False n other by (subst Cons.IH) (auto simp: keys_delete)
    moreover have "filter (\<lambda>p. fst p \<notin> the ` ve_field ` {e \<in> set es. \<not> ve_missing e}) (AList.delete n (fm_model f)) =
        filter (\<lambda>p. fst p \<notin> the ` ve_field ` {x \<in> set (e # es). \<not> ve_missing x}) (fm_model f)"
    proof -
      have "{x \<in> set (e # es). \<not> ve_missing x} = insert e {x \<in> set es. \<not> ve_missing x}" using False by auto
      then have "the ` ve_field ` {x \<in> set (e # es). \<not> ve_missing x} = insert n (the ` ve_field ` {x \<in> set es. \<not> ve_missing x})"
        using n by (simp only: image_insert option.sel)
      then show ?thesis by (auto simp: delete_filter intro!: filter_cong)
    qed
    ultimately show ?thesis using False n there by (simp add: bindM_def)
  qed
qed simp

subsection \<open>Properties\<close>

text \<open>
  (C19) The state machine of a form. From its creation on, whatever the language model answers and
  whatever the plugin's code raises, a form is between two messages incomplete, waiting for
  confirmation or closed, never complete, and while it waits for confirmation its model validates.
  Consequently \<open>submit\<close> only ever receives a validated model: a step does not depend on what \<open>submit\<close>
  would do with an invalid one.
\<close>

theorem form_submits_only_valid_models:
  assumes "form_reach D X f" "\<And>m. fd_validate D m = [] \<Longrightarrow> S m = fd_submit D m"
  shows "fm_state f \<in> {INCOMPLETE, WAIT_CONFIRM, CLOSED} \<and>
     (fm_state f = WAIT_CONFIRM \<longrightarrow> fd_validate D (fm_model f) = []) \<and>
     next_step (D\<lparr>fd_submit := S\<rparr>) X (f, c) = next_step D X (f, c)"
proof -
  have inv: "form_inv D f" by (rule form_reach_inv [OF assms(1)])
  have cont: "continue_form (D\<lparr>fd_submit := S\<rparr>) X (f\<lparr>fm_state := st\<rparr>, c') = continue_form D X (f\<lparr>fm_state := st\<rparr>, c')"
    if "st \<noteq> COMPLETE" for st c'
    using continue_form_submit [of D S "f\<lparr>fm_state := st\<rparr>" X c', OF assms(2)] that by simp
  have "next_step (D\<lparr>fd_submit := S\<rparr>) X (f, c) = next_step D X (f, c)"
  proof (cases "fm_state f = WAIT_CONFIRM")
    case True
    then have "fd_validate D (fm_model f) = []" using inv by (simp add: form_inv_def)
    then show ?thesis using assms(2) cont True
      by (auto simp: next_step_def bindM_apply on_cat_form set_state_def split: sum.splits)
  next
    case False
    then show ?thesis using inv continue_form_submit [of D S f X c, OF assms(2)]
      by (simp add: next_step_def form_inv_def)
  qed
  with inv show ?thesis by (cases "fm_state f") (auto simp: form_inv_def)
qed

text \<open>
  A closed form stays closed: a further step never submits, never changes the collected model
  and answers with the closing message unless the language model fails.
\<close>

theorem closed_form_is_final:
  assumes "fm_state f = CLOSED"
  shows "\<exists>r c'. next_step D X (f, c) = (r, (f, c')) \<and>
     (case r of
        Inl e \<Rightarrow> fst (check_exit_intent D X c) = Inl e
      | Inr out \<Rightarrow> out = output_json (''Form '' @ fd_class_name D @ '' closed''))"
proof -
  obtain r c1 where ex: "check_exit_intent D X c = (r, c1)" by (cases "check_exit_intent D X c")
  have "f\<lparr>fm_state := CLOSED\<rparr> = f" using assms by (cases f) simp
  then show ?thesis using assms ex
    by (cases r) (auto simp: next_step_def continue_form_cases Let_def finish_form_def message_def)
qed

text \<open>
  Validation drops what is invalid: when pydantic reports at most one non-missing error per
  field, and only for fields the model has, the collected model keeps exactly the other fields, the
  missing ones are asked for and the form is incomplete.
\<close>

theorem validate_drops_invalid_fields:
  assumes "fd_validate D (fm_model f) = es" "es \<noteq> []" "\<forall>e \<in> set es. ve_field e \<noteq> None"
    and "distinct (map ve_field (filter (\<lambda>e. \<not> ve_missing e) es))"
    and "\<forall>e \<in> set es. \<not> ve_missing e \<longrightarrow> the (ve_field e) \<in> set (keys (fm_model f))"
  shows "\<exists>f'. validate D f = (Inr (), f') \<and> fm_state f' = INCOMPLETE \<and>
     fm_missing_fields f' = map (\<lambda>e. the (ve_field e)) (filter ve_missing es) \<and>
     length (fm_errors f') = length (filter (\<lambda>e. \<not> ve_missing e) es) \<and>
     (\<forall>k. map_of (fm_model f') k =
        (if \<exists>e \<in> set es. \<not> ve_missing e \<and> ve_field e = Some k then None else map_of (fm_model f) k))"
proof -
  let ?f = "f\<lparr>fm_missing_fields := [], fm_errors := []\<rparr>"
  have run: "collect_errors es ?f = (Inr (), ?f\<lparr>
     fm_missing_fields := fm_missing_fields ?f @ map (\<lambda>e. the (ve_field e)) (filter ve_missing es),
     fm_errors := fm_errors ?f @ map (\<lambda>e. the (ve_field e) @ '': '' @ ve_msg e) (filter (\<lambda>e. \<not> ve_missing e) es),
     fm_model := filter (\<lambda>p. fst p \<notin> the ` ve_field ` {e \<in> set es. \<not> ve_missing e}) (fm_model ?f)\<rparr>)"
    using assms(3,4,5) by (intro collect_errors_ok) simp_all
  have mem: "k \<in> the ` ve_field ` {e \<in> set es. \<not> ve_missing e} \<longleftrightarrow>
      (\<exists>e \<in> set es. \<not> ve_missing e \<and> ve_field e = Some k)" for k
    using assms(3) by force
  have "map_of (filter (\<lambda>p. fst p \<notin> the ` ve_field ` {e \<in> set es. \<not> ve_missing e}) (fm_model f)) k =
      (if \<exists>e \<in> set es. \<not> ve_missing e \<and> ve_field e = Some k then None else map_of (fm_model f) k)" for k
    unfolding map_of_filter_notin using mem [of k] by simp
  then show ?thesis using assms(1,2) run
    by (simp add: validate_def bindM_def)
qed

text \<open>
  Two errors for the same field make the validation itself fail with a KeyError: the field is
  gone from the model, the form keeps its state and the dialogue step is aborted.
\<close>

theorem validate_two_errors_one_field:
  assumes "fd_validate D (fm_model f) = [e1, e2]" "ve_field e1 = Some k" "ve_field e2 = Some k"
    and "\<not> ve_missing e1" "\<not> ve_missing e2" "k \<in> set (keys (fm_model f))"
  shows "\<exists>f'. validate D f = (Inl (Exn ''KeyError'' k), f') \<and> fm_state f' = fm_state f \<and>
     map_of (fm_model f') k = None"
  using assms by (simp add: validate_def bindM_def keys_delete delete_conv')

subsection \<open>Concrete runs\<close>

definition pizza_form :: "unit form_def" where
  "pizza_form =
     \<lparr>fd_class_name = ''PizzaForm'', fd_name = None, fd_description = ''order a pizza'', fd_start_examples = [],
      fd_stop_examples = [], fd_ask_confirm = True,
      fd_fields = [\<lparr>mf_name = ''pizza'', mf_description = None, mf_type = ''str''\<rparr>],
      fd_validate = (\<lambda>m. if ''pizza'' \<in> set (keys m) then [] else [\<lparr>ve_field = Some ''pizza'', ve_missing = True, ve_msg = []\<rparr>]),
      fd_submit = (\<lambda>m. retM (output_json ''ordered''))\<rparr>"

definition no_cat :: "unit form_cat" where
  "no_cat = \<lparr>fx_llm = (\<lambda>p. retM ''no''), fx_user_text = (\<lambda>c. Inr ''hello''), fx_history = (\<lambda>c. []),
     fx_dumps = (\<lambda>m. ''{}''), fx_parse = (\<lambda>s. Inr [])\<rparr>"

theorem form_submits_only_valid_models_witness:
  "next_step (pizza_form\<lparr>fd_submit := (\<lambda>m. if m = [] then raiseM (Exn ''Boom'' []) else retM (output_json ''ordered''))\<rparr>)
     no_cat (CatForm_init, ()) = next_step pizza_form no_cat (CatForm_init, ())"
proof -
  let ?S = "\<lambda>m. if m = [] then raiseM (Exn ''Boom'' []) else retM (output_json ''ordered'')"
  have "?S m = fd_submit pizza_form m" if "fd_validate pizza_form m = []" for m
    using that by (cases m) (simp_all add: pizza_form_def)
  then show ?thesis
    using form_submits_only_valid_models [OF form_reach.start, of pizza_form ?S no_cat "()"] by blast
qed

theorem closed_form_is_final_witness:
  "\<exists>r. next_step pizza_form no_cat (CatForm_init\<lparr>fm_state := CLOSED\<rparr>, ()) = (r, (CatForm_init\<lparr>fm_state := CLOSED\<rparr>, ()))"
  using closed_form_is_final [of "CatForm_init\<lparr>fm_state := CLOSED\<rparr>" pizza_form no_cat "()"] by auto

theorem validate_drops_invalid_fields_witness:
  "\<exists>f'. validate pizza_form CatForm_init = (Inr (), f') \<and> fm_missing_fields f' = [''pizza'']"
  using validate_drops_invalid_fields [of pizza_form CatForm_init "[\<lparr>ve_field = Some ''pizza'', ve_missing = True, ve_msg = []\<rparr>]"]
  by (auto simp: pizza_form_def CatForm_init_def)

theorem validate_two_errors_one_field_witness:
  "\<exists>f'. validate (pizza_form\<lparr>fd_validate := (\<lambda>m. [\<lparr>ve_field = Some ''toppings'', ve_missing = False, ve_msg = ''a''\<rparr>,
      \<lparr>ve_field = Some ''toppings'', ve_missing = False, ve_msg = ''b''\<rparr>])\<rparr>)
     (CatForm_init\<lparr>fm_model := [(''toppings'', PList [PInt 1, PInt 2])]\<rparr>) = (Inl (Exn ''KeyError'' ''toppings''), f')"
  using validate_two_errors_one_field [of "pizza_form\<lparr>fd_validate := (\<lambda>m. [\<lparr>ve_field = Some ''toppings'', ve_missing = False, ve_msg = ''a''\<rparr>,
      \<lparr>ve_field = Some ''toppings'', ve_missing = False, ve_msg = ''b''\<rparr>])\<rparr>" "CatForm_init\<lparr>fm_model := [(''toppings'', PList [PInt 1, PInt 2])]\<rparr>"
      "\<lparr>ve_field = Some ''toppings'', ve_missing = False, ve_msg = ''a''\<rparr>" "\<lparr>ve_field = Some ''toppings'', ve_missing = False, ve_msg = ''b''\<rparr>" "''toppings''"]
  by (auto simp: keys_def)

end
