(* ===== verification/Session.thy ===== *)
theory Session
  imports Cache Mad_Hatter Vector_Memory Cat_Form
begin

text \<open>
  The session of one user: the state the \<open>StrayCat\<close> of \<open>core/cat/looking_glass/stray_cat.py\<close> works on, its cache and
  websocket methods, \<open>core/cat/routes/websocket/websocket_manager.py\<close> and the langchain callbacks of
  \<open>core/cat/looking_glass/callbacks.py\<close>.

  A \<open>StrayCat\<close> only holds a reference to a \<open>WorkingMemory\<close> object. The in-memory cache keeps the
  reference, the file system cache a pickled copy, so two cats of one user share their memory
  under the first and not under the second. The state therefore has a heap of sessions, a cat has an
  address, and a cached value is an address or a copy. A form object has an identity and the
  number of its class; the classes, like the hooks and tools of the plugins, run on this very state
  and are part of the parameters \<open>cheshire\<close>, with the language model, the embedder, the clock, the JSON
  library and the network. The plugin registry does not change during a turn.
\<close>

subsection \<open>Data\<close>

record agent_output =
  ao_output :: "string option"
  ao_intermediate_steps :: "pyval list"
  ao_return_direct :: bool

definition AgentOutput :: agent_output where
  "AgentOutput = \<lparr>ao_output = None, ao_intermediate_steps = [], ao_return_direct = False\<rparr>"

definition AgentOutput_dump :: "agent_output \<Rightarrow> json" where
  "AgentOutput_dump a =
     [(''output'', case ao_output a of None \<Rightarrow> PNone | Some s \<Rightarrow> PStr s),
      (''intermediate_steps'', PList (ao_intermediate_steps a)), (''return_direct'', PBool (ao_return_direct a))]"

record recall_config =
  rcf_embedding :: "real list"
  rcf_k :: int
  rcf_threshold :: "real option"
  rcf_metadata :: json

text \<open>
  A text splitter: its identity and the two sizes the rabbit hole sets. Parsers are known by a number.
\<close>

record splitter =
  spl_id :: nat
  spl_chunk_size :: int
  spl_chunk_overlap :: int

text \<open>What a hook can get and give. A set of names is a list here, only its members matter.\<close>

datatype tea =
  TNone
| TText string
| TMessage message
| TDocument document
| TDocuments "document list"
| TPoints "point option list"
| THandlers "(string, nat) dict"
| TSplitter splitter
| TConfig recall_config
| TInput json
| TNames "pyval list"
| TDict json
| TOutput agent_output

record form_object =
  fo_id :: nat
  fo_class :: nat
  fo_form :: form

record session =
  se_memory :: "form_object working_memory"
  se_agent_input :: "tea option"

datatype stored = Live nat | Pickled session

datatype ws_message = WsMessage message | WsDict json

record ('q, 'x) stray =
  sr_user_id :: string
  sr_wm :: nat
  sr_heap :: "nat \<Rightarrow> session"
  sr_next :: nat
  sr_cache :: "stored cache"
  sr_db :: 'q
  sr_connections :: "(string, nat) dict"
  sr_sent :: "(nat \<times> ws_message) list"
  sr_ext :: 'x

type_synonym ('q, 'x, 'a) stray_comp = "(('q, 'x) stray, 'a) comp"

datatype chat_message = SystemPart string | TurnPart base_message | PromptPart string

record ('w, 'db, 'q, 'x) cheshire =
  cc_hatter :: "('w, ('q, 'x) stray, tea, nat, 'db) hatter"
  cc_forms :: "nat \<Rightarrow> ('q, 'x) stray form_def"
  cc_memory :: "'q vector_memory"
  cc_generate :: "chat_message list \<Rightarrow> ('x, string list \<times> string) comp"
  cc_embed_query :: "string \<Rightarrow> ('x, real list) comp"
  cc_embed_documents :: "string list \<Rightarrow> ('x, real list list) comp"
  cc_count_tokens :: "string \<Rightarrow> int"
  cc_time :: "'x \<Rightarrow> real"
  cc_uuid :: "('x, string) comp"
  cc_random :: "string list \<Rightarrow> ('x, string) comp"
  cc_send :: "nat \<Rightarrow> ws_message \<Rightarrow> ('x, unit) comp"
  cc_download :: "string \<Rightarrow> image_response result"
  cc_template_vars :: "string \<Rightarrow> string list"
  cc_set_order :: "string list \<Rightarrow> string list"
  cc_format :: "string \<Rightarrow> json \<Rightarrow> string result"
  cc_parse :: "string \<Rightarrow> json result"
  cc_dumps :: "pyval \<Rightarrow> string"
  cc_dumps_indented :: "json \<Rightarrow> string"
  cc_str :: "pyval \<Rightarrow> string"
  cc_timedelta :: "real \<Rightarrow> timedelta"
  cc_levenshtein :: "string \<Rightarrow> string \<Rightarrow> real"
  cc_caller :: string

subsection \<open>Access to the state\<close>

definition memory_of :: "('q, 'x) stray \<Rightarrow> form_object working_memory" where
  "memory_of c = se_memory (sr_heap c (sr_wm c))"

definition set_session :: "(session \<Rightarrow> session) \<Rightarrow> ('q, 'x) stray \<Rightarrow> ('q, 'x) stray" where
  "set_session f c = c\<lparr>sr_heap := (sr_heap c)(sr_wm c := f (sr_heap c (sr_wm c)))\<rparr>"

definition set_memory ::
  "(form_object working_memory \<Rightarrow> form_object working_memory) \<Rightarrow> ('q, 'x) stray \<Rightarrow> ('q, 'x) stray" where
  "set_memory f = set_session (\<lambda>se. se\<lparr>se_memory := f (se_memory se)\<rparr>)"

definition on_ext :: "('x, 'a) comp \<Rightarrow> ('q, 'x, 'a) stray_comp" where
  "on_ext m c = (case m (sr_ext c) of (r, x) \<Rightarrow> (r, c\<lparr>sr_ext := x\<rparr>))"

definition on_db :: "('q, 'a) comp \<Rightarrow> ('q, 'x, 'a) stray_comp" where
  "on_db m c = (case m (sr_db c) of (r, q) \<Rightarrow> (r, c\<lparr>sr_db := q\<rparr>))"

definition time_time :: "('w, 'db, 'q, 'x) cheshire \<Rightarrow> ('q, 'x, real) stray_comp" where
  "time_time K = getM (\<lambda>c. cc_time K (sr_ext c))"

subsection \<open>The working memory and the cache\<close>

definition new_session :: session where
  "new_session = \<lparr>se_memory = WorkingMemory, se_agent_input = None\<rparr>"

definition memory_key :: "string \<Rightarrow> string" where
  "memory_key user_id = user_id @ ''_working_memory''"

definition allocate :: "session \<Rightarrow> ('q, 'x) stray \<Rightarrow> ('q, 'x) stray" where
  "allocate se c = c\<lparr>sr_wm := sr_next c, sr_heap := (sr_heap c)(sr_next c := se), sr_next := Suc (sr_next c)\<rparr>"

definition load_working_memory_from_cache :: "('w, 'db, 'q, 'x) cheshire \<Rightarrow> ('q, 'x) stray \<Rightarrow> ('q, 'x) stray" where
  "load_working_memory_from_cache K c =
     (case cache_get_value (cc_time K (sr_ext c)) (memory_key (sr_user_id c)) (sr_cache c) of
        (v, cache) \<Rightarrow>
          (let c = c\<lparr>sr_cache := cache\<rparr> in
           case v of
             None \<Rightarrow> allocate new_session c
           | Some (Live a) \<Rightarrow> c\<lparr>sr_wm := a\<rparr>
           | Some (Pickled se) \<Rightarrow> allocate se c))"

text \<open>The in-memory cache keeps the object, the file system cache pickles it.\<close>

definition stored_value :: "('q, 'x) stray \<Rightarrow> stored" where
  "stored_value c = (case sr_cache c of InMemory m \<Rightarrow> Live (sr_wm c) | FileSystem f \<Rightarrow> Pickled (sr_heap c (sr_wm c)))"

definition update_working_memory_cache :: "('w, 'db, 'q, 'x) cheshire \<Rightarrow> ('q, 'x, unit) stray_comp" where
  "update_working_memory_cache K =
     bindM (time_time K) (\<lambda>now.
     bindM (\<lambda>c. (cache_insert (sr_cache c)
              (CacheItem now (memory_key (sr_user_id c)) (stored_value c) (Some (- 1))), c)) (\<lambda>cache.
     modM (\<lambda>c. c\<lparr>sr_cache := cache\<rparr>)))"

definition StrayCat_init :: "('w, 'db, 'q, 'x) cheshire \<Rightarrow> string \<Rightarrow> ('q, 'x) stray \<Rightarrow> ('q, 'x) stray" where
  "StrayCat_init K user_id c = load_working_memory_from_cache K (c\<lparr>sr_user_id := user_id\<rparr>)"

subsection \<open>Websockets\<close>

definition add_connection :: "string \<Rightarrow> nat \<Rightarrow> (string, nat) dict \<Rightarrow> (string, nat) dict" where
  "add_connection i ws connections = AList.update i ws connections"

definition get_connection :: "string \<Rightarrow> (string, nat) dict \<Rightarrow> nat option" where
  "get_connection i connections = map_of connections i"

definition remove_connection :: "string \<Rightarrow> (string, nat) dict \<Rightarrow> (string, nat) dict" where
  "remove_connection i connections = (if i \<in> set (keys connections) then AList.delete i connections else connections)"

definition send_ws_json :: "('w, 'db, 'q, 'x) cheshire \<Rightarrow> ws_message \<Rightarrow> ('q, 'x, unit) stray_comp" where
  "send_ws_json K data =
     bindM (getM (\<lambda>c. get_connection (sr_user_id c) (sr_connections c))) (\<lambda>ws_connection.
       case ws_connection of
         None \<Rightarrow> retM ()
       | Some ws \<Rightarrow>
           bindM (on_ext (cc_send K ws data)) (\<lambda>_. modM (\<lambda>c. c\<lparr>sr_sent := sr_sent c @ [(ws, data)]\<rparr>)))"

definition MSG_TYPES :: "string list" where
  "MSG_TYPES = [''notification'', ''chat'', ''error'', ''chat_token'']"

definition send_ws_message :: "('w, 'db, 'q, 'x) cheshire \<Rightarrow> pyval \<Rightarrow> string \<Rightarrow> ('q, 'x, unit) stray_comp" where
  "send_ws_message K content msg_type =
     (if msg_type \<notin> set MSG_TYPES then
        raiseM (Exn ''ValueError'' (''The message type '' @ backquote @ msg_type @ backquote @ '' is not valid. Valid types: '' @
          join '', '' MSG_TYPES))
      else if msg_type = ''error'' then
        send_ws_json K (WsDict [(''type'', PStr msg_type), (''name'', PStr ''GenericError''),
          (''description'', PStr (case content of PStr s \<Rightarrow> s | _ \<Rightarrow> cc_str K content))])
      else send_ws_json K (WsDict [(''type'', PStr msg_type), (''content'', content)]))"

definition send_notification :: "('w, 'db, 'q, 'x) cheshire \<Rightarrow> string \<Rightarrow> ('q, 'x, unit) stray_comp" where
  "send_notification K content = send_ws_message K (PStr content) ''notification''"

text \<open>The class and the text of an exception, as the error message shows them.\<close>

fun exn_name :: "exn \<Rightarrow> string" where
  "exn_name (Exn cls txt) = cls"
| "exn_name (HTTPException status detail) = ''HTTPException''"
| "exn_name (WebSocketException code reason) = ''WebSocketException''"

definition exn_str :: "('w, 'db, 'q, 'x) cheshire \<Rightarrow> exn \<Rightarrow> string" where
  "exn_str K e =
     (case e of
        Exn cls txt \<Rightarrow> txt
      | HTTPException status detail \<Rightarrow> cc_str K (PList [PInt status, detail])
      | WebSocketException code reason \<Rightarrow> cc_str K (PList [PInt code, PStr reason]))"

definition send_error :: "('w, 'db, 'q, 'x) cheshire \<Rightarrow> string + exn \<Rightarrow> ('q, 'x, unit) stray_comp" where
  "send_error K error =
     send_ws_json K (WsDict
       (case error of
          Inl txt \<Rightarrow> [(''type'', PStr ''error''), (''name'', PStr ''GenericError''), (''description'', PStr txt)]
        | Inr e \<Rightarrow> [(''type'', PStr ''error''), (''name'', PStr (exn_name e)), (''description'', PStr (exn_str K e))]))"

text \<open>The explanation of an answer: a message without text fails the validation of \<open>input\<close>.\<close>

definition build_why :: "form_object working_memory \<Rightarrow> message_why result" where
  "build_why wm =
     bindR (lookup_exn (Exn ''AttributeError'' ''text'') (user_message_json wm)) (\<lambda>um.
     bindR (lookup_exn (Exn ''ValidationError'' ''input'') (msg_text um)) (\<lambda>txt.
     Inr \<lparr>why_input = txt, why_intermediate_steps = [],
          why_memory = [(''episodic'', episodic_memories wm), (''declarative'', declarative_memories wm),
                        (''procedural'', procedural_memories wm)],
          why_model_interactions = model_interactions wm, why_agent_output = None\<rparr>))"

definition cat_message :: "string \<Rightarrow> real \<Rightarrow> string \<Rightarrow> message_why option \<Rightarrow> message" where
  "cat_message user_id now txt why = CatMessage (new_message user_id ''AI'' now (Some txt)) why"

definition send_chat_message ::
  "('w, 'db, 'q, 'x) cheshire \<Rightarrow> string + message \<Rightarrow> bool \<Rightarrow> ('q, 'x, unit) stray_comp" where
  "send_chat_message K msg save =
     bindM (case msg of
              Inr m \<Rightarrow> retM m
            | Inl txt \<Rightarrow>
                bindM (\<lambda>c. (build_why (memory_of c), c)) (\<lambda>why.
                bindM (time_time K) (\<lambda>now.
                getM (\<lambda>c. cat_message (sr_user_id c) now txt (Some why))))) (\<lambda>m.
     bindM (if save then modM (set_memory (update_history m)) else retM ()) (\<lambda>_.
     send_ws_json K (WsMessage m)))"

subsection \<open>Asking the language model\<close>

fun chat_texts :: "chat_message \<Rightarrow> content_part list" where
  "chat_texts (SystemPart s) = [TextPart s]"
| "chat_texts (PromptPart s) = [TextPart s]"
| "chat_texts (TurnPart (AIMessage who s)) = [TextPart s]"
| "chat_texts (TurnPart (HumanMessage who parts)) = parts"

fun part_text :: "content_part \<Rightarrow> string" where
  "part_text (TextPart s) = s"
| "part_text (ImagePart s) = ''(image, tokens not counted)''"

fun part_tokens :: "('w, 'db, 'q, 'x) cheshire \<Rightarrow> content_part \<Rightarrow> int" where
  "part_tokens K (TextPart s) = cc_count_tokens K s"
| "part_tokens K (ImagePart s) = 0"

definition set_last_interaction ::
  "(model_interaction \<Rightarrow> model_interaction) \<Rightarrow> form_object working_memory \<Rightarrow> form_object working_memory" where
  "set_last_interaction f wm =
     (case rev (model_interactions wm) of
        [] \<Rightarrow> wm
      | m # ms \<Rightarrow> wm\<lparr>model_interactions := rev ms @ [f m]\<rparr>)"

definition ModelInteractionHandler_init ::
  "('w, 'db, 'q, 'x) cheshire \<Rightarrow> string \<Rightarrow> ('q, 'x, unit) stray_comp" where
  "ModelInteractionHandler_init K source =
     bindM (time_time K) (\<lambda>now.
     modM (set_memory (\<lambda>wm. wm\<lparr>model_interactions :=
       model_interactions wm @ [LLMModelInteraction source [] 0 now [] 0 0]\<rparr>)))"

fun started_interaction :: "string list \<Rightarrow> int \<Rightarrow> model_interaction \<Rightarrow> model_interaction" where
  "started_interaction prompt n (LLMModelInteraction src p i t0 r o' t1) = LLMModelInteraction src prompt n t0 r o' t1"
| "started_interaction prompt n (EmbedderModelInteraction src p i t0 r) = EmbedderModelInteraction src prompt n t0 r"

fun ended_interaction :: "string \<Rightarrow> int \<Rightarrow> real \<Rightarrow> model_interaction \<Rightarrow> model_interaction" where
  "ended_interaction reply n now (LLMModelInteraction src p i t0 r o' t1) = LLMModelInteraction src p i t0 reply n now"
| "ended_interaction reply n now (EmbedderModelInteraction src p i t0 r) = EmbedderModelInteraction src p i t0 r"

definition on_chat_model_start ::
  "('w, 'db, 'q, 'x) cheshire \<Rightarrow> chat_message list \<Rightarrow> ('q, 'x, unit) stray_comp" where
  "on_chat_model_start K msgs =
     (let parts = concat (map chat_texts msgs);
          input_tokens = sum_list (map (part_tokens K) parts)
      in modM (set_memory (set_last_interaction
           (started_interaction (map part_text parts) \<lfloor>of_int input_tokens * (12 / 10 :: real)\<rfloor>))))"

definition on_llm_end :: "('w, 'db, 'q, 'x) cheshire \<Rightarrow> string \<Rightarrow> ('q, 'x, unit) stray_comp" where
  "on_llm_end K reply =
     bindM (time_time K) (\<lambda>now.
     modM (set_memory (set_last_interaction (ended_interaction reply (cc_count_tokens K reply) now))))"

text \<open>A callback that raises is logged by langchain and ignored.\<close>

definition on_llm_new_token :: "('w, 'db, 'q, 'x) cheshire \<Rightarrow> string \<Rightarrow> ('q, 'x, unit) stray_comp" where
  "on_llm_new_token K token = catchM (send_ws_message K (PStr token) ''chat_token'') (\<lambda>e. retM ())"

text \<open>
  Running a chain \<open>prompt | llm | parser\<close> with the callbacks: the handler's constructor records the
  interaction, then the prompt is rendered, the model runs, streams its tokens and ends.
\<close>

definition invoke_chain ::
  "('w, 'db, 'q, 'x) cheshire \<Rightarrow> bool \<Rightarrow> string \<Rightarrow> chat_message list result \<Rightarrow> ('q, 'x, string) stray_comp" where
  "invoke_chain K stream source rendered =
     bindM (ModelInteractionHandler_init K source) (\<lambda>_.
     bindM (liftM rendered) (\<lambda>msgs.
     bindM (on_chat_model_start K msgs) (\<lambda>_.
     bindM (on_ext (cc_generate K msgs)) (\<lambda>(tokens, reply).
     bindM (if stream then forM tokens (on_llm_new_token K) else retM ()) (\<lambda>_.
     bindM (on_llm_end K reply) (\<lambda>_. retM reply))))))"

definition cat_llm :: "('w, 'db, 'q, 'x) cheshire \<Rightarrow> bool \<Rightarrow> string \<Rightarrow> ('q, 'x, string) stray_comp" where
  "cat_llm K stream prompt =
     invoke_chain K stream (if cc_caller K = [] then ''StrayCat'' else cc_caller K) (Inr [PromptPart prompt])"

subsection \<open>Hooks\<close>

text \<open>A hook with a tea cup, and one without arguments.\<close>

definition pipe :: "('w, 'db, 'q, 'x) cheshire \<Rightarrow> string \<Rightarrow> tea \<Rightarrow> ('q, 'x, tea) stray_comp" where
  "pipe K hook_name cup =
     bindM (execute_hook (cc_hatter K) hook_name [cup]) (\<lambda>r. retM (case r of None \<Rightarrow> TNone | Some t \<Rightarrow> t))"

definition notify_hook :: "('w, 'db, 'q, 'x) cheshire \<Rightarrow> string \<Rightarrow> ('q, 'x, unit) stray_comp" where
  "notify_hook K hook_name = bindM (execute_hook (cc_hatter K) hook_name []) (\<lambda>_. retM ())"

subsection \<open>Frame lemmas\<close>

lemma set_memory_sel [simp]:
  "memory_of (set_memory f c) = f (memory_of c)"
  "sr_user_id (set_memory f c) = sr_user_id c"
  "sr_wm (set_memory f c) = sr_wm c"
  "sr_next (set_memory f c) = sr_next c"
  "sr_cache (set_memory f c) = sr_cache c"
  "sr_db (set_memory f c) = sr_db c"
  "sr_connections (set_memory f c) = sr_connections c"
  "sr_sent (set_memory f c) = sr_sent c"
  "sr_ext (set_memory f c) = sr_ext c"
  "a \<noteq> sr_wm c \<Longrightarrow> sr_heap (set_memory f c) a = sr_heap c a"
  by (simp_all add: set_memory_def set_session_def memory_of_def)

lemma set_session_sel [simp]:
  "sr_user_id (set_session f c) = sr_user_id c"
  "sr_wm (set_session f c) = sr_wm c"
  "sr_next (set_session f c) = sr_next c"
  "sr_cache (set_session f c) = sr_cache c"
  "sr_db (set_session f c) = sr_db c"
  "sr_connections (set_session f c) = sr_connections c"
  "sr_ext (set_session f c) = sr_ext c"
  "sr_heap (set_session f c) = (sr_heap c)(sr_wm c := f (sr_heap c (sr_wm c)))"
  by (simp_all add: set_session_def)

lemma memory_of_other [simp]:
  "memory_of (c\<lparr>sr_ext := x\<rparr>) = memory_of c"
  "memory_of (c\<lparr>sr_db := q\<rparr>) = memory_of c"
  "memory_of (c\<lparr>sr_sent := ms\<rparr>) = memory_of c"
  "memory_of (c\<lparr>sr_cache := k\<rparr>) = memory_of c"
  "memory_of (c\<lparr>sr_connections := ws\<rparr>) = memory_of c"
  by (simp_all add: memory_of_def)

lemma set_memory_twice [simp]: "set_memory g (set_memory f c) = set_memory (\<lambda>wm. g (f wm)) c"
  by (simp add: set_memory_def set_session_def)

lemma set_memory_id [simp]: "set_memory (\<lambda>wm. wm) c = c"
  by (simp add: set_memory_def set_session_def)

lemma allocate_sel [simp]:
  "sr_user_id (allocate se c) = sr_user_id c" "sr_wm (allocate se c) = sr_next c" "sr_next (allocate se c) = Suc (sr_next c)"
  "sr_heap (allocate se c) = (sr_heap c)(sr_next c := se)" "memory_of (allocate se c) = se_memory se"
  by (simp_all add: allocate_def memory_of_def)

text \<open>
  Two states of a turn between which only the models were asked: the session is the same up to the record
  of the interactions and the agent input, and every other session, the vector memory and the cache
  are untouched.
\<close>

definition same_talk :: "('q, 'x) stray \<Rightarrow> ('q, 'x) stray \<Rightarrow> bool" where
  "same_talk c0 c \<longleftrightarrow>
     sr_user_id c = sr_user_id c0 \<and> sr_wm c = sr_wm c0 \<and> sr_db c = sr_db c0 \<and> sr_cache c = sr_cache c0 \<and>
     sr_connections c = sr_connections c0 \<and> sr_next c = sr_next c0 \<and> (\<forall>a. a \<noteq> sr_wm c0 \<longrightarrow> sr_heap c a = sr_heap c0 a) \<and>
     (\<exists>rq mi. memory_of c = (memory_of c0)\<lparr>recall_query := rq, model_interactions := mi\<rparr>)"

lemma interactions_only [simp]:
  "\<exists>rq mi. wm = wm\<lparr>recall_query := rq, model_interactions := mi\<rparr>"
  "\<exists>rq mi. wm\<lparr>model_interactions := x\<rparr> = wm\<lparr>recall_query := rq, model_interactions := mi\<rparr>"
  "\<exists>rq mi. wm\<lparr>recall_query := y\<rparr> = wm\<lparr>recall_query := rq, model_interactions := mi\<rparr>"
  by (cases wm; auto)+

lemma same_talk_refl [simp]: "same_talk c c"
  by (simp add: same_talk_def)

lemma same_talk_trans: "same_talk c0 c1 \<Longrightarrow> same_talk c1 c2 \<Longrightarrow> same_talk c0 c2"
  unfolding same_talk_def by (elim conjE exE) (intro conjI exI; simp)

lemma reflp_same_talk [simp]: "reflp same_talk" and transp_same_talk [simp]: "transp same_talk"
  by (auto simp: reflp_def transp_def intro: same_talk_trans)

lemma same_talk_step:
  "sr_user_id c = sr_user_id c0 \<Longrightarrow> sr_wm c = sr_wm c0 \<Longrightarrow> sr_db c = sr_db c0 \<Longrightarrow> sr_cache c = sr_cache c0 \<Longrightarrow>
   sr_connections c = sr_connections c0 \<Longrightarrow> sr_next c = sr_next c0 \<Longrightarrow> (\<And>a. a \<noteq> sr_wm c0 \<Longrightarrow> sr_heap c a = sr_heap c0 a) \<Longrightarrow>
   (\<exists>rq mi. memory_of c = (memory_of c0)\<lparr>recall_query := rq, model_interactions := mi\<rparr>) \<Longrightarrow>
   same_talk c0 c"
  by (simp add: same_talk_def)

lemma same_talk_fields:
  assumes "same_talk c0 c"
  shows "sr_user_id c = sr_user_id c0" "sr_wm c = sr_wm c0" "sr_db c = sr_db c0" "sr_cache c = sr_cache c0"
    "sr_connections c = sr_connections c0"
    "history (memory_of c) = history (memory_of c0)"
    "user_message_json (memory_of c) = user_message_json (memory_of c0)"
    "active_form (memory_of c) = active_form (memory_of c0)"
    "episodic_memories (memory_of c) = episodic_memories (memory_of c0)"
    "declarative_memories (memory_of c) = declarative_memories (memory_of c0)"
    "procedural_memories (memory_of c) = procedural_memories (memory_of c0)"
    "sr_next c = sr_next c0"
  using assms by (auto simp: same_talk_def)

text \<open>Asking, streaming and being notified keep the talk; they return when what they ask returns.\<close>

abbreviation keeps :: "('q, 'x, 'a) stray_comp \<Rightarrow> bool" where
  "keeps \<equiv> stepsM same_talk"

lemma keeps_bind: "keeps m \<Longrightarrow> (\<And>x. keeps (f x)) \<Longrightarrow> keeps (bindM m f)"
  by (rule stepsM_bind) simp_all

lemma keeps_bind_at:
  assumes "same_talk c (snd (m c))" "\<And>x. keeps (f x)"
  shows "same_talk c (snd (bindM m f c))"
proof (cases "fst (m c)")
  case (Inr x)
  then show ?thesis using same_talk_trans [OF assms(1) stepsMD [OF assms(2)]] by (simp add: bindM_apply)
qed (use assms(1) in \<open>simp add: bindM_apply\<close>)

lemma keeps_catch: "keeps m \<Longrightarrow> (\<And>e. keeps (h e)) \<Longrightarrow> keeps (catchM m h)"
  by (rule stepsM_catch) simp_all

lemma keeps_forM: "(\<And>x. x \<in> set xs \<Longrightarrow> keeps (f x)) \<Longrightarrow> keeps (forM xs f)"
  by (rule stepsM_forM) simp_all

lemma keeps_pure [simp]: "keeps (retM x)" "keeps (raiseM e)" "keeps (getM g)" "keeps (liftM r)"
  by (simp_all add: stepsM_pure)

lemma keeps_read [simp]: "keeps (\<lambda>c. (f c, c))"
  by (simp add: stepsM_def)

lemma keeps_on_ext [simp]: "keeps (on_ext m)"
  by (rule stepsMI, rule same_talk_step) (simp_all add: on_ext_def split: prod.split)

lemma keeps_interactions: 
  "(\<And>wm. \<exists>rq mi. g wm = wm\<lparr>recall_query := rq, model_interactions := mi\<rparr>) \<Longrightarrow> keeps (modM (set_memory g))"
  by (rule stepsMI, rule same_talk_step) simp_all


lemma keeps_sent [simp]: "keeps (modM (\<lambda>c. c\<lparr>sr_sent := f c\<rparr>))"
  by (rule stepsMI, rule same_talk_step) simp_all

lemma keeps_send_ws_json [simp]: "keeps (send_ws_json K data)"
  unfolding send_ws_json_def by (intro keeps_bind) (auto split: option.split intro!: keeps_bind)

lemma keeps_send_ws_message [simp]: "keeps (send_ws_message K v t)"
  by (simp add: send_ws_message_def)

lemma keeps_time_time [simp]: "keeps (time_time K)"
  by (simp_all add: time_time_def)

lemma keeps_on_llm_new_token [simp]: "keeps (on_llm_new_token K t)"
  by (auto simp: on_llm_new_token_def intro: keeps_catch)

lemma keeps_last_interaction [simp]: "keeps (modM (set_memory (set_last_interaction f)))"
  by (rule keeps_interactions) (simp add: set_last_interaction_def split: list.splits)

lemma keeps_handler [simp]:
  "keeps (ModelInteractionHandler_init K s)"
  "keeps (on_chat_model_start K ms)"
  "keeps (on_llm_end K r)"
  by (auto simp: ModelInteractionHandler_init_def on_chat_model_start_def on_llm_end_def Let_def
      intro!: keeps_bind keeps_last_interaction intro: keeps_interactions)

lemma keeps_invoke_chain [simp]: "keeps (invoke_chain K b s r)"
  by (auto simp: invoke_chain_def intro!: keeps_bind keeps_forM split: prod.split)

lemma keeps_cat_llm [simp]: "keeps (cat_llm K b p)"
  by (simp add: cat_llm_def)

lemma on_ext_bind: "bindM (on_ext (retM x)) f = f x"
  by (simp add: fun_eq_iff bindM_def on_ext_def)

lemma answers_callbacks:
  "answers (ModelInteractionHandler_init K s)" "answers (on_chat_model_start K ms)" "answers (on_llm_end K r)"
  "answers (on_llm_new_token K t)"
  by (auto simp: ModelInteractionHandler_init_def on_chat_model_start_def on_llm_end_def on_llm_new_token_def time_time_def Let_def
      intro!: answers_bind answers_catch)

text \<open>Hooks that leave the tea cup and the session as they are, like those of the core plugin.\<close>

definition quiet_hook :: "('c, 'v) cat_hook \<Rightarrow> bool" where
  "quiet_hook h \<longleftrightarrow> (\<forall>t ts c. hk_function h (t # ts) c = (Inr None, c) \<or> hk_function h (t # ts) c = (Inr (Some t), c))"

definition quiet_event :: "('c, 'v) cat_hook \<Rightarrow> bool" where
  "quiet_event h \<longleftrightarrow> (\<forall>c. hk_function h [] c = (Inr None, c))"

definition turn_hooks :: "string list" where
  "turn_hooks =
     [''fast_reply'', ''before_cat_reads_message'', ''cat_recall_query'', ''before_cat_recalls_episodic_memories'', ''before_cat_recalls_declarative_memories'',
      ''before_cat_recalls_procedural_memories'', ''before_agent_starts'',
      ''agent_fast_reply'', ''agent_prompt_prefix'', ''agent_prompt_suffix'', ''agent_prompt_instructions'',
      ''agent_allowed_tools'', ''before_cat_stores_episodic_memory'', ''before_cat_sends_message'']"

definition turn_events :: "string list" where
  [simp]: "turn_events = [''before_cat_recalls_memories'', ''after_cat_recalls_memories'']"

definition quiet_hatter :: "('w, 'c, 'v, 'f, 'db) hatter \<Rightarrow> bool" where
  "quiet_hatter mh \<longleftrightarrow>
     (\<forall>n \<in> set turn_hooks. \<exists>hs. map_of (mh_hooks mh) n = Some hs \<and> list_all quiet_hook hs) \<and>
     (\<forall>n \<in> set turn_events. \<exists>hs. map_of (mh_hooks mh) n = Some hs \<and> list_all quiet_event hs)"

lemma quiet_pipe_hooks: "list_all quiet_hook hs \<Longrightarrow> pipe_hooks ps args hs cup c = (Inr cup, c)"
proof (induction hs)
  case (Cons h hs)
  then have "hk_function h (cup # args) c = (Inr None, c) \<or> hk_function h (cup # args) c = (Inr (Some cup), c)"
    by (auto simp: quiet_hook_def)
  then show ?case using Cons by (auto simp: bindM_def catchM_def)
qed simp

lemma quiet_run_hooks: "list_all quiet_event hs \<Longrightarrow> run_hooks ps hs c = (Inr (), c)"
proof (induction hs)
  case (Cons h hs)
  then have "hk_function h [] c = (Inr None, c)" by (simp add: quiet_event_def)
  then show ?case using Cons by (auto simp: bindM_def catchM_def)
qed simp

text \<open>A hook name under which there are only such hooks.\<close>

definition quiet_at :: "('w, 'c, 'v, 'f, 'db) hatter \<Rightarrow> string \<Rightarrow> bool" where
  "quiet_at mh n \<longleftrightarrow> (\<exists>hs. map_of (mh_hooks mh) n = Some hs \<and> list_all quiet_hook hs)"

lemma quiet_at_bind:
  assumes "quiet_at (cc_hatter K) n"
  shows "bindM (pipe K n cup) f c = f cup c"
  using assms by (auto simp: quiet_at_def pipe_def execute_hook_def quiet_pipe_hooks bindM_def)

lemma quiet_at_execute:
  assumes "quiet_at mh n"
  shows "bindM (execute_hook mh n (cup # args)) f c = f (Some cup) c"
  using assms by (auto simp: quiet_at_def execute_hook_def quiet_pipe_hooks bindM_def)

lemma quiet_pipe:
  assumes "quiet_hatter (cc_hatter K)" "n \<in> set turn_hooks"
  shows "pipe K n cup c = (Inr cup, c)"
  using assms by (auto simp: quiet_hatter_def pipe_def execute_hook_def quiet_pipe_hooks bindM_def)

lemma quiet_notify:
  assumes "quiet_hatter (cc_hatter K)" "n \<in> set turn_events"
  shows "notify_hook K n c = (Inr (), c)"
  using assms by (auto simp: quiet_hatter_def notify_hook_def execute_hook_def quiet_run_hooks bindM_def simp del: turn_events_def)

lemma quiet_pipe_bind:
  assumes "quiet_hatter (cc_hatter K)" "n \<in> set turn_hooks"
  shows "bindM (pipe K n cup) f c = f cup c"
  using quiet_pipe [OF assms] by (simp add: bindM_def)

lemma quiet_notify_bind:
  assumes "quiet_hatter (cc_hatter K)" "n \<in> set turn_events"
  shows "bindM (notify_hook K n) f c = f () c"
  using quiet_notify [OF assms] by (simp add: bindM_def)

lemma keeps_quiet_pipe: "quiet_hatter (cc_hatter K) \<Longrightarrow> n \<in> set turn_hooks \<Longrightarrow> keeps (pipe K n cup)"
  by (rule stepsMI) (simp add: quiet_pipe)

subsection \<open>A concrete cat\<close>

text \<open>
  A cat with the core hooks, an embedder that maps every text to one vector, a language model that always
  says the same and an open websocket for Alice.
\<close>

definition core_hook :: "string \<Rightarrow> ('c, 'v) cat_hook" where
  "core_hook n = CatHook n (\<lambda>args. case args of [] \<Rightarrow> retM None | t # ts \<Rightarrow> retM (Some t)) 0"

definition demo_cols :: "(string, lstore collection) dict" where
  "demo_cols = map (\<lambda>n. (n, demo_collection\<lparr>vc_name := n\<rparr>)) collection_names"

definition demo_cat :: "(unit, unit, lstore, nat) cheshire" where
  "demo_cat =
     \<lparr>cc_hatter = (MadHatter_init core_machine ())\<lparr>mh_hooks := map (\<lambda>n. (n, [core_hook n])) (turn_hooks @ turn_events)\<rparr>,
      cc_forms = (\<lambda>_. \<lparr>fd_class_name = ''Form'', fd_name = None, fd_description = [], fd_start_examples = [],
        fd_stop_examples = [], fd_ask_confirm = False, fd_fields = [], fd_validate = (\<lambda>_. []), fd_submit = (\<lambda>_. retM [])\<rparr>),
      cc_memory = \<lparr>vm_client = list_qdrant, vm_collections = demo_cols\<rparr>,
      cc_generate = (\<lambda>_. retM ([''Me'', ''ow''], ''Meow'')), cc_embed_query = (\<lambda>_. retM [1, 0]),
      cc_embed_documents = (\<lambda>ts. retM (map (\<lambda>_. [1, 0]) ts)), cc_count_tokens = (\<lambda>s. int (length s)),
      cc_time = real, cc_uuid = bindM (modM Suc) (\<lambda>_. retM ''u1''), cc_random = (\<lambda>xs. retM (hd xs)), cc_send = (\<lambda>_ _. retM ()),
      cc_download = (\<lambda>_. Inl (Exn ''ConnectionError'' [])), cc_template_vars = (\<lambda>_. []), cc_set_order = id,
      cc_format = (\<lambda>s _. Inr s), cc_parse = (\<lambda>_. Inr []), cc_dumps = (\<lambda>_. []), cc_dumps_indented = (\<lambda>_. []),
      cc_str = (\<lambda>_. []), cc_timedelta = (\<lambda>_. \<lparr>td_days = 0, td_seconds = 0\<rparr>), cc_levenshtein = (\<lambda>_ _. 0), cc_caller = ''demo''\<rparr>"

definition demo_alice :: "(lstore, nat) stray" where
  "demo_alice =
     \<lparr>sr_user_id = ''alice'', sr_wm = 0, sr_heap = (\<lambda>_. new_session), sr_next = 1, sr_cache = InMemory InMemoryCache_init,
      sr_db = map (\<lambda>n. (n, \<lparr>lc_size = 2, lc_aliases = [], lc_points = []\<rparr>)) collection_names,
      sr_connections = [(''alice'', 7)], sr_sent = [], sr_ext = 5\<rparr>"

lemma quiet_core_hook: "quiet_hook (core_hook n)" "quiet_event (core_hook n)"
  by (simp_all add: quiet_hook_def quiet_event_def core_hook_def CatHook_def)

end
