(* ===== verification/Agents.thy ===== *)
theory Agents
  imports Session
begin

text \<open>
  The agents of \<open>core/cat/agents\<close>: \<open>FormAgent\<close>, \<open>ProceduresAgent\<close>, \<open>MemoryAgent\<close> and \<open>MainAgent\<close>, with the
  output parser and the prompts of \<open>core/cat/looking_glass/output_parser.py\<close> and \<open>prompts.py\<close>. They run on
  the session state; tools and forms are those of the active plugins, a form object lives in
  the working memory. Where the code formats a value into a text, \<open>cc_str\<close> is Python's \<open>str\<close> on
  values that are not text.
\<close>

subsection \<open>Prompts\<close>

definition TOOL_PROMPT :: string where
  "TOOL_PROMPT =
     ''Create a JSON with the correct '' @ quote @ ''action'' @ quote @ '' and '' @ quote @ ''action_input'' @ quote @
     '' to help the Human.'' @ newline @ ''You can use one of these actions:'' @ newline @ ''{tools}'' @ newline @
     ''- '' @ quote @ ''no_action'' @ quote @ '': Use this action if no relevant action is available. Input is always null.'' @
     newline @ newline @ ''## The JSON must have the following structure:'' @ newline @ newline @ code_fence @ ''json'' @
     newline @ ''{{'' @ newline @ ''    '' @ quote @ ''action'' @ quote @
     '': // str - The name of the action to take, should be one of [{tool_names}, '' @ quote @ ''no_action'' @ quote @ '']'' @
     newline @ ''    '' @ quote @ ''action_input'' @ quote @
     '': // str or null - The input to the action according to its description'' @ newline @ ''}}'' @ newline @
     code_fence @ newline @ newline @ ''{examples}'' @ newline"

definition MAIN_PROMPT_PREFIX :: string where
  "MAIN_PROMPT_PREFIX =
     ''You are the Cheshire Cat AI, an intelligent AI that passes the Turing test.'' @ newline @
     ''You behave like the Cheshire Cat from Alice'' @ [CHR 0x27] @ ''s adventures in wonderland, and you are helpful.'' @ newline @
     ''You answer Human shortly and with a focus on the following context.''"

definition MAIN_PROMPT_SUFFIX :: string where
  "MAIN_PROMPT_SUFFIX =
     newline @ newline @ ''# Context'' @ newline @ ''{episodic_memory}'' @ newline @ newline @ ''{declarative_memory}'' @
     newline @ newline @ ''{tools_output}'' @ newline"

subsection \<open>Values\<close>

definition to_text :: "('w, 'db, 'q, 'x) cheshire \<Rightarrow> pyval \<Rightarrow> string" where
  "to_text K v = (case v of PStr s \<Rightarrow> s | _ \<Rightarrow> cc_str K v)"

text \<open>The fields of \<open>AgentOutput\<close> when it is built from a dictionary, with pydantic's lax booleans.\<close>

definition optional_text :: "pyval \<Rightarrow> string option result" where
  "optional_text v =
     (case v of PStr s \<Rightarrow> Inr (Some s) | PNone \<Rightarrow> Inr None | _ \<Rightarrow> Inl (Exn ''ValidationError'' ''output''))"

definition lax_bool :: "pyval \<Rightarrow> bool result" where
  "lax_bool v =
     (case v of
        PBool b \<Rightarrow> Inr b
      | PInt i \<Rightarrow> if i = 0 then Inr False else if i = 1 then Inr True else Inl (Exn ''ValidationError'' ''return_direct'')
      | PFloat r \<Rightarrow> if r = 0 then Inr False else if r = 1 then Inr True else Inl (Exn ''ValidationError'' ''return_direct'')
      | PStr s \<Rightarrow>
          if lower s \<in> {''0'', ''off'', ''f'', ''false'', ''n'', ''no''} then Inr False
          else if lower s \<in> {''1'', ''on'', ''t'', ''true'', ''y'', ''yes''} then Inr True
          else Inl (Exn ''ValidationError'' ''return_direct'')
      | _ \<Rightarrow> Inl (Exn ''ValidationError'' ''return_direct''))"

definition AgentOutput_of_dict :: "json \<Rightarrow> agent_output result" where
  "AgentOutput_of_dict d =
     bindR (optional_text (case map_of d ''output'' of None \<Rightarrow> PNone | Some v \<Rightarrow> v)) (\<lambda>out.
     bindR (case map_of d ''intermediate_steps'' of None \<Rightarrow> Inr [] | Some v \<Rightarrow> as_list v) (\<lambda>steps.
     bindR (case map_of d ''return_direct'' of None \<Rightarrow> Inr False | Some v \<Rightarrow> lax_bool v) (\<lambda>direct.
     Inr \<lparr>ao_output = out, ao_intermediate_steps = steps, ao_return_direct = direct\<rparr>)))"

definition step :: "pyval \<Rightarrow> pyval \<Rightarrow> pyval \<Rightarrow> pyval" where
  "step procedure inp out = PList [PList [procedure, inp], out]"

subsection \<open>FormAgent\<close>

definition form_cat_of :: "('w, 'db, 'q, 'x) cheshire \<Rightarrow> ('q, 'x) stray form_cat" where
  "form_cat_of K =
     \<lparr>fx_llm = cat_llm K False,
      fx_user_text = (\<lambda>c. bindR (lookup_exn (Exn ''AttributeError'' ''text'') (user_message_json (memory_of c))) (\<lambda>m.
        Inr (case msg_text m of None \<Rightarrow> ''None'' | Some t \<Rightarrow> t))),
      fx_history = (\<lambda>c. stringify_chat_history 20 (memory_of c)),
      fx_dumps = cc_dumps_indented K, fx_parse = cc_parse K\<rparr>"

text \<open>The form changes in place: its new state is visible in the memory, unless its slot was taken meanwhile.\<close>

definition put_form :: "nat \<Rightarrow> form \<Rightarrow> form_object working_memory \<Rightarrow> form_object working_memory" where
  "put_form i f wm =
     (case active_form wm of
        Some fo \<Rightarrow> if fo_id fo = i then wm\<lparr>active_form := Some (fo\<lparr>fo_form := f\<rparr>)\<rparr> else wm
      | None \<Rightarrow> wm)"

definition run_form :: "('w, 'db, 'q, 'x) cheshire \<Rightarrow> form_object \<Rightarrow> ('q, 'x, json) stray_comp" where
  "run_form K fo c =
     (case next_step (cc_forms K (fo_class fo)) (form_cat_of K) (fo_form fo, c) of
        (r, (f, c')) \<Rightarrow> (r, set_memory (put_form (fo_id fo) f) c'))"

definition form_output :: "('w, 'db, 'q, 'x) cheshire \<Rightarrow> form_object \<Rightarrow> json \<Rightarrow> agent_output result" where
  "form_output K fo out =
     bindR (item out ''output'') (\<lambda>v.
     bindR (optional_text v) (\<lambda>txt.
     Inr \<lparr>ao_output = txt,
          ao_intermediate_steps = [step (case fd_name (cc_forms K (fo_class fo)) of None \<Rightarrow> PNone | Some n \<Rightarrow> PStr n) (PStr []) v],
          ao_return_direct = True\<rparr>))"

definition FormAgent_execute :: "('w, 'db, 'q, 'x) cheshire \<Rightarrow> ('q, 'x, agent_output) stray_comp" where
  "FormAgent_execute K =
     bindM (getM (\<lambda>c. active_form (memory_of c))) (\<lambda>active.
       case active of
         None \<Rightarrow> retM AgentOutput
       | Some fo \<Rightarrow>
           if fm_state (fo_form fo) = CLOSED then
             bindM (modM (set_memory (\<lambda>wm. wm\<lparr>active_form := None\<rparr>))) (\<lambda>_. retM AgentOutput)
           else
             catchM (bindM (run_form K fo) (\<lambda>out. liftM (form_output K fo out))) (\<lambda>e. retM AgentOutput))"

subsection \<open>ProceduresAgent\<close>

type_synonym ('q, 'x) procedure = "('q, 'x) stray cat_tool + nat form_class"

definition proc_name :: "('q, 'x) procedure \<Rightarrow> string" where
  "proc_name p = (case p of Inl t \<Rightarrow> tl_name t | Inr f \<Rightarrow> fc_name f)"

definition proc_description :: "('q, 'x) procedure \<Rightarrow> string" where
  "proc_description p = (case p of Inl t \<Rightarrow> tl_description t | Inr f \<Rightarrow> fc_description f)"

definition proc_examples :: "('q, 'x) procedure \<Rightarrow> string list" where
  "proc_examples p = (case p of Inl t \<Rightarrow> start_examples t | Inr f \<Rightarrow> fc_start_examples f)"

subsubsection \<open>The choice of the language model\<close>

record llm_action =
  la_action :: pyval
  la_action_input :: pyval

definition LLMAction :: "json \<Rightarrow> llm_action" where
  "LLMAction d =
     \<lparr>la_action = (case map_of d ''action'' of None \<Rightarrow> PNone | Some v \<Rightarrow> v),
      la_action_input = (case map_of d ''action_input'' of None \<Rightarrow> PNone | Some v \<Rightarrow> v)\<rparr>"

definition is_text :: "pyval \<Rightarrow> bool" where
  "is_text v = (case v of PStr s \<Rightarrow> True | _ \<Rightarrow> False)"

definition parse_action :: "('w, 'db, 'q, 'x) cheshire \<Rightarrow> string \<Rightarrow> llm_action" where
  "parse_action K llm_output =
     (let a = (case parse_json (cc_parse K) None llm_output of Inl e \<Rightarrow> LLMAction [] | Inr d \<Rightarrow> LLMAction d)
      in if truthy (la_action_input a) \<and> \<not> is_text (la_action_input a)
         then a\<lparr>la_action_input := PStr (cc_dumps K (la_action_input a))\<rparr> else a)"

subsubsection \<open>Which procedures are allowed\<close>

fun recalled_names :: "recalled list \<Rightarrow> pyval list result" where
  "recalled_names [] = Inr []"
| "recalled_names (p # ps) =
     bindR (item (metadata (rc_document p)) ''type'') (\<lambda>p_type.
     bindR (item (metadata (rc_document p)) ''trigger_type'') (\<lambda>p_trigger_type.
     bindR (item (metadata (rc_document p)) ''source'') (\<lambda>p_source.
     bindR (recalled_names ps) (\<lambda>names.
     Inr (if p_type \<in> {PStr ''tool'', PStr ''form''} \<and> p_trigger_type \<in> {PStr ''description'', PStr ''start_example''}
          then p_source # names else names)))))"

definition get_recalled_procedures_names :: "form_object working_memory \<Rightarrow> tea result" where
  "get_recalled_procedures_names wm = bindR (recalled_names (procedural_memories wm)) (\<lambda>names. Inr (TNames names))"

text \<open>\<open>p.name in names\<close>: membership in a set, or in a text when a hook returned one.\<close>

definition name_in :: "tea \<Rightarrow> string \<Rightarrow> bool result" where
  "name_in names n =
     (case names of
        TNames xs \<Rightarrow> Inr (PStr n \<in> set xs)
      | TText s \<Rightarrow> Inr (contains n s)
      | TDict d \<Rightarrow> Inr (n \<in> set (keys d))
      | _ \<Rightarrow> Inl (Exn ''TypeError'' ''argument is not iterable''))"

fun prepare_allowed_procedures ::
  "tea \<Rightarrow> ('q, 'x) procedure list \<Rightarrow> (string, ('q, 'x) procedure) dict \<Rightarrow> (string, ('q, 'x) procedure) dict result" where
  "prepare_allowed_procedures names [] allowed = Inr allowed"
| "prepare_allowed_procedures names (p # ps) allowed =
     bindR (name_in names (proc_name p)) (\<lambda>ok.
     prepare_allowed_procedures names ps (if ok then AList.update (proc_name p) p allowed else allowed))"

subsubsection \<open>Asking for an action\<close>

definition example_text :: "string \<Rightarrow> string \<Rightarrow> string" where
  "example_text nm question =
     newline @ ''Question: '' @ question @ newline @ code_fence @ ''json'' @ newline @
     newline @ ''{'' @ newline @ ''    '' @ quote @ ''action'' @ quote @ '': '' @ quote @ nm @ quote @ '','' @ newline @
     ''    '' @ quote @ ''action_input'' @ quote @ '': '' @ quote @ ''...input here...'' @ quote @ newline @ ''}'' @
     newline @ code_fence @
     newline @ ''Question: I have no questions'' @ newline @ code_fence @ ''json'' @ newline @ ''{'' @ newline @
     ''    '' @ quote @ ''action'' @ quote @ '': '' @ quote @ ''no_answer'' @ quote @ '','' @ newline @
     ''    '' @ quote @ ''action_input'' @ quote @ '': null'' @ newline @ ''}'' @ newline @ code_fence"

fun generate_examples ::
  "('w, 'db, 'q, 'x) cheshire \<Rightarrow> ('q, 'x) procedure list \<Rightarrow> string \<Rightarrow> ('q, 'x, string) stray_comp" where
  "generate_examples K [] list_examples = retM list_examples"
| "generate_examples K (p # ps) list_examples =
     (if proc_examples p = [] then generate_examples K ps list_examples
      else bindM (on_ext (cc_random K (proc_examples p))) (\<lambda>question.
           generate_examples K ps
             ((if list_examples = [] then ''## Here some examples:'' @ newline else list_examples) @
              example_text (proc_name p) question)))"

definition tool_variables :: "(string, ('q, 'x) procedure) dict \<Rightarrow> string \<Rightarrow> json" where
  "tool_variables allowed examples =
     [(''tools'', PStr (join newline (map (\<lambda>p. ''- '' @ quote @ proc_name p @ quote @ '': '' @ proc_description p) (dict_values allowed)))),
      (''tool_names'', PStr (quote @ join (quote @ '', '' @ quote) (keys allowed) @ quote)),
      (''examples'', PStr examples)]"

text \<open>A system prompt with its variables, followed by the chat history.\<close>

definition chat_prompt ::
  "('w, 'db, 'q, 'x) cheshire \<Rightarrow> string \<Rightarrow> json \<Rightarrow> base_message list \<Rightarrow> chat_message list result" where
  "chat_prompt K template vs hist = bindR (cc_format K template vs) (\<lambda>s. Inr (SystemPart s # map TurnPart hist))"

definition chat_with_history ::
  "('w, 'db, 'q, 'x) cheshire \<Rightarrow> bool \<Rightarrow> json \<Rightarrow> string \<Rightarrow> ('q, 'x, string) stray_comp" where
  "chat_with_history K stream variables template =
     (case match_prompt_variables (cc_set_order K) (cc_template_vars K) variables template of
        (vs, template) \<Rightarrow>
          bindM (\<lambda>c. (langchainfy_chat_history (cc_download K) 20 (memory_of c), c)) (\<lambda>hist.
          invoke_chain K stream (cc_caller K) (chat_prompt K template vs hist)))"

definition execute_chain ::
  "('w, 'db, 'q, 'x) cheshire \<Rightarrow> tea \<Rightarrow> (string, ('q, 'x) procedure) dict \<Rightarrow> ('q, 'x, llm_action) stray_comp" where
  "execute_chain K template allowed =
     bindM (generate_examples K (dict_values allowed) []) (\<lambda>examples.
     bindM (liftM (case template of TText s \<Rightarrow> Inr s | _ \<Rightarrow> Inl (Exn ''TypeError'' ''template''))) (\<lambda>s.
     bindM (chat_with_history K False (tool_variables allowed examples) s) (\<lambda>reply.
     retM (parse_action K reply))))"

subsubsection \<open>Running the chosen procedure\<close>

definition empty_output :: agent_output where
  "empty_output = AgentOutput\<lparr>ao_output := Some []\<rparr>"

definition chosen_procedure ::
  "(string, ('q, 'x) procedure) dict \<Rightarrow> pyval \<Rightarrow> ('q, 'x) procedure option result" where
  "chosen_procedure allowed action =
     (case action of
        PStr s \<Rightarrow> Inr (map_of allowed s)
      | PList xs \<Rightarrow> Inl (Exn ''TypeError'' ''unhashable type'')
      | PDict d \<Rightarrow> Inl (Exn ''TypeError'' ''unhashable type'')
      | _ \<Rightarrow> Inr None)"

definition start_form :: "nat \<Rightarrow> ('q, 'x) stray \<Rightarrow> ('q, 'x) stray" where
  "start_form cls c =
     (set_memory (\<lambda>wm. wm\<lparr>active_form := Some \<lparr>fo_id = sr_next c, fo_class = cls, fo_form = CatForm_init\<rparr>\<rparr>) c)
       \<lparr>sr_next := Suc (sr_next c)\<rparr>"

definition execute_subagents ::
  "('w, 'db, 'q, 'x) cheshire \<Rightarrow> llm_action \<Rightarrow> (string, ('q, 'x) procedure) dict \<Rightarrow> ('q, 'x, agent_output) stray_comp" where
  "execute_subagents K a allowed =
     (if truthy (la_action a) then
        bindM (liftM (chosen_procedure allowed (la_action a))) (\<lambda>chosen.
          case chosen of
            None \<Rightarrow> retM empty_output
          | Some (Inl t) \<Rightarrow>
              catchM (bindM (tool_run t (la_action_input a)) (\<lambda>tool_output.
                retM \<lparr>ao_output = Some tool_output,
                      ao_intermediate_steps = [step (la_action a) (la_action_input a) (PStr tool_output)],
                      ao_return_direct = tl_return_direct t\<rparr>))
              (\<lambda>e. retM empty_output)
          | Some (Inr f) \<Rightarrow>
              catchM (bindM (modM (start_form (fc_body f))) (\<lambda>_. FormAgent_execute K)) (\<lambda>e. retM empty_output))
      else retM empty_output)"

definition execute_procedures :: "('w, 'db, 'q, 'x) cheshire \<Rightarrow> ('q, 'x, agent_output) stray_comp" where
  "execute_procedures K =
     bindM (pipe K ''agent_prompt_instructions'' (TText TOOL_PROMPT)) (\<lambda>template.
     bindM (\<lambda>c. (get_recalled_procedures_names (memory_of c), c)) (\<lambda>names.
     bindM (pipe K ''agent_allowed_tools'' names) (\<lambda>names.
     bindM (liftM (prepare_allowed_procedures names (procedures (cc_hatter K)) [])) (\<lambda>allowed.
     bindM (execute_chain K template allowed) (\<lambda>a.
     execute_subagents K a allowed)))))"

text \<open>The agent input is read and written as an object with attributes.\<close>

definition agent_input_fields :: "tea option \<Rightarrow> json result" where
  "agent_input_fields t = (case t of Some (TInput d) \<Rightarrow> Inr d | _ \<Rightarrow> Inl (Exn ''AttributeError'' ''agent_input''))"

definition change_agent_input :: "(json \<Rightarrow> json) \<Rightarrow> ('q, 'x, unit) stray_comp" where
  "change_agent_input f =
     bindM (\<lambda>c. (agent_input_fields (se_agent_input (sr_heap c (sr_wm c))), c)) (\<lambda>d.
     modM (set_session (\<lambda>se. se\<lparr>se_agent_input := Some (TInput (f d))\<rparr>)))"

definition add_tools_output :: "string \<Rightarrow> json \<Rightarrow> json" where
  "add_tools_output s d =
     AList.update ''tools_output'' (PStr ((case map_of d ''tools_output'' of Some (PStr t) \<Rightarrow> t | _ \<Rightarrow> []) @ s)) d"

definition step_line :: "('w, 'db, 'q, 'x) cheshire \<Rightarrow> pyval \<Rightarrow> string result" where
  "step_line K proc_res =
     (case proc_res of
        PList (PList (a # _) # out # _) \<Rightarrow> Inr ('' - '' @ to_text K a @ '': '' @ to_text K out @ newline)
      | _ \<Rightarrow> Inl (Exn ''TypeError'' ''step''))"

definition write_tools_output :: "('w, 'db, 'q, 'x) cheshire \<Rightarrow> pyval list \<Rightarrow> ('q, 'x, unit) stray_comp" where
  "write_tools_output K steps =
     (if steps = [] then retM ()
      else bindM (change_agent_input (AList.update ''tools_output''
                   (PStr (''## Context of executed system tools: '' @ newline)))) (\<lambda>_.
           forM steps (\<lambda>s. bindM (liftM (step_line K s)) (\<lambda>line. change_agent_input (add_tools_output line)))))"

definition ProceduresAgent_execute :: "('w, 'db, 'q, 'x) cheshire \<Rightarrow> ('q, 'x, agent_output) stray_comp" where
  "ProceduresAgent_execute K =
     bindM (FormAgent_execute K) (\<lambda>form_out.
       if ao_return_direct form_out then retM form_out
       else
         bindM (getM (\<lambda>c. procedural_memories (memory_of c))) (\<lambda>recalled_procs.
           if recalled_procs = [] then retM AgentOutput
           else
             catchM (bindM (execute_procedures K) (\<lambda>res.
                 if ao_return_direct res then retM res
                 else bindM (write_tools_output K (ao_intermediate_steps res)) (\<lambda>_. retM res)))
               (\<lambda>e. retM AgentOutput)))"

subsection \<open>MemoryAgent\<close>

definition prompt_text :: "tea \<Rightarrow> string result" where
  "prompt_text t = (case t of TText s \<Rightarrow> Inr s | _ \<Rightarrow> Inl (Exn ''TypeError'' ''can only concatenate str''))"

definition MemoryAgent_execute ::
  "('w, 'db, 'q, 'x) cheshire \<Rightarrow> tea \<Rightarrow> tea \<Rightarrow> ('q, 'x, agent_output) stray_comp" where
  "MemoryAgent_execute K prompt_prefix prompt_suffix =
     bindM (\<lambda>c. (agent_input_fields (se_agent_input (sr_heap c (sr_wm c))), c)) (\<lambda>prompt_variables.
     bindM (liftM (prompt_text prompt_prefix)) (\<lambda>p.
     bindM (liftM (prompt_text prompt_suffix)) (\<lambda>s.
     bindM (chat_with_history K True prompt_variables (p @ s)) (\<lambda>out.
     retM (AgentOutput\<lparr>ao_output := Some out\<rparr>)))))"

subsection \<open>MainAgent\<close>

definition as_number :: "pyval \<Rightarrow> real result" where
  "as_number v =
     (case v of
        PFloat r \<Rightarrow> Inr r
      | PInt i \<Rightarrow> Inr (of_int i)
      | PBool b \<Rightarrow> Inr (if b then 1 else 0)
      | _ \<Rightarrow> Inl (Exn ''TypeError'' ''unsupported operand''))"

definition one_line :: "string \<Rightarrow> string" where
  "one_line s = replace_all newline ''. '' s"

definition separator :: string where
  "separator = newline @ ''  - ''"

fun episodic_texts :: "('w, 'db, 'q, 'x) cheshire \<Rightarrow> real \<Rightarrow> recalled list \<Rightarrow> string list result" where
  "episodic_texts K now [] = Inr []"
| "episodic_texts K now (m # ms) =
     bindR (item (metadata (rc_document m)) ''when'') (\<lambda>v.
     bindR (as_number v) (\<lambda>timestamp.
     bindR (episodic_texts K now ms) (\<lambda>txts.
     Inr ((one_line (page_content (rc_document m)) @ '' ('' @ verbal_timedelta (cc_timedelta K (now - timestamp)) @ '')'') # txts))))"

definition agent_prompt_episodic_memories :: "('w, 'db, 'q, 'x) cheshire \<Rightarrow> real \<Rightarrow> recalled list \<Rightarrow> string result" where
  "agent_prompt_episodic_memories K now memory_docs =
     bindR (episodic_texts K now memory_docs) (\<lambda>txts.
     Inr (if txts = [] then []
          else ''## Context of things the Human said in the past: '' @ separator @ join separator txts))"

fun declarative_texts :: "('w, 'db, 'q, 'x) cheshire \<Rightarrow> recalled list \<Rightarrow> string list result" where
  "declarative_texts K [] = Inr []"
| "declarative_texts K (m # ms) =
     bindR (item (metadata (rc_document m)) ''source'') (\<lambda>source.
     bindR (declarative_texts K ms) (\<lambda>txts.
     Inr ((one_line (page_content (rc_document m)) @ '' (extracted from '' @ to_text K source @ '')'') # txts)))"

definition agent_prompt_declarative_memories :: "('w, 'db, 'q, 'x) cheshire \<Rightarrow> recalled list \<Rightarrow> string result" where
  "agent_prompt_declarative_memories K memory_docs =
     bindR (declarative_texts K memory_docs) (\<lambda>txts.
     Inr (if txts = [] then []
          else ''## Context of documents containing relevant information: '' @ separator @ join separator txts))"

definition format_agent_input :: "('w, 'db, 'q, 'x) cheshire \<Rightarrow> ('q, 'x) stray \<Rightarrow> json result" where
  "format_agent_input K c =
     bindR (agent_prompt_episodic_memories K (cc_time K (sr_ext c)) (episodic_memories (memory_of c))) (\<lambda>episodic.
     bindR (agent_prompt_declarative_memories K (declarative_memories (memory_of c))) (\<lambda>declarative.
     bindR (lookup_exn (Exn ''AttributeError'' ''text'') (user_message_json (memory_of c))) (\<lambda>um.
     Inr [(''episodic_memory'', PStr episodic), (''declarative_memory'', PStr declarative), (''tools_output'', PStr []),
          (''input'', case msg_text um of None \<Rightarrow> PNone | Some t \<Rightarrow> PStr t),
          (''chat_history'', PStr (stringify_chat_history 20 (memory_of c)))])))"

text \<open>What \<open>agent_fast_reply\<close> decides: an answer, an error, or nothing.\<close>

definition agent_fast_answer :: "tea \<Rightarrow> agent_output result option" where
  "agent_fast_answer t =
     (case t of
        TOutput out \<Rightarrow> Some (Inr out)
      | TDict d \<Rightarrow> if ''output'' \<in> set (keys d) then Some (AgentOutput_of_dict d) else None
      | _ \<Rightarrow> None)"

definition run_agents :: "('w, 'db, 'q, 'x) cheshire \<Rightarrow> tea \<Rightarrow> tea \<Rightarrow> ('q, 'x, agent_output) stray_comp" where
  "run_agents K prompt_prefix prompt_suffix =
     bindM (ProceduresAgent_execute K) (\<lambda>procs_out.
       if ao_return_direct procs_out then retM procs_out
       else bindM (MemoryAgent_execute K prompt_prefix prompt_suffix) (\<lambda>out.
            retM (out\<lparr>ao_intermediate_steps := ao_intermediate_steps out @ ao_intermediate_steps procs_out\<rparr>)))"

definition MainAgent_execute :: "('w, 'db, 'q, 'x) cheshire \<Rightarrow> ('q, 'x, agent_output) stray_comp" where
  "MainAgent_execute K =
     bindM (\<lambda>c. (format_agent_input K c, c)) (\<lambda>agent_input.
     bindM (pipe K ''before_agent_starts'' (TInput agent_input)) (\<lambda>t.
     bindM (modM (set_session (\<lambda>se. se\<lparr>se_agent_input := Some t\<rparr>))) (\<lambda>_.
     bindM (pipe K ''agent_fast_reply'' (TDict [])) (\<lambda>fast.
       case agent_fast_answer fast of
         Some r \<Rightarrow> liftM r
       | None \<Rightarrow>
           bindM (pipe K ''agent_prompt_prefix'' (TText MAIN_PROMPT_PREFIX)) (\<lambda>prompt_prefix.
           bindM (pipe K ''agent_prompt_suffix'' (TText MAIN_PROMPT_SUFFIX)) (\<lambda>prompt_suffix.
           run_agents K prompt_prefix prompt_suffix))))))"

subsection \<open>The agents keep the conversation\<close>

text \<open>Failures of forms, tools and of the tool prompt never reach the main agent.\<close>

lemma answers_FormAgent: "answers (FormAgent_execute K)"
  unfolding FormAgent_execute_def
  by (intro answers_bind answers_pure) (auto split: option.split intro!: answers_bind answers_catch)

lemma answers_ProceduresAgent: "answers (ProceduresAgent_execute K)"
  unfolding ProceduresAgent_execute_def
  by (intro answers_bind answers_FormAgent) (auto intro!: answers_bind answers_catch)

lemma name_in_only: "prepare_allowed_procedures names ps d = Inr allowed \<Longrightarrow> map_of allowed n = Some p \<Longrightarrow>
   map_of d n = Some p \<or> p \<in> set ps \<and> proc_name p = n \<and> name_in names n = Inr True"
proof (induction ps arbitrary: d)
  case (Cons q ps)
  then obtain ok where ok: "name_in names (proc_name q) = Inr ok"
    and rest: "prepare_allowed_procedures names ps (if ok then AList.update (proc_name q) q d else d) = Inr allowed"
    by (auto simp: bindR_Inr_iff)
  from Cons.IH [OF rest Cons.prems(2)] show ?case
    using ok by (auto simp: update_conv' split: if_splits)
qed simp

lemma name_in_all: "prepare_allowed_procedures names ps d = Inr allowed \<Longrightarrow>
   (map_of d n \<noteq> None \<or> (\<exists>p \<in> set ps. proc_name p = n \<and> name_in names n = Inr True)) \<Longrightarrow> map_of allowed n \<noteq> None"
proof (induction ps arbitrary: d)
  case (Cons q ps)
  then obtain ok where ok: "name_in names (proc_name q) = Inr ok"
    and rest: "prepare_allowed_procedures names ps (if ok then AList.update (proc_name q) q d else d) = Inr allowed"
    by (auto simp: bindR_Inr_iff)
  show ?case
    using Cons.prems(2) ok by (intro Cons.IH [OF rest]) (auto simp: update_conv')
qed auto

definition only_talk :: "('w, 'db, 'q, 'x) cheshire \<Rightarrow> bool" where
  "only_talk K \<longleftrightarrow> quiet_hatter (cc_hatter K) \<and>
     (\<forall>p \<in> set (procedures (cc_hatter K)). \<exists>t. p = Inl t \<and> (\<forall>i. keeps (tool_run t i)))"

lemma keeps_generate_examples [simp]: "keeps (generate_examples K ps s)"
  by (induction ps arbitrary: s) (auto intro!: keeps_bind)

lemma keeps_chat_with_history [simp]: "keeps (chat_with_history K b vs t)"
  by (auto simp: chat_with_history_def intro!: keeps_bind split: prod.split)

lemma keeps_execute_chain [simp]: "keeps (execute_chain K t allowed)"
  by (auto simp: execute_chain_def intro!: keeps_bind)

lemma chosen_talks:
  assumes "only_talk K" "prepare_allowed_procedures names (procedures (cc_hatter K)) [] = Inr allowed"
    and "chosen_procedure allowed v = Inr (Some p)"
  shows "\<exists>t. p = Inl t \<and> (\<forall>i. keeps (tool_run t i))"
proof -
  obtain s where "map_of allowed s = Some p" using assms(3) by (cases v) (auto simp: chosen_procedure_def)
  then have "p \<in> set (procedures (cc_hatter K))" using name_in_only [OF assms(2)] by fastforce
  then show ?thesis using assms(1) by (auto simp: only_talk_def)
qed

lemma keeps_execute_subagents:
  assumes "only_talk K" "prepare_allowed_procedures names (procedures (cc_hatter K)) [] = Inr allowed"
  shows "keeps (execute_subagents K a allowed)"
proof (cases "chosen_procedure allowed (la_action a)")
  case (Inr chosen)
  then show ?thesis using chosen_talks [OF assms, of "la_action a"]
    by (cases chosen) (auto simp: execute_subagents_def intro!: keeps_catch keeps_bind)
qed (simp add: execute_subagents_def)

lemma keeps_execute_procedures:
  assumes "only_talk K"
  shows "keeps (execute_procedures K)"
proof -
  have q: "quiet_hatter (cc_hatter K)" using assms by (simp add: only_talk_def)
  have "keeps (bindM (liftM (prepare_allowed_procedures names (procedures (cc_hatter K)) [])) (\<lambda>allowed.
     bindM (execute_chain K template allowed) (\<lambda>a. execute_subagents K a allowed)))" for names template
    by (cases "prepare_allowed_procedures names (procedures (cc_hatter K)) []")
      (auto intro!: keeps_bind keeps_execute_subagents [OF assms])
  then show ?thesis unfolding execute_procedures_def
    by (intro keeps_bind [OF keeps_quiet_pipe [OF q]] keeps_bind [OF keeps_read]) (simp_all add: turn_hooks_def)
qed

lemma keeps_set_agent_input [simp]: "keeps (modM (set_session (\<lambda>se. se\<lparr>se_agent_input := f se\<rparr>)))"
  by (rule stepsMI, rule same_talk_step) (simp_all add: memory_of_def)

lemma keeps_write_tools_output [simp]: "keeps (write_tools_output K steps)"
  by (auto simp: write_tools_output_def change_agent_input_def intro!: keeps_bind keeps_forM)

text \<open>With no form under way, the agents leave the conversation as it is.\<close>

lemma FormAgent_idle: "active_form (memory_of c) = None \<Longrightarrow> FormAgent_execute K c = (Inr AgentOutput, c)"
  by (simp add: FormAgent_execute_def)

lemma ProceduresAgent_keeps:
  assumes "only_talk K" "active_form (memory_of c) = None"
  shows "same_talk c (snd (ProceduresAgent_execute K c))"
proof -
  let ?rest = "bindM (getM (\<lambda>c. procedural_memories (memory_of c))) (\<lambda>recalled_procs.
           if recalled_procs = [] then retM AgentOutput
           else catchM (bindM (execute_procedures K) (\<lambda>res.
                 if ao_return_direct res then retM res
                 else bindM (write_tools_output K (ao_intermediate_steps res)) (\<lambda>_. retM res)))
               (\<lambda>e. retM AgentOutput))"
  have "keeps ?rest"
    by (auto intro!: keeps_bind keeps_catch keeps_execute_procedures assms(1))
  moreover have "ProceduresAgent_execute K c = ?rest c"
    using FormAgent_idle [OF assms(2), of K] by (simp add: ProceduresAgent_execute_def bindM_def AgentOutput_def)
  ultimately show ?thesis by (simp only: stepsMD)
qed

lemma keeps_MemoryAgent: "keeps (MemoryAgent_execute K p s)"
  by (auto simp: MemoryAgent_execute_def intro!: keeps_bind)

lemma MainAgent_keeps:
  assumes "only_talk K" "active_form (memory_of c) = None"
  shows "same_talk c (snd (MainAgent_execute K c))"
proof (cases "format_agent_input K c")
  case (Inl e)
  then show ?thesis by (simp add: MainAgent_execute_def bindM_def)
next
  case (Inr inp)
  have q: "quiet_hatter (cc_hatter K)" using assms(1) by (simp add: only_talk_def)
  define c1 where "c1 = set_session (\<lambda>se. se\<lparr>se_agent_input := Some (TInput inp)\<rparr>) c"
  have c1: "same_talk c c1" using stepsMD [OF keeps_set_agent_input, of c "\<lambda>_. Some (TInput inp)"] by (simp add: c1_def)
  have "same_talk c1 (snd (run_agents K p s c1))" for p s
  proof -
    have "active_form (memory_of c1) = None" using assms(2) same_talk_fields(8) [OF c1] by simp
    from ProceduresAgent_keeps [OF assms(1) this]
    have "same_talk c1 (snd (ProceduresAgent_execute K c1))" .
    then show ?thesis unfolding run_agents_def
      by (rule keeps_bind_at) (auto intro!: keeps_bind keeps_MemoryAgent)
  qed
  moreover have "MainAgent_execute K c = run_agents K (TText MAIN_PROMPT_PREFIX) (TText MAIN_PROMPT_SUFFIX) c1"
    using Inr by (simp add: MainAgent_execute_def quiet_pipe_bind [OF q] turn_hooks_def agent_fast_answer_def c1_def bindM_def [of "\<lambda>c. (format_agent_input K c, c)"])
  ultimately show ?thesis using same_talk_trans [OF c1] by simp
qed

subsection \<open>Properties\<close>


definition clock_tool :: "(lstore, nat) stray cat_tool" where
  "clock_tool = \<lparr>tl_func = (\<lambda>_. retM ''teatime''), tl_name = ''get_the_time'', tl_description = ''the time'', tl_return_direct = False,
     tl_triggers_map = [], tl_signature = [], tl_plugin_id = ''core_plugin''\<rparr>"


text \<open>
  (C29) Nothing that goes wrong in a form, in a tool, in a hook or in the tool prompt stops the conversation:
  the procedures agent always returns an output, whatever state it is called in.
\<close>

theorem procedures_agent_returns:
  "\<exists>out c'. ProceduresAgent_execute K c = (Inr out, c')"
  using answers_ProceduresAgent [of K] unfolding answers_def by blast

end
