(* ===== verification/Stray_Cat.thy ===== *)
theory Stray_Cat
  imports Agents
begin

text \<open>
  The conversation turn: \<open>StrayCat.__call__\<close>, \<open>run\<close>, the recall and the storing of memories and \<open>classify\<close> of
  \<open>core/cat/looking_glass/stray_cat.py\<close>, with the two ways in: the websocket endpoint of
  \<open>core/cat/routes/websocket/websocket.py\<close> and \<open>POST /message\<close> of \<open>core/cat/routes/base.py\<close>.

  A turn answers with a \<open>CatMessage\<close> or with a dictionary that describes an error. A hook that replaces a
  message or a document by an object of another class ends the turn with the AttributeError the
  next access raises. A recall query that is not a text makes the token counter raise.
\<close>

subsection \<open>Recalling memories\<close>

definition recall_text :: "string option \<Rightarrow> form_object working_memory \<Rightarrow> tea result" where
  "recall_text query wm =
     (case query of
        Some s \<Rightarrow> Inr (TText s)
      | None \<Rightarrow>
          bindR (lookup_exn (Exn ''AttributeError'' ''text'') (user_message_json wm)) (\<lambda>um.
          Inr (case msg_text um of None \<Rightarrow> TNone | Some s \<Rightarrow> TText s)))"

definition default_recall_config :: "real list \<Rightarrow> json \<Rightarrow> recall_config" where
  "default_recall_config embedding meta =
     \<lparr>rcf_embedding = embedding, rcf_k = 3, rcf_threshold = Some (7 / 10), rcf_metadata = meta\<rparr>"

definition set_memories :: "string \<Rightarrow> recalled list \<Rightarrow> form_object working_memory \<Rightarrow> form_object working_memory" where
  "set_memories memory_type ms wm =
     (if memory_type = ''episodic'' then wm\<lparr>episodic_memories := ms\<rparr>
      else if memory_type = ''declarative'' then wm\<lparr>declarative_memories := ms\<rparr>
      else if memory_type = ''procedural'' then wm\<lparr>procedural_memories := ms\<rparr>
      else wm)"

definition recall_one :: "tea \<times> string \<times> 'q collection \<Rightarrow> ('q, 'x, unit) stray_comp" where
  "recall_one = (\<lambda>(config, memory_type, C).
     bindM (liftM (case config of TConfig cf \<Rightarrow> Inr cf | _ \<Rightarrow> Inl (Exn ''TypeError'' ''recall config''))) (\<lambda>cf.
     bindM (getM (\<lambda>c. recall_memories_from_embedding C (rcf_embedding cf) (Some (rcf_metadata cf)) (rcf_k cf)
       (rcf_threshold cf) (sr_db c))) (\<lambda>memories.
     modM (set_memory (set_memories memory_type memories)))))"

definition embed_recall_query :: "('w, 'db, 'q, 'x) cheshire \<Rightarrow> tea \<Rightarrow> ('q, 'x, real list) stray_comp" where
  "embed_recall_query K t =
     bindM (liftM (case t of TText s \<Rightarrow> Inr s | _ \<Rightarrow> Inl (Exn ''TypeError'' ''expected string or buffer''))) (\<lambda>s.
     bindM (on_ext (cc_embed_query K s)) (\<lambda>embedding.
     bindM (modM (set_memory (\<lambda>wm. wm\<lparr>recall_query := s\<rparr>))) (\<lambda>_.
     bindM (time_time K) (\<lambda>now.
     bindM (modM (set_memory (\<lambda>wm. wm\<lparr>model_interactions := model_interactions wm @
       [EmbedderModelInteraction (cc_caller K) [s] (cc_count_tokens K s) now embedding]\<rparr>))) (\<lambda>_.
     retM embedding)))))"

definition recall_relevant_memories_to_working_memory ::
  "('w, 'db, 'q, 'x) cheshire \<Rightarrow> string option \<Rightarrow> ('q, 'x, unit) stray_comp" where
  "recall_relevant_memories_to_working_memory K query =
     bindM (\<lambda>c. (recall_text query (memory_of c), c)) (\<lambda>t.
     bindM (pipe K ''cat_recall_query'' t) (\<lambda>t.
     bindM (embed_recall_query K t) (\<lambda>embedding.
     bindM (notify_hook K ''before_cat_recalls_memories'') (\<lambda>_.
     bindM (getM sr_user_id) (\<lambda>user_id.
     bindM (pipe K ''before_cat_recalls_episodic_memories''
       (TConfig (default_recall_config embedding [(''source'', PStr user_id)]))) (\<lambda>episodic.
     bindM (pipe K ''before_cat_recalls_declarative_memories'' (TConfig (default_recall_config embedding []))) (\<lambda>declarative.
     bindM (pipe K ''before_cat_recalls_procedural_memories'' (TConfig (default_recall_config embedding []))) (\<lambda>procedural.
     bindM (forM (zip [episodic, declarative, procedural] (vm_collections (cc_memory K))) recall_one) (\<lambda>_.
     notify_hook K ''after_cat_recalls_memories'')))))))))"

subsection \<open>Storing the user's message\<close>

definition episodic_collection :: "'q vector_memory \<Rightarrow> 'q collection result" where
  "episodic_collection V = lookup_exn (Exn ''AttributeError'' ''episodic'') (map_of (vm_collections V) ''episodic'')"

definition store_user_message_in_episodic_memory ::
  "('w, 'db, 'q, 'x) cheshire \<Rightarrow> string option \<Rightarrow> ('q, 'x, unit) stray_comp" where
  "store_user_message_in_episodic_memory K user_message_text =
     bindM (liftM (lookup_exn (Exn ''ValidationError'' ''page_content'') user_message_text)) (\<lambda>txt.
     bindM (time_time K) (\<lambda>now.
     bindM (getM sr_user_id) (\<lambda>user_id.
     bindM (pipe K ''before_cat_stores_episodic_memory''
       (TDocument \<lparr>page_content = txt, metadata = [(''source'', PStr user_id), (''when'', PFloat now)]\<rparr>)) (\<lambda>t.
     bindM (on_ext (cc_embed_documents K [txt])) (\<lambda>embeddings.
     bindM (liftM (case t of TDocument d \<Rightarrow> Inr d | _ \<Rightarrow> Inl (Exn ''AttributeError'' ''page_content''))) (\<lambda>doc.
     bindM (liftM (case embeddings of e # es \<Rightarrow> Inr e | [] \<Rightarrow> Inl (Exn ''IndexError'' ''list index out of range''))) (\<lambda>embedding.
     bindM (liftM (episodic_collection (cc_memory K))) (\<lambda>C.
     bindM (on_ext (cc_uuid K)) (\<lambda>uuid.
     bindM (on_db (add_point C uuid (page_content doc) embedding (Some (metadata doc)) None)) (\<lambda>_.
     retM ()))))))))))"

subsection \<open>A conversation turn\<close>

datatype reply = Reply message | ErrorDict json

definition optional_field :: "json \<Rightarrow> string \<Rightarrow> string option result" where
  "optional_field d k =
     (case map_of d k of
        None \<Rightarrow> Inr None
      | Some PNone \<Rightarrow> Inr None
      | Some (PStr s) \<Rightarrow> Inr (Some s)
      | Some _ \<Rightarrow> Inl (Exn ''ValidationError'' k))"

text \<open>\<open>UserMessage.model_validate\<close>, where the old key \<open>message\<close> stands for \<open>text\<close>.\<close>

definition rename_message :: "json \<Rightarrow> json" where
  "rename_message d =
     (case map_of d ''message'' of
        None \<Rightarrow> d
      | Some v \<Rightarrow> AList.update ''text'' v (AList.delete ''message'' d))"

definition UserMessage_validate :: "real \<Rightarrow> json \<Rightarrow> message result" where
  "UserMessage_validate now data =
     (let d = rename_message data in
      bindR (bindR (lookup_exn (Exn ''ValidationError'' ''user_id'') (map_of d ''user_id'')) as_str) (\<lambda>user_id.
      bindR (case map_of d ''when'' of None \<Rightarrow> Inr now | Some v \<Rightarrow> as_number v) (\<lambda>w.
      bindR (case map_of d ''who'' of None \<Rightarrow> Inr ''Human'' | Some v \<Rightarrow> as_str v) (\<lambda>who.
      bindR (optional_field d ''text'') (\<lambda>txt.
      bindR (optional_field d ''image'') (\<lambda>img.
      bindR (optional_field d ''audio'') (\<lambda>aud.
      Inr (UserMessage \<lparr>cm_user_id = user_id, cm_when = w, cm_who = who, cm_text = txt, cm_image = img, cm_audio = aud\<rparr>))))))))"

text \<open>What \<open>fast_reply\<close> decides.\<close>

definition fast_answer :: "('w, 'db, 'q, 'x) cheshire \<Rightarrow> string \<Rightarrow> real \<Rightarrow> tea \<Rightarrow> message option" where
  "fast_answer K user_id now t =
     (case t of
        TMessage (CatMessage m w) \<Rightarrow> Some (CatMessage m w)
      | TDict d \<Rightarrow> map_option (\<lambda>v. cat_message user_id now (to_text K v) None) (map_of d ''output'')
      | _ \<Rightarrow> None)"

definition tea_message :: "tea \<Rightarrow> message result" where
  "tea_message t = (case t of TMessage m \<Rightarrow> Inr m | _ \<Rightarrow> Inl (Exn ''AttributeError'' ''text''))"

definition recall_error :: json where
  "recall_error =
     [(''type'', PStr ''error''), (''name'', PStr ''VectorMemoryError''),
      (''description'', PStr ''An error occurred while recalling relevant memories.'')]"

definition unparsable :: string where
  "unparsable = ''Could not parse LLM output: '' @ backquote"

definition reply_with_agent :: "('w, 'db, 'q, 'x) cheshire \<Rightarrow> ('q, 'x, agent_output) stray_comp" where
  "reply_with_agent K =
     catchM (MainAgent_execute K) (\<lambda>e.
       let error_description = exn_str K e in
       if \<not> contains unparsable error_description then raiseM e
       else retM (AgentOutput\<lparr>ao_output := Some (replace_all backquote [] (replace_all unparsable [] error_description))\<rparr>))"

definition final_message :: "('w, 'db, 'q, 'x) cheshire \<Rightarrow> agent_output \<Rightarrow> ('q, 'x, message) stray_comp" where
  "final_message K out =
     bindM (\<lambda>c. (build_why (memory_of c), c)) (\<lambda>why.
     bindM (time_time K) (\<lambda>now.
     getM (\<lambda>c. cat_message (sr_user_id c) now (case ao_output out of None \<Rightarrow> ''None'' | Some s \<Rightarrow> s)
       (Some (why\<lparr>why_intermediate_steps := ao_intermediate_steps out, why_agent_output := Some (AgentOutput_dump out)\<rparr>)))))"

definition current_text :: "('q, 'x, string option) stray_comp" where
  "current_text =
     bindM (\<lambda>c. (lookup_exn (Exn ''AttributeError'' ''text'') (user_message_json (memory_of c)), c)) (\<lambda>um.
     retM (msg_text um))"

definition answer_user :: "('w, 'db, 'q, 'x) cheshire \<Rightarrow> ('q, 'x, reply) stray_comp" where
  "answer_user K =
     bindM (reply_with_agent K) (\<lambda>out.
     bindM current_text (\<lambda>txt.
     bindM (store_user_message_in_episodic_memory K txt) (\<lambda>_.
     bindM (final_message K out) (\<lambda>m.
     bindM (pipe K ''before_cat_sends_message'' (TMessage m)) (\<lambda>t.
     bindM (liftM (tea_message t)) (\<lambda>m.
     bindM (modM (set_memory (update_history m))) (\<lambda>_.
     retM (Reply m))))))))"

definition recall_and_answer :: "('w, 'db, 'q, 'x) cheshire \<Rightarrow> ('q, 'x, reply) stray_comp" where
  "recall_and_answer K =
     bindM (catchM (bindM (recall_relevant_memories_to_working_memory K None) (\<lambda>_. retM True)) (\<lambda>e. retM False)) (\<lambda>ok.
       if ok then answer_user K else retM (ErrorDict recall_error))"

definition cat_call :: "('w, 'db, 'q, 'x) cheshire \<Rightarrow> json \<Rightarrow> ('q, 'x, reply) stray_comp" where
  "cat_call K message_dict =
     bindM (getM sr_user_id) (\<lambda>user_id.
     bindM (time_time K) (\<lambda>now.
     bindM (liftM (UserMessage_validate now (AList.update ''user_id'' (PStr user_id) message_dict))) (\<lambda>um.
     bindM (modM (set_memory (\<lambda>wm. wm\<lparr>model_interactions := [], user_message_json := Some um\<rparr>))) (\<lambda>_.
     bindM (pipe K ''fast_reply'' (TDict [])) (\<lambda>fast.
     bindM (time_time K) (\<lambda>now.
       case fast_answer K user_id now fast of
         Some m \<Rightarrow> retM (Reply m)
       | None \<Rightarrow>
           bindM (\<lambda>c. (lookup_exn (Exn ''AttributeError'' ''user_message_json'') (user_message_json (memory_of c)), c)) (\<lambda>um.
           bindM (pipe K ''before_cat_reads_message'' (TMessage um)) (\<lambda>t.
           bindM (liftM (tea_message t)) (\<lambda>um.
           bindM (modM (set_memory (\<lambda>wm. wm\<lparr>user_message_json := Some um\<rparr>))) (\<lambda>_.
           bindM (modM (set_memory (update_history um))) (\<lambda>_.
           recall_and_answer K)))))))))))"

text \<open>\<open>send_chat_message\<close> on a dictionary: \<open>message.model_dump()\<close> is an AttributeError.\<close>

definition send_reply :: "('w, 'db, 'q, 'x) cheshire \<Rightarrow> reply \<Rightarrow> ('q, 'x, unit) stray_comp" where
  "send_reply K r =
     (case r of
        Reply m \<Rightarrow> send_chat_message K (Inr m) False
      | ErrorDict d \<Rightarrow> raiseM (Exn ''AttributeError'' ''dict object has no attribute model_dump''))"

definition report_error :: "('w, 'db, 'q, 'x) cheshire \<Rightarrow> exn \<Rightarrow> ('q, 'x, unit) stray_comp" where
  "report_error K e =
     catchM (send_error K (Inr e)) (\<lambda>ex. if exn_name ex = ''ConnectionClosedOK'' then retM () else raiseM ex)"

definition run :: "('w, 'db, 'q, 'x) cheshire \<Rightarrow> json \<Rightarrow> bool \<Rightarrow> ('q, 'x, reply option) stray_comp" where
  "run K message_dict return_message =
     catchM
       (bindM (cat_call K message_dict) (\<lambda>r.
        bindM (update_working_memory_cache K) (\<lambda>_.
          if return_message then retM (Some r)
          else bindM (send_reply K r) (\<lambda>_. retM None))))
       (\<lambda>e. if return_message then retM (Some (ErrorDict [(''error'', PStr (exn_str K e))]))
            else bindM (report_error K e) (\<lambda>_. retM None))"

subsection \<open>Connections\<close>

text \<open>One message of the loop \<open>handle_messages\<close>, and the loop over the messages that arrive until the client leaves.\<close>

definition handle_message :: "('w, 'db, 'q, 'x) cheshire \<Rightarrow> json \<Rightarrow> ('q, 'x, unit) stray_comp" where
  "handle_message K message_dict =
     bindM (modM (load_working_memory_from_cache K)) (\<lambda>_.
     bindM (run K message_dict False) (\<lambda>_. retM ()))"

definition open_websocket :: "('w, 'db, 'q, 'x) cheshire \<Rightarrow> string \<Rightarrow> nat \<Rightarrow> ('q, 'x) stray \<Rightarrow> ('q, 'x) stray" where
  "open_websocket K user_id ws c =
     (let c = StrayCat_init K user_id c in c\<lparr>sr_connections := add_connection user_id ws (sr_connections c)\<rparr>)"

definition close_websocket :: "('w, 'db, 'q, 'x) cheshire \<Rightarrow> ('q, 'x, unit) stray_comp" where
  "close_websocket K =
     bindM (modM (\<lambda>c. c\<lparr>sr_connections := remove_connection (sr_user_id c) (sr_connections c)\<rparr>)) (\<lambda>_.
     update_working_memory_cache K)"

text \<open>\<open>POST /message\<close>: a request creates its own cat and stores its memory at the end.\<close>

definition message_with_cat :: "('w, 'db, 'q, 'x) cheshire \<Rightarrow> json \<Rightarrow> ('q, 'x, reply option) stray_comp" where
  "message_with_cat K payload =
     bindM (getM sr_user_id) (\<lambda>user_id.
     run K (dict_merge [(''user_id'', PStr user_id)] payload) True)"

definition http_request ::
  "('w, 'db, 'q, 'x) cheshire \<Rightarrow> string \<Rightarrow> ('q, 'x, 'a) stray_comp \<Rightarrow> ('q, 'x, 'a) stray_comp" where
  "http_request K user_id endpoint =
     bindM (modM (StrayCat_init K user_id)) (\<lambda>_.
     bindM endpoint (\<lambda>r.
     bindM (update_working_memory_cache K) (\<lambda>_. retM r)))"

definition wipe_conversation_history :: "('q, 'x, json) stray_comp" where
  "wipe_conversation_history =
     bindM (modM (set_memory (\<lambda>wm. wm\<lparr>history := []\<rparr>))) (\<lambda>_. retM [(''deleted'', PBool True)])"

definition get_conversation_history :: "('q, 'x, message list) stray_comp" where
  "get_conversation_history = getM (\<lambda>c. history (memory_of c))"

subsection \<open>Classification\<close>

definition labels_names :: "string list + (string, string list) dict \<Rightarrow> string list" where
  "labels_names labels = (case labels of Inl ls \<Rightarrow> ls | Inr d \<Rightarrow> keys d)"

definition examples_list :: "string list + (string, string list) dict \<Rightarrow> string" where
  "examples_list labels =
     (case labels of
        Inl ls \<Rightarrow> []
      | Inr d \<Rightarrow> newline @ newline @ ''Examples:'' @
          concat (map (\<lambda>(label, examples). concat (map (\<lambda>ex. newline @ quote @ ex @ quote @ '' -> '' @ quote @ label @ quote) examples)) d))"

definition classify_prompt :: "string \<Rightarrow> string list + (string, string list) dict \<Rightarrow> string" where
  "classify_prompt sentence labels =
     ''Classify this sentence:'' @ newline @ quote @ sentence @ quote @ newline @ newline @ ''Allowed classes are:'' @ newline @
     quote @ join (quote @ '', '' @ quote) (labels_names labels) @ quote @ examples_list labels @ newline @ newline @
     quote @ sentence @ quote @ '' -> ''"

fun first_min :: "('a \<Rightarrow> real) \<Rightarrow> 'a \<Rightarrow> 'a list \<Rightarrow> 'a" where
  "first_min f x [] = x"
| "first_min f x (y # ys) = first_min f (if f y < f x then y else x) ys"

definition best_label :: "(string \<Rightarrow> real) \<Rightarrow> string list \<Rightarrow> string option result" where
  "best_label score labels =
     (case labels of
        [] \<Rightarrow> Inl (Exn ''ValueError'' ''min() arg is an empty sequence'')
      | l # ls \<Rightarrow> (let b = first_min score l ls in Inr (if score b < 1 / 2 then Some b else None)))"

definition classify ::
  "('w, 'db, 'q, 'x) cheshire \<Rightarrow> string \<Rightarrow> string list + (string, string list) dict \<Rightarrow> ('q, 'x, string option) stray_comp" where
  "classify K sentence labels =
     bindM (cat_llm K False (classify_prompt sentence labels)) (\<lambda>response.
     liftM (best_label (cc_levenshtein K response) (labels_names labels)))"

subsection \<open>Lemmas\<close>

text \<open>Two states of one turn: the same user, session object, vector memory and cache, and the same conversation.\<close>

definition same_turn :: "('q, 'x) stray \<Rightarrow> ('q, 'x) stray \<Rightarrow> bool" where
  "same_turn c0 c \<longleftrightarrow>
     sr_user_id c = sr_user_id c0 \<and> sr_wm c = sr_wm c0 \<and> sr_db c = sr_db c0 \<and> sr_cache c = sr_cache c0 \<and>
     (\<forall>a. a \<noteq> sr_wm c0 \<longrightarrow> sr_heap c a = sr_heap c0 a) \<and> history (memory_of c) = history (memory_of c0) \<and>
     user_message_json (memory_of c) = user_message_json (memory_of c0) \<and> active_form (memory_of c) = active_form (memory_of c0)"

lemma same_talk_turn: "same_talk c0 c \<Longrightarrow> same_turn c0 c"
  by (simp add: same_turn_def same_talk_fields) (simp add: same_talk_def)

lemma same_turn_trans: "same_turn c0 c1 \<Longrightarrow> same_turn c1 c2 \<Longrightarrow> same_turn c0 c2"
  by (simp add: same_turn_def)

lemma keeps_embed_recall_query: "keeps (embed_recall_query K t)"
  unfolding embed_recall_query_def
  by (intro keeps_bind keeps_pure keeps_on_ext keeps_time_time keeps_interactions interactions_only)

definition collections_of :: "('w, 'db, 'q, 'x) cheshire \<Rightarrow> 'q collection \<Rightarrow> 'q collection \<Rightarrow> 'q collection \<Rightarrow> bool" where
  "collections_of K Ce Cd Cp \<longleftrightarrow>
     vm_collections (cc_memory K) = [(''episodic'', Ce), (''declarative'', Cd), (''procedural'', Cp)]"

lemmas turn_hooks = quiet_pipe_bind quiet_notify_bind quiet_notify

lemma recall_run:
  assumes q: "quiet_hatter (cc_hatter K)" and cols: "collections_of K Ce Cd Cp"
    and t: "recall_text query (memory_of c) = Inr t" and emb: "embed_recall_query K t c = (Inr emb, c1)"
  shows "recall_relevant_memories_to_working_memory K query c = (Inr (),
     set_memory (set_memories ''procedural'' (recall_memories_from_embedding Cp emb (Some []) 3 (Some (7 / 10)) (sr_db c1)))
     (set_memory (set_memories ''declarative'' (recall_memories_from_embedding Cd emb (Some []) 3 (Some (7 / 10)) (sr_db c1)))
     (set_memory (set_memories ''episodic'' (recall_memories_from_embedding Ce emb (Some [(''source'', PStr (sr_user_id c1))]) 3 (Some (7 / 10)) (sr_db c1))) c1)))"
    using t emb cols
    by (simp add: recall_relevant_memories_to_working_memory_def turn_hooks [OF q] turn_hooks_def collections_of_def
        recall_one_def default_recall_config_def bindM_step bindM_assoc bindM_def [of "\<lambda>c. (recall_text query (memory_of c), c)"] bindM_def [of "embed_recall_query K t"])

lemma recall_effect:
  assumes q: "quiet_hatter (cc_hatter K)" and cols: "collections_of K Ce Cd Cp"
    and run: "recall_relevant_memories_to_working_memory K query c = (Inr (), c')"
  shows "same_turn c c' \<and> (\<exists>emb. episodic_memories (memory_of c') =
     recall_memories_from_embedding Ce emb (Some [(''source'', PStr (sr_user_id c))]) 3 (Some (7 / 10)) (sr_db c))"
proof -
  from run obtain t where t: "recall_text query (memory_of c) = Inr t"
    by (cases "recall_text query (memory_of c)") (simp_all add: recall_relevant_memories_to_working_memory_def bindM_def)
  obtain emb c1 where emb: "embed_recall_query K t c = (Inr emb, c1)"
    using run t by (auto simp: recall_relevant_memories_to_working_memory_def bindM_result_Inr turn_hooks [OF q] turn_hooks_def)
  have k: "same_talk c c1" using stepsMD [OF keeps_embed_recall_query, of c K t] emb by simp
  have "c' = set_memory (set_memories ''procedural'' (recall_memories_from_embedding Cp emb (Some []) 3 (Some (7 / 10)) (sr_db c1)))
     (set_memory (set_memories ''declarative'' (recall_memories_from_embedding Cd emb (Some []) 3 (Some (7 / 10)) (sr_db c1)))
     (set_memory (set_memories ''episodic'' (recall_memories_from_embedding Ce emb (Some [(''source'', PStr (sr_user_id c1))]) 3 (Some (7 / 10)) (sr_db c1))) c1))"
    using run recall_run [OF q cols t emb] by simp
  then have "same_turn c1 c' \<and> episodic_memories (memory_of c') =
     recall_memories_from_embedding Ce emb (Some [(''source'', PStr (sr_user_id c1))]) 3 (Some (7 / 10)) (sr_db c1)"
    by (simp add: same_turn_def set_memories_def)
  then show ?thesis using same_turn_trans [OF same_talk_turn [OF k]] same_talk_fields [OF k] by auto
qed

lemma user_id_imposed:
  assumes "UserMessage_validate now (AList.update ''user_id'' (PStr u) d) = Inr um"
  shows "cm_user_id (msg_base um) = u"
proof -
  have "map_of (rename_message (AList.update ''user_id'' (PStr u) d)) ''user_id'' = Some (PStr u)"
    by (simp add: rename_message_def update_conv' delete_conv' split: option.split)
  with assms show ?thesis by (auto simp: UserMessage_validate_def Let_def bindR_Inr_iff)
qed

lemma store_effect:
  assumes q: "quiet_hatter (cc_hatter K)"
    and run: "store_user_message_in_episodic_memory K txt c = (Inr (), c')"
  shows "\<exists>t emb C uuid r now. txt = Some t \<and> episodic_collection (cc_memory K) = Inr C \<and>
     add_point C uuid t emb (Some [(''source'', PStr (sr_user_id c)), (''when'', PFloat now)]) None (sr_db c) = (Inr r, sr_db c') \<and>
     c' = c\<lparr>sr_ext := sr_ext c', sr_db := sr_db c'\<rparr>"
proof -
  obtain t where t: "txt = Some t" using run by (cases "txt") (simp_all add: store_user_message_in_episodic_memory_def)
  from run [unfolded t] obtain embs c1 where "on_ext (cc_embed_documents K [t]) c = (Inr embs, c1)"
    and rest: "bindM (liftM (case embs of e # es \<Rightarrow> Inr e | [] \<Rightarrow> Inl (Exn ''IndexError'' ''list index out of range''))) (\<lambda>embedding.
     bindM (liftM (episodic_collection (cc_memory K))) (\<lambda>C.
     bindM (on_ext (cc_uuid K)) (\<lambda>uuid.
     bindM (on_db (add_point C uuid t embedding (Some [(''source'', PStr (sr_user_id c)), (''when'', PFloat (cc_time K (sr_ext c)))]) None)) (\<lambda>_.
     retM ())))) c1 = (Inr (), c')"
    by (auto simp: store_user_message_in_episodic_memory_def turn_hooks [OF q] turn_hooks_def time_time_def bindM_result_Inr)
  moreover from rest obtain e es where "embs = e # es" by (cases embs) simp_all
  moreover obtain C where "episodic_collection (cc_memory K) = Inr C"
    using rest calculation(3) by (cases "episodic_collection (cc_memory K)") simp_all
  ultimately show ?thesis using t
    by (auto simp: bindM_result_Inr on_ext_def on_db_def split: prod.splits) blast
qed

lemma MainAgent_reply_keeps:
  assumes "only_talk K" "active_form (memory_of c) = None"
  shows "same_talk c (snd (reply_with_agent K c))"
  using MainAgent_keeps [OF assms]
  by (auto simp: reply_with_agent_def catchM_def Let_def split: prod.split sum.split)

lemma last_n_twice: "last_n 20 (last_n 20 (xs @ [a]) @ [b]) = last_n 20 (xs @ [a, b])"
  using last_n_snoc_last_n [of 20 "xs @ [a]" b] by simp

lemma answer_effect:
  assumes talk: "only_talk K" and idle: "active_form (memory_of c) = None"
    and run: "answer_user K c = (Inr r, c')"
  shows "\<exists>um t m emb C uuid rp now. r = Reply m \<and> user_message_json (memory_of c) = Some um \<and> msg_text um = Some t \<and>
     message_role m = AI \<and> cm_user_id (msg_base m) = sr_user_id c \<and>
     history (memory_of c') = last_n 20 (history (memory_of c) @ [m]) \<and>
     episodic_memories (memory_of c') = episodic_memories (memory_of c) \<and>
     sr_wm c' = sr_wm c \<and> sr_cache c' = sr_cache c \<and> (\<forall>a. a \<noteq> sr_wm c \<longrightarrow> sr_heap c' a = sr_heap c a) \<and>
     episodic_collection (cc_memory K) = Inr C \<and>
     add_point C uuid t emb (Some [(''source'', PStr (sr_user_id c)), (''when'', PFloat now)]) None (sr_db c) = (Inr rp, sr_db c') \<and>
     (\<exists>b why. m = CatMessage b (Some why) \<and> why_input why = t)"
proof -
  have q: "quiet_hatter (cc_hatter K)" using talk by (simp add: only_talk_def)
  from run obtain out c1 um c2 m where
    agent: "reply_with_agent K c = (Inr out, c1)" and um: "user_message_json (memory_of c1) = Some um"
    and store: "store_user_message_in_episodic_memory K (msg_text um) c1 = (Inr (), c2)"
    and final: "final_message K out c2 = (Inr m, c2)" and c': "c' = set_memory (update_history m) c2" and r: "r = Reply m"
    by (auto simp: answer_user_def current_text_def bindM_result_Inr final_message_def time_time_def turn_hooks [OF q] turn_hooks_def tea_message_def)
  have k: "same_talk c c1" using MainAgent_reply_keeps [OF talk idle] agent by simp
  note f = same_talk_fields [OF k]
  from store_effect [OF q store] obtain t emb C uuid rp now where
    t: "msg_text um = Some t" and C: "episodic_collection (cc_memory K) = Inr C"
    and add: "add_point C uuid t emb (Some [(''source'', PStr (sr_user_id c1)), (''when'', PFloat now)]) None (sr_db c1) = (Inr rp, sr_db c2)"
    and c2: "c2 = c1\<lparr>sr_ext := sr_ext c2, sr_db := sr_db c2\<rparr>" by blast
  have mem2: "memory_of c2 = memory_of c1" "sr_user_id c2 = sr_user_id c1" "sr_heap c2 = sr_heap c1" "sr_wm c2 = sr_wm c1" "sr_cache c2 = sr_cache c1"
    by (subst c2, simp)+
  have m: "message_role m = AI" "cm_user_id (msg_base m) = sr_user_id c"
    using final mem2 f by (auto simp: final_message_def bindM_result_Inr time_time_def cat_message_def new_message_def)
  have why: "\<exists>b why. m = CatMessage b (Some why) \<and> why_input why = t"
    using final um mem2 t by (auto simp: final_message_def bindM_result_Inr time_time_def cat_message_def build_why_def bindR_Inr_iff)
  have "\<forall>a. a \<noteq> sr_wm c \<longrightarrow> sr_heap c' a = sr_heap c a"
    using k mem2 f by (simp add: c' same_talk_def)
  then show ?thesis
    using r um t m why C add f mem2 by (auto simp: c' update_history_def)
qed

lemma turn_effect:
  assumes cols: "collections_of K Ce Cd Cp" and talk: "only_talk K" "active_form (memory_of c) = None"
    and run: "recall_and_answer K c = (Inr (Reply m), c')"
  shows "\<exists>um t emb emb' uuid rp now. user_message_json (memory_of c) = Some um \<and> msg_text um = Some t \<and>
     message_role m = AI \<and> cm_user_id (msg_base m) = sr_user_id c \<and> (\<exists>b why. m = CatMessage b (Some why) \<and> why_input why = t) \<and>
     history (memory_of c') = last_n 20 (history (memory_of c) @ [m]) \<and>
     episodic_memories (memory_of c') = recall_memories_from_embedding Ce emb (Some [(''source'', PStr (sr_user_id c))]) 3 (Some (7 / 10)) (sr_db c) \<and>
     sr_wm c' = sr_wm c \<and> sr_cache c' = sr_cache c \<and> (\<forall>a. a \<noteq> sr_wm c \<longrightarrow> sr_heap c' a = sr_heap c a) \<and>
     add_point Ce uuid t emb' (Some [(''source'', PStr (sr_user_id c)), (''when'', PFloat now)]) None (sr_db c) = (Inr rp, sr_db c')"
proof -
  have q: "quiet_hatter (cc_hatter K)" using talk by (simp add: only_talk_def)
  obtain c2 where rec: "recall_relevant_memories_to_working_memory K None c = (Inr (), c2)"
    and ans: "answer_user K c2 = (Inr (Reply m), c')"
  proof (cases "recall_relevant_memories_to_working_memory K None c")
    case (Pair r c2)
    then show ?thesis using run that
      by (cases r) (auto simp: recall_and_answer_def bindM_def catchM_def)
  qed
  obtain emb where same: "same_turn c c2" and ep: "episodic_memories (memory_of c2) =
      recall_memories_from_embedding Ce emb (Some [(''source'', PStr (sr_user_id c))]) 3 (Some (7 / 10)) (sr_db c)"
    using recall_effect [OF q cols rec] by blast
  then have idle: "active_form (memory_of c2) = None" using talk(2) by (simp add: same_turn_def)
  have Ce: "episodic_collection (cc_memory K) = Inr Ce" using cols by (simp add: episodic_collection_def collections_of_def)
  show ?thesis using answer_effect [OF talk(1) idle ans] same ep Ce by (auto simp: same_turn_def) blast+
qed

lemma turn_unfold:
  assumes q: "quiet_hatter (cc_hatter K)"
    and um: "UserMessage_validate (cc_time K (sr_ext c)) (AList.update ''user_id'' (PStr (sr_user_id c)) d) = Inr um"
  shows "cat_call K d c = recall_and_answer K (set_memory (\<lambda>wm. update_history um (wm\<lparr>model_interactions := [], user_message_json := Some um\<rparr>)) c)"
  using um
  by (simp add: cat_call_def time_time_def turn_hooks [OF q] turn_hooks_def fast_answer_def tea_message_def bindM_lookup)

lemma load_stored:
  assumes "cache_inv (sr_cache c)" "cache_ok (sr_cache c) (memory_key (sr_user_id c))"
    and "cache_view (sr_cache c) (memory_key (sr_user_id c)) = Some (CacheItem t0 (memory_key (sr_user_id c)) v (Some (- 1)))"
  shows "\<exists>cache. load_working_memory_from_cache K c =
     (case v of Live a \<Rightarrow> c\<lparr>sr_cache := cache, sr_wm := a\<rparr> | Pickled se \<Rightarrow> allocate se (c\<lparr>sr_cache := cache\<rparr>)) \<and>
     cache_inv cache \<and> cache_ok cache (memory_key (sr_user_id c)) \<and> (\<forall>m. sr_cache c = FileSystem m \<longrightarrow> (\<exists>m'. cache = FileSystem m')) \<and>
     cache_view cache (memory_key (sr_user_id c)) = cache_view (sr_cache c) (memory_key (sr_user_id c))"
proof -
  let ?k = "memory_key (sr_user_id c)" and ?t = "cc_time K (sr_ext c)"
  have "fst (cache_get_item ?t ?k (sr_cache c)) = Some (CacheItem t0 ?k v (Some (- 1)))"
    using cm.get_result [OF assms(1,2)] assms(3) by simp
  moreover have "\<forall>m. sr_cache c = FileSystem m \<longrightarrow> (\<exists>m'. snd (cache_get_item ?t ?k (sr_cache c)) = FileSystem m')"
    by (cases "sr_cache c") simp_all
  moreover have "cache_view (snd (cache_get_item ?t ?k (sr_cache c))) ?k = cache_view (sr_cache c) ?k"
    using cm.get_view [OF assms(1,2,2)] assms(3) by simp
  ultimately show ?thesis using cm.get_inv [OF assms(1)] cm.get_keys [of ?t ?k "sr_cache c" ?k] assms(2)
    by (intro exI [of _ "snd (cache_get_item ?t ?k (sr_cache c))"])
      (simp add: load_working_memory_from_cache_def cache_get_value_item split: stored.split)
qed

lemma update_stored:
  assumes "cache_inv (sr_cache c)" "cache_ok (sr_cache c) (memory_key (sr_user_id c))"
    and "cache_fresh (sr_cache c) (CacheItem (cc_time K (sr_ext c)) (memory_key (sr_user_id c)) (stored_value c) (Some (- 1)))"
  shows "\<exists>cache. update_working_memory_cache K c = (Inr (), c\<lparr>sr_cache := cache\<rparr>) \<and> cache_inv cache \<and>
     cache_ok cache (memory_key (sr_user_id c)) \<and> (\<forall>m. sr_cache c = FileSystem m \<longrightarrow> (\<exists>m'. cache = FileSystem m')) \<and>
     cache_view cache (memory_key (sr_user_id c)) =
       Some (CacheItem (cc_time K (sr_ext c)) (memory_key (sr_user_id c)) (stored_value c) (Some (- 1)))"
proof -
  let ?it = "CacheItem (cc_time K (sr_ext c)) (memory_key (sr_user_id c)) (stored_value c) (Some (- 1))"
  from cm.ins_ok [of "sr_cache c" ?it] assms obtain cache where ins: "cache_insert (sr_cache c) ?it = Inr cache" by auto
  moreover have "cache_inv cache" "cache_ok cache (memory_key (sr_user_id c))"
    using cm.ins_inv [OF assms(1) _ ins] cm.ins_keys [OF ins] assms(2) by simp_all
  moreover have "cache_view cache (memory_key (sr_user_id c)) = Some ?it"
    using cm.ins_same [OF assms(1) _ assms(3) ins] assms(2) by simp
  moreover have "\<forall>m. sr_cache c = FileSystem m \<longrightarrow> (\<exists>m'. cache = FileSystem m')" using ins by (auto simp: cache_insert_cases)
  ultimately show ?thesis
    by (intro exI [of _ cache]) (simp add: update_working_memory_cache_def time_time_def bindM_def)
qed

definition on_file :: "string \<Rightarrow> session \<Rightarrow> ('q, 'x) stray \<Rightarrow> bool" where
  "on_file u se c \<longleftrightarrow> (\<exists>f. sr_cache c = FileSystem f) \<and> cache_inv (sr_cache c) \<and> cache_ok (sr_cache c) (memory_key u) \<and>
     (\<exists>t. cache_view (sr_cache c) (memory_key u) = Some (CacheItem t (memory_key u) (Pickled se) (Some (- 1))))"

lemma load_on_file:
  assumes "on_file u se c"
  shows "\<exists>cache. StrayCat_init K u c = allocate se (c\<lparr>sr_user_id := u, sr_cache := cache\<rparr>) \<and>
     on_file u se (StrayCat_init K u c)"
proof -
  from assms obtain f t where f: "sr_cache c = FileSystem f" "cache_inv (sr_cache c)" "cache_ok (sr_cache c) (memory_key u)"
    "cache_view (sr_cache c) (memory_key u) = Some (CacheItem t (memory_key u) (Pickled se) (Some (- 1)))"
    by (auto simp: on_file_def)
  from load_stored [of "c\<lparr>sr_user_id := u\<rparr>" t "Pickled se" K] f show ?thesis
    by (auto simp: StrayCat_init_def on_file_def allocate_def)
qed

lemma update_on_file:
  assumes "on_file (sr_user_id c) se c"
  shows "\<exists>cache. update_working_memory_cache K c = (Inr (), c\<lparr>sr_cache := cache\<rparr>) \<and>
     on_file (sr_user_id c) (sr_heap c (sr_wm c)) (c\<lparr>sr_cache := cache\<rparr>)"
proof -
  from assms obtain f where f: "sr_cache c = FileSystem f" by (auto simp: on_file_def)
  with assms update_stored [of c K] show ?thesis by (auto simp: on_file_def stored_value_def)
qed

lemma on_file_other [simp]:
  "on_file u se (c\<lparr>sr_wm := a\<rparr>) = on_file u se c" "on_file u se (c\<lparr>sr_connections := ws\<rparr>) = on_file u se c"
  "on_file u se (set_memory g c) = on_file u se c"
  by (simp_all add: on_file_def)

lemma http_on_file:
  assumes "on_file u se c"
  shows "\<exists>c1 cache. http_request K u (\<lambda>c. (Inr (r c), set_memory g c)) c = (Inr (r c1), set_memory g c1\<lparr>sr_cache := cache\<rparr>) \<and>
     sr_user_id c1 = u \<and> memory_of c1 = se_memory se \<and> sr_wm c1 = sr_next c \<and> sr_heap c1 = (sr_heap c)(sr_next c := se) \<and>
     on_file u (se\<lparr>se_memory := g (se_memory se)\<rparr>) (set_memory g c1\<lparr>sr_cache := cache\<rparr>)"
proof -
  from load_on_file [OF assms, of K] obtain cache where ld: "StrayCat_init K u c = allocate se (c\<lparr>sr_user_id := u, sr_cache := cache\<rparr>)"
    and on: "on_file u se (allocate se (c\<lparr>sr_user_id := u, sr_cache := cache\<rparr>))" by auto
  define c1 where "c1 = allocate se (c\<lparr>sr_user_id := u, sr_cache := cache\<rparr>)"
  have c1: "sr_user_id c1 = u" "memory_of c1 = se_memory se" "sr_wm c1 = sr_next c" "sr_heap c1 = (sr_heap c)(sr_next c := se)"
    by (simp_all add: c1_def)
  have "on_file (sr_user_id (set_memory g c1)) se (set_memory g c1)" using on c1 by (simp add: c1_def [symmetric])
  from update_on_file [OF this, of K] obtain cache' where
    up: "update_working_memory_cache K (set_memory g c1) = (Inr (), set_memory g c1\<lparr>sr_cache := cache'\<rparr>)"
    and on': "on_file u (sr_heap (set_memory g c1) (sr_next c)) (set_memory g c1\<lparr>sr_cache := cache'\<rparr>)"
    using c1 by auto
  moreover have "sr_heap (set_memory g c1) (sr_next c) = se\<lparr>se_memory := g (se_memory se)\<rparr>"
    using c1 by (simp add: set_memory_def set_session_def)
  moreover have "http_request K u (\<lambda>c. (Inr (r c), set_memory g c)) c = (Inr (r c1), set_memory g c1\<lparr>sr_cache := cache'\<rparr>)"
    using up ld by (simp add: http_request_def bindM_step c1_def [symmetric]) (simp add: bindM_def)
  ultimately show ?thesis using c1 by (intro exI [of _ c1] exI [of _ cache']) simp
qed

subsection \<open>A turn of the concrete cat\<close>

lemma demo_quiet: "quiet_hatter (cc_hatter demo_cat)"
  by (simp add: quiet_hatter_def demo_cat_def map_of_map_pair quiet_core_hook turn_hooks_def)

lemma demo_talk: "only_talk demo_cat"
  using demo_quiet by (simp add: only_talk_def) (simp add: demo_cat_def procedures_def MadHatter_init_def)

lemma demo_collections:
  "collections_of demo_cat (demo_collection\<lparr>vc_name := ''episodic''\<rparr>) (demo_collection\<lparr>vc_name := ''declarative''\<rparr>)
     (demo_collection\<lparr>vc_name := ''procedural''\<rparr>)"
  by (simp add: collections_of_def demo_cat_def demo_cols_def collection_names_def)

lemma demo_services [simp]:
  "cc_generate demo_cat p = retM ([''Me'', ''ow''], ''Meow'')" "cc_embed_query demo_cat s = retM [1, 0]"
  "cc_embed_documents demo_cat ts = retM (map (\<lambda>_. [1, 0]) ts)" "cc_count_tokens demo_cat s = int (length s)"
  "cc_time demo_cat = real" "cc_uuid demo_cat = bindM (modM Suc) (\<lambda>_. retM ''u1'')" "cc_send demo_cat i w = retM ()"
  "cc_template_vars demo_cat s = []" "cc_set_order demo_cat = id" "cc_format demo_cat s v = Inr s" "cc_caller demo_cat = ''demo''"
  by (simp_all add: demo_cat_def)

definition demo_um :: message where
  "demo_um = UserMessage \<lparr>cm_user_id = ''alice'', cm_when = 5, cm_who = ''Human'', cm_text = Some ''hi'', cm_image = None, cm_audio = None\<rparr>"

lemma demo_validate:
  "UserMessage_validate 5 (AList.update ''user_id'' (PStr ''alice'') [(''text'', PStr ''hi''), (''user_id'', PStr ''bob'')]) = Inr demo_um"
  by (simp add: UserMessage_validate_def rename_message_def optional_field_def demo_um_def)

definition demo_heard :: "(lstore, nat) stray" where
  "demo_heard = set_memory (\<lambda>wm. update_history demo_um (wm\<lparr>model_interactions := [], user_message_json := Some demo_um\<rparr>)) demo_alice"

lemma demo_alice_sel [simp]:
  "sr_user_id demo_alice = ''alice''" "sr_ext demo_alice = 5" "memory_of demo_alice = WorkingMemory"
  "sr_db demo_alice = map (\<lambda>n. (n, \<lparr>lc_size = 2, lc_aliases = [], lc_points = []\<rparr>)) collection_names"
  by (simp_all add: demo_alice_def memory_of_def new_session_def)

lemma demo_heard_sel [simp]:
  "sr_user_id demo_heard = ''alice''" "sr_db demo_heard = map (\<lambda>n. (n, \<lparr>lc_size = 2, lc_aliases = [], lc_points = []\<rparr>)) collection_names"
  "sr_ext demo_heard = 5" "memory_of demo_heard = WorkingMemory\<lparr>history := [demo_um], user_message_json := Some demo_um\<rparr>"
  by (simp_all add: demo_heard_def WorkingMemory_def update_history_def last_n_def)

lemma demo_search: "recall_memories_from_embedding (demo_collection\<lparr>vc_name := n\<rparr>) e f k t (map (\<lambda>n. (n, \<lparr>lc_size = 2, lc_aliases = [], lc_points = []\<rparr>)) collection_names) = []"
  by (simp add: recall_memories_from_embedding_def demo_collection_def list_qdrant_def collection_names_def lall_def keys_def map_filter_def)

lemma demo_recall:
  assumes "recall_text None (memory_of c) = Inr (TText s)" "sr_db c = map (\<lambda>n. (n, \<lparr>lc_size = 2, lc_aliases = [], lc_points = []\<rparr>)) collection_names"
  shows "\<exists>c'. recall_relevant_memories_to_working_memory demo_cat None c = (Inr (), c') \<and> same_turn c c' \<and>
     episodic_memories (memory_of c') = [] \<and> declarative_memories (memory_of c') = [] \<and> procedural_memories (memory_of c') = []"
proof -
  obtain c1 where c1: "embed_recall_query demo_cat (TText s) c = (Inr [1, 0], c1)"
    by (simp add: embed_recall_query_def time_time_def on_ext_def bindM_def)
  have k: "same_talk c c1" using stepsMD [OF keeps_embed_recall_query, of c demo_cat "TText s"] c1 by simp
  from recall_run [OF demo_quiet demo_collections assms(1) c1] recall_effect [OF demo_quiet demo_collections, of None c]
  show ?thesis using same_talk_fields [OF k] assms(2) by (simp add: demo_search set_memories_def)
qed

definition gives :: "('s, 'a) comp \<Rightarrow> 'a \<Rightarrow> bool" where
  "gives m y \<longleftrightarrow> (\<forall>c. \<exists>c'. m c = (Inr y, c'))"

lemma gives_bind:
  assumes "answers m" "\<And>x. gives (f x) y"
  shows "gives (bindM m f) y"
  unfolding gives_def
proof
  fix c
  obtain x c1 where "m c = (Inr x, c1)" using assms(1) unfolding answers_def by blast
  moreover have "\<exists>c'. f x c1 = (Inr y, c')" using assms(2) [of x] by (simp add: gives_def)
  ultimately show "\<exists>c'. bindM m f c = (Inr y, c')" by (simp add: bindM_def)
qed

lemma gives_ret [simp]: "gives (retM y) y"
  by (simp add: gives_def)

lemma demo_chain: "gives (invoke_chain demo_cat b s (Inr msgs)) ''Meow''"
  by (auto simp: invoke_chain_def on_ext_bind intro!: gives_bind answers_bind answers_callbacks)

lemma demo_memory_agent:
  assumes "se_agent_input (sr_heap c (sr_wm c)) = Some (TInput d)"
    and hist: "langchainfy_all (cc_download demo_cat) (latest 20 (history (memory_of c))) = Inr msgs"
  shows "\<exists>c'. MemoryAgent_execute demo_cat (TText p) (TText s) c = (Inr (AgentOutput\<lparr>ao_output := Some ''Meow''\<rparr>), c')"
proof -
  obtain vs t where m: "match_prompt_variables id (\<lambda>_. []) d (p @ s) = (vs, t)" by fastforce
  obtain c' where "invoke_chain demo_cat True ''demo'' (Inr (SystemPart t # map TurnPart msgs)) c = (Inr ''Meow'', c')"
    using demo_chain [of True "''demo''"] unfolding gives_def by blast
  then show ?thesis using assms m
    by (simp add: MemoryAgent_execute_def agent_input_fields_def prompt_text_def bindM_def chat_with_history_def chat_prompt_def
        langchainfy_chat_history_def demo_services [abs_def])
qed

lemma demo_reply:
  assumes um: "user_message_json (memory_of c) = Some um" "active_form (memory_of c) = None"
    and hist: "langchainfy_all (cc_download demo_cat) (latest 20 (history (memory_of c))) = Inr msgs"
    and mems: "episodic_memories (memory_of c) = []" "declarative_memories (memory_of c) = []" "procedural_memories (memory_of c) = []"
  shows "\<exists>c'. reply_with_agent demo_cat c = (Inr (AgentOutput\<lparr>ao_output := Some ''Meow''\<rparr>), c')"
proof -
  obtain inp where inp: "format_agent_input demo_cat c = Inr inp"
    using um mems by (simp add: format_agent_input_def agent_prompt_episodic_memories_def agent_prompt_declarative_memories_def)
  let ?c = "set_session (\<lambda>se. se\<lparr>se_agent_input := Some (TInput inp)\<rparr>) c"
  have mem1: "memory_of ?c = memory_of c" by (simp add: memory_of_def)
  have "ProceduresAgent_execute demo_cat ?c = (Inr AgentOutput, ?c)"
    using FormAgent_idle [of ?c demo_cat] um mems mem1 by (simp add: ProceduresAgent_execute_def bindM_def AgentOutput_def)
  moreover obtain c' where "MemoryAgent_execute demo_cat (TText MAIN_PROMPT_PREFIX) (TText MAIN_PROMPT_SUFFIX) ?c =
      (Inr (AgentOutput\<lparr>ao_output := Some ''Meow''\<rparr>), c')"
    using demo_memory_agent [of ?c inp msgs MAIN_PROMPT_PREFIX MAIN_PROMPT_SUFFIX] hist mem1 by auto
  ultimately have "run_agents demo_cat (TText MAIN_PROMPT_PREFIX) (TText MAIN_PROMPT_SUFFIX) ?c =
      (Inr (AgentOutput\<lparr>ao_output := Some ''Meow''\<rparr>), c')"
    by (simp add: run_agents_def bindM_def AgentOutput_def)
  then show ?thesis
    using inp by (simp add: reply_with_agent_def catchM_def MainAgent_execute_def quiet_pipe_bind [OF demo_quiet] turn_hooks_def
        agent_fast_answer_def bindM_def [of "\<lambda>c. (format_agent_input demo_cat c, c)"])
qed

text \<open>As long as its memory is empty, this cat answers every message with a text.\<close>

lemma demo_recall_and_answer:
  assumes um: "user_message_json (memory_of c) = Some um" "msg_text um = Some s" "active_form (memory_of c) = None"
    and hist: "langchainfy_all (cc_download demo_cat) (latest 20 (history (memory_of c))) = Inr msgs"
    and db: "sr_db c = map (\<lambda>n. (n, \<lparr>lc_size = 2, lc_aliases = [], lc_points = []\<rparr>)) collection_names"
  shows "\<exists>m c'. recall_and_answer demo_cat c = (Inr (Reply m), c')"
proof -
  have "recall_text None (memory_of c) = Inr (TText s)" using um by (simp add: recall_text_def)
  from demo_recall [OF this db] obtain c0 where rec: "recall_relevant_memories_to_working_memory demo_cat None c = (Inr (), c0)"
    and c: "same_turn c c0" "episodic_memories (memory_of c0) = []" "declarative_memories (memory_of c0) = []"
      "procedural_memories (memory_of c0) = []"
    by blast
  have m0: "user_message_json (memory_of c0) = Some um" "active_form (memory_of c0) = None" "history (memory_of c0) = history (memory_of c)"
    "sr_db c0 = sr_db c" using c(1) um by (simp_all add: same_turn_def)
  from demo_reply [OF m0(1,2), of msgs] c m0(3) hist
  obtain c1 where rep: "reply_with_agent demo_cat c0 = (Inr (AgentOutput\<lparr>ao_output := Some ''Meow''\<rparr>), c1)" by auto
  have k: "same_talk c0 c1" using MainAgent_reply_keeps [OF demo_talk m0(2)] rep by simp
  note c1 = same_talk_fields(3,7) [OF k, unfolded m0 db]
  let ?C = "demo_collection\<lparr>vc_name := ''episodic''\<rparr>"
  have "collection_ready list_qdrant linfo ?C (sr_db c1)"
    by (simp add: c1(1) collection_ready_def demo_collection_def linfo_def collection_names_def)
  then have "\<exists>r q. add_point ?C u t [1, 0] meta None (sr_db c1) = (Inr r, q)" for u t meta
    using list_qdrant.coll.add_ok [of ?C "sr_db c1" "[1, 0]" u t meta None] by (auto simp: demo_collection_def)
  then obtain r q where "add_point ?C ''u1'' s [1, 0]
      (Some [(''source'', PStr (sr_user_id c1)), (''when'', PFloat (real (sr_ext c1)))]) None (sr_db c1) = (Inr r, q)" by blast
  then have "\<exists>c2. store_user_message_in_episodic_memory demo_cat (Some s) c1 = (Inr (), c2) \<and> memory_of c2 = memory_of c1"
    using demo_collections
    by (simp add: store_user_message_in_episodic_memory_def quiet_pipe [OF demo_quiet] turn_hooks_def time_time_def on_ext_bind
        episodic_collection_def collections_of_def on_db_def on_ext_def bindM_def)
  then obtain c2 where st: "store_user_message_in_episodic_memory demo_cat (Some s) c1 = (Inr (), c2)" "memory_of c2 = memory_of c1" by blast
  then have "\<exists>m. final_message demo_cat (AgentOutput\<lparr>ao_output := Some ''Meow''\<rparr>) c2 = (Inr m, c2)"
    using c1 um by (simp add: final_message_def build_why_def bindM_def time_time_def)
  then obtain m where "final_message demo_cat (AgentOutput\<lparr>ao_output := Some ''Meow''\<rparr>) c2 = (Inr m, c2)" by blast
  then have "answer_user demo_cat c0 = (Inr (Reply m), set_memory (update_history m) c2)"
    using rep c1 um st by (simp add: answer_user_def current_text_def bindM_def quiet_pipe [OF demo_quiet] turn_hooks_def tea_message_def)
  then have "recall_and_answer demo_cat c = (Inr (Reply m), set_memory (update_history m) c2)"
    using rec by (simp add: recall_and_answer_def bindM_def catchM_def)
  then show ?thesis by blast
qed

lemma demo_answers: "\<exists>m c'. cat_call demo_cat [(''text'', PStr ''hi''), (''user_id'', PStr ''bob'')] demo_alice = (Inr (Reply m), c')"
proof -
  have "\<exists>m c'. recall_and_answer demo_cat demo_heard = (Inr (Reply m), c')"
    by (rule demo_recall_and_answer) (auto simp: WorkingMemory_def demo_um_def msg_text_def latest_def last_n_def)
  then show ?thesis
    using turn_unfold [OF demo_quiet, of demo_alice "[(''text'', PStr ''hi''), (''user_id'', PStr ''bob'')]" demo_um] demo_validate
    by (simp add: demo_heard_def)
qed

subsection \<open>Properties\<close>



text \<open>
  (C2) Errors are contained: whatever the plugins, the language model or the stores raise, over HTTP a
  turn always returns something; over the websocket it raises only when the error message itself cannot
  be sent, and then not for a connection that was closed regularly.
\<close>

theorem run_contains_errors:
  "(\<exists>r. fst (run K d True c) = Inr (Some r)) \<and>
   (case run K d False c of
      (Inr r, c') \<Rightarrow> r = None
    | (Inl ex, c') \<Rightarrow> exn_name ex \<noteq> ''ConnectionClosedOK'' \<and> (\<exists>e c1. send_error K (Inr e) c1 = (Inl ex, c')))"
proof -
  have http: "\<exists>r. fst (run K d True c) = Inr (Some r)"
  proof (cases "bindM (cat_call K d) (\<lambda>r. bindM (update_working_memory_cache K) (\<lambda>_. retM (Some r))) c")
    case (Pair r c1)
    show ?thesis
    proof (cases r)
      case (Inr x)
      then have "\<exists>y. x = Some y" using Pair by (auto simp: bindM_result_Inr)
      then show ?thesis using Pair Inr by (auto simp: run_def catchM_def)
    qed (use Pair in \<open>simp add: run_def catchM_def\<close>)
  qed
  moreover have "case run K d False c of
      (Inr r, c') \<Rightarrow> r = None
    | (Inl ex, c') \<Rightarrow> exn_name ex \<noteq> ''ConnectionClosedOK'' \<and> (\<exists>e c1. send_error K (Inr e) c1 = (Inl ex, c'))"
  proof (cases "bindM (cat_call K d) (\<lambda>r. bindM (update_working_memory_cache K) (\<lambda>_. bindM (send_reply K r) (\<lambda>_. retM (None :: reply option)))) c")
    case (Pair r c1)
    show ?thesis
    proof (cases r)
      case (Inl e)
      obtain s c2 where s: "send_error K (Inr e) c1 = (s, c2)" by (cases "send_error K (Inr e) c1")
      have "run K d False c = bindM (report_error K e) (\<lambda>_. retM None) c1"
        using Pair Inl by (simp add: run_def catchM_def)
      with s show ?thesis by (cases s) (auto simp: catchM_def report_error_def bindM_def)
    next
      case (Inr x)
      then have "x = None" using Pair by (auto simp: bindM_result_Inr)
      then show ?thesis using Pair Inr by (simp add: run_def catchM_def)
    qed
  qed
  ultimately show ?thesis by blast
qed

text \<open>
  A message without text, for instance an image alone, is never answered by the plain cat: the recall
  fails on the missing text and the turn ends with the description of a vector memory error. Over the
  websocket not even that reaches the user: sending the dictionary fails, and an AttributeError is sent instead.
\<close>

theorem image_only_message_fails:
  assumes "quiet_hatter (cc_hatter K)" "map_of (sr_connections c) (sr_user_id c) = Some ws" "sr_cache c = InMemory mem"
    and "\<And>w x. cc_send K ws w x = (Inr (), x)"
    and "UserMessage_validate (cc_time K (sr_ext c)) (AList.update ''user_id'' (PStr (sr_user_id c)) d) = Inr um" "msg_text um = None"
  shows "fst (cat_call K d c) = Inr (ErrorDict recall_error) \<and>
     (\<exists>e. sr_sent (snd (run K d False c)) =
        sr_sent c @ [(ws, WsDict [(''type'', PStr ''error''), (''name'', PStr ''AttributeError''), (''description'', PStr e)])])"
proof -
  note q = assms(1)
  let ?c = "set_memory (\<lambda>wm. update_history um (wm\<lparr>model_interactions := [], user_message_json := Some um\<rparr>)) c"
  have "recall_relevant_memories_to_working_memory K None ?c = (Inl (Exn ''TypeError'' ''expected string or buffer''), ?c)"
    using assms(6) by (simp add: recall_relevant_memories_to_working_memory_def recall_text_def bindM_step [where h = "\<lambda>c. c"]
       turn_hooks [OF q] turn_hooks_def embed_recall_query_def bindM_def [of "\<lambda>c. (f c, c)" for f] lookup_exn_def)
  then have call: "cat_call K d c = (Inr (ErrorDict recall_error), ?c)"
    using turn_unfold [OF q assms(5)] by (simp add: recall_and_answer_def bindM_def catchM_def)
  obtain c2 where up: "update_working_memory_cache K ?c = (Inr (), c2)"
    and c2: "sr_sent c2 = sr_sent c" "sr_connections c2 = sr_connections c" "sr_user_id c2 = sr_user_id c"
    using assms(3) by (simp add: update_working_memory_cache_def bindM_def time_time_def)
  have "run K d False c = bindM (report_error K (Exn ''AttributeError'' ''dict object has no attribute model_dump'')) (\<lambda>_. retM None) c2"
    using call up by (simp add: run_def catchM_def bindM_def send_reply_def)
  then show ?thesis using call c2 assms(2,4)
    by (auto simp: report_error_def catchM_def send_error_def send_ws_json_def get_connection_def bindM_def on_ext_def exn_str_def)
qed

theorem image_only_message_fails_witness:
  "fst (cat_call demo_cat [(''image'', PStr ''https://cat.png'')] demo_alice) = Inr (ErrorDict recall_error)"
proof -
  have "UserMessage_validate 5 (AList.update ''user_id'' (PStr ''alice'') [(''image'', PStr ''https://cat.png'')]) =
      Inr (UserMessage \<lparr>cm_user_id = ''alice'', cm_when = 5, cm_who = ''Human'', cm_text = None, cm_image = Some ''https://cat.png'', cm_audio = None\<rparr>)"
    by (simp add: UserMessage_validate_def rename_message_def optional_field_def)
  moreover have "map_of (sr_connections demo_alice) ''alice'' = Some 7" by (simp add: demo_alice_def)
  moreover have "sr_cache demo_alice = InMemory InMemoryCache_init" by (simp add: demo_alice_def)
  ultimately show ?thesis
    using image_only_message_fails [OF demo_quiet, of demo_alice 7] by (simp add: msg_text_def)
qed

text \<open>
  (C27) What a cat leaves in the cache is what the next cat of the same user finds: after storing the working
  memory, a cat created later for this user, whatever happened outside meanwhile, holds the same session,
  the very same object under the in-memory cache and an equal copy under the file system cache.
\<close>

theorem session_persists:
  assumes "cache_inv (sr_cache c)" "cache_ok (sr_cache c) (memory_key (sr_user_id c))"
    and "cache_fresh (sr_cache c) (CacheItem (cc_time K (sr_ext c)) (memory_key (sr_user_id c)) (stored_value c) (Some (- 1)))"
  shows "\<exists>c1. update_working_memory_cache K c = (Inr (), c1) \<and>
     (let c2 = StrayCat_init K (sr_user_id c) (c1\<lparr>sr_wm := a, sr_ext := x, sr_user_id := u\<rparr>) in
      sr_heap c2 (sr_wm c2) = sr_heap c (sr_wm c) \<and> memory_of c2 = memory_of c \<and>
      (case sr_cache c of InMemory m \<Rightarrow> sr_wm c2 = sr_wm c | FileSystem m \<Rightarrow> sr_wm c2 = sr_next c))"
proof -
  from update_stored [OF assms] obtain cache where up: "update_working_memory_cache K c = (Inr (), c\<lparr>sr_cache := cache\<rparr>)"
    and cache: "cache_inv cache" "cache_ok cache (memory_key (sr_user_id c))"
      "cache_view cache (memory_key (sr_user_id c)) = Some (CacheItem (cc_time K (sr_ext c)) (memory_key (sr_user_id c)) (stored_value c) (Some (- 1)))"
    by (elim exE conjE) (rule that)
  let ?c = "c\<lparr>sr_cache := cache, sr_wm := a, sr_ext := x, sr_user_id := sr_user_id c\<rparr>"
  from load_stored [of ?c _ "stored_value c" K] cache obtain cache' where
    ld: "load_working_memory_from_cache K ?c =
     (case stored_value c of Live b \<Rightarrow> ?c\<lparr>sr_cache := cache', sr_wm := b\<rparr> | Pickled se \<Rightarrow> allocate se (?c\<lparr>sr_cache := cache'\<rparr>))"
    by auto
  show ?thesis
    using ld by (intro exI [of _ "c\<lparr>sr_cache := cache\<rparr>"])
      (cases "sr_cache c", simp_all add: up StrayCat_init_def stored_value_def allocate_def memory_of_def Let_def)
qed

theorem session_persists_witness:
  "\<exists>c1. update_working_memory_cache demo_cat demo_alice = (Inr (), c1) \<and>
     memory_of (StrayCat_init demo_cat ''alice'' (c1\<lparr>sr_wm := 3, sr_ext := 9, sr_user_id := ''bob''\<rparr>)) = memory_of demo_alice"
  using session_persists [of demo_alice demo_cat, where a = 3 and x = 9 and u = "''bob''"]
  by (auto simp: demo_alice_def mem_inv_def InMemoryCache_init_def mem_fresh_def Let_def)

text \<open>
  (C36) Under the file system cache an open websocket and an HTTP request of the same user work on copies,
  and the last one to finish wins: a user who deletes the conversation over HTTP while a websocket is
  open finds it restored as soon as the websocket is closed.
\<close>

theorem websocket_close_restores_history:
  assumes "on_file u se c"
  shows "\<exists>c2 c3 c4. http_request K u wipe_conversation_history (open_websocket K u ws c) = (Inr [(''deleted'', PBool True)], c2) \<and>
     close_websocket K (c2\<lparr>sr_wm := sr_wm (open_websocket K u ws c)\<rparr>) = (Inr (), c3) \<and>
     http_request K u get_conversation_history c3 = (Inr (history (se_memory se)), c4)"
proof -
  define c1 where "c1 = open_websocket K u ws c"
  have c1: "on_file u se c1" "sr_wm c1 = sr_next c" "sr_heap c1 (sr_next c) = se" "sr_next c1 = Suc (sr_next c)"
    using load_on_file [OF assms, of K] by (auto simp: c1_def open_websocket_def Let_def)
  have wipe: "wipe_conversation_history = (\<lambda>c. (Inr [(''deleted'', PBool True)], set_memory (\<lambda>wm. wm\<lparr>history := []\<rparr>) c))"
    by (simp add: fun_eq_iff wipe_conversation_history_def)
  have get: "get_conversation_history = (\<lambda>c. (Inr (history (memory_of c)), set_memory (\<lambda>wm. wm) c))"
    by (simp add: fun_eq_iff get_conversation_history_def)
  from http_on_file [OF c1(1), of K "\<lambda>_. [(''deleted'', PBool True)]" "\<lambda>wm. wm\<lparr>history := []\<rparr>"]
  obtain c2 se2 where w: "http_request K u wipe_conversation_history c1 = (Inr [(''deleted'', PBool True)], c2)"
    and c2: "sr_user_id c2 = u" "sr_heap c2 (sr_next c) = se" "on_file u se2 c2"
    unfolding wipe using c1 by fastforce
  let ?c = "c2\<lparr>sr_wm := sr_next c, sr_connections := remove_connection u (sr_connections c2)\<rparr>"
  from update_on_file [of ?c se2 K] c2 obtain cache where
    up: "update_working_memory_cache K ?c = (Inr (), ?c\<lparr>sr_cache := cache\<rparr>)" and on: "on_file u se (?c\<lparr>sr_cache := cache\<rparr>)" by auto
  have cl: "close_websocket K (c2\<lparr>sr_wm := sr_wm c1\<rparr>) = (Inr (), ?c\<lparr>sr_cache := cache\<rparr>)"
    using up c2(1) c1(2) by (simp add: close_websocket_def)
  have "\<exists>c4. http_request K u get_conversation_history (?c\<lparr>sr_cache := cache\<rparr>) = (Inr (history (se_memory se)), c4)"
    unfolding get using http_on_file [OF on, of K "\<lambda>c. history (memory_of c)" "\<lambda>wm. wm"] by fastforce
  then show ?thesis using w cl unfolding c1_def by blast
qed

definition filed_session :: session where
  "filed_session = new_session\<lparr>se_memory := WorkingMemory\<lparr>history := [demo_um]\<rparr>\<rparr>"

definition filed_alice :: "(lstore, nat) stray" where
  "filed_alice = demo_alice\<lparr>sr_cache := FileSystem
     \<lparr>cache_dir = ''/c'', disk = \<lparr>fs_dirs = [''/c''],
       fs_files = [(''/c/alice_working_memory.cache'', CacheItem 0 ''alice_working_memory'' (Pickled filed_session) (Some (- 1)))]\<rparr>\<rparr>\<rparr>"

theorem websocket_close_restores_history_witness:
  "\<exists>c2 c3 c4. http_request demo_cat ''alice'' wipe_conversation_history (open_websocket demo_cat ''alice'' 8 filed_alice) =
       (Inr [(''deleted'', PBool True)], c2) \<and>
     close_websocket demo_cat (c2\<lparr>sr_wm := sr_wm (open_websocket demo_cat ''alice'' 8 filed_alice)\<rparr>) = (Inr (), c3) \<and>
     http_request demo_cat ''alice'' get_conversation_history c3 = (Inr [demo_um], c4)"
proof -
  have "on_file ''alice'' filed_session filed_alice"
    by (auto simp: dict_wf_def on_file_def filed_alice_def fs_inv_def fs_ok_def fs_view_def no_slash_def memory_key_def dir_exists_def
        norm_dir_def get_file_path_def path_join_def)
  from websocket_close_restores_history [OF this, of demo_cat 8] show ?thesis by (simp add: filed_session_def)
qed

end
