(* ===== verification/Procedures.thy ===== *)
theory Procedures
  imports Mad_Hatter Vector_Memory Cat_Form
begin

text \<open>
  The procedural memory: the part of \<open>core/cat/looking_glass/cheshire_cat.py\<close> that keeps the vector
  collection \<open>procedural\<close> in step with the tools and forms of the active plugins, and serves their
  endpoints, each time the plugin manager finished a sync.

  The callback runs on the state of the plugin manager; the vector data base and the outside world (embedder,
  clock, identifiers) are the machine's own part, the record \<open>lab\<close>. Python iterates over the two
  set differences in no fixed order, so the order is a parameter. The collection is read with the
  default limit of \<open>get_all_points\<close>, 10000 points.
\<close>

subsection \<open>State and services\<close>

record ('q, 'x) lab =
  lb_db :: 'q
  lb_ext :: 'x

record 'x embedder =
  em_class :: string
  em_model :: "string option"
  em_repo_id :: "string option"
  em_embed_query :: "string \<Rightarrow> ('x, real list) comp"
  em_embed_documents :: "string list \<Rightarrow> ('x, real list list) comp"

record 'x services =
  sv_time :: "'x \<Rightarrow> real"
  sv_uuid :: "('x, string) comp"
  sv_set_order :: "string list \<Rightarrow> string list"
  sv_str :: "pyval \<Rightarrow> string"

definition in_db :: "('q, 'a) comp \<Rightarrow> (('q, 'x) lab, 'a) comp" where
  "in_db m s = (case m (lb_db s) of (r, q) \<Rightarrow> (r, s\<lparr>lb_db := q\<rparr>))"

definition in_ext :: "('x, 'a) comp \<Rightarrow> (('q, 'x) lab, 'a) comp" where
  "in_ext m s = (case m (lb_ext s) of (r, x) \<Rightarrow> (r, s\<lparr>lb_ext := x\<rparr>))"

subsection \<open>Hashes\<close>

text \<open>A value in an f-string.\<close>

definition fstr :: "'x services \<Rightarrow> pyval \<Rightarrow> string" where
  "fstr S v = (case v of PStr s \<Rightarrow> s | _ \<Rightarrow> sv_str S v)"

definition hash_text :: "string \<Rightarrow> string \<Rightarrow> string \<Rightarrow> string" where
  "hash_text source trigger_type content = source @ ''.'' @ trigger_type @ ''.'' @ content"

text \<open>The hash of a stored point; points without metadata or source raise.\<close>

definition point_hash :: "'x services \<Rightarrow> point \<Rightarrow> string result" where
  "point_hash S ep =
     (case pt_metadata ep of
        None \<Rightarrow> Inl (Exn ''TypeError'' ''NoneType'')
      | Some md \<Rightarrow>
          bindR (item md ''source'') (\<lambda>source.
          let trigger_type = (case map_of md ''trigger_type'' of None \<Rightarrow> PStr ''unsupported'' | Some t \<Rightarrow> t)
          in Inr (hash_text (fstr S source) (fstr S trigger_type) (pt_page_content ep))))"

fun embedded_hashes :: "'x services \<Rightarrow> (string, string) dict \<Rightarrow> point list \<Rightarrow> (string, string) dict result" where
  "embedded_hashes S hashes [] = Inr hashes"
| "embedded_hashes S hashes (ep # eps) =
     bindR (point_hash S ep) (\<lambda>h. embedded_hashes S (AList.update h (pt_id ep) hashes) eps)"

definition build_embedded_procedures_hashes :: "'x services \<Rightarrow> point list \<Rightarrow> (string, string) dict result" where
  "build_embedded_procedures_hashes S embedded_procedures = embedded_hashes S [] embedded_procedures"

record ('c, 'f) trigger =
  tr_obj :: "'c cat_tool + 'f form_class"
  tr_source :: string
  tr_type :: string
  tr_trigger_type :: string
  tr_content :: string

definition procedure_name :: "'c cat_tool + 'f form_class \<Rightarrow> string" where
  "procedure_name ap = (case ap of Inl t \<Rightarrow> tl_name t | Inr f \<Rightarrow> fc_name f)"

definition procedure_type :: "'c cat_tool + 'f form_class \<Rightarrow> string" where
  "procedure_type ap = (case ap of Inl t \<Rightarrow> ''tool'' | Inr f \<Rightarrow> ''form'')"

definition triggers_map :: "'c cat_tool + 'f form_class \<Rightarrow> (string \<times> string list) list" where
  "triggers_map ap = (case ap of Inl t \<Rightarrow> tl_triggers_map t | Inr f \<Rightarrow> form_triggers_map f)"

definition triggers :: "'c cat_tool + 'f form_class \<Rightarrow> ('c, 'f) trigger list" where
  "triggers ap = concat (map (\<lambda>(trigger_type, trigger_list).
     map (\<lambda>trigger_content. \<lparr>tr_obj = ap, tr_source = procedure_name ap, tr_type = procedure_type ap,
       tr_trigger_type = trigger_type, tr_content = trigger_content\<rparr>) trigger_list) (triggers_map ap))"

definition trigger_hash :: "('c, 'f) trigger \<Rightarrow> string" where
  "trigger_hash t = hash_text (tr_source t) (tr_trigger_type t) (tr_content t)"

definition build_active_procedures_hashes ::
  "('c cat_tool + 'f form_class) list \<Rightarrow> (string, ('c, 'f) trigger) dict" where
  "build_active_procedures_hashes active_procedures =
     dict_of (map (\<lambda>t. (trigger_hash t, t)) (concat (map triggers active_procedures)))"

subsection \<open>Synchronising\<close>

definition trigger_metadata :: "('c, 'f) trigger \<Rightarrow> real \<Rightarrow> json" where
  "trigger_metadata t now =
     [(''source'', PStr (tr_source t)), (''type'', PStr (tr_type t)), (''trigger_type'', PStr (tr_trigger_type t)),
      (''when'', PFloat now)]"

definition first_vector :: "real list list \<Rightarrow> real list result" where
  "first_vector vs = (case vs of [] \<Rightarrow> Inl (Exn ''IndexError'' ''list index out of range'') | v # _ \<Rightarrow> Inr v)"

definition embed_trigger ::
  "'x services \<Rightarrow> 'x embedder \<Rightarrow> 'q collection \<Rightarrow> ('c, 'f) trigger \<Rightarrow> (('q, 'x) lab, unit) comp" where
  "embed_trigger S em C t =
     bindM (getM (\<lambda>s. sv_time S (lb_ext s))) (\<lambda>now.
     bindM (in_ext (em_embed_documents em [tr_content t])) (\<lambda>trigger_embedding.
     bindM (liftM (first_vector trigger_embedding)) (\<lambda>vec.
     bindM (in_ext (sv_uuid S)) (\<lambda>uuid.
     bindM (in_db (add_point C uuid (tr_content t) vec (Some (trigger_metadata t now)) None)) (\<lambda>_. retM ())))))"

text \<open>\<open>[d[h] for h in set(d.keys()) - set(e.keys())]\<close>\<close>

definition entries_of :: "'x services \<Rightarrow> (string, 'a) dict \<Rightarrow> (string, 'b) dict \<Rightarrow> 'a list" where
  "entries_of S d e = List.map_filter (map_of d) (sv_set_order S (filter (\<lambda>h. h \<notin> set (keys e)) (keys d)))"

definition delete_if_any :: "'q collection \<Rightarrow> string list \<Rightarrow> (('q, 'x) lab, unit) comp" where
  "delete_if_any C ids = (if ids \<noteq> [] then in_db (delete_points C ids) else retM ())"

definition embed_procedures ::
  "'x services \<Rightarrow> 'x embedder \<Rightarrow> 'q collection \<Rightarrow> ('c cat_tool + 'f form_class) list \<Rightarrow> (('q, 'x) lab, unit) comp" where
  "embed_procedures S em C active_procedures =
     bindM (getM (\<lambda>s. fst (get_all_points C 10000 None (lb_db s)))) (\<lambda>embedded_procedures.
     bindM (liftM (build_embedded_procedures_hashes S embedded_procedures)) (\<lambda>embedded.
     let active = build_active_procedures_hashes active_procedures;
         points_to_be_deleted_ids = entries_of S embedded active;
         active_triggers_to_be_embedded = entries_of S active embedded
     in bindM (delete_if_any C points_to_be_deleted_ids) (\<lambda>_.
        forM active_triggers_to_be_embedded (embed_trigger S em C))))"

definition activate_endpoints ::
  "('w, 'c, 'v, 'f) host \<Rightarrow> ('w, 'c, 'v, 'f, 'db, unit) hatter_comp" where
  "activate_endpoints H =
     modM (\<lambda>s. s\<lparr>mh_machine := fold (\<lambda>endpoint mc.
       if ep_plugin_id endpoint \<in> set (mh_active s) then CustomEndpoint_activate H endpoint mc else mc)
       (mh_endpoints s) (mh_machine s)\<rparr>)"

text \<open>The machine's own part as seen from the plugin manager.\<close>

definition in_lab :: "('w, 'a) comp \<Rightarrow> ('w, 'c, 'v, 'f, 'db, 'a) hatter_comp" where
  "in_lab m s = (case m (mc_own (mh_machine s)) of
     (r, w) \<Rightarrow> (r, s\<lparr>mh_machine := (mh_machine s)\<lparr>mc_own := w\<rparr>\<rparr>))"

definition on_finish_plugins_sync_callback ::
  "'x services \<Rightarrow> 'x embedder \<Rightarrow> 'q collection \<Rightarrow> (('q, 'x) lab, 'c, 'v, 'f) host \<Rightarrow>
   (('q, 'x) lab, 'c, 'v, 'f, 'db, unit) hatter_comp" where
  "on_finish_plugins_sync_callback S em C H =
     bindM (activate_endpoints H) (\<lambda>_.
     bindM (getM procedures) (\<lambda>active_procedures.
     in_lab (embed_procedures S em C active_procedures)))"

subsection \<open>What the collection should hold\<close>

text \<open>
  The abstract view of the procedural collection: the set of hashes of its points. The collection is
  well kept when every point has a hash and no two points have the same.
\<close>

definition stored_hashes :: "'x services \<Rightarrow> (string \<Rightarrow> point option) \<Rightarrow> string set" where
  "stored_hashes S pts = {h. \<exists>k p. pts k = Some p \<and> point_hash S p = Inr h}"

definition active_hashes :: "('c cat_tool + 'f form_class) list \<Rightarrow> string set" where
  "active_hashes ps = trigger_hash ` (\<Union>ap \<in> set ps. set (triggers ap))"

definition well_kept :: "'x services \<Rightarrow> (string \<Rightarrow> point option) \<Rightarrow> bool" where
  "well_kept S pts \<longleftrightarrow>
     (\<forall>k p. pts k = Some p \<longrightarrow> pt_id p = k \<and> (\<exists>h. point_hash S p = Inr h)) \<and>
     (\<forall>k k' p p'. pts k = Some p \<longrightarrow> pts k' = Some p' \<longrightarrow> point_hash S p = point_hash S p' \<longrightarrow> k = k')"

text \<open>
  The services: an embedding has the size of the collection, an identifier is new, and a set is
  iterated over without repetition. \<open>issued\<close> are the identifiers handed out so far.
\<close>

definition services_ok :: "'x services \<Rightarrow> 'x embedder \<Rightarrow> nat \<Rightarrow> ('x \<Rightarrow> string set) \<Rightarrow> bool" where
  "services_ok S em width issued \<longleftrightarrow>
     (\<forall>xs. set (sv_set_order S xs) = set xs \<and> (distinct xs \<longrightarrow> distinct (sv_set_order S xs))) \<and>
     (\<forall>t x. \<exists>v x'. em_embed_documents em [t] x = (Inr [v], x') \<and> length v = width \<and> issued x' = issued x) \<and>
     (\<forall>x. \<exists>u x'. sv_uuid S x = (Inr u, x') \<and> u \<notin> issued x \<and> issued x' = insert u (issued x))"

lemma services_okD:
  assumes "services_ok S em width issued"
  shows "set (sv_set_order S xs) = set xs \<and> (distinct xs \<longrightarrow> distinct (sv_set_order S xs))"
    "\<exists>v x'. em_embed_documents em [t] x = (Inr [v], x') \<and> length v = width \<and> issued x' = issued x"
    "\<exists>u x'. sv_uuid S x = (Inr u, x') \<and> u \<notin> issued x \<and> issued x' = insert u (issued x)"
  using assms unfolding services_ok_def by blast+

lemma map_filter_inverse:
  "\<forall>x \<in> set xs. \<exists>y. f x = Some y \<and> g y = x \<Longrightarrow> map g (List.map_filter f xs) = xs"
  by (induction xs) (auto simp: map_filter_simps)

lemma set_map_filter_dict: "set (List.map_filter (map_of d) hs) = {v. \<exists>h \<in> set hs. map_of d h = Some v}"
  by (force simp: map_filter_def)

lemma set_entries_of:
  assumes "services_ok S em width issued"
  shows "set (entries_of S d e) = {v. \<exists>h. map_of d h = Some v \<and> h \<notin> set (keys e)}"
  using services_okD(1) [OF assms, of "filter (\<lambda>h. h \<notin> set (keys e)) (keys d)"]
  by (auto simp: entries_of_def set_map_filter_dict in_keys_iff)

text \<open>The entries of a dictionary whose keys can be told from its values.\<close>

lemma entries_of_keys:
  assumes "services_ok S em width issued" "dict_wf d" "\<And>h t. map_of d h = Some t \<Longrightarrow> g t = h"
  shows "distinct (map g (entries_of S d e)) \<and> g ` set (entries_of S d e) = set (keys d) - set (keys e)"
proof -
  let ?hs = "sv_set_order S (filter (\<lambda>h. h \<notin> set (keys e)) (keys d))"
  have hs: "set ?hs = set (keys d) - set (keys e)" "distinct ?hs"
    using services_okD(1) [OF assms(1), of "filter (\<lambda>h. h \<notin> set (keys e)) (keys d)"] assms(2)
    by (auto simp: dict_wf_def keys_def)
  have "\<exists>t. map_of d h = Some t \<and> g t = h" if "h \<in> set ?hs" for h
  proof -
    from that obtain t where "map_of d h = Some t" unfolding hs(1) by (auto simp: in_keys_iff)
    with assms(3) show ?thesis by blast
  qed
  then have "\<forall>h \<in> set ?hs. \<exists>t. map_of d h = Some t \<and> g t = h" by blast
  then have "map g (entries_of S d e) = ?hs" unfolding entries_of_def by (rule map_filter_inverse)
  then show ?thesis using hs by (metis set_map)
qed

lemma embedded_hashes_result:
  assumes "\<forall>ep \<in> set eps. \<exists>h. point_hash S ep = Inr h"
  shows "\<exists>d'. embedded_hashes S d eps = Inr d' \<and> (dict_wf d \<longrightarrow> dict_wf d') \<and>
     (\<forall>h k. map_of d' h = Some k \<longrightarrow> map_of d h = Some k \<or> (\<exists>ep \<in> set eps. point_hash S ep = Inr h \<and> pt_id ep = k)) \<and>
     (\<forall>h. map_of d h \<noteq> None \<or> (\<exists>ep \<in> set eps. point_hash S ep = Inr h) \<longrightarrow> map_of d' h \<noteq> None)"
  using assms
proof (induction eps arbitrary: d)
  case (Cons ep eps)
  then obtain h where h: "point_hash S ep = Inr h" by auto
  from Cons.IH [of "AList.update h (pt_id ep) d"] Cons.prems obtain d' where
    d': "embedded_hashes S (AList.update h (pt_id ep) d) eps = Inr d'"
      "dict_wf (AList.update h (pt_id ep) d) \<longrightarrow> dict_wf d'"
      "\<forall>h' k. map_of d' h' = Some k \<longrightarrow> map_of (AList.update h (pt_id ep) d) h' = Some k \<or>
         (\<exists>ep \<in> set eps. point_hash S ep = Inr h' \<and> pt_id ep = k)"
      "\<forall>h'. map_of (AList.update h (pt_id ep) d) h' \<noteq> None \<or> (\<exists>ep \<in> set eps. point_hash S ep = Inr h') \<longrightarrow> map_of d' h' \<noteq> None"
    by auto
  show ?case
  proof (intro exI [of _ d'] conjI allI impI)
    show "embedded_hashes S d (ep # eps) = Inr d'" using h d'(1) by simp
    show "dict_wf d'" if "dict_wf d" using that d'(2) by (simp add: dict_wf_update)
    show "map_of d h' = Some k \<or> (\<exists>ep \<in> set (ep # eps). point_hash S ep = Inr h' \<and> pt_id ep = k)"
      if "map_of d' h' = Some k" for h' k
      using d'(3) [rule_format, OF that] h by (auto simp: update_conv' split: if_splits)
    show "map_of d' h' \<noteq> None" if "map_of d h' \<noteq> None \<or> (\<exists>ep \<in> set (ep # eps). point_hash S ep = Inr h')" for h'
      using d'(4) [rule_format, of h'] that h by (cases "h' = h") (auto simp: update_conv')
  qed
qed simp

text \<open>Over a well kept collection the dictionary is its index by hash.\<close>

lemma embedded_index:
  assumes "well_kept S pts" "set eps = ran pts"
  shows "\<exists>d. build_embedded_procedures_hashes S eps = Inr d \<and> dict_wf d \<and>
     (\<forall>h k. map_of d h = Some k \<longleftrightarrow> (\<exists>p. pts k = Some p \<and> point_hash S p = Inr h))"
proof -
  have point: "\<exists>k. pts k = Some ep \<and> pt_id ep = k \<and> (\<exists>h. point_hash S ep = Inr h)" if "ep \<in> set eps" for ep
  proof -
    from that assms(2) obtain k where "pts k = Some ep" by (auto simp: ran_def)
    with assms(1) show ?thesis by (auto simp: well_kept_def)
  qed
  then have "\<forall>ep \<in> set eps. \<exists>h. point_hash S ep = Inr h" by blast
  from embedded_hashes_result [OF this, of "[]"] obtain d where d: "embedded_hashes S [] eps = Inr d" "dict_wf d"
    "\<And>h k. map_of d h = Some k \<Longrightarrow> \<exists>ep \<in> set eps. point_hash S ep = Inr h \<and> pt_id ep = k"
    "\<And>h ep. ep \<in> set eps \<Longrightarrow> point_hash S ep = Inr h \<Longrightarrow> map_of d h \<noteq> None"
    by fastforce
  have found: "\<exists>p. pts k = Some p \<and> point_hash S p = Inr h" if "map_of d h = Some k" for h k
    using d(3) [OF that] point by blast
  have "map_of d h = Some k" if p: "pts k = Some p" "point_hash S p = Inr h" for h k p
  proof -
    from p assms(2) have "p \<in> set eps" by (auto simp: ran_def)
    from d(4) [OF this p(2)] obtain k' where k': "map_of d h = Some k'" by auto
    from found [OF this] obtain p' where "pts k' = Some p'" "point_hash S p' = Inr h" by blast
    with p assms(1) have "k' = k" by (auto simp: well_kept_def)
    with k' show ?thesis by simp
  qed
  with found d show ?thesis by (auto simp: build_embedded_procedures_hashes_def)
qed

lemma active_index:
  "dict_wf (build_active_procedures_hashes ps)"
  "set (keys (build_active_procedures_hashes ps)) = active_hashes ps"
  "map_of (build_active_procedures_hashes ps) h = Some t \<Longrightarrow> trigger_hash t = h"
proof -
  let ?kvs = "map (\<lambda>t. (trigger_hash t, t)) (concat (map triggers ps))"
  have d: "build_active_procedures_hashes ps = dict_of ?kvs" by (simp add: build_active_procedures_hashes_def)
  show "dict_wf (build_active_procedures_hashes ps)" by (simp add: d dict_wf_dict_of)
  have "h \<in> set (keys (dict_of ?kvs)) \<longleftrightarrow> h \<in> set (keys (rev ?kvs))" for h
    by (simp only: in_keys_iff map_of_dict_of)
  then have "set (keys (dict_of ?kvs)) = set (keys (rev ?kvs))" by blast
  then show "set (keys (build_active_procedures_hashes ps)) = active_hashes ps"
    by (simp add: d keys_def active_hashes_def image_UN image_image)
  show "trigger_hash t = h" if "map_of (build_active_procedures_hashes ps) h = Some t"
    using that map_of_SomeD [of "rev ?kvs" h t] by (auto simp: d map_of_dict_of)
qed

subsection \<open>Adding and removing triggers\<close>

lemma trigger_point_hash [simp]:
  "point_hash S (new_point u (tr_content t) v (Some (trigger_metadata t now)) None) = Inr (trigger_hash t)"
  by (simp add: point_hash_def new_point_def trigger_metadata_def item_def trigger_hash_def fstr_def)

lemma stored_hashes_ran: "stored_hashes S pts = {h. \<exists>p \<in> ran pts. point_hash S p = Inr h}"
  by (auto simp: stored_hashes_def ran_def)

lemma well_kept_add:
  assumes "well_kept S pts" "pts u = None" "pt_id p = u" "point_hash S p = Inr h" "h \<notin> stored_hashes S pts"
  shows "well_kept S (pts(u \<mapsto> p)) \<and> stored_hashes S (pts(u \<mapsto> p)) = insert h (stored_hashes S pts)"
proof -
  have "stored_hashes S (pts(u \<mapsto> p)) = insert h (stored_hashes S pts)"
    using assms(2,4) by (auto simp: stored_hashes_ran)
  moreover have no: "point_hash S p' \<noteq> point_hash S p" if "pts k = Some p'" for k p'
    using that assms(4,5) by (auto simp: stored_hashes_def)
  then have "well_kept S (pts(u \<mapsto> p))"
    using assms(1,3,4) unfolding well_kept_def by (auto split: if_splits dest: no no [symmetric])
  ultimately show ?thesis by simp
qed

lemma well_kept_remove:
  assumes "well_kept S pts" "\<And>k p h. pts k = Some p \<Longrightarrow> point_hash S p = Inr h \<Longrightarrow> k \<in> ids \<longleftrightarrow> h \<notin> A"
  shows "well_kept S (\<lambda>k. if k \<in> ids then None else pts k) \<and>
    stored_hashes S (\<lambda>k. if k \<in> ids then None else pts k) = stored_hashes S pts \<inter> A"
proof
  show "well_kept S (\<lambda>k. if k \<in> ids then None else pts k)"
    using assms(1) unfolding well_kept_def by (auto split: if_splits)
  show "stored_hashes S (\<lambda>k. if k \<in> ids then None else pts k) = stored_hashes S pts \<inter> A"
    using assms(2) by (auto simp: stored_hashes_def split: if_splits)
qed

context qdrant_db
begin

lemma embed_trigger_run:
  assumes "services_ok S em (vc_embedder_size C) issued" "collection_ready Q info C (lb_db s)"
  shows "\<exists>s' u v now. embed_trigger S em C t s = (Inr (), s') \<and> collection_ready Q info C (lb_db s') \<and>
     u \<notin> issued (lb_ext s) \<and> issued (lb_ext s') = insert u (issued (lb_ext s)) \<and>
     collection_points info C (lb_db s') = (collection_points info C (lb_db s))
       (u \<mapsto> new_point u (tr_content t) v (Some (trigger_metadata t now)) None)"
proof -
  let ?now = "sv_time S (lb_ext s)"
  from services_okD(2) [OF assms(1)] obtain v x1 where v: "em_embed_documents em [tr_content t] (lb_ext s) = (Inr [v], x1)"
    "length v = vc_embedder_size C" "issued x1 = issued (lb_ext s)" by blast
  from services_okD(3) [OF assms(1)] obtain u x2 where u: "sv_uuid S x1 = (Inr u, x2)" "u \<notin> issued x1" "issued x2 = insert u (issued x1)"
    by blast
  let ?p = "new_point u (tr_content t) v (Some (trigger_metadata t ?now)) None"
  from coll.add_ok [OF assms(2) v(2), of u "tr_content t" "Some (trigger_metadata t ?now)" None] obtain q' where
    q': "add_point C u (tr_content t) v (Some (trigger_metadata t ?now)) None (lb_db s) = (Inr (Some ?p), q')"
      "collection_ready Q info C q'" "collection_points info C q' = (collection_points info C (lb_db s))(u \<mapsto> ?p)"
    by (auto simp: new_point_def)
  have "embed_trigger S em C t s = (Inr (), s\<lparr>lb_ext := x2, lb_db := q'\<rparr>)"
    using v(1) u(1) q'(1) by (simp add: embed_trigger_def bindM_def in_ext_def in_db_def first_vector_def)
  with u v q' show ?thesis
    by (intro exI [of _ "s\<lparr>lb_ext := x2, lb_db := q'\<rparr>"] exI [of _ u] exI [of _ v] exI [of _ ?now]) simp
qed

lemma embed_triggers_run:
  assumes "services_ok S em (vc_embedder_size C) issued" "collection_ready Q info C (lb_db s)"
    and "well_kept S (collection_points info C (lb_db s))" "dom (collection_points info C (lb_db s)) \<subseteq> issued (lb_ext s)"
    and "distinct (map trigger_hash ts)" "trigger_hash ` set ts \<inter> stored_hashes S (collection_points info C (lb_db s)) = {}"
  shows "\<exists>s'. forM ts (embed_trigger S em C) s = (Inr (), s') \<and> collection_ready Q info C (lb_db s') \<and>
     well_kept S (collection_points info C (lb_db s')) \<and> dom (collection_points info C (lb_db s')) \<subseteq> issued (lb_ext s') \<and>
     stored_hashes S (collection_points info C (lb_db s')) =
       trigger_hash ` set ts \<union> stored_hashes S (collection_points info C (lb_db s)) \<and>
     collection_points info C (lb_db s) \<subseteq>\<^sub>m collection_points info C (lb_db s')"
  using assms(2-)
proof (induction ts arbitrary: s)
  case (Cons t ts)
  let ?pts = "\<lambda>s. collection_points info C (lb_db s)"
  from embed_trigger_run [OF assms(1) Cons.prems(1), of t] obtain s1 u v now where
    s1: "embed_trigger S em C t s = (Inr (), s1)" "collection_ready Q info C (lb_db s1)" "u \<notin> issued (lb_ext s)"
      "issued (lb_ext s1) = insert u (issued (lb_ext s))"
      "?pts s1 = (?pts s)(u \<mapsto> new_point u (tr_content t) v (Some (trigger_metadata t now)) None)" by blast
  have fresh: "?pts s u = None" using s1(3) Cons.prems(3) by (auto simp: dom_def)
  have new: "trigger_hash t \<notin> stored_hashes S (?pts s)" using Cons.prems(5) by auto
  have kept: "well_kept S (?pts s1)" "stored_hashes S (?pts s1) = insert (trigger_hash t) (stored_hashes S (?pts s))"
    using well_kept_add [OF Cons.prems(2) fresh _ trigger_point_hash [of S u t v now] new]
    by (simp_all add: s1(5) new_point_def)
  have dom: "dom (?pts s1) \<subseteq> issued (lb_ext s1)" using Cons.prems(3) s1(4,5) by auto
  have rest: "distinct (map trigger_hash ts)" "trigger_hash ` set ts \<inter> stored_hashes S (?pts s1) = {}"
    using Cons.prems(4,5) kept(2) by auto
  from Cons.IH [OF s1(2) kept(1) dom rest] obtain s' where s': "forM ts (embed_trigger S em C) s1 = (Inr (), s')"
    "collection_ready Q info C (lb_db s')" "well_kept S (?pts s')" "dom (?pts s') \<subseteq> issued (lb_ext s')"
    "stored_hashes S (?pts s') = trigger_hash ` set ts \<union> stored_hashes S (?pts s1)" "?pts s1 \<subseteq>\<^sub>m ?pts s'" by blast
  have "forM (t # ts) (embed_trigger S em C) s = (Inr (), s')" using s'(1)
    by (simp add: bindM_Inr [where m = "embed_trigger S em C t", OF s1(1)])
  moreover have "stored_hashes S (?pts s') = trigger_hash ` set (t # ts) \<union> stored_hashes S (?pts s)"
    using s'(5) kept(2) by auto
  moreover have "?pts s \<subseteq>\<^sub>m ?pts s1" using fresh s1(5) by (auto simp: map_le_def)
  then have "?pts s \<subseteq>\<^sub>m ?pts s'" using s'(6) by (rule map_le_trans)
  ultimately show ?case using s' by blast
qed simp

text \<open>The index that the code builds from what it reads.\<close>

lemma read_index:
  assumes "collection_ready Q info C q" "well_kept S (collection_points info C q)"
    and "finite (dom (collection_points info C q))" "card (dom (collection_points info C q)) \<le> 10000"
  shows "\<exists>d. build_embedded_procedures_hashes S (fst (get_all_points C 10000 None q)) = Inr d \<and> dict_wf d \<and>
     set (keys d) = stored_hashes S (collection_points info C q) \<and>
     (\<forall>h k. map_of d h = Some k \<longleftrightarrow> (\<exists>p. collection_points info C q k = Some p \<and> point_hash S p = Inr h))"
proof -
  from assms(1) obtain i where i: "vc_client C = Q" "info q (vc_name C) = Some i" by (auto simp: collection_ready_def)
  have "set (fst (get_all_points C 10000 None q)) = ran (collection_points info C q)"
    using scroll [OF i(2), of 10000] assms(3,4) i by (simp add: get_all_points_def collection_points_def)
  from embedded_index [OF assms(2) this] show ?thesis
    by (fastforce simp: in_keys_iff stored_hashes_def)
qed

lemma delete_stale:
  assumes "collection_ready Q info C (lb_db s)" "well_kept S (collection_points info C (lb_db s))"
    and "\<forall>k p h. collection_points info C (lb_db s) k = Some p \<longrightarrow> point_hash S p = Inr h \<longrightarrow> (k \<in> set ids \<longleftrightarrow> h \<notin> A)"
  shows "\<exists>s'. delete_if_any C ids s = (Inr (), s') \<and>
     lb_ext s' = lb_ext s \<and> (ids = [] \<longrightarrow> s' = s) \<and> collection_ready Q info C (lb_db s') \<and>
     collection_points info C (lb_db s') = (\<lambda>k. if k \<in> set ids then None else collection_points info C (lb_db s) k) \<and>
     well_kept S (collection_points info C (lb_db s')) \<and>
     stored_hashes S (collection_points info C (lb_db s')) = stored_hashes S (collection_points info C (lb_db s)) \<inter> A"
proof -
  let ?pts = "collection_points info C (lb_db s)"
  obtain q' where q': "delete_points C ids (lb_db s) = (Inr (), q')" "collection_ready Q info C q'"
    "collection_points info C q' = (\<lambda>k. if k \<in> set ids then None else ?pts k)"
    using coll.del_ok [OF assms(1), of ids] by blast
  have kept: "well_kept S (\<lambda>k. if k \<in> set ids then None else ?pts k)"
    "stored_hashes S (\<lambda>k. if k \<in> set ids then None else ?pts k) = stored_hashes S ?pts \<inter> A"
    using well_kept_remove [OF assms(2), of "set ids" A] assms(3) by simp_all
  show ?thesis
  proof (cases "ids = []")
    case True
    then have "stored_hashes S ?pts \<subseteq> A" using assms(3) by (auto simp: stored_hashes_def)
    then show ?thesis using True assms(1,2) by (intro exI [of _ s]) (simp add: Int_absorb2 delete_if_any_def)
  next
    case False
    then show ?thesis using q' kept by (intro exI [of _ "s\<lparr>lb_db := q'\<rparr>"]) (simp add: in_db_def delete_if_any_def)
  qed
qed

lemma embed_procedures_run:
  assumes sv: "services_ok S em (vc_embedder_size C) issued"
    and ready: "collection_ready Q info C (lb_db s)"
    and kept: "well_kept S (collection_points info C (lb_db s))"
    and dom: "dom (collection_points info C (lb_db s)) \<subseteq> issued (lb_ext s)"
    and small: "finite (dom (collection_points info C (lb_db s)))" "card (dom (collection_points info C (lb_db s))) \<le> 10000"
  shows "\<exists>s'. embed_procedures S em C ps s = (Inr (), s') \<and> collection_ready Q info C (lb_db s') \<and>
     well_kept S (collection_points info C (lb_db s')) \<and> dom (collection_points info C (lb_db s')) \<subseteq> issued (lb_ext s') \<and>
     stored_hashes S (collection_points info C (lb_db s')) = active_hashes ps \<and>
     (\<forall>k p h. collection_points info C (lb_db s) k = Some p \<longrightarrow> point_hash S p = Inr h \<longrightarrow> h \<in> active_hashes ps \<longrightarrow>
        collection_points info C (lb_db s') k = Some p) \<and>
     (stored_hashes S (collection_points info C (lb_db s)) = active_hashes ps \<longrightarrow> s' = s)"
proof -
  let ?pts = "\<lambda>s. collection_points info C (lb_db s)"
  from read_index [OF ready kept small] obtain d where
    d: "build_embedded_procedures_hashes S (fst (get_all_points C 10000 None (lb_db s))) = Inr d" "dict_wf d"
      "set (keys d) = stored_hashes S (?pts s)"
      "\<And>h k. map_of d h = Some k \<longleftrightarrow> (\<exists>p. ?pts s k = Some p \<and> point_hash S p = Inr h)" by auto
  let ?a = "build_active_procedures_hashes ps"
  note a = active_index [of ps]
  let ?ids = "entries_of S d ?a"
  let ?ts = "entries_of S ?a d"
  have ids: "k \<in> set ?ids \<longleftrightarrow> h \<notin> active_hashes ps" if "?pts s k = Some p" "point_hash S p = Inr h" for k p h
    using that by (auto simp: set_entries_of [OF sv] d(4) a(2))
  then have "\<forall>k p h. ?pts s k = Some p \<longrightarrow> point_hash S p = Inr h \<longrightarrow> (k \<in> set ?ids \<longleftrightarrow> h \<notin> active_hashes ps)" by blast
  from delete_stale [OF ready kept this] obtain s1 where s1:
    "delete_if_any C ?ids s = (Inr (), s1)" "lb_ext s1 = lb_ext s"
    "?ids = [] \<longrightarrow> s1 = s" "collection_ready Q info C (lb_db s1)"
    "?pts s1 = (\<lambda>k. if k \<in> set ?ids then None else ?pts s k)" "well_kept S (?pts s1)"
    "stored_hashes S (?pts s1) = stored_hashes S (?pts s) \<inter> active_hashes ps" by blast
  have ts: "distinct (map trigger_hash ?ts)" "trigger_hash ` set ?ts = active_hashes ps - stored_hashes S (?pts s)"
    using entries_of_keys [OF sv a(1), of trigger_hash d] a(2,3) d(3) by auto
  have dom1: "dom (?pts s1) \<subseteq> issued (lb_ext s1)" using dom s1(2,5) by (auto split: if_splits)
  have "trigger_hash ` set ?ts \<inter> stored_hashes S (?pts s1) = {}" using ts(2) s1(7) by auto
  from embed_triggers_run [OF sv s1(4,6) dom1 ts(1) this] obtain s' where s': "forM ?ts (embed_trigger S em C) s1 = (Inr (), s')" "collection_ready Q info C (lb_db s')"
    "well_kept S (?pts s')" "dom (?pts s') \<subseteq> issued (lb_ext s')"
    "stored_hashes S (?pts s') = trigger_hash ` set ?ts \<union> stored_hashes S (?pts s1)" "?pts s1 \<subseteq>\<^sub>m ?pts s'" by blast
  have run: "embed_procedures S em C ps s = (Inr (), s')"
    using s'(1) by (simp add: embed_procedures_def Let_def d(1) bindM_Inr [where m = "delete_if_any C ?ids", OF s1(1)])
  have "stored_hashes S (?pts s') = active_hashes ps" using s'(5) ts(2) s1(7) by auto
  moreover have "?pts s' k = Some p" if "?pts s k = Some p" "point_hash S p = Inr h" "h \<in> active_hashes ps" for k p h
  proof -
    have "?pts s1 k = Some p" using that s1(5) ids [OF that(1,2)] by simp
    then show ?thesis using s'(6) by (force simp: map_le_def)
  qed
  moreover have "s' = s" if "stored_hashes S (?pts s) = active_hashes ps"
  proof -
    have "set ?ids = {}" using that d(3) by (auto simp: set_entries_of [OF sv] a(2) in_keys_iff)
    moreover have "set ?ts = {}" using ts(2) that by auto
    ultimately show ?thesis using s1(3) s'(1) by simp
  qed
  ultimately show ?thesis using run s' by blast
qed

end

subsection \<open>Endpoints\<close>

lemma activate_routes:
  "set (mc_routes mc) \<subseteq> set (mc_routes (CustomEndpoint_activate H e mc))"
  "ho_include_router H e \<Longrightarrow> \<exists>r \<in> set (mc_routes (CustomEndpoint_activate H e mc)). rt_path r = ep_name e"
  by (auto simp: CustomEndpoint_activate_def Let_def route_matches_def)

lemma fold_activate_routes:
  assumes "\<And>e. ho_include_router H e"
  shows "set (mc_routes mc) \<subseteq> set (mc_routes (fold (\<lambda>e mc. if P e then CustomEndpoint_activate H e mc else mc) es mc)) \<and>
    (\<forall>e \<in> set es. P e \<longrightarrow>
      (\<exists>r \<in> set (mc_routes (fold (\<lambda>e mc. if P e then CustomEndpoint_activate H e mc else mc) es mc)). rt_path r = ep_name e))"
proof (induction es arbitrary: mc)
  case (Cons e es)
  let ?mc = "if P e then CustomEndpoint_activate H e mc else mc"
  have "set (mc_routes mc) \<subseteq> set (mc_routes ?mc)" using activate_routes(1) [of mc H e] by simp
  moreover have "P e \<Longrightarrow> \<exists>r \<in> set (mc_routes ?mc). rt_path r = ep_name e" using activate_routes(2) [OF assms] by simp
  ultimately show ?case using Cons.IH [of ?mc] by fastforce
qed simp

lemma fold_activate_own:
  "mc_own (fold (\<lambda>e mc. if P e then CustomEndpoint_activate H e mc else mc) es mc) = mc_own mc"
  by (induction es arbitrary: mc) (auto simp: CustomEndpoint_activate_def Let_def)

text \<open>The invariant of the procedural collection.\<close>

definition lab_ok ::
  "'x services \<Rightarrow> 'q qdrant \<Rightarrow> ('q \<Rightarrow> string \<Rightarrow> coll_info option) \<Rightarrow> 'q collection \<Rightarrow> ('x \<Rightarrow> string set) \<Rightarrow> ('q, 'x) lab \<Rightarrow> bool" where
  "lab_ok S Q info C issued w \<longleftrightarrow>
     collection_ready Q info C (lb_db w) \<and> well_kept S (collection_points info C (lb_db w)) \<and>
     dom (collection_points info C (lb_db w)) \<subseteq> issued (lb_ext w)"

definition lab_small :: "('q \<Rightarrow> string \<Rightarrow> coll_info option) \<Rightarrow> 'q collection \<Rightarrow> ('q, 'x) lab \<Rightarrow> bool" where
  "lab_small info C w \<longleftrightarrow> finite (dom (collection_points info C (lb_db w))) \<and>
     card (dom (collection_points info C (lb_db w))) \<le> 10000"

lemma lab_sync:
  assumes "qdrant_db Q info sat" "services_ok S em (vc_embedder_size C) issued"
    and "lab_ok S Q info C issued w" "lab_small info C w"
  shows "\<exists>w'. embed_procedures S em C ps w = (Inr (), w') \<and> lab_ok S Q info C issued w' \<and>
     stored_hashes S (collection_points info C (lb_db w')) = active_hashes ps \<and>
     (\<forall>k p h. collection_points info C (lb_db w) k = Some p \<longrightarrow> point_hash S p = Inr h \<longrightarrow> h \<in> active_hashes ps \<longrightarrow>
        collection_points info C (lb_db w') k = Some p) \<and>
     (stored_hashes S (collection_points info C (lb_db w)) = active_hashes ps \<longrightarrow> w' = w)"
  using qdrant_db.embed_procedures_run [OF assms(1,2), of w ps] assms(3,4) unfolding lab_ok_def lab_small_def by blast

text \<open>The callback is one of those the plugin manager's invariant allows: it leaves the registry alone.\<close>

lemma callback_same_registry: "stepsM same_registry (on_finish_plugins_sync_callback S em C H)"
  by (rule stepsMI)
    (simp add: on_finish_plugins_sync_callback_def activate_endpoints_def bindM_apply in_lab_def case_prod_beta
      same_registry_def, blast)

subsection \<open>Properties\<close>

text \<open>
  (C8) Synchronising the procedural memory. From a well kept collection of at most 10000 points,
  \<open>embed_procedures\<close> returns and leaves a well kept collection that holds exactly one point for every
  trigger of the active tools and forms and no other point. Points that were already right are kept
  with their identifier and are not embedded again; when nothing changed it changes nothing.
\<close>

theorem embed_procedures_syncs:
  assumes "qdrant_db Q info sat" "services_ok S em (vc_embedder_size C) issued"
    and "lab_ok S Q info C issued w" "lab_small info C w"
  shows "\<exists>w'. embed_procedures S em C ps w = (Inr (), w') \<and> lab_ok S Q info C issued w' \<and>
     stored_hashes S (collection_points info C (lb_db w')) = active_hashes ps \<and>
     (\<forall>k p h. collection_points info C (lb_db w) k = Some p \<longrightarrow> point_hash S p = Inr h \<longrightarrow> h \<in> active_hashes ps \<longrightarrow>
        collection_points info C (lb_db w') k = Some p) \<and>
     (stored_hashes S (collection_points info C (lb_db w)) = active_hashes ps \<longrightarrow> w' = w)"
  by (rule lab_sync [OF assms])


subsection \<open>Witnesses\<close>

definition demo_services :: "nat services" where
  "demo_services =
     \<lparr>sv_time = (\<lambda>x. 0), sv_uuid = (\<lambda>n. (Inr (replicate (Suc n) CHR ''u''), Suc n)), sv_set_order = (\<lambda>xs. xs),
      sv_str = (\<lambda>v. ''?'')\<rparr>"

definition demo_issued :: "nat \<Rightarrow> string set" where
  "demo_issued n = (\<lambda>i. replicate (Suc i) CHR ''u'') ` {..<n}"

definition demo_embedder :: "nat embedder" where
  "demo_embedder =
     \<lparr>em_class = ''DumbEmbedder'', em_model = None, em_repo_id = None, em_embed_query = (\<lambda>t x. (Inr [1, 0], x)),
      em_embed_documents = (\<lambda>ts x. (Inr (map (\<lambda>t. [1, 0]) ts), x))\<rparr>"

definition demo_procedural :: "lstore collection" where
  "demo_procedural =
     \<lparr>vc_client = list_qdrant, vc_name = ''procedural'', vc_embedder_name = ''dumb'', vc_embedder_size = 2\<rparr>"

text \<open>A collection that still has a trigger of a plugin that is gone.\<close>

definition demo_lab :: "(lstore, nat) lab" where
  "demo_lab =
     \<lparr>lb_db = [(''procedural'', \<lparr>lc_size = 2, lc_aliases = [''dumb_procedural''],
        lc_points = [(''u'', \<lparr>pt_id = ''u'', pt_page_content = ''pour tea'',
          pt_metadata = Some [(''source'', PStr ''teapot'')], pt_vector = [0, 1]\<rparr>)]\<rparr>)],
      lb_ext = 1\<rparr>"

definition clock_tool :: "unit cat_tool" where
  "clock_tool =
     \<lparr>tl_func = (\<lambda>i. retM ''late''), tl_name = ''clock'', tl_description = ''Tells the time'', tl_return_direct = False,
      tl_triggers_map = [(''description'', [''clock: Tells the time'']), (''start_example'', [''what time is it''])],
      tl_signature = ''(i)'', tl_plugin_id = ''cheese''\<rparr>"

lemma demo_services_ok: "services_ok demo_services demo_embedder (vc_embedder_size demo_procedural) demo_issued"
  by (auto simp: services_ok_def demo_services_def demo_embedder_def demo_procedural_def demo_issued_def lessThan_Suc
      dest: arg_cong [where f = length])

lemma demo_lab_points: "collection_points linfo demo_procedural (lb_db demo_lab) =
   [''u'' \<mapsto> \<lparr>pt_id = ''u'', pt_page_content = ''pour tea'', pt_metadata = Some [(''source'', PStr ''teapot'')], pt_vector = [0, 1]\<rparr>]"
  by (auto simp: collection_points_def demo_procedural_def demo_lab_def linfo_def fun_eq_iff)

lemma demo_lab_ok: "lab_ok demo_services list_qdrant linfo demo_procedural demo_issued demo_lab"
  "lab_small linfo demo_procedural demo_lab"
proof -
  have "collection_ready list_qdrant linfo demo_procedural (lb_db demo_lab)"
    by (simp add: collection_ready_def demo_procedural_def demo_lab_def linfo_def)
  then show "lab_ok demo_services list_qdrant linfo demo_procedural demo_issued demo_lab"
    by (auto simp: lab_ok_def well_kept_def demo_lab_points point_hash_def item_def demo_issued_def split: if_splits)
      (simp add: demo_lab_def)
  show "lab_small linfo demo_procedural demo_lab" by (simp add: lab_small_def demo_lab_points)
qed

theorem embed_procedures_syncs_witness:
  "\<exists>w'. embed_procedures demo_services demo_embedder demo_procedural [Inl clock_tool :: unit cat_tool + unit form_class] demo_lab =
       (Inr (), w') \<and>
     stored_hashes demo_services (collection_points linfo demo_procedural (lb_db w')) =
       {''clock.description.clock: Tells the time'', ''clock.start_example.what time is it''}"
proof -
  have "active_hashes [Inl clock_tool :: unit cat_tool + unit form_class] =
      {''clock.description.clock: Tells the time'', ''clock.start_example.what time is it''}"
    by (simp add: active_hashes_def triggers_def triggers_map_def procedure_name_def procedure_type_def clock_tool_def
        trigger_hash_def hash_text_def)
  moreover obtain w' where "embed_procedures demo_services demo_embedder demo_procedural
      [Inl clock_tool :: unit cat_tool + unit form_class] demo_lab = (Inr (), w')"
    "stored_hashes demo_services (collection_points linfo demo_procedural (lb_db w')) =
      active_hashes [Inl clock_tool :: unit cat_tool + unit form_class]"
    using embed_procedures_syncs [OF list_qdrant.qdrant_db_axioms demo_services_ok demo_lab_ok,
        of "[Inl clock_tool :: unit cat_tool + unit form_class]"] by blast
  ultimately show ?thesis by (intro exI [of _ w']) simp
qed

definition demo_lab_env :: "((lstore, nat) lab, unit, unit, unit, setting list) hatter_env" where
  "demo_lab_env =
     \<lparr>he_host = quiet_host, he_table = list_table, he_uuid = ''s9'', he_now = 0,
      he_callback = on_finish_plugins_sync_callback demo_services demo_embedder demo_procedural quiet_host\<rparr>"

definition demo_lab_hatter :: "((lstore, nat) lab, unit, unit, unit, setting list) hatter" where
  "demo_lab_hatter =
     \<lparr>mh_plugins = [(''cheese'', cheese_plugin\<lparr>pl_tools := [clock_tool]\<rparr>)],
      mh_hooks = [], mh_tools = [], mh_forms = [], mh_endpoints = [], mh_active = [''cheese''],
      mh_machine = \<lparr>mc_disk = [], mc_modules = {}, mc_routes = [], mc_bound = {}, mc_own = demo_lab\<rparr>, mh_db = []\<rparr>"


end
