(* ===== verification/Rabbit_Hole.thy ===== *)
theory Rabbit_Hole
  imports Stray_Cat Procedures
begin

text \<open>
  Ingestion of documents: \<open>core/cat/rabbit_hole.py\<close> and the endpoints of \<open>core/cat/routes/upload.py\<close>.

  The rabbit hole works on the state of the user's \<open>StrayCat\<close>. What it gets from other packages (MIME types,
  URLs, HTTP, files, parsers, text splitters, JSON and the batch upload of Qdrant) is the record
  \<open>burrow\<close>. Bytes are strings, floating point numbers are reals, and sleeping takes no time of the
  model. The hooks that give the parsers and the splitter get the \<open>CheshireCat\<close> in the source; here
  they run on the same state as all hooks.
\<close>

subsection \<open>Data and parameters\<close>

datatype upload = Upload (up_filename: string) (up_bytes: string) | Location string

record ('q, 'x) burrow =
  bu_guess_type :: "string \<Rightarrow> string option"
  bu_urlparse :: "string \<Rightarrow> string \<times> string"
  bu_get :: "string \<Rightarrow> ('x, string option \<times> string) comp"
  bu_head :: "string \<Rightarrow> ('x, int option) comp"
  bu_basename :: "string \<Rightarrow> string"
  bu_read :: "string \<Rightarrow> ('x, string) comp"
  bu_parse :: "(string, nat) dict \<Rightarrow> string \<Rightarrow> string option \<Rightarrow> string \<Rightarrow> ('x, document list) comp"
  bu_split :: "splitter \<Rightarrow> document list \<Rightarrow> document list result"
  bu_loads :: "string \<Rightarrow> pyval result"
  bu_embedder_class :: string
  bu_point_id :: "pyval \<Rightarrow> string result"
  bu_upsert_batch :: "string \<Rightarrow> point list \<Rightarrow> ('q, unit) comp"

definition as_documents :: "tea \<Rightarrow> document list result" where
  "as_documents t = (case t of TDocuments ds \<Rightarrow> Inr ds | _ \<Rightarrow> Inl (Exn ''TypeError'' ''not a list of documents''))"

definition as_document :: "tea \<Rightarrow> document result" where
  "as_document t = (case t of TDocument d \<Rightarrow> Inr d | _ \<Rightarrow> Inl (Exn ''AttributeError'' ''page_content''))"

definition declarative :: "('w, 'db, 'q, 'x) cheshire \<Rightarrow> 'q collection result" where
  "declarative K = lookup_exn (Exn ''AttributeError'' ''declarative'') (map_of (vm_collections (cc_memory K)) ''declarative'')"

subsection \<open>Parsers and splitter\<close>

definition default_file_handlers :: "(string, nat) dict" where
  "default_file_handlers = [(''application/pdf'', 0), (''text/plain'', 1), (''text/markdown'', 1), (''text/html'', 2)]"

definition file_handlers :: "('w, 'db, 'q, 'x) cheshire \<Rightarrow> ('q, 'x, (string, nat) dict) stray_comp" where
  "file_handlers K =
     bindM (pipe K ''rabbithole_instantiates_parsers'' (THandlers default_file_handlers)) (\<lambda>t.
     liftM (case t of THandlers h \<Rightarrow> Inr h | _ \<Rightarrow> Inl (Exn ''ValidationError'' ''handlers'')))"

definition default_text_splitter :: splitter where
  "default_text_splitter = \<lparr>spl_id = 0, spl_chunk_size = 256, spl_chunk_overlap = 64\<rparr>"

definition text_splitter :: "('w, 'db, 'q, 'x) cheshire \<Rightarrow> ('q, 'x, splitter) stray_comp" where
  "text_splitter K =
     bindM (pipe K ''rabbithole_instantiates_splitter'' (TSplitter default_text_splitter)) (\<lambda>t.
     liftM (case t of TSplitter sp \<Rightarrow> Inr sp | _ \<Rightarrow> Inl (Exn ''AttributeError'' ''split_documents'')))"

text \<open>\<open>if chunk_size:\<close> is false for \<open>None\<close> and for 0.\<close>

definition override_sizes :: "int option \<Rightarrow> int option \<Rightarrow> splitter \<Rightarrow> splitter" where
  "override_sizes chunk_size chunk_overlap sp =
     (let sp = (case chunk_size of Some n \<Rightarrow> if n \<noteq> 0 then sp\<lparr>spl_chunk_size := n\<rparr> else sp | None \<Rightarrow> sp)
      in case chunk_overlap of Some n \<Rightarrow> if n \<noteq> 0 then sp\<lparr>spl_chunk_overlap := n\<rparr> else sp | None \<Rightarrow> sp)"

definition split_text ::
  "('q, 'x) burrow \<Rightarrow> ('w, 'db, 'q, 'x) cheshire \<Rightarrow> document list \<Rightarrow> int option \<Rightarrow> int option \<Rightarrow>
   ('q, 'x, document list) stray_comp" where
  "split_text U K txt chunk_size chunk_overlap =
     bindM (pipe K ''before_rabbithole_splits_text'' (TDocuments txt)) (\<lambda>t.
     bindM (text_splitter K) (\<lambda>sp.
     bindM (liftM (bindR (as_documents t) (bu_split U (override_sizes chunk_size chunk_overlap sp)))) (\<lambda>docs.
     bindM (pipe K ''after_rabbithole_splitted_text'' (TDocuments (filter (\<lambda>d. 10 < length (page_content d)) docs))) (\<lambda>t.
     liftM (as_documents t)))))"

definition string_to_docs ::
  "('q, 'x) burrow \<Rightarrow> ('w, 'db, 'q, 'x) cheshire \<Rightarrow> string \<Rightarrow> string \<Rightarrow> string option \<Rightarrow> int option \<Rightarrow> int option \<Rightarrow>
   ('q, 'x, document list) stray_comp" where
  "string_to_docs U K file_bytes source content_type chunk_size chunk_overlap =
     bindM (file_handlers K) (\<lambda>handlers.
     bindM (send_ws_message K (PStr ''I'm parsing the content. Big content could require some minutes...'') ''notification'') (\<lambda>_.
     bindM (on_ext (bu_parse U handlers file_bytes content_type source)) (\<lambda>super_docs.
     bindM (send_ws_message K (PStr ''Parsing completed. Now let's go with reading process...'') ''notification'') (\<lambda>_.
     split_text U K super_docs chunk_size chunk_overlap))))"

text \<open>The content type of a response without its parameters.\<close>

definition header_type :: "string option \<Rightarrow> string result" where
  "header_type h = bindR (lookup_exn (Exn ''KeyError'' ''Content-Type'') h) (\<lambda>s. Inr (hd (split_char (CHR '';'') s)))"

definition file_to_docs ::
  "('q, 'x) burrow \<Rightarrow> ('w, 'db, 'q, 'x) cheshire \<Rightarrow> upload \<Rightarrow> int option \<Rightarrow> int option \<Rightarrow>
   ('q, 'x, document list) stray_comp" where
  "file_to_docs U K file chunk_size chunk_overlap =
     bindM (case file of
         Upload filename content \<Rightarrow> retM (content, filename, bu_guess_type U filename)
       | Location loc \<Rightarrow>
           (let (scheme, netloc) = bu_urlparse U loc in
            if scheme \<noteq> [] \<and> netloc \<noteq> [] then
              bindM (on_ext (bu_get U loc)) (\<lambda>(header, content).
              bindM (liftM (header_type header)) (\<lambda>content_type.
              retM (content, loc, Some content_type)))
            else
              bindM (on_ext (bu_read U loc)) (\<lambda>content.
              retM (content, bu_basename U loc, bu_guess_type U loc))))
     (\<lambda>(file_bytes, source, content_type). string_to_docs U K file_bytes source content_type chunk_size chunk_overlap)"

subsection \<open>Storing\<close>

definition default_metadata :: "string \<Rightarrow> real \<Rightarrow> json \<Rightarrow> document \<Rightarrow> document" where
  "default_metadata source now custom doc =
     doc\<lparr>metadata := dict_merge (AList.update ''when'' (PFloat now) (AList.update ''source'' (PStr source) (metadata doc))) custom\<rparr>"

definition read_message :: "nat \<Rightarrow> nat \<Rightarrow> string \<Rightarrow> string" where
  "read_message d n_docs source =
     ''Read '' @ str_int \<lfloor>real d / real n_docs * 100\<rfloor> @ ''% of '' @ source"

definition store_document ::
  "('w, 'db, 'q, 'x) cheshire \<Rightarrow> 'q collection \<Rightarrow> document \<Rightarrow> ('q, 'x, point option) stray_comp" where
  "store_document K C doc =
     bindM (on_ext (cc_embed_documents K [page_content doc])) (\<lambda>doc_embedding.
     bindM (liftM (first_vector doc_embedding)) (\<lambda>vec.
     bindM (on_ext (cc_uuid K)) (\<lambda>uuid.
     on_db (add_point C uuid (page_content doc) vec (Some (metadata doc)) None))))"

text \<open>One round of the loop; it returns the time of the last notification and the points stored so far.\<close>

definition store_round ::
  "('w, 'db, 'q, 'x) cheshire \<Rightarrow> string \<Rightarrow> json \<Rightarrow> nat \<Rightarrow> nat \<Rightarrow> document \<Rightarrow> real \<times> point option list \<Rightarrow>
   ('q, 'x, real \<times> point option list) stray_comp" where
  "store_round K source custom n_docs d doc = (\<lambda>(last_notification, stored_points).
     bindM (time_time K) (\<lambda>now.
     bindM (if now - last_notification > 10 then
              bindM (time_time K) (\<lambda>t.
              bindM (send_ws_message K (PStr (read_message d n_docs source)) ''notification'') (\<lambda>_. retM t))
            else retM last_notification) (\<lambda>last'.
     bindM (time_time K) (\<lambda>now.
     bindM (pipe K ''before_rabbithole_insert_memory'' (TDocument (default_metadata source now custom doc))) (\<lambda>t.
     bindM (liftM (as_document t)) (\<lambda>doc'.
       if page_content doc' \<noteq> [] then
         bindM (liftM (declarative K)) (\<lambda>C.
         bindM (store_document K C doc') (\<lambda>stored_point.
         retM (last', stored_points @ [stored_point])))
       else retM (last', stored_points)))))))"

fun store_loop ::
  "('w, 'db, 'q, 'x) cheshire \<Rightarrow> string \<Rightarrow> json \<Rightarrow> nat \<Rightarrow> nat \<Rightarrow> document list \<Rightarrow> real \<times> point option list \<Rightarrow>
   ('q, 'x, point option list) stray_comp" where
  "store_loop K source custom n_docs d [] acc = retM (snd acc)"
| "store_loop K source custom n_docs d (doc # docs) acc =
     bindM (store_round K source custom n_docs d doc acc) (store_loop K source custom n_docs (Suc d) docs)"

definition finished_reading :: "string \<Rightarrow> nat \<Rightarrow> string" where
  "finished_reading source n_docs =
     ''Finished reading '' @ source @ '', I made '' @ str_int (int n_docs) @ '' thoughts on it.''"

definition store_documents ::
  "('w, 'db, 'q, 'x) cheshire \<Rightarrow> document list \<Rightarrow> string \<Rightarrow> json \<Rightarrow> ('q, 'x, unit) stray_comp" where
  "store_documents K docs source custom =
     bindM (pipe K ''before_rabbithole_stores_documents'' (TDocuments docs)) (\<lambda>t.
     bindM (time_time K) (\<lambda>time_last_notification.
     bindM (liftM (as_documents t)) (\<lambda>docs'.
     bindM (store_loop K source custom (length docs') 0 docs' (time_last_notification, [])) (\<lambda>stored_points.
     bindM (execute_hook (cc_hatter K) ''after_rabbithole_stored_documents'' [TText source, TPoints stored_points]) (\<lambda>_.
     send_ws_message K (PStr (finished_reading source (length docs'))) ''notification'')))))"

definition ingest_file ::
  "('q, 'x) burrow \<Rightarrow> ('w, 'db, 'q, 'x) cheshire \<Rightarrow> upload \<Rightarrow> int option \<Rightarrow> int option \<Rightarrow> json \<Rightarrow> ('q, 'x, unit) stray_comp" where
  "ingest_file U K file chunk_size chunk_overlap custom =
     bindM (file_to_docs U K file chunk_size chunk_overlap) (\<lambda>docs.
     store_documents K docs (case file of Location loc \<Rightarrow> loc | Upload filename _ \<Rightarrow> filename) custom)"

subsection \<open>Memories from a file\<close>

text \<open>
  An exported memory: its text is a string, its metadata a dictionary or \<open>None\<close> and its vector a list
  of numbers, which is what the Batch model of Qdrant asks of the vector; other texts and metadata do not occur in exports
  and are refused here.
\<close>

definition as_float :: "pyval \<Rightarrow> real result" where
  "as_float v = (case v of PFloat r \<Rightarrow> Inr r | PInt i \<Rightarrow> Inr (of_int i) | _ \<Rightarrow> Inl (Exn ''ValidationError'' ''vectors''))"

definition entry :: "string \<Rightarrow> pyval \<Rightarrow> pyval result" where
  "entry k m = bindR (as_dict m) (\<lambda>d. item d k)"

definition as_metadata :: "pyval \<Rightarrow> json option result" where
  "as_metadata v = (case v of PNone \<Rightarrow> Inr None | PDict d \<Rightarrow> Inr (Some d) | _ \<Rightarrow> Inl (Exn ''ValidationError'' ''payloads''))"

definition batch_point :: "('q, 'x) burrow \<Rightarrow> (pyval \<times> (pyval \<times> pyval)) \<times> pyval list \<Rightarrow> point result" where
  "batch_point U = (\<lambda>((i, content, md), vec).
     bindR (bu_point_id U i) (\<lambda>pid.
     bindR (as_str content) (\<lambda>txt.
     bindR (as_metadata md) (\<lambda>m.
     bindR (mapR as_float vec) (\<lambda>v.
     Inr \<lparr>pt_id = pid, pt_page_content = txt, pt_metadata = m, pt_vector = v\<rparr>)))))"

definition ingest_memory ::
  "('q, 'x) burrow \<Rightarrow> ('w, 'db, 'q, 'x) cheshire \<Rightarrow> upload \<Rightarrow> ('q, 'x, unit) stray_comp" where
  "ingest_memory U K file =
     bindM (liftM (bindR (bu_loads U (up_bytes file)) as_dict)) (\<lambda>memories.
     bindM (liftM (item memories ''embedder'')) (\<lambda>upload_embedder.
       if upload_embedder \<noteq> PStr (bu_embedder_class U) then
         raiseM (Exn ''Exception'' (''Embedder mismatch: file embedder '' @
           (case upload_embedder of PStr s \<Rightarrow> s | _ \<Rightarrow> cc_str K upload_embedder) @ '' is different from '' @ bu_embedder_class U))
       else
         bindM (liftM (bindR (item memories ''collections'') (\<lambda>c. bindR (entry ''declarative'' c) as_list))) (\<lambda>declarative_memories.
         bindM (liftM (mapR (entry ''id'') declarative_memories)) (\<lambda>ids.
         bindM (liftM (mapR (\<lambda>p. bindR (entry ''page_content'' p) (\<lambda>c. bindR (entry ''metadata'' p) (\<lambda>m. Inr (c, m)))) declarative_memories)) (\<lambda>payloads.
         bindM (liftM (mapR (\<lambda>v. bindR (entry ''vector'' v) as_list) declarative_memories)) (\<lambda>vectors.
         bindM (liftM (declarative K)) (\<lambda>C.
           if \<not> list_ex (\<lambda>v. length v = vc_embedder_size C) vectors then
             raiseM (Exn ''Exception'' (''Embedding size mismatch: vectors length should be '' @
               str_int (int (vc_embedder_size C))))
           else
             bindM (liftM (mapR (batch_point U) (zip (zip ids payloads) vectors))) (\<lambda>points.
             on_db (bu_upsert_batch U ''declarative'' points)))))))))"

subsection \<open>Upload endpoints\<close>

text \<open>
  An endpoint answers and leaves background tasks, which run one after the other once the answer was sent;
  an endpoint that raises leaves none. A \<open>HEAD\<close> request gives \<open>None\<close> when the URL cannot be reached. Metadata that
  is JSON but not an object is refused at once here, in the source the ingestion fails on it.
\<close>

datatype task = IngestFile upload "int option" "int option" json | IngestMemory upload

fun run_task :: "('q, 'x) burrow \<Rightarrow> ('w, 'db, 'q, 'x) cheshire \<Rightarrow> task \<Rightarrow> ('q, 'x, unit) stray_comp" where
  "run_task U K (IngestFile file chunk_size chunk_overlap md) = ingest_file U K file chunk_size chunk_overlap md"
| "run_task U K (IngestMemory file) = ingest_memory U K file"

definition run_tasks :: "('q, 'x) burrow \<Rightarrow> ('w, 'db, 'q, 'x) cheshire \<Rightarrow> task list \<Rightarrow> ('q, 'x, unit) stray_comp" where
  "run_tasks U K tasks = forM tasks (run_task U K)"

definition unsupported_type :: "string option \<Rightarrow> string \<Rightarrow> exn" where
  "unsupported_type content_type admitted =
     HTTPException 400 (PDict [(''error'', PStr (''MIME type '' @ (case content_type of None \<Rightarrow> ''None'' | Some t \<Rightarrow> t) @
       '' not supported. Admitted types: '' @ admitted))])"

definition upload_answer :: "upload \<Rightarrow> pyval \<Rightarrow> string \<Rightarrow> json" where
  "upload_answer file declared_type info =
     [(''filename'', PStr (up_filename file)), (''content_type'', declared_type), (''info'', PStr info)]"

definition upload_file ::
  "('q, 'x) burrow \<Rightarrow> ('w, 'db, 'q, 'x) cheshire \<Rightarrow> upload \<times> pyval \<Rightarrow> int option \<Rightarrow> int option \<Rightarrow> string \<Rightarrow>
   ('q, 'x, json \<times> task list) stray_comp" where
  "upload_file U K = (\<lambda>(file, declared_type) chunk_size chunk_overlap md.
     bindM (file_handlers K) (\<lambda>admitted_types.
     let content_type = bu_guess_type U (up_filename file) in
       if content_type \<notin> Some ` set (keys admitted_types) then
         raiseM (unsupported_type content_type (join '' - '' (keys admitted_types)))
       else
         bindM (liftM (bindR (bu_loads U md) as_dict)) (\<lambda>m.
         retM (upload_answer file declared_type ''File is being ingested asynchronously'',
           [IngestFile file chunk_size chunk_overlap m]))))"

fun upload_each ::
  "('q, 'x) burrow \<Rightarrow> (string, nat) dict \<Rightarrow> int option \<Rightarrow> int option \<Rightarrow> json \<Rightarrow> (upload \<times> pyval) list \<Rightarrow>
   json \<Rightarrow> task list \<Rightarrow> (json \<times> task list) result" where
  "upload_each U admitted chunk_size chunk_overlap mds [] response tasks = Inr (response, tasks)"
| "upload_each U admitted chunk_size chunk_overlap mds ((file, declared_type) # files) response tasks =
     (let content_type = bu_guess_type U (up_filename file) in
      if content_type \<notin> Some ` set (keys admitted) then
        Inl (unsupported_type content_type (join '' - '' (keys admitted)))
      else
        bindR (case map_of mds (up_filename file) of None \<Rightarrow> Inr [] | Some m \<Rightarrow> as_dict m) (\<lambda>m.
        upload_each U admitted chunk_size chunk_overlap mds files
          (AList.update (up_filename file)
            (PDict (upload_answer file declared_type ''File is being ingested asynchronously'')) response)
          (tasks @ [IngestFile file chunk_size chunk_overlap m])))"

definition upload_files ::
  "('q, 'x) burrow \<Rightarrow> ('w, 'db, 'q, 'x) cheshire \<Rightarrow> (upload \<times> pyval) list \<Rightarrow> int option \<Rightarrow> int option \<Rightarrow> string \<Rightarrow>
   ('q, 'x, json \<times> task list) stray_comp" where
  "upload_files U K files chunk_size chunk_overlap md =
     bindM (file_handlers K) (\<lambda>admitted_types.
     bindM (liftM (bindR (bu_loads U md) as_dict)) (\<lambda>metadata_dict.
     liftM (upload_each U admitted_types chunk_size chunk_overlap metadata_dict files [] [])))"

definition upload_url ::
  "('q, 'x) burrow \<Rightarrow> string \<Rightarrow> int option \<Rightarrow> int option \<Rightarrow> json \<Rightarrow> ('q, 'x, json \<times> task list) stray_comp" where
  "upload_url U url chunk_size chunk_overlap md =
     bindM (on_ext (bu_head U url)) (\<lambda>status.
       case status of
         None \<Rightarrow> raiseM (HTTPException 400 (PDict [(''error'', PStr ''Unable to reach the URL''), (''url'', PStr url)]))
       | Some code \<Rightarrow>
           if code = 200 then
             retM ([(''url'', PStr url), (''info'', PStr ''URL is being ingested asynchronously'')],
               [IngestFile (Location url) chunk_size chunk_overlap md])
           else raiseM (HTTPException 400 (PDict [(''error'', PStr ''Invalid URL''), (''url'', PStr url)])))"

definition upload_memory :: "('q, 'x) burrow \<Rightarrow> upload \<times> pyval \<Rightarrow> ('q, 'x, json \<times> task list) stray_comp" where
  "upload_memory U = (\<lambda>(file, declared_type).
     let content_type = bu_guess_type U (up_filename file) in
     if content_type \<noteq> Some ''application/json'' then
       raiseM (unsupported_type content_type ([CHR 0x27] @ ''application/json'' @ [CHR 0x27]))
     else retM (upload_answer file declared_type ''Memory is being ingested asynchronously'', [IngestMemory file]))"

definition get_allowed_mimetypes :: "('w, 'db, 'q, 'x) cheshire \<Rightarrow> ('q, 'x, json) stray_comp" where
  "get_allowed_mimetypes K =
     bindM (file_handlers K) (\<lambda>h. retM [(''allowed'', PList (map PStr (keys h)))])"

subsection \<open>Ingesting with the core hooks\<close>

definition rabbithole_hooks :: "string list" where
  "rabbithole_hooks =
     [''rabbithole_instantiates_parsers'', ''rabbithole_instantiates_splitter'', ''before_rabbithole_splits_text'',
      ''after_rabbithole_splitted_text'', ''before_rabbithole_stores_documents'', ''before_rabbithole_insert_memory'',
      ''after_rabbithole_stored_documents'']"

definition quiet_rabbithole :: "('w, 'c, 'v, 'f, 'db) hatter \<Rightarrow> bool" where
  "quiet_rabbithole mh \<longleftrightarrow> (\<forall>n \<in> set rabbithole_hooks. quiet_at mh n)"

lemma rabbithole_bind:
  assumes "quiet_rabbithole (cc_hatter K)" "n \<in> set rabbithole_hooks"
  shows "bindM (pipe K n cup) f c = f cup c" "bindM (execute_hook (cc_hatter K) n (cup # args)) g c = g (Some cup) c"
  using assms by (simp_all add: quiet_rabbithole_def quiet_at_bind quiet_at_execute)

text \<open>The services of the cat: embeddings of the right size, new identifiers, a websocket that takes messages.\<close>

definition reader_ok :: "('w, 'db, 'q, 'x) cheshire \<Rightarrow> nat \<Rightarrow> ('x \<Rightarrow> string set) \<Rightarrow> bool" where
  "reader_ok K width issued \<longleftrightarrow>
     (\<forall>t x. \<exists>v x'. cc_embed_documents K [t] x = (Inr [v], x') \<and> length v = width \<and> issued x' = issued x) \<and>
     (\<forall>x. \<exists>u x'. cc_uuid K x = (Inr u, x') \<and> u \<notin> issued x \<and> issued x' = insert u (issued x)) \<and>
     (\<forall>ws m x. \<exists>x'. cc_send K ws m x = (Inr (), x') \<and> issued x' = issued x)"

lemma reader_okD:
  assumes "reader_ok K width issued"
  shows "\<exists>v x'. cc_embed_documents K [t] x = (Inr [v], x') \<and> length v = width \<and> issued x' = issued x"
    "\<exists>u x'. cc_uuid K x = (Inr u, x') \<and> u \<notin> issued x \<and> issued x' = insert u (issued x)"
    "\<exists>x'. cc_send K ws m x = (Inr (), x') \<and> issued x' = issued x"
  using assms unfolding reader_ok_def by blast+

lemma send_returns:
  assumes "reader_ok K width issued"
  shows "\<exists>x ms. send_ws_message K (PStr s) ''notification'' c = (Inr (), c\<lparr>sr_ext := x, sr_sent := ms\<rparr>) \<and> issued x = issued (sr_ext c)"
proof (cases "get_connection (sr_user_id c) (sr_connections c)")
  case None
  then show ?thesis
    by (intro exI [of _ "sr_ext c"] exI [of _ "sr_sent c"]) (simp add: send_ws_message_def MSG_TYPES_def send_ws_json_def)
next
  case (Some ws)
  let ?m = "WsDict [(''type'', PStr ''notification''), (''content'', PStr s)]"
  from reader_okD(3) [OF assms, of ws ?m "sr_ext c"] obtain x where "cc_send K ws ?m (sr_ext c) = (Inr (), x)" "issued x = issued (sr_ext c)"
    by blast
  with Some show ?thesis
    by (intro exI [of _ x] exI [of _ "sr_sent c @ [(ws, ?m)]"])
      (simp add: send_ws_message_def MSG_TYPES_def send_ws_json_def on_ext_def bindM_def)
qed

text \<open>A document as it is found under its identifier.\<close>

definition stored_as :: "string \<Rightarrow> json \<Rightarrow> (string \<Rightarrow> point option) \<Rightarrow> string \<Rightarrow> document \<Rightarrow> bool" where
  "stored_as source custom pts u doc \<longleftrightarrow> (\<exists>now vec. pts u =
     Some (new_point u (page_content doc) vec (Some (metadata (default_metadata source now custom doc))) None))"

text \<open>What reading a document may change.\<close>

definition reading :: "('q, 'x) stray \<Rightarrow> ('q, 'x) stray \<Rightarrow> bool" where
  "reading c c' \<longleftrightarrow> (\<exists>q x ms. c' = c\<lparr>sr_db := q, sr_ext := x, sr_sent := ms\<rparr>)"

lemma reading_refl: "reading c c"
  unfolding reading_def by (intro exI [of _ "sr_db c"] exI [of _ "sr_ext c"] exI [of _ "sr_sent c"]) simp

lemma reading_trans: "reading c c1 \<Longrightarrow> reading c1 c2 \<Longrightarrow> reading c c2"
  unfolding reading_def by (elim exE) (intro exI, simp)

lemma reading_sent: "reading c (c\<lparr>sr_ext := x, sr_sent := ms\<rparr>)"
  unfolding reading_def by (intro exI [of _ "sr_db c"] exI [of _ x] exI [of _ ms]) simp

lemma page_content_default [simp]: "page_content (default_metadata source now custom doc) = page_content doc"
  by (simp add: default_metadata_def)

text \<open>The first part of a round: the notification, if it is time for one.\<close>

lemma store_round_notifies:
  assumes "reader_ok K width issued" "quiet_rabbithole (cc_hatter K)"
  shows "\<exists>x ms last'. store_round K source custom n_docs d doc (last_notification, stored) c =
     (let doc' = default_metadata source (cc_time K x) custom doc in
      if page_content doc' \<noteq> [] then
        bindM (liftM (declarative K)) (\<lambda>C. bindM (store_document K C doc') (\<lambda>p. retM (last', stored @ [p])))
          (c\<lparr>sr_ext := x, sr_sent := ms\<rparr>)
      else (Inr (last', stored), c\<lparr>sr_ext := x, sr_sent := ms\<rparr>)) \<and> issued x = issued (sr_ext c)"
proof -
  have h: "''before_rabbithole_insert_memory'' \<in> set rabbithole_hooks" by (simp add: rabbithole_hooks_def)
  show ?thesis
  proof (cases "cc_time K (sr_ext c) - last_notification > 10")
    case True
    let ?send = "send_ws_message K (PStr (read_message d n_docs source)) ''notification''"
    from send_returns [OF assms(1)] obtain x ms where send: "?send c = (Inr (), c\<lparr>sr_ext := x, sr_sent := ms\<rparr>)"
      "issued x = issued (sr_ext c)" by blast
    show ?thesis
      by (intro exI [of _ x] exI [of _ ms] exI [of _ "cc_time K (sr_ext c)"])
        (simp add: store_round_def time_time_def True bindM_assoc bindM_Inr [where m = ?send, OF send(1)] send(2) rabbithole_bind(1) [OF assms(2) h] as_document_def Let_def)
  next
    case False
    then show ?thesis
      by (intro exI [of _ "sr_ext c"] exI [of _ "sr_sent c"] exI [of _ last_notification])
        (simp add: store_round_def time_time_def rabbithole_bind(1) [OF assms(2) h] as_document_def Let_def)
  qed
qed

lemma reading_db: "reading c (c\<lparr>sr_db := q, sr_ext := x, sr_sent := ms\<rparr>)"
  unfolding reading_def by blast

context qdrant_db
begin

lemma store_document_run:
  assumes "reader_ok K (vc_embedder_size C) issued" "collection_ready Q info C (sr_db c)"
  shows "\<exists>q x u vec. store_document K C doc c =
      (Inr (Some (new_point u (page_content doc) vec (Some (metadata doc)) None)), c\<lparr>sr_db := q, sr_ext := x\<rparr>) \<and>
     collection_ready Q info C q \<and> u \<notin> issued (sr_ext c) \<and> issued x = insert u (issued (sr_ext c)) \<and>
     collection_points info C q = (collection_points info C (sr_db c))
       (u \<mapsto> new_point u (page_content doc) vec (Some (metadata doc)) None)"
proof -
  from reader_okD(1) [OF assms(1)] obtain vec x1 where vec: "cc_embed_documents K [page_content doc] (sr_ext c) = (Inr [vec], x1)"
    "length vec = vc_embedder_size C" "issued x1 = issued (sr_ext c)" by blast
  from reader_okD(2) [OF assms(1)] obtain u x where u: "cc_uuid K x1 = (Inr u, x)" "u \<notin> issued x1" "issued x = insert u (issued x1)"
    by blast
  from coll.add_ok [OF assms(2) vec(2), of u "page_content doc" "Some (metadata doc)" None] obtain q where
    "add_point C u (page_content doc) vec (Some (metadata doc)) None (sr_db c) =
       (Inr (Some (new_point u (page_content doc) vec (Some (metadata doc)) None)), q)" "collection_ready Q info C q"
    "collection_points info C q = (collection_points info C (sr_db c))
       (u \<mapsto> new_point u (page_content doc) vec (Some (metadata doc)) None)" by (auto simp: new_point_def)
  with vec u show ?thesis
    by (intro exI [of _ q] exI [of _ x] exI [of _ u] exI [of _ vec])
      (simp add: store_document_def bindM_def on_ext_def on_db_def first_vector_def)
qed

lemma store_round_run:
  assumes rd: "reader_ok K (vc_embedder_size C) issued" and qu: "quiet_rabbithole (cc_hatter K)"
    and decl: "declarative K = Inr C" and ready: "collection_ready Q info C (sr_db c)"
  shows "\<exists>acc' c'. store_round K source custom n_docs d doc acc c = (Inr acc', c') \<and> reading c c' \<and>
     collection_ready Q info C (sr_db c') \<and>
     (if page_content doc = [] then sr_db c' = sr_db c \<and> issued (sr_ext c') = issued (sr_ext c)
      else \<exists>u now vec. u \<notin> issued (sr_ext c) \<and> issued (sr_ext c') = insert u (issued (sr_ext c)) \<and>
        collection_points info C (sr_db c') = (collection_points info C (sr_db c))
          (u \<mapsto> new_point u (page_content doc) vec (Some (metadata (default_metadata source now custom doc))) None))"
proof -
  obtain last_notification stored where acc: "acc = (last_notification, stored)" by (cases acc)
  obtain x ms last' where round: "store_round K source custom n_docs d doc acc c =
     (let doc' = default_metadata source (cc_time K x) custom doc in
      if page_content doc' \<noteq> [] then
        bindM (liftM (declarative K)) (\<lambda>C. bindM (store_document K C doc') (\<lambda>p. retM (last', stored @ [p])))
          (c\<lparr>sr_ext := x, sr_sent := ms\<rparr>)
      else (Inr (last', stored), c\<lparr>sr_ext := x, sr_sent := ms\<rparr>))" "issued x = issued (sr_ext c)"
    using store_round_notifies [OF rd qu] acc by blast
  show ?thesis
  proof (cases "page_content doc = []")
    case True
    then show ?thesis using round ready reading_sent by (simp add: Let_def)
  next
    case False
    let ?c1 = "c\<lparr>sr_ext := x, sr_sent := ms\<rparr>" and ?doc = "default_metadata source (cc_time K x) custom doc"
    have "collection_ready Q info C (sr_db ?c1)" using ready by simp
    from store_document_run [OF rd this, of ?doc] obtain q x' u vec where
      st: "store_document K C ?doc ?c1 = (Inr (Some (new_point u (page_content doc) vec (Some (metadata ?doc)) None)),
            ?c1\<lparr>sr_db := q, sr_ext := x'\<rparr>)"
        "collection_ready Q info C q" "u \<notin> issued x" "issued x' = insert u (issued x)"
        "collection_points info C q = (collection_points info C (sr_db c))
          (u \<mapsto> new_point u (page_content doc) vec (Some (metadata ?doc)) None)" by auto
    have "store_round K source custom n_docs d doc acc c =
        (Inr (last', stored @ [Some (new_point u (page_content doc) vec (Some (metadata ?doc)) None)]),
         c\<lparr>sr_db := q, sr_ext := x', sr_sent := ms\<rparr>)"
      using False by (simp add: round(1) Let_def decl bindM_Inr [where m = "store_document K C ?doc", OF st(1)])
    then show ?thesis using False st round(2) reading_db [where c = c and q = q and x = x' and ms = ms]
      by (intro exI [of _ "(last', stored @ [Some (new_point u (page_content doc) vec (Some (metadata ?doc)) None)])"]
          exI [of _ "c\<lparr>sr_db := q, sr_ext := x', sr_sent := ms\<rparr>"]) auto
  qed
qed

lemma store_loop_run:
  assumes rd: "reader_ok K (vc_embedder_size C) issued" and qu: "quiet_rabbithole (cc_hatter K)"
    and decl: "declarative K = Inr C" and ready: "collection_ready Q info C (sr_db c)"
  shows "\<exists>ps c' us. store_loop K source custom n_docs d docs acc c = (Inr ps, c') \<and> reading c c' \<and>
     collection_ready Q info C (sr_db c') \<and> distinct us \<and> set us \<inter> issued (sr_ext c) = {} \<and>
     issued (sr_ext c') = set us \<union> issued (sr_ext c) \<and>
     list_all2 (stored_as source custom (collection_points info C (sr_db c'))) us (filter (\<lambda>doc. page_content doc \<noteq> []) docs) \<and>
     (\<forall>k. k \<notin> set us \<longrightarrow> collection_points info C (sr_db c') k = collection_points info C (sr_db c) k)"
  using ready
proof (induction docs arbitrary: c d acc)
  case Nil
  show ?case using Nil.prems reading_refl by (intro exI [of _ "snd acc"] exI [of _ c] exI [of _ "[]"]) simp
next
  case (Cons doc docs)
  let ?pts = "\<lambda>c. collection_points info C (sr_db c)"
  from store_round_run [OF rd qu decl Cons.prems] obtain acc1 c1 where
    r1: "store_round K source custom n_docs d doc acc c = (Inr acc1, c1)" "reading c c1" "collection_ready Q info C (sr_db c1)"
    and step: "if page_content doc = [] then sr_db c1 = sr_db c \<and> issued (sr_ext c1) = issued (sr_ext c)
      else \<exists>u now vec. u \<notin> issued (sr_ext c) \<and> issued (sr_ext c1) = insert u (issued (sr_ext c)) \<and>
        ?pts c1 = (?pts c)(u \<mapsto> new_point u (page_content doc) vec (Some (metadata (default_metadata source now custom doc))) None)"
    by blast
  from Cons.IH [OF r1(3), of "Suc d" acc1] obtain ps c' us where
    ih: "store_loop K source custom n_docs (Suc d) docs acc1 c1 = (Inr ps, c')" "reading c1 c'" "collection_ready Q info C (sr_db c')"
      "distinct us" "set us \<inter> issued (sr_ext c1) = {}" "issued (sr_ext c') = set us \<union> issued (sr_ext c1)"
      "list_all2 (stored_as source custom (?pts c')) us (filter (\<lambda>doc. page_content doc \<noteq> []) docs)"
      "\<forall>k. k \<notin> set us \<longrightarrow> ?pts c' k = ?pts c1 k" by blast
  have run: "store_loop K source custom n_docs d (doc # docs) acc c = (Inr ps, c')"
    using ih(1) by (simp add: bindM_Inr [where m = "store_round K source custom n_docs d doc acc", OF r1(1)])
  have rdg: "reading c c'" using reading_trans [OF r1(2) ih(2)] .
  show ?case
  proof (cases "page_content doc = []")
    case True
    with step have "sr_db c1 = sr_db c" "issued (sr_ext c1) = issued (sr_ext c)" by simp_all
    with run rdg ih True show ?thesis by (intro exI [of _ ps] exI [of _ c'] exI [of _ us]) simp
  next
    case False
    with step obtain u now vec where u: "u \<notin> issued (sr_ext c)" "issued (sr_ext c1) = insert u (issued (sr_ext c))"
      "?pts c1 = (?pts c)(u \<mapsto> new_point u (page_content doc) vec (Some (metadata (default_metadata source now custom doc))) None)"
      by auto
    have "u \<notin> set us" using ih(5) u(2) by auto
    then have "?pts c' u = Some (new_point u (page_content doc) vec (Some (metadata (default_metadata source now custom doc))) None)"
      using ih(8) u(3) by simp
    then have "stored_as source custom (?pts c') u doc" unfolding stored_as_def by blast
    moreover have "\<forall>k. k \<notin> set (u # us) \<longrightarrow> ?pts c' k = ?pts c k" using ih(8) u(3) by simp
    moreover have "set (u # us) \<inter> issued (sr_ext c) = {}" "issued (sr_ext c') = set (u # us) \<union> issued (sr_ext c)"
      using u ih(5,6) by auto
    ultimately show ?thesis using run rdg ih False \<open>u \<notin> set us\<close>
      by (intro exI [of _ ps] exI [of _ c'] exI [of _ "u # us"]) simp
  qed
qed

lemma store_documents_run:
  assumes rd: "reader_ok K (vc_embedder_size C) issued" and qu: "quiet_rabbithole (cc_hatter K)"
    and decl: "declarative K = Inr C" and ready: "collection_ready Q info C (sr_db c)"
  shows "\<exists>c' us. store_documents K docs source custom c = (Inr (), c') \<and> reading c c' \<and>
     collection_ready Q info C (sr_db c') \<and> distinct us \<and> set us \<inter> issued (sr_ext c) = {} \<and>
     list_all2 (stored_as source custom (collection_points info C (sr_db c'))) us (filter (\<lambda>doc. page_content doc \<noteq> []) docs) \<and>
     (\<forall>k. k \<notin> set us \<longrightarrow> collection_points info C (sr_db c') k = collection_points info C (sr_db c) k)"
proof -
  from store_loop_run [OF rd qu decl ready] obtain ps c1 us where
    l: "store_loop K source custom (length docs) 0 docs (cc_time K (sr_ext c), []) c = (Inr ps, c1)" "reading c c1"
      "collection_ready Q info C (sr_db c1)" "distinct us" "set us \<inter> issued (sr_ext c) = {}"
      "list_all2 (stored_as source custom (collection_points info C (sr_db c1))) us (filter (\<lambda>doc. page_content doc \<noteq> []) docs)"
      "\<forall>k. k \<notin> set us \<longrightarrow> collection_points info C (sr_db c1) k = collection_points info C (sr_db c) k" by blast
  from send_returns [OF rd] obtain x ms where
    send: "send_ws_message K (PStr (finished_reading source (length docs))) ''notification'' c1 = (Inr (), c1\<lparr>sr_ext := x, sr_sent := ms\<rparr>)"
    by blast
  have "store_documents K docs source custom c = (Inr (), c1\<lparr>sr_ext := x, sr_sent := ms\<rparr>)"
    using send by (simp add: store_documents_def rabbithole_bind [OF qu] rabbithole_hooks_def time_time_def as_documents_def
        bindM_Inr [where m = "store_loop K source custom (length docs) 0 docs (cc_time K (sr_ext c), [])", OF l(1)])
  moreover have "reading c (c1\<lparr>sr_ext := x, sr_sent := ms\<rparr>)" using reading_trans [OF l(2) reading_sent] .
  ultimately show ?thesis using l by (intro exI [of _ "c1\<lparr>sr_ext := x, sr_sent := ms\<rparr>"] exI [of _ us]) simp
qed

end

lemma file_to_docs_run:
  assumes qu: "quiet_rabbithole (cc_hatter K)" and rd: "reader_ok K width issued"
    and parse: "\<And>x. \<exists>x'. bu_parse U default_file_handlers content (bu_guess_type U filename) filename x = (Inr super, x') \<and> issued x' = issued x"
    and split: "bu_split U (override_sizes chunk_size chunk_overlap default_text_splitter) super = Inr chunks"
  shows "\<exists>x ms. file_to_docs U K (Upload filename content) chunk_size chunk_overlap c =
     (Inr (filter (\<lambda>d. 10 < length (page_content d)) chunks), c\<lparr>sr_ext := x, sr_sent := ms\<rparr>) \<and> issued x = issued (sr_ext c)"
proof -
  let ?m1 = "send_ws_message K (PStr ''I'm parsing the content. Big content could require some minutes...'') ''notification''"
  let ?m2 = "send_ws_message K (PStr ''Parsing completed. Now let's go with reading process...'') ''notification''"
  let ?p = "on_ext (bu_parse U default_file_handlers content (bu_guess_type U filename) filename)"
  from send_returns [OF rd] obtain x1 ms1 where s1: "?m1 c = (Inr (), c\<lparr>sr_ext := x1, sr_sent := ms1\<rparr>)" "issued x1 = issued (sr_ext c)"
    by blast
  from parse obtain x2 where "bu_parse U default_file_handlers content (bu_guess_type U filename) filename x1 = (Inr super, x2)"
    and x2: "issued x2 = issued x1" by blast
  then have p: "?p (c\<lparr>sr_ext := x1, sr_sent := ms1\<rparr>) = (Inr super, c\<lparr>sr_ext := x2, sr_sent := ms1\<rparr>)" by (simp add: on_ext_def)
  from send_returns [OF rd] obtain x3 ms3 where
    s3: "?m2 (c\<lparr>sr_ext := x2, sr_sent := ms1\<rparr>) = (Inr (), c\<lparr>sr_ext := x2, sr_sent := ms1\<rparr>\<lparr>sr_ext := x3, sr_sent := ms3\<rparr>)"
      "issued x3 = issued (sr_ext (c\<lparr>sr_ext := x2, sr_sent := ms1\<rparr>))" by blast
  have "split_text U K super chunk_size chunk_overlap c' = (Inr (filter (\<lambda>d. 10 < length (page_content d)) chunks), c')" for c'
    using split by (simp add: split_text_def text_splitter_def bindM_assoc rabbithole_bind [OF qu] rabbithole_hooks_def as_documents_def)
  then show ?thesis using s1(2) s3(2) x2
    by (intro exI [of _ x3] exI [of _ ms3])
      (simp add: file_to_docs_def string_to_docs_def file_handlers_def bindM_assoc rabbithole_bind [OF qu] rabbithole_hooks_def
        bindM_Inr [where m = ?m1, OF s1(1)] bindM_Inr [where m = ?p, OF p] bindM_Inr [where m = ?m2, OF s3(1)])
qed

subsection \<open>Properties\<close>

text \<open>
  (C9) Ingesting an uploaded file with the core hooks. The declarative collection gets exactly one new point for every chunk of
  more than ten characters, with the text of the chunk, its source, the time and the caller's metadata (which win over the
  defaults), under identifiers that were not in use. No other point changes, the chunks of ten characters or less are
  dropped, and nothing but the data base, the outside world and the messages sent is touched.
\<close>

theorem ingest_file_stores_chunks:
  assumes "qdrant_db Q info sat" "reader_ok K (vc_embedder_size C) issued" "quiet_rabbithole (cc_hatter K)"
    and "declarative K = Inr C" "collection_ready Q info C (sr_db c)" "dom (collection_points info C (sr_db c)) \<subseteq> issued (sr_ext c)"
    and "\<And>x. \<exists>x'. bu_parse U default_file_handlers content (bu_guess_type U filename) filename x = (Inr super, x') \<and> issued x' = issued x"
    and "bu_split U (override_sizes chunk_size chunk_overlap default_text_splitter) super = Inr chunks"
  shows "\<exists>c' us. ingest_file U K (Upload filename content) chunk_size chunk_overlap custom c = (Inr (), c') \<and> reading c c' \<and>
     distinct us \<and> set us \<inter> dom (collection_points info C (sr_db c)) = {} \<and>
     list_all2 (stored_as filename custom (collection_points info C (sr_db c'))) us (filter (\<lambda>d. 10 < length (page_content d)) chunks) \<and>
     (\<forall>k. k \<notin> set us \<longrightarrow> collection_points info C (sr_db c') k = collection_points info C (sr_db c) k)"
proof -
  let ?docs = "filter (\<lambda>d. 10 < length (page_content d)) chunks"
  have long: "filter (\<lambda>d. page_content d \<noteq> []) ?docs = ?docs" by (induction chunks) auto
  from file_to_docs_run [OF assms(3,2,7,8), of c] obtain x ms where
    f: "file_to_docs U K (Upload filename content) chunk_size chunk_overlap c = (Inr ?docs, c\<lparr>sr_ext := x, sr_sent := ms\<rparr>)"
      "issued x = issued (sr_ext c)" by blast
  let ?c1 = "c\<lparr>sr_ext := x, sr_sent := ms\<rparr>"
  have "collection_ready Q info C (sr_db ?c1)" using assms(5) by simp
  from qdrant_db.store_documents_run [OF assms(1,2,3,4) this, of ?docs filename custom] obtain c' us where
    st: "store_documents K ?docs filename custom ?c1 = (Inr (), c')" "reading ?c1 c'" "distinct us" "set us \<inter> issued x = {}"
      "list_all2 (stored_as filename custom (collection_points info C (sr_db c'))) us ?docs"
      "\<forall>k. k \<notin> set us \<longrightarrow> collection_points info C (sr_db c') k = collection_points info C (sr_db c) k"
    unfolding long by auto
  have "ingest_file U K (Upload filename content) chunk_size chunk_overlap custom c = (Inr (), c')"
    using st(1) by (simp add: ingest_file_def bindM_Inr [where m = "file_to_docs U K (Upload filename content) chunk_size chunk_overlap", OF f(1)])
  moreover have "reading c c'" using reading_trans [OF reading_sent st(2)] .
  moreover have "set us \<inter> dom (collection_points info C (sr_db c)) = {}" using st(4) f(2) assms(6) by blast
  ultimately show ?thesis using st by blast
qed

text \<open>
  The size check of \<open>ingest_memory\<close> lets a file pass in which any one vector has the size of the embedder, and
  refuses a file without memories.
\<close>

lemma ingest_memory_checks_any:
  assumes "bu_loads U bytes = Inr (PDict memories)" "map_of memories ''embedder'' = Some (PStr (bu_embedder_class U))"
    and "map_of memories ''collections'' = Some (PDict cols)" "map_of cols ''declarative'' = Some (PList ms)"
    and "mapR (entry ''id'') ms = Inr ids"
      "mapR (\<lambda>p. bindR (entry ''page_content'' p) (\<lambda>c. bindR (entry ''metadata'' p) (\<lambda>m. Inr (c, m)))) ms = Inr payloads"
      "mapR (\<lambda>v. bindR (entry ''vector'' v) as_list) ms = Inr vectors"
      "mapR (batch_point U) (zip (zip ids payloads) vectors) = Inr points"
    and "declarative K = Inr C"
  shows "ingest_memory U K (Upload filename bytes) c =
     (if \<exists>v \<in> set vectors. length v = vc_embedder_size C then on_db (bu_upsert_batch U ''declarative'' points) c
      else (Inl (Exn ''Exception'' (''Embedding size mismatch: vectors length should be '' @ str_int (int (vc_embedder_size C)))), c))"
proof -
  have "entry ''declarative'' (PDict cols) = Inr (PList ms)" using assms(4) by (simp add: entry_def)
  then show ?thesis using assms(1-3,5-9) by (simp add: ingest_memory_def list_ex_iff item_def)
qed

subsection \<open>Witnesses\<close>

definition demo_reader :: "(unit, unit, lstore, nat) cheshire" where
  "demo_reader = demo_cat\<lparr>cc_hatter := (MadHatter_init core_machine ())\<lparr>mh_hooks := map (\<lambda>n. (n, [core_hook n])) rabbithole_hooks\<rparr>,
     cc_uuid := (\<lambda>n. (Inr (replicate (Suc n) CHR ''u''), Suc n))\<rparr>"

definition demo_burrow :: "(lstore, nat) burrow" where
  "demo_burrow =
     \<lparr>bu_guess_type = (\<lambda>f. Some ''text/plain''), bu_urlparse = (\<lambda>l. ([], [])), bu_get = (\<lambda>l. retM (None, [])), bu_head = (\<lambda>l. retM None),
      bu_basename = (\<lambda>l. l), bu_read = (\<lambda>l. retM []), bu_parse = (\<lambda>h bytes t src. retM [\<lparr>page_content = bytes, metadata = []\<rparr>]),
      bu_split = (\<lambda>sp ds. Inr (ds @ [\<lparr>page_content = ''page 1'', metadata = []\<rparr>])), bu_loads = (\<lambda>t. Inr PNone), bu_embedder_class = ''DumbEmbedder'',
      bu_point_id = as_str, bu_upsert_batch = (\<lambda>n ps. retM ())\<rparr>"

lemma demo_reader_facts:
  "quiet_rabbithole (cc_hatter demo_reader)" "reader_ok demo_reader 2 demo_issued"
  "declarative demo_reader = Inr (demo_collection\<lparr>vc_name := ''declarative''\<rparr>)"
proof -
  show "quiet_rabbithole (cc_hatter demo_reader)"
    by (simp add: quiet_rabbithole_def quiet_at_def demo_reader_def map_of_map_pair quiet_core_hook)
  show "reader_ok demo_reader 2 demo_issued"
    by (auto simp: reader_ok_def demo_reader_def demo_cat_def demo_issued_def lessThan_Suc dest: arg_cong [where f = length])
  show "declarative demo_reader = Inr (demo_collection\<lparr>vc_name := ''declarative''\<rparr>)"
    by (simp add: declarative_def demo_reader_def demo_cat_def demo_cols_def collection_names_def)
qed

theorem ingest_file_stores_chunks_witness:
  "\<exists>c' u. ingest_file demo_burrow demo_reader (Upload ''tea.txt'' ''The Hatter pours tea.'') None None [] demo_alice = (Inr (), c') \<and>
     stored_as ''tea.txt'' [] (collection_points linfo (demo_collection\<lparr>vc_name := ''declarative''\<rparr>) (sr_db c')) u
       \<lparr>page_content = ''The Hatter pours tea.'', metadata = []\<rparr>"
proof -
  let ?C = "demo_collection\<lparr>vc_name := ''declarative''\<rparr>"
  have size: "reader_ok demo_reader (vc_embedder_size ?C) demo_issued" using demo_reader_facts(2) by (simp add: demo_collection_def)
  have ready: "collection_ready list_qdrant linfo ?C (sr_db demo_alice)" "dom (collection_points linfo ?C (sr_db demo_alice)) \<subseteq> demo_issued (sr_ext demo_alice)"
    by (simp_all add: collection_ready_def collection_points_def demo_collection_def linfo_def collection_names_def)
  have parse: "\<exists>x'. bu_parse demo_burrow default_file_handlers ''The Hatter pours tea.'' (bu_guess_type demo_burrow ''tea.txt'') ''tea.txt'' x =
      (Inr [\<lparr>page_content = ''The Hatter pours tea.'', metadata = []\<rparr>], x') \<and> demo_issued x' = demo_issued x" for x
    by (simp add: demo_burrow_def)
  have split: "bu_split demo_burrow (override_sizes None None default_text_splitter) [\<lparr>page_content = ''The Hatter pours tea.'', metadata = []\<rparr>] =
      Inr [\<lparr>page_content = ''The Hatter pours tea.'', metadata = []\<rparr>, \<lparr>page_content = ''page 1'', metadata = []\<rparr>]"
    by (simp add: demo_burrow_def)
  obtain c' us where run: "ingest_file demo_burrow demo_reader (Upload ''tea.txt'' ''The Hatter pours tea.'') None None [] demo_alice = (Inr (), c')"
    and "list_all2 (stored_as ''tea.txt'' [] (collection_points linfo ?C (sr_db c'))) us
      (filter (\<lambda>d. 10 < length (page_content d)) [\<lparr>page_content = ''The Hatter pours tea.'', metadata = []\<rparr>, \<lparr>page_content = ''page 1'', metadata = []\<rparr>])"
    using ingest_file_stores_chunks [OF list_qdrant.qdrant_db_axioms size demo_reader_facts(1,3) ready parse split] by blast
  then show ?thesis by (cases us) (auto simp: list_all2_Cons2)
qed

end
