(* ===== verification/Core_Plugin.thy ===== *)
theory Core_Plugin
  imports Rabbit_Hole
begin

text \<open>
  The plugin that is always there: \<open>core/cat/mad_hatter/core_plugin\<close>. It defines every hook that the program
  executes, so that \<open>execute_hook\<close> always finds one, and each of them gives back what it got. The theory
  shows that a cat with this plugin alone has the quiet hooks that the theorems on a turn and on
  the ingestion of a file assume.
\<close>

subsection \<open>Hooks\<close>

text \<open>A hook that returns its first argument, and one that only has \<open>pass\<close> in its body.\<close>

definition give_back :: "('c, 'v) hook_body" where
  "give_back args = (case args of t # ts \<Rightarrow> retM (Some t) | [] \<Rightarrow> raiseM (Exn ''TypeError'' ''missing required positional argument''))"

definition do_nothing :: "('c, 'v) hook_body" where
  "do_nothing args = retM None"

subsubsection \<open>\<open>hooks/flow.py\<close>\<close>

definition before_cat_bootstrap :: "('c, 'v) hook_body" where
  "before_cat_bootstrap = do_nothing"

definition after_cat_bootstrap :: "('c, 'v) hook_body" where
  "after_cat_bootstrap = do_nothing"

definition before_cat_reads_message :: "('c, 'v) hook_body" where
  "before_cat_reads_message = give_back"

definition cat_recall_query :: "('c, 'v) hook_body" where
  "cat_recall_query = give_back"

definition before_cat_recalls_memories :: "('c, 'v) hook_body" where
  "before_cat_recalls_memories = do_nothing"

definition before_cat_recalls_episodic_memories :: "('c, 'v) hook_body" where
  "before_cat_recalls_episodic_memories = give_back"

definition before_cat_recalls_declarative_memories :: "('c, 'v) hook_body" where
  "before_cat_recalls_declarative_memories = give_back"

definition before_cat_recalls_procedural_memories :: "('c, 'v) hook_body" where
  "before_cat_recalls_procedural_memories = give_back"

definition after_cat_recalls_memories :: "('c, 'v) hook_body" where
  "after_cat_recalls_memories = do_nothing"

definition before_cat_sends_message :: "('c, 'v) hook_body" where
  "before_cat_sends_message = give_back"

definition before_cat_stores_episodic_memory :: "('c, 'v) hook_body" where
  "before_cat_stores_episodic_memory = give_back"

definition fast_reply :: "('c, 'v) hook_body" where
  "fast_reply = give_back"

subsubsection \<open>\<open>hooks/agent.py\<close>\<close>

definition before_agent_starts :: "('c, 'v) hook_body" where
  "before_agent_starts = give_back"

definition agent_fast_reply :: "('c, 'v) hook_body" where
  "agent_fast_reply = give_back"

definition agent_allowed_tools :: "('c, 'v) hook_body" where
  "agent_allowed_tools = give_back"

subsubsection \<open>\<open>hooks/prompt.py\<close>\<close>

definition agent_prompt_prefix :: "('c, 'v) hook_body" where
  "agent_prompt_prefix = give_back"

definition agent_prompt_instructions :: "('c, 'v) hook_body" where
  "agent_prompt_instructions = give_back"

definition agent_prompt_suffix :: "('c, 'v) hook_body" where
  "agent_prompt_suffix = give_back"

subsubsection \<open>\<open>hooks/rabbithole.py\<close>\<close>

definition rabbithole_instantiates_parsers :: "('c, 'v) hook_body" where
  "rabbithole_instantiates_parsers = give_back"

definition rabbithole_instantiates_splitter :: "('c, 'v) hook_body" where
  "rabbithole_instantiates_splitter = give_back"

definition before_rabbithole_insert_memory :: "('c, 'v) hook_body" where
  "before_rabbithole_insert_memory = give_back"

definition before_rabbithole_splits_text :: "('c, 'v) hook_body" where
  "before_rabbithole_splits_text = give_back"

definition after_rabbithole_splitted_text :: "('c, 'v) hook_body" where
  "after_rabbithole_splitted_text = give_back"

definition before_rabbithole_stores_documents :: "('c, 'v) hook_body" where
  "before_rabbithole_stores_documents = give_back"

definition after_rabbithole_stored_documents :: "('c, 'v) hook_body" where
  "after_rabbithole_stored_documents = do_nothing"

subsubsection \<open>\<open>hooks/factory.py\<close>\<close>

definition factory_allowed_llms :: "('c, 'v) hook_body" where
  "factory_allowed_llms = give_back"

definition factory_allowed_embedders :: "('c, 'v) hook_body" where
  "factory_allowed_embedders = give_back"

definition factory_allowed_auth_handlers :: "('c, 'v) hook_body" where
  "factory_allowed_auth_handlers = give_back"

subsubsection \<open>All of them\<close>

definition core_plugin_hooks :: "('c, 'v) cat_hook list" where
  "core_plugin_hooks = map (\<lambda>h. h\<lparr>hk_plugin_id := ''core_plugin''\<rparr>)
     [CatHook ''before_cat_bootstrap'' before_cat_bootstrap 0,
      CatHook ''after_cat_bootstrap'' after_cat_bootstrap 0,
      CatHook ''before_cat_reads_message'' before_cat_reads_message 0,
      CatHook ''cat_recall_query'' cat_recall_query 0,
      CatHook ''before_cat_recalls_memories'' before_cat_recalls_memories 0,
      CatHook ''before_cat_recalls_episodic_memories'' before_cat_recalls_episodic_memories 0,
      CatHook ''before_cat_recalls_declarative_memories'' before_cat_recalls_declarative_memories 0,
      CatHook ''before_cat_recalls_procedural_memories'' before_cat_recalls_procedural_memories 0,
      CatHook ''after_cat_recalls_memories'' after_cat_recalls_memories 0,
      CatHook ''before_cat_sends_message'' before_cat_sends_message 0,
      CatHook ''before_cat_stores_episodic_memory'' before_cat_stores_episodic_memory 0,
      CatHook ''fast_reply'' fast_reply 0,
      CatHook ''before_agent_starts'' before_agent_starts 0,
      CatHook ''agent_fast_reply'' agent_fast_reply 0,
      CatHook ''agent_allowed_tools'' agent_allowed_tools 0,
      CatHook ''agent_prompt_prefix'' agent_prompt_prefix 0,
      CatHook ''agent_prompt_instructions'' agent_prompt_instructions 0,
      CatHook ''agent_prompt_suffix'' agent_prompt_suffix 0,
      CatHook ''rabbithole_instantiates_parsers'' rabbithole_instantiates_parsers 0,
      CatHook ''rabbithole_instantiates_splitter'' rabbithole_instantiates_splitter 0,
      CatHook ''before_rabbithole_insert_memory'' before_rabbithole_insert_memory 0,
      CatHook ''before_rabbithole_splits_text'' before_rabbithole_splits_text 0,
      CatHook ''after_rabbithole_splitted_text'' after_rabbithole_splitted_text 0,
      CatHook ''before_rabbithole_stores_documents'' before_rabbithole_stores_documents 0,
      CatHook ''after_rabbithole_stored_documents'' after_rabbithole_stored_documents 0,
      CatHook ''factory_allowed_llms'' factory_allowed_llms 0,
      CatHook ''factory_allowed_embedders'' factory_allowed_embedders 0,
      CatHook ''factory_allowed_auth_handlers'' factory_allowed_auth_handlers 0]"

subsection \<open>Tool and settings\<close>

text \<open>The current time as text is an argument.\<close>

definition get_the_time :: "('c \<Rightarrow> string) \<Rightarrow> 'c tool_body pyfun" where
  "get_the_time now =
     \<lparr>fn_name = ''get_the_time'', fn_doc = Some ''Useful to get the current time when asked. Input is always None.'',
      fn_signature = ''(tool_input, cat)'', fn_body = (\<lambda>tool_input. getM (\<lambda>c. ''The current time is '' @ now c))\<rparr>"

definition CorePluginSettings :: settings_model where
  "CorePluginSettings =
     \<lparr>sm_schema = [(''properties'', PDict []), (''title'', PStr ''CorePluginSettings''), (''type'', PStr ''object'')], sm_defaults = Some []\<rparr>"

definition core_settings_schema :: "('w, json) comp" where
  "core_settings_schema = retM (sm_schema CorePluginSettings)"

definition core_settings_model :: "('w, settings_model) comp" where
  "core_settings_model = retM CorePluginSettings"

definition core_load_settings :: "('w, pyval) comp" where
  "core_load_settings = retM (PDict [])"

definition core_save_settings :: "json \<Rightarrow> ('w, json) comp" where
  "core_save_settings settings = retM []"

definition core_activated :: "('w, unit) comp" where
  "core_activated = retM ()"

definition core_deactivated :: "('w, unit) comp" where
  "core_deactivated = retM ()"

text \<open>What an import of the plugin's files finds.\<close>

definition core_module :: "('c \<Rightarrow> string) \<Rightarrow> ('w, 'c, 'v, 'f) modul result" where
  "core_module now =
     bindR (tool [] False [''what time is it'', ''get the time''] (get_the_time now)) (\<lambda>t.
     Inr \<lparr>md_hooks = core_plugin_hooks, md_tools = [t], md_forms = [], md_endpoints = [],
          md_overrides = [SettingsSchema core_settings_schema, SettingsModel core_settings_model, LoadSettings core_load_settings,
            SaveSettings core_save_settings, Activated core_activated, Deactivated core_deactivated]\<rparr>)"

subsection \<open>The hooks are quiet\<close>

lemmas core_hook_defs =
  before_cat_bootstrap_def after_cat_bootstrap_def before_cat_reads_message_def cat_recall_query_def
  before_cat_recalls_memories_def before_cat_recalls_episodic_memories_def before_cat_recalls_declarative_memories_def
  before_cat_recalls_procedural_memories_def after_cat_recalls_memories_def before_cat_sends_message_def
  before_cat_stores_episodic_memory_def fast_reply_def before_agent_starts_def agent_fast_reply_def agent_allowed_tools_def
  agent_prompt_prefix_def agent_prompt_instructions_def agent_prompt_suffix_def rabbithole_instantiates_parsers_def
  rabbithole_instantiates_splitter_def before_rabbithole_insert_memory_def before_rabbithole_splits_text_def
  after_rabbithole_splitted_text_def before_rabbithole_stores_documents_def after_rabbithole_stored_documents_def
  factory_allowed_llms_def factory_allowed_embedders_def factory_allowed_auth_handlers_def

lemma quiet_give_back:
  "quiet_hook \<lparr>hk_function = give_back, hk_name = n, hk_priority = k, hk_plugin_id = i\<rparr>"
  "quiet_hook \<lparr>hk_function = do_nothing, hk_name = n, hk_priority = k, hk_plugin_id = i\<rparr>"
  "quiet_event \<lparr>hk_function = do_nothing, hk_name = n, hk_priority = k, hk_plugin_id = i\<rparr>"
  by (simp_all add: quiet_hook_def quiet_event_def give_back_def do_nothing_def)

lemma core_hooks_quiet: "h \<in> set core_plugin_hooks \<Longrightarrow> quiet_hook h"
  by (auto simp: core_plugin_hooks_def CatHook_def core_hook_defs quiet_give_back)

lemma core_events_quiet:
  "h \<in> set core_plugin_hooks \<Longrightarrow> hk_name h \<in> set turn_events \<Longrightarrow> quiet_event h"
  by (auto simp: core_plugin_hooks_def CatHook_def core_hook_defs quiet_give_back)

lemma core_hook_names:
  "hk_name ` set (core_plugin_hooks :: ('c, 'v) cat_hook list) \<supseteq> set (turn_hooks @ turn_events @ rabbithole_hooks)"
  by (simp add: core_plugin_hooks_def CatHook_def turn_hooks_def rabbithole_hooks_def)

text \<open>Looking a name up when only these hooks are registered.\<close>

lemma core_lookup:
  assumes "hatter_inv mh" "concat (map pl_hooks (active_of (mh_plugins mh) (mh_active mh))) = core_plugin_hooks"
    and "n \<in> hk_name ` set (core_plugin_hooks :: ('c, 'v) cat_hook list)"
  shows "\<exists>hs. map_of (mh_hooks (mh :: ('w, 'c, 'v, 'f, 'db) hatter)) n = Some hs \<and>
     (\<forall>h \<in> set hs. h \<in> set core_plugin_hooks \<and> hk_name h = n)"
proof -
  let ?hs = "filter (\<lambda>h. hk_name h = n) (core_plugin_hooks :: ('c, 'v) cat_hook list)"
  have "?hs \<noteq> []" using assms(3) by (auto simp: filter_empty_conv)
  then have "map_of (mh_hooks mh) n = Some (sort_desc hk_priority ?hs)"
    using registry_hooks [OF assms(1), of n] assms(2) by (simp add: Let_def)
  then show ?thesis by auto
qed

subsection \<open>Properties\<close>

text \<open>
  (C23) With the core plugin alone the cat is quiet: every hook that a turn and the ingestion of a document execute is present, and
  leaves the tea cup and the session as they are. This is what the properties of a plain turn and of the ingestion assume of
  the plugins.
\<close>

theorem core_plugin_is_quiet:
  assumes "hatter_inv mh" "concat (map pl_hooks (active_of (mh_plugins mh) (mh_active mh))) = core_plugin_hooks"
  shows "quiet_hatter mh \<and> quiet_rabbithole mh"
proof -
  have here: "n \<in> hk_name ` set (core_plugin_hooks :: ('b, 'c) cat_hook list)"
    if "n \<in> set (turn_hooks @ turn_events @ rabbithole_hooks)" for n
    using that core_hook_names [where 'c = 'b and 'v = 'c] by blast
  have quiet: "quiet_at mh n" if "n \<in> set (turn_hooks @ turn_events @ rabbithole_hooks)" for n
    using core_lookup [OF assms here [OF that]] core_hooks_quiet by (auto simp: quiet_at_def list_all_iff)
  have event: "\<exists>hs. map_of (mh_hooks mh) n = Some hs \<and> list_all quiet_event hs" if "n \<in> set turn_events" for n
  proof -
    have "n \<in> set (turn_hooks @ turn_events @ rabbithole_hooks)" using that by auto
    from core_lookup [OF assms here [OF this]] obtain hs where hs: "map_of (mh_hooks mh) n = Some hs"
      "\<forall>h \<in> set hs. h \<in> set core_plugin_hooks \<and> hk_name h = n" by blast
    then have "\<forall>h \<in> set hs. quiet_event h" using core_events_quiet that by metis
    then have "list_all quiet_event hs" by (simp add: list_all_iff)
    with hs(1) show ?thesis by blast
  qed
  show ?thesis using quiet event unfolding quiet_hatter_def quiet_rabbithole_def by (auto simp: quiet_at_def simp del: turn_events_def)
qed

definition core_hatter :: "(unit, unit, unit, unit, setting list) hatter" where
  "core_hatter =
     registry_of \<lparr>mh_plugins = [(''core_plugin'', cheese_plugin\<lparr>pl_path := core_plugin_folder, pl_id := ''core_plugin'', pl_hooks := core_plugin_hooks\<rparr>)],
      mh_hooks = [], mh_tools = [], mh_forms = [], mh_endpoints = [], mh_active = [''core_plugin''],
      mh_machine = core_machine, mh_db = []\<rparr>"

theorem core_plugin_is_quiet_witness: "quiet_hatter core_hatter \<and> quiet_rabbithole core_hatter"
proof (rule core_plugin_is_quiet)
  have "\<forall>h \<in> set core_plugin_hooks. hk_plugin_id h = ''core_plugin''" by (auto simp: core_plugin_hooks_def)
  then show "hatter_inv core_hatter"
    by (simp add: hatter_inv_def core_hatter_def plugins_ok_def dict_wf_def)
  show "concat (map pl_hooks (active_of (mh_plugins core_hatter) (mh_active core_hatter))) = core_plugin_hooks"
    by (simp add: core_hatter_def active_of_def dict_values_def)
qed

end
