(* ===== verification/Cheshire_Cat.thy ===== *)
theory Cheshire_Cat
  imports Procedures Auth Utils
begin

text \<open>
  The main object: \<open>core/cat/looking_glass/cheshire_cat.py\<close> with the factories it loads its models from
  (\<open>core/cat/factory/llm.py\<close>, \<open>core/cat/factory/embedder.py\<close>, \<open>core/cat/factory/auth_handler.py\<close>), and the
  endpoints that change them (\<open>core/cat/routes/llm.py\<close>, \<open>core/cat/routes/embedder.py\<close>,
  \<open>core/cat/routes/auth_handler.py\<close>).

  The models themselves are classes of langchain and other packages: building one from a configuration is a
  parameter of the record \<open>factories\<close>, as are the JSON schemas pydantic derives from the configuration
  classes and what the plugins' hooks make of the list of classes. A language model is known by
  its class and its attributes. The settings data base is the one of the plugin manager.
\<close>

subsection \<open>Factories\<close>

record llm_object =
  lm_class :: string
  lm_attrs :: json

record 'o factory_class =
  fk_name :: string
  fk_schema :: json
  fk_from_config :: "json \<Rightarrow> 'o result"
  fk_isinstance :: "'o \<Rightarrow> bool"

record ('x, 'db) factories =
  fa_schema :: "string \<Rightarrow> json"
  fa_loads :: "string \<Rightarrow> pyval result"
  fa_new_llm :: "string \<Rightarrow> json \<Rightarrow> llm_object result"
  fa_new_embedder :: "string \<Rightarrow> json \<Rightarrow> 'x embedder result"
  fa_dumb_embedder :: "'x embedder"
  fa_is_embedder :: "string \<Rightarrow> 'x embedder \<Rightarrow> bool"
  fa_is_auth_handler :: "string \<Rightarrow> 'db auth_handler \<Rightarrow> bool"
  fa_allowed_llms :: "llm_object factory_class list \<Rightarrow> llm_object factory_class list result"
  fa_allowed_embedders :: "'x embedder factory_class list \<Rightarrow> 'x embedder factory_class list result"
  fa_allowed_auth_handlers :: "'db auth_handler factory_class list \<Rightarrow> 'db auth_handler factory_class list result"

text \<open>The first class of that name, as the three \<open>get_..._from_name\<close> functions find it.\<close>

definition class_named :: "pyval \<Rightarrow> 'o factory_class list \<Rightarrow> 'o factory_class option" where
  "class_named nm classes = find (\<lambda>cls. PStr (fk_name cls) = nm) classes"

text \<open>The schemas by title, each with its title under one more key.\<close>

fun schemas_from :: "string \<Rightarrow> (string, json) dict \<Rightarrow> 'o factory_class list \<Rightarrow> (string, json) dict result" where
  "schemas_from label acc [] = Inr acc"
| "schemas_from label acc (cls # classes) =
     bindR (item (fk_schema cls) ''title'') (\<lambda>title. bindR (as_str title) (\<lambda>t.
       schemas_from label (AList.update t (AList.update label (PStr t) (fk_schema cls)) acc) classes))"

subsubsection \<open>Language models\<close>

definition LLMDefault :: llm_object where
  "LLMDefault = \<lparr>lm_class = ''LLMDefault'', lm_attrs = []\<rparr>"

definition LLMCustomConfig_get_llm_from_config :: "('x, 'db) factories \<Rightarrow> json \<Rightarrow> llm_object result" where
  "LLMCustomConfig_get_llm_from_config F config =
     bindR (item config ''options'') (\<lambda>options.
     bindR (case options of
              PStr s \<Rightarrow> if s \<noteq> [] then fa_loads F s else Inr (PDict [])
            | _ \<Rightarrow> Inr options) (\<lambda>options'.
     fa_new_llm F ''LLMCustomConfig'' (AList.update ''options'' options' config)))"

definition llm_config :: "('x, 'db) factories \<Rightarrow> string \<Rightarrow> llm_object factory_class" where
  "llm_config F nm =
     \<lparr>fk_name = nm, fk_schema = fa_schema F nm,
      fk_from_config = (if nm = ''LLMCustomConfig'' then LLMCustomConfig_get_llm_from_config F else fa_new_llm F nm),
      fk_isinstance = (\<lambda>l. lm_class l = nm)\<rparr>"

definition list_llms_default :: "string list" where
  "list_llms_default =
     [''LLMOpenAIChatConfig'', ''LLMOpenAIConfig'', ''LLMOpenAICompatibleConfig'', ''LLMOllamaConfig'', ''LLMGeminiChatConfig'',
      ''LLMCohereConfig'', ''LLMAzureOpenAIConfig'', ''LLMAzureChatOpenAIConfig'', ''LLMHuggingFaceEndpointConfig'',
      ''LLMHuggingFaceTextGenInferenceConfig'', ''LLMAnthropicChatConfig'', ''LLMCustomConfig'', ''LLMDefaultConfig'']"

definition get_allowed_language_models :: "('x, 'db) factories \<Rightarrow> llm_object factory_class list result" where
  "get_allowed_language_models F = fa_allowed_llms F (map (llm_config F) list_llms_default)"

definition get_llm_from_name :: "('x, 'db) factories \<Rightarrow> pyval \<Rightarrow> llm_object factory_class option result" where
  "get_llm_from_name F nm = bindR (get_allowed_language_models F) (\<lambda>classes. Inr (class_named nm classes))"

definition get_llms_schemas :: "('x, 'db) factories \<Rightarrow> (string, json) dict result" where
  "get_llms_schemas F = bindR (get_allowed_language_models F) (schemas_from ''languageModelName'' [])"

subsubsection \<open>Embedders\<close>

definition embedder_config :: "('x, 'db) factories \<Rightarrow> string \<Rightarrow> 'x embedder factory_class" where
  "embedder_config F nm =
     \<lparr>fk_name = nm, fk_schema = fa_schema F nm, fk_from_config = fa_new_embedder F nm, fk_isinstance = fa_is_embedder F nm\<rparr>"

definition list_embedder_default :: "string list" where
  "list_embedder_default =
     [''EmbedderQdrantFastEmbedConfig'', ''EmbedderOpenAIConfig'', ''EmbedderAzureOpenAIConfig'', ''EmbedderGeminiChatConfig'',
      ''EmbedderOpenAICompatibleConfig'', ''EmbedderCohereConfig'', ''EmbedderDumbConfig'', ''EmbedderFakeConfig'',
      ''EmbedderOllamaConfig'']"

definition get_allowed_embedder_models :: "('x, 'db) factories \<Rightarrow> 'x embedder factory_class list result" where
  "get_allowed_embedder_models F = fa_allowed_embedders F (map (embedder_config F) list_embedder_default)"

definition get_embedder_from_name :: "('x, 'db) factories \<Rightarrow> pyval \<Rightarrow> 'x embedder factory_class option result" where
  "get_embedder_from_name F nm = bindR (get_allowed_embedder_models F) (\<lambda>classes. Inr (class_named nm classes))"

definition get_embedders_schemas :: "('x, 'db) factories \<Rightarrow> (string, json) dict result" where
  "get_embedders_schemas F = bindR (get_allowed_embedder_models F) (schemas_from ''languageEmbedderName'' [])"

subsubsection \<open>Auth handlers\<close>

text \<open>\<open>CoreOnlyAuthHandler(**config)\<close>: the class has no constructor arguments.\<close>

definition CoreOnlyAuthConfig :: "('x, 'db) factories \<Rightarrow> 'db auth_handler factory_class" where
  "CoreOnlyAuthConfig F =
     \<lparr>fk_name = ''CoreOnlyAuthConfig'', fk_schema = fa_schema F ''CoreOnlyAuthConfig'',
      fk_from_config = (\<lambda>config. if config = [] then Inr CoreOnlyAuthHandler
        else Inl (Exn ''TypeError'' ''CoreOnlyAuthHandler() takes no arguments'')),
      fk_isinstance = fa_is_auth_handler F ''CoreOnlyAuthConfig''\<rparr>"

definition get_allowed_auth_handler_strategies ::
  "('x, 'db) factories \<Rightarrow> 'db auth_handler factory_class list result" where
  "get_allowed_auth_handler_strategies F = fa_allowed_auth_handlers F [CoreOnlyAuthConfig F]"

definition get_auth_handlers_schemas :: "('x, 'db) factories \<Rightarrow> (string, json) dict result" where
  "get_auth_handlers_schemas F = bindR (get_allowed_auth_handler_strategies F) (schemas_from ''auhrizatorName'' [])"

definition get_auth_handler_from_name ::
  "('x, 'db) factories \<Rightarrow> pyval \<Rightarrow> 'db auth_handler factory_class option result" where
  "get_auth_handler_from_name F nm = bindR (get_allowed_auth_handler_strategies F) (\<lambda>classes. Inr (class_named nm classes))"

subsection \<open>The state of the cat\<close>

record ('q, 'x, 'c, 'v, 'f, 'db) ccat =
  ca_llm :: llm_object
  ca_embedder :: "'x embedder"
  ca_custom_auth_handler :: "'db auth_handler"
  ca_memory :: "'q vector_memory"
  ca_hatter :: "(('q, 'x) lab, 'c, 'v, 'f, 'db) hatter"

type_synonym ('q, 'x, 'c, 'v, 'f, 'db, 'a) ccat_comp = "(('q, 'x, 'c, 'v, 'f, 'db) ccat, 'a) comp"

record ('q, 'x, 'c, 'v, 'f, 'db) bootstrap =
  bo_env :: "(('q, 'x) lab, 'c, 'v, 'f, 'db) hatter_env"
  bo_factories :: "('x, 'db) factories"
  bo_services :: "'x services"
  bo_qdrant :: "'q qdrant"
  bo_snapshots :: bool
  bo_server :: "'q qdrant_server"
  bo_setting_id :: "string \<Rightarrow> string"
  bo_hook :: "string \<Rightarrow> ('q, 'x, 'c, 'v, 'f, 'db, unit) ccat_comp"

definition on_hatter ::
  "(('q, 'x) lab, 'c, 'v, 'f, 'db, 'a) hatter_comp \<Rightarrow> ('q, 'x, 'c, 'v, 'f, 'db, 'a) ccat_comp" where
  "on_hatter m ca = (case m (ca_hatter ca) of (r, h) \<Rightarrow> (r, ca\<lparr>ca_hatter := h\<rparr>))"

definition settings_of :: "('q, 'x, 'c, 'v, 'f, 'db) ccat \<Rightarrow> 'db" where
  "settings_of ca = mh_db (ca_hatter ca)"

definition on_settings :: "('db \<Rightarrow> 'a \<times> 'db) \<Rightarrow> ('q, 'x, 'c, 'v, 'f, 'db, 'a) ccat_comp" where
  "on_settings f ca = (case f (settings_of ca) of (r, db) \<Rightarrow> (Inr r, ca\<lparr>ca_hatter := (ca_hatter ca)\<lparr>mh_db := db\<rparr>\<rparr>))"

definition new_setting ::
  "('q, 'x, 'c, 'v, 'f, 'db) bootstrap \<Rightarrow> string \<Rightarrow> pyval \<Rightarrow> string \<Rightarrow> setting" where
  "new_setting B nm val cat = Setting (bo_setting_id B nm) (he_now (bo_env B)) nm val (Some cat)"

text \<open>\<open>get_setting_by_name\<close> on any value: only a string can be a name.\<close>

definition setting_named :: "('q, 'x, 'c, 'v, 'f, 'db) bootstrap \<Rightarrow> pyval \<Rightarrow> 'db \<Rightarrow> setting option" where
  "setting_named B nm db = (case nm of PStr s \<Rightarrow> get_setting_by_name (he_table (bo_env B)) s db | _ \<Rightarrow> None)"

text \<open>\<open>selected["value"]["name"]\<close>\<close>

definition selected_class :: "setting \<Rightarrow> pyval result" where
  "selected_class s = bindR (as_dict (set_value s)) (\<lambda>d. item d ''name'')"

text \<open>The body of the \<open>try\<close> blocks: the factory class and the stored configuration may both be missing.\<close>

definition from_config :: "'o factory_class option \<Rightarrow> setting option \<Rightarrow> 'o result" where
  "from_config cls config =
     bindR (lookup_exn (Exn ''AttributeError'' ''NoneType'') cls) (\<lambda>c.
     bindR (lookup_exn (Exn ''TypeError'' ''NoneType'') config) (\<lambda>s.
     bindR (as_dict (set_value s)) (fk_from_config c)))"

subsection \<open>Loading\<close>

definition load_language_model :: "('q, 'x, 'c, 'v, 'f, 'db) bootstrap \<Rightarrow> 'db \<Rightarrow> llm_object result" where
  "load_language_model B db =
     (case get_setting_by_name (he_table (bo_env B)) ''llm_selected'' db of
        None \<Rightarrow> Inr LLMDefault
      | Some selected_llm \<Rightarrow>
          bindR (selected_class selected_llm) (\<lambda>selected_llm_class.
          bindR (get_llm_from_name (bo_factories B) selected_llm_class) (\<lambda>FactoryClass.
            case from_config FactoryClass (setting_named B selected_llm_class db) of
              Inr llm \<Rightarrow> Inr llm
            | Inl e \<Rightarrow> Inr LLMDefault)))"

definition llm_attr :: "llm_object \<Rightarrow> string \<Rightarrow> pyval result" where
  "llm_attr llm a = lookup_exn (Exn ''AttributeError'' a) (map_of (lm_attrs llm) a)"

definition load_language_embedder ::
  "('q, 'x, 'c, 'v, 'f, 'db) bootstrap \<Rightarrow> llm_object \<Rightarrow> 'db \<Rightarrow> 'x embedder result" where
  "load_language_embedder B llm db =
     (let F = bo_factories B in
      case get_setting_by_name (he_table (bo_env B)) ''embedder_selected'' db of
        Some selected_embedder \<Rightarrow>
          bindR (selected_class selected_embedder) (\<lambda>selected_embedder_class.
          bindR (get_embedder_from_name F selected_embedder_class) (\<lambda>FactoryClass.
            case from_config FactoryClass (setting_named B selected_embedder_class db) of
              Inr embedder \<Rightarrow> Inr embedder
            | Inl e \<Rightarrow> Inr (fa_dumb_embedder F)))
      | None \<Rightarrow>
          if lm_class llm \<in> {''OpenAI'', ''ChatOpenAI''} then
            bindR (llm_attr llm ''openai_api_key'') (\<lambda>key. fa_new_embedder F ''EmbedderOpenAIConfig'' [(''openai_api_key'', key)])
          else if lm_class llm \<in> {''Cohere''} then
            bindR (llm_attr llm ''cohere_api_key'') (\<lambda>key.
              fa_new_embedder F ''EmbedderCohereConfig'' [(''cohere_api_key'', key), (''model'', PStr ''embed-multilingual-v2.0'')])
          else if lm_class llm \<in> {''ChatGoogleGenerativeAI''} then
            bindR (llm_attr llm ''google_api_key'') (\<lambda>key.
              fa_new_embedder F ''EmbedderGeminiChatConfig'' [(''model'', PStr ''models/embedding-001''), (''google_api_key'', key)])
          else Inr (fa_dumb_embedder F))"

definition load_natural_language :: "('q, 'x, 'c, 'v, 'f, 'db) bootstrap \<Rightarrow> ('q, 'x, 'c, 'v, 'f, 'db, unit) ccat_comp" where
  "load_natural_language B =
     bindM (\<lambda>ca. (load_language_model B (settings_of ca), ca)) (\<lambda>llm.
     bindM (modM (\<lambda>ca. ca\<lparr>ca_llm := llm\<rparr>)) (\<lambda>_.
     bindM (\<lambda>ca. (load_language_embedder B (ca_llm ca) (settings_of ca), ca)) (\<lambda>embedder.
     modM (\<lambda>ca. ca\<lparr>ca_embedder := embedder\<rparr>))))"

definition load_auth :: "('q, 'x, 'c, 'v, 'f, 'db) bootstrap \<Rightarrow> ('q, 'x, 'c, 'v, 'f, 'db, unit) ccat_comp" where
  "load_auth B =
     (let T = he_table (bo_env B); F = bo_factories B in
      bindM (getM (\<lambda>ca. get_setting_by_name T ''auth_handler_selected'' (settings_of ca))) (\<lambda>found.
      bindM (case found of
               Some s \<Rightarrow> retM (Some s)
             | None \<Rightarrow>
                 bindM (on_settings (upsert_setting_by_name T
                   (new_setting B ''CoreOnlyAuthConfig'' (PDict []) ''auth_handler_factory''))) (\<lambda>_.
                 bindM (on_settings (upsert_setting_by_name T
                   (new_setting B ''auth_handler_selected'' (PDict [(''name'', PStr ''CoreOnlyAuthConfig'')]) ''auth_handler_factory''))) (\<lambda>_.
                 getM (\<lambda>ca. get_setting_by_name T ''auth_handler_selected'' (settings_of ca))))) (\<lambda>selected.
      bindM (liftM (bindR (lookup_exn (Exn ''TypeError'' ''NoneType'') selected) selected_class)) (\<lambda>selected_auth_handler_class.
      bindM (liftM (get_auth_handler_from_name F selected_auth_handler_class)) (\<lambda>FactoryClass.
      bindM (getM (\<lambda>ca. setting_named B selected_auth_handler_class (settings_of ca))) (\<lambda>config.
      modM (\<lambda>ca. ca\<lparr>ca_custom_auth_handler :=
        (case from_config FactoryClass config of Inr auth_handler \<Rightarrow> auth_handler | Inl e \<Rightarrow> CoreOnlyAuthHandler)\<rparr>)))))))"

definition embedder_name :: "'x embedder \<Rightarrow> string" where
  "embedder_name em =
     (case em_model em of Some m \<Rightarrow> m
      | None \<Rightarrow> (case em_repo_id em of Some r \<Rightarrow> r | None \<Rightarrow> ''default_embedder''))"

definition load_memory :: "('q, 'x, 'c, 'v, 'f, 'db) bootstrap \<Rightarrow> ('q, 'x, 'c, 'v, 'f, 'db, unit) ccat_comp" where
  "load_memory B =
     bindM (getM ca_embedder) (\<lambda>em.
     bindM (on_hatter (in_lab (in_ext (em_embed_query em ''hello world'')))) (\<lambda>vec.
     bindM (on_hatter (in_lab (in_db (VectorMemory_init (bo_snapshots B) (bo_server B) (bo_qdrant B)
       (embedder_name em) (length vec))))) (\<lambda>vm.
     modM (\<lambda>ca. ca\<lparr>ca_memory := vm\<rparr>))))"

text \<open>
  The model without a session: no callbacks, no streaming. What the model makes of a prompt is the argument. There is no connection to
  send a message over, which is only logged.
\<close>

definition CheshireCat_llm ::
  "(llm_object \<Rightarrow> string \<Rightarrow> ('x, string) comp) \<Rightarrow> string \<Rightarrow> ('q, 'x, 'c, 'v, 'f, 'db, string) ccat_comp" where
  "CheshireCat_llm invoke prompt =
     bindM (getM ca_llm) (\<lambda>llm. on_hatter (in_lab (in_ext (invoke llm prompt))))"

definition CheshireCat_send_ws_message :: "string \<Rightarrow> string \<Rightarrow> ('q, 'x, 'c, 'v, 'f, 'db, unit) ccat_comp" where
  "CheshireCat_send_ws_message content msg_type = retM ()"

text \<open>The plugin manager with the callback that is installed after the memory was loaded.\<close>

definition hatter_env_of ::
  "('q, 'x, 'c, 'v, 'f, 'db) bootstrap \<Rightarrow> ('q, 'x, 'c, 'v, 'f, 'db) ccat \<Rightarrow> (('q, 'x) lab, 'c, 'v, 'f, 'db) hatter_env" where
  "hatter_env_of B ca =
     (bo_env B)\<lparr>he_callback :=
       (case map_of (vm_collections (ca_memory ca)) ''procedural'' of
          None \<Rightarrow> raiseM (Exn ''AttributeError'' ''procedural'')
        | Some C \<Rightarrow> on_finish_plugins_sync_callback (bo_services B) (ca_embedder ca) C (he_host (bo_env B)))\<rparr>"

definition reload_plugins :: "('q, 'x, 'c, 'v, 'f, 'db) bootstrap \<Rightarrow> ('q, 'x, 'c, 'v, 'f, 'db, unit) ccat_comp" where
  "reload_plugins B ca = on_hatter (find_plugins (hatter_env_of B ca)) ca"

text \<open>
  The bootstrap. The scheduler, the agent, the rabbit hole and the reference to the cache are
  objects without state of their own here.
\<close>

definition CheshireCat_init :: "('q, 'x, 'c, 'v, 'f, 'db) bootstrap \<Rightarrow> ('q, 'x, 'c, 'v, 'f, 'db, unit) ccat_comp" where
  "CheshireCat_init B =
     bindM (load_auth B) (\<lambda>_.
     bindM (on_hatter (find_plugins ((bo_env B)\<lparr>he_callback := retM ()\<rparr>))) (\<lambda>_.
     bindM (bo_hook B ''before_cat_bootstrap'') (\<lambda>_.
     bindM (load_natural_language B) (\<lambda>_.
     bindM (load_memory B) (\<lambda>_.
     bindM (\<lambda>ca. on_hatter (he_callback (hatter_env_of B ca)) ca) (\<lambda>_.
     bo_hook B ''after_cat_bootstrap''))))))"

subsection \<open>Endpoints for the models\<close>

text \<open>The text of an exception, as \<open>str(e)\<close> shows it.\<close>

definition error_text :: "'x services \<Rightarrow> exn \<Rightarrow> string" where
  "error_text S e =
     (case e of
        Exn cls txt \<Rightarrow> txt
      | HTTPException status detail \<Rightarrow> sv_str S (PList [PInt status, detail])
      | WebSocketException code reason \<Rightarrow> sv_str S (PList [PInt code, PStr reason]))"

definition http_error :: "int \<Rightarrow> string \<Rightarrow> exn" where
  "http_error status txt = HTTPException status (PDict [(''error'', PStr txt)])"

definition not_supported :: "'x services \<Rightarrow> string \<Rightarrow> (string, json) dict \<Rightarrow> exn" where
  "not_supported S nm schemas =
     http_error 400 (nm @ '' not supported. Must be one of '' @ sv_str S (PList (map PStr (keys schemas))))"

definition saved_value :: "setting list \<Rightarrow> string \<Rightarrow> pyval" where
  "saved_value saved_settings class_name =
     (case map_of (dict_of (map (\<lambda>s. (set_name s, s)) saved_settings)) class_name of
        Some s \<Rightarrow> set_value s | None \<Rightarrow> PDict [])"

definition settings_entry :: "string \<Rightarrow> pyval \<Rightarrow> json \<Rightarrow> json" where
  "settings_entry nm val schema = [(''name'', PStr nm), (''value'', val), (''schema'', PDict schema)]"

definition settings_page :: "(string, json) dict \<Rightarrow> setting list \<Rightarrow> pyval \<Rightarrow> json" where
  "settings_page schemas saved_settings selected =
     [(''settings'', PList (map (\<lambda>(nm, schema). PDict (settings_entry nm (saved_value saved_settings nm) schema)) schemas)),
      (''selected_configuration'', selected)]"

definition stored_selection :: "setting option \<Rightarrow> pyval result" where
  "stored_selection selected = (case selected of None \<Rightarrow> Inr PNone | Some s \<Rightarrow> selected_class s)"

text \<open>The value of the stored setting, an empty dictionary if there is none.\<close>

definition one_setting ::
  "('q, 'x, 'c, 'v, 'f, 'db) bootstrap \<Rightarrow> (string, json) dict \<Rightarrow> string \<Rightarrow> 'db \<Rightarrow> json result" where
  "one_setting B schemas nm db =
     (case map_of schemas nm of
        None \<Rightarrow> Inl (not_supported (bo_services B) nm schemas)
      | Some schema \<Rightarrow>
          Inr (settings_entry nm
            (case get_setting_by_name (he_table (bo_env B)) nm db of None \<Rightarrow> PDict [] | Some s \<Rightarrow> set_value s) schema))"

definition upsert_selection ::
  "('q, 'x, 'c, 'v, 'f, 'db) bootstrap \<Rightarrow> string \<Rightarrow> pyval \<Rightarrow> string \<Rightarrow> string \<Rightarrow> string \<Rightarrow>
   ('q, 'x, 'c, 'v, 'f, 'db, setting option) ccat_comp" where
  "upsert_selection B nm val category selected_name selected_category =
     bindM (on_settings (upsert_setting_by_name (he_table (bo_env B)) (new_setting B nm val category))) (\<lambda>final_setting.
     bindM (on_settings (upsert_setting_by_name (he_table (bo_env B))
       (new_setting B selected_name (PDict [(''name'', PStr nm)]) selected_category))) (\<lambda>_.
     retM final_setting))"

definition forget_category ::
  "('q, 'x, 'c, 'v, 'f, 'db) bootstrap \<Rightarrow> string \<Rightarrow> ('q, 'x, 'c, 'v, 'f, 'db, unit) ccat_comp" where
  "forget_category B category =
     on_settings (\<lambda>db. ((), delete_settings_by_category (he_table (bo_env B)) category db))"

definition status_of :: "string \<Rightarrow> setting option \<Rightarrow> json result" where
  "status_of nm final_setting =
     bindR (lookup_exn (Exn ''TypeError'' ''NoneType'') final_setting) (\<lambda>s. Inr [(''name'', PStr nm), (''value'', set_value s)])"

subsubsection \<open>Language models\<close>

definition get_llms_settings :: "('q, 'x, 'c, 'v, 'f, 'db) bootstrap \<Rightarrow> 'db \<Rightarrow> json result" where
  "get_llms_settings B db =
     (let T = he_table (bo_env B) in
      bindR (get_llms_schemas (bo_factories B)) (\<lambda>schemas.
      bindR (stored_selection (get_setting_by_name T ''llm_selected'' db)) (\<lambda>selected.
      Inr (settings_page schemas (get_settings_by_category T ''llm_factory'' db) selected))))"

definition get_llm_settings :: "('q, 'x, 'c, 'v, 'f, 'db) bootstrap \<Rightarrow> string \<Rightarrow> 'db \<Rightarrow> json result" where
  "get_llm_settings B nm db = bindR (get_llms_schemas (bo_factories B)) (\<lambda>schemas. one_setting B schemas nm db)"

definition upsert_llm_setting ::
  "('q, 'x, 'c, 'v, 'f, 'db) bootstrap \<Rightarrow> string \<Rightarrow> json \<Rightarrow> ('q, 'x, 'c, 'v, 'f, 'db, json) ccat_comp" where
  "upsert_llm_setting B nm payload =
     bindM (liftM (get_llms_schemas (bo_factories B))) (\<lambda>schemas.
       if nm \<notin> set (keys schemas) then raiseM (not_supported (bo_services B) nm schemas)
       else
         bindM (upsert_selection B nm (PDict payload) ''llm_factory'' ''llm_selected'' ''llm'') (\<lambda>final_setting.
         bindM (liftM (status_of nm final_setting)) (\<lambda>status.
         bindM (load_natural_language B) (\<lambda>_.
         bindM (catchM (load_memory B) (\<lambda>e.
           bindM (forget_category B ''llm'') (\<lambda>_.
           bindM (forget_category B ''llm_factory'') (\<lambda>_.
           raiseM (http_error 400 (explicit_error_message (error_text (bo_services B) e))))))) (\<lambda>_.
         bindM (reload_plugins B) (\<lambda>_.
         retM status))))))"

subsubsection \<open>Embedders\<close>

definition deduced_embedder :: "'x embedder \<Rightarrow> 'x embedder factory_class list \<Rightarrow> pyval" where
  "deduced_embedder em classes =
     foldl (\<lambda>selected cls. if fk_isinstance cls em then PStr (fk_name cls) else selected) PNone (rev classes)"

definition get_embedders_settings ::
  "('q, 'x, 'c, 'v, 'f, 'db) bootstrap \<Rightarrow> ('q, 'x, 'c, 'v, 'f, 'db) ccat \<Rightarrow> json result" where
  "get_embedders_settings B ca =
     (let T = he_table (bo_env B); F = bo_factories B in
      bindR (get_allowed_embedder_models F) (\<lambda>supported.
      bindR (case get_setting_by_name T ''embedder_selected'' (settings_of ca) of
               Some s \<Rightarrow> selected_class s
             | None \<Rightarrow> Inr (deduced_embedder (ca_embedder ca) supported)) (\<lambda>selected.
      bindR (get_embedders_schemas F) (\<lambda>schemas.
      Inr (settings_page schemas (get_settings_by_category T ''embedder_factory'' (settings_of ca)) selected)))))"

definition get_embedder_settings :: "('q, 'x, 'c, 'v, 'f, 'db) bootstrap \<Rightarrow> string \<Rightarrow> 'db \<Rightarrow> json result" where
  "get_embedder_settings B nm db = bindR (get_embedders_schemas (bo_factories B)) (\<lambda>schemas. one_setting B schemas nm db)"

definition restore_embedder ::
  "('q, 'x, 'c, 'v, 'f, 'db) bootstrap \<Rightarrow> (pyval \<times> setting option) option \<Rightarrow> exn \<Rightarrow> ('q, 'x, 'c, 'v, 'f, 'db, unit) ccat_comp" where
  "restore_embedder B previous e =
     bindM (forget_category B ''embedder'') (\<lambda>_.
     bindM (forget_category B ''embedder_factory'') (\<lambda>_.
     bindM (case previous of
              None \<Rightarrow> retM ()
            | Some (nm, current_settings) \<Rightarrow>
                bindM (liftM (lookup_exn (Exn ''TypeError'' ''NoneType'') current_settings)) (\<lambda>cur.
                bindM (liftM (as_str nm)) (\<lambda>n.
                bindM (upsert_selection B n (set_value cur) ''embedder_factory'' ''embedder_selected'' ''embedder'') (\<lambda>_.
                load_natural_language B)))) (\<lambda>_.
     raiseM (http_error 400 (explicit_error_message
       (''Error while changing embedder: '' @ error_text (bo_services B) e))))))"

definition upsert_embedder_setting ::
  "('q, 'x, 'c, 'v, 'f, 'db) bootstrap \<Rightarrow> string \<Rightarrow> json \<Rightarrow> ('q, 'x, 'c, 'v, 'f, 'db, json) ccat_comp" where
  "upsert_embedder_setting B nm payload =
     (let T = he_table (bo_env B) in
      bindM (liftM (get_embedders_schemas (bo_factories B))) (\<lambda>schemas.
        if nm \<notin> set (keys schemas) then raiseM (not_supported (bo_services B) nm schemas)
        else
          bindM (getM (\<lambda>ca. get_setting_by_name T ''embedder_selected'' (settings_of ca))) (\<lambda>selected.
          bindM (case selected of
                   None \<Rightarrow> retM None
                 | Some s \<Rightarrow>
                     bindM (liftM (selected_class s)) (\<lambda>previous.
                     getM (\<lambda>ca. Some (previous, setting_named B previous (settings_of ca))))) (\<lambda>previous.
          bindM (upsert_selection B nm (PDict payload) ''embedder_factory'' ''embedder_selected'' ''embedder'') (\<lambda>final_setting.
          bindM (liftM (status_of nm final_setting)) (\<lambda>status.
          bindM (load_natural_language B) (\<lambda>_.
          bindM (catchM (load_memory B) (restore_embedder B previous)) (\<lambda>_.
          bindM (reload_plugins B) (\<lambda>_.
          retM status)))))))))"

subsubsection \<open>Auth handlers\<close>

definition get_auth_handler_settings :: "('q, 'x, 'c, 'v, 'f, 'db) bootstrap \<Rightarrow> 'db \<Rightarrow> json result" where
  "get_auth_handler_settings B db =
     (let T = he_table (bo_env B) in
      bindR (stored_selection (get_setting_by_name T ''auth_handler_selected'' db)) (\<lambda>selected.
      bindR (get_auth_handlers_schemas (bo_factories B)) (\<lambda>schemas.
      Inr (settings_page schemas (get_settings_by_category T ''auth_handler_factory'' db) selected))))"

definition get_auth_handler_setting :: "('q, 'x, 'c, 'v, 'f, 'db) bootstrap \<Rightarrow> string \<Rightarrow> 'db \<Rightarrow> json result" where
  "get_auth_handler_setting B nm db =
     bindR (get_auth_handlers_schemas (bo_factories B)) (\<lambda>schemas. one_setting B schemas nm db)"

definition upsert_authenticator_setting ::
  "('q, 'x, 'c, 'v, 'f, 'db) bootstrap \<Rightarrow> string \<Rightarrow> json \<Rightarrow> ('q, 'x, 'c, 'v, 'f, 'db, json) ccat_comp" where
  "upsert_authenticator_setting B nm payload =
     bindM (liftM (get_auth_handlers_schemas (bo_factories B))) (\<lambda>schemas.
       if nm \<notin> set (keys schemas) then raiseM (not_supported (bo_services B) nm schemas)
       else
         bindM (upsert_selection B nm (PDict payload) ''auth_handler_factory'' ''auth_handler_selected'' ''auth_handler_factory'') (\<lambda>_.
         bindM (load_auth B) (\<lambda>_.
         retM [(''name'', PStr nm), (''value'', PDict payload)])))"

subsection \<open>Wiping collections\<close>

text \<open>\<open>core/cat/routes/memory/collections.py\<close>. The answer of Qdrant to a deletion is \<open>True\<close>.\<close>

definition in_vectors :: "('q, 'a) comp \<Rightarrow> ('q, 'x, 'c, 'v, 'f, 'db, 'a) ccat_comp" where
  "in_vectors m = on_hatter (in_lab (in_db m))"

definition get_collections :: "('q \<Rightarrow> string \<Rightarrow> int result) \<Rightarrow> 'q vector_memory \<Rightarrow> 'q \<Rightarrow> json result" where
  "get_collections points_count V q =
     map_sum id (\<lambda>xs. [(''collections'', PList xs)])
       (foldr (\<lambda>c r. bindR (points_count q c) (\<lambda>n. bindR r (\<lambda>xs.
          Inr (PDict [(''name'', PStr c), (''vectors_count'', PInt n)] # xs)))) (keys (vm_collections V)) (Inr []))"

definition wipe_collections :: "('q, 'x, 'c, 'v, 'f, 'db) bootstrap \<Rightarrow> ('q, 'x, 'c, 'v, 'f, 'db, json) ccat_comp" where
  "wipe_collections B =
     bindM (getM (\<lambda>ca. ca_memory ca)) (\<lambda>V.
     bindM (forM (keys (vm_collections V)) (\<lambda>c. in_vectors (modM (VectorMemory_delete_collection V c)))) (\<lambda>_.
     bindM (load_memory B) (\<lambda>_.
     bindM (reload_plugins B) (\<lambda>_.
     retM [(''deleted'', PDict (map (\<lambda>c. (c, PBool True)) (keys (vm_collections V))))]))))"

definition wipe_single_collection ::
  "('q, 'x, 'c, 'v, 'f, 'db) bootstrap \<Rightarrow> string \<Rightarrow> ('q, 'x, 'c, 'v, 'f, 'db, json) ccat_comp" where
  "wipe_single_collection B collection_id =
     bindM (getM (\<lambda>ca. ca_memory ca)) (\<lambda>V.
       if collection_id \<notin> set (keys (vm_collections V)) then raiseM (http_error 400 ''Collection does not exist.'')
       else
         bindM (in_vectors (modM (VectorMemory_delete_collection V collection_id))) (\<lambda>_.
         bindM (load_memory B) (\<lambda>_.
         bindM (reload_plugins B) (\<lambda>_.
         retM [(''deleted'', PDict [(collection_id, PBool True)])]))))"

subsection \<open>Lemmas\<close>

definition with_settings :: "'db \<Rightarrow> ('q, 'x, 'c, 'v, 'f, 'db) ccat \<Rightarrow> ('q, 'x, 'c, 'v, 'f, 'db) ccat" where
  "with_settings db ca = ca\<lparr>ca_hatter := (ca_hatter ca)\<lparr>mh_db := db\<rparr>\<rparr>"

definition lab_of :: "('q, 'x, 'c, 'v, 'f, 'db) ccat \<Rightarrow> ('q, 'x) lab" where
  "lab_of ca = mc_own (mh_machine (ca_hatter ca))"

lemma with_settings_sel [simp]:
  "settings_of (with_settings db ca) = db" "ca_llm (with_settings db ca) = ca_llm ca"
  "ca_embedder (with_settings db ca) = ca_embedder ca" "ca_memory (with_settings db ca) = ca_memory ca"
  "lab_of (with_settings db ca) = lab_of ca" "with_settings db (with_settings db' ca) = with_settings db ca"
  by (simp_all add: with_settings_def settings_of_def lab_of_def)

lemma on_settings_run: "on_settings f ca = (Inr (fst (f (settings_of ca))), with_settings (snd (f (settings_of ca))) ca)"
  by (simp add: on_settings_def with_settings_def case_prod_beta)

text \<open>The data base after a choice was saved.\<close>

definition chosen :: "('q, 'x, 'c, 'v, 'f, 'db) bootstrap \<Rightarrow> string \<Rightarrow> pyval \<Rightarrow> string \<Rightarrow> string \<Rightarrow> string \<Rightarrow> 'db \<Rightarrow> 'db" where
  "chosen B nm val category sel selcat db =
     snd (upsert_setting_by_name (he_table (bo_env B)) (new_setting B sel (PDict [(''name'', PStr nm)]) selcat)
       (snd (upsert_setting_by_name (he_table (bo_env B)) (new_setting B nm val category) db)))"

lemma new_setting_sel [simp]:
  "set_name (new_setting B nm val cat) = nm" "set_value (new_setting B nm val cat) = val"
  "set_category (new_setting B nm val cat) = Some cat"
  by (simp_all add: new_setting_def)

lemma upsert_selection_run:
  assumes "tinydb_table (he_table (bo_env B)) docs"
  shows "upsert_selection B nm val category sel selcat ca =
    (Inr (Some (new_setting B nm val category)), with_settings (chosen B nm val category sel selcat (settings_of ca)) ca)"
  by (simp add: upsert_selection_def bindM_def on_settings_run chosen_def tinydb_table.lookup_upsert [OF assms]
      tinydb_table.upsert_result [OF assms])

lemma chosen_lookup:
  assumes "tinydb_table (he_table (bo_env B)) docs"
  shows "get_setting_by_name (he_table (bo_env B)) n (chosen B nm val category sel selcat db) =
    (if n = sel then Some (new_setting B sel (PDict [(''name'', PStr nm)]) selcat)
     else if n = nm then Some (new_setting B nm val category) else get_setting_by_name (he_table (bo_env B)) n db)"
  by (simp add: chosen_def tinydb_table.lookup_upsert [OF assms])

text \<open>The embedder a selected class and its stored value give.\<close>

definition embedder_for :: "('x, 'db) factories \<Rightarrow> 'x embedder factory_class list \<Rightarrow> string \<Rightarrow> pyval \<Rightarrow> 'x embedder" where
  "embedder_for F classes nm val =
     (case bindR (lookup_exn (Exn ''AttributeError'' ''NoneType'') (class_named (PStr nm) classes)) (\<lambda>c.
             bindR (as_dict val) (fk_from_config c)) of
        Inr em \<Rightarrow> em | Inl e \<Rightarrow> fa_dumb_embedder F)"

definition selection_ok :: "('q, 'x, 'c, 'v, 'f, 'db) bootstrap \<Rightarrow> string \<Rightarrow> 'db \<Rightarrow> bool" where
  "selection_ok B nm db \<longleftrightarrow>
     (case get_setting_by_name (he_table (bo_env B)) nm db of None \<Rightarrow> True | Some s \<Rightarrow> \<exists>v. selected_class s = Inr v)"

lemma load_language_model_returns:
  assumes "get_allowed_language_models (bo_factories B) = Inr models" "selection_ok B ''llm_selected'' db"
  shows "\<exists>llm. load_language_model B db = Inr llm"
  using assms by (auto simp: load_language_model_def selection_ok_def get_llm_from_name_def split: option.splits sum.split)

lemma load_embedder_for:
  assumes "get_allowed_embedder_models (bo_factories B) = Inr classes"
    and "get_setting_by_name (he_table (bo_env B)) ''embedder_selected'' db = Some s" "selected_class s = Inr (PStr nm)"
    and "get_setting_by_name (he_table (bo_env B)) nm db = Some c"
  shows "load_language_embedder B llm db = Inr (embedder_for (bo_factories B) classes nm (set_value c))"
  using assms by (simp add: load_language_embedder_def Let_def get_embedder_from_name_def setting_named_def from_config_def
      embedder_for_def split: sum.split)

lemma load_natural_language_run:
  assumes "get_allowed_language_models (bo_factories B) = Inr models" "selection_ok B ''llm_selected'' (settings_of ca)"
    and "get_allowed_embedder_models (bo_factories B) = Inr classes"
    and "get_setting_by_name (he_table (bo_env B)) ''embedder_selected'' (settings_of ca) = Some s"
    and "selected_class s = Inr (PStr nm)" "get_setting_by_name (he_table (bo_env B)) nm (settings_of ca) = Some c"
  shows "\<exists>llm. load_natural_language B ca =
    (Inr (), ca\<lparr>ca_llm := llm, ca_embedder := embedder_for (bo_factories B) classes nm (set_value c)\<rparr>)"
proof -
  from load_language_model_returns [OF assms(1,2)] obtain llm where llm: "load_language_model B (settings_of ca) = Inr llm" ..
  have "settings_of (ca\<lparr>ca_llm := llm\<rparr>) = settings_of ca" by (simp add: settings_of_def)
  then show ?thesis using llm load_embedder_for [OF assms(3-6)]
    by (intro exI [of _ llm]) (simp add: load_natural_language_def bindM_def)
qed

lemma load_memory_fails:
  assumes "em_embed_query (ca_embedder ca) ''hello world'' (lb_ext (lab_of ca)) = (Inl e, x')"
  shows "\<exists>ca'. load_memory B ca = (Inl e, ca') \<and> settings_of ca' = settings_of ca \<and> ca_memory ca' = ca_memory ca \<and>
    lb_db (lab_of ca') = lb_db (lab_of ca) \<and> ca_llm ca' = ca_llm ca"
  using assms by (simp add: load_memory_def bindM_def on_hatter_def in_lab_def in_ext_def lab_of_def settings_of_def)

lemma find_name_filter:
  "distinct (map set_name ds) \<Longrightarrow> find (\<lambda>d. set_name d = n) (filter P ds) =
     (case find (\<lambda>d. set_name d = n) ds of None \<Rightarrow> None | Some d \<Rightarrow> if P d then Some d else None)"
proof (induction ds)
  case (Cons d ds)
  have "set_name d = n \<Longrightarrow> find (\<lambda>d. set_name d = n) ds = None"
    using Cons.prems unfolding find_None_iff by (metis distinct.simps(2) image_eqI list.map(2) list.set_map)
  with Cons show ?case by auto
qed simp

lemma filter_replaced_one:
  assumes "distinct (map set_name ds)" "n \<in> set_name ` set ds" "\<forall>d \<in> set ds. set_category d \<noteq> Some c" "set_category s = Some c"
  shows "filter (\<lambda>d. set_category d = Some c) (map (\<lambda>d. if set_name d = n then s else d) ds) = [s]"
  using assms
proof (induction ds)
  case (Cons d ds)
  have none: "filter (\<lambda>d. set_category d = Some c) (map (\<lambda>d. if set_name d = n then s else d) ds) = []"
    if "n \<notin> set_name ` set ds"
    using that Cons.prems(3) by (auto simp: filter_empty_conv image_iff)
  show ?case
  proof (cases "set_name d = n")
    case True
    then have "n \<notin> set_name ` set ds" using Cons.prems(1) by auto
    with True none Cons.prems show ?thesis by simp
  next
    case False
    with Cons show ?thesis by auto
  qed
qed simp

context tinydb_table
begin

lemma docs_forget: "docs (delete_settings_by_category T c db) = filter (\<lambda>d. set_category d \<noteq> Some c) (docs db)"
  by (simp add: delete_settings_by_category_def td_remove)

lemma lookup_forget:
  "distinct (map set_name (docs db)) \<Longrightarrow> get_setting_by_name T n (delete_settings_by_category T c db) =
     (case get_setting_by_name T n db of None \<Rightarrow> None | Some d \<Rightarrow> if set_category d \<noteq> Some c then Some d else None)"
  by (simp add: by_name_find docs_forget find_name_filter)

lemma upsert_category_only:
  assumes "distinct (map set_name (docs db))" "\<forall>d \<in> set (docs db). set_category d \<noteq> Some c" "set_category s = Some c"
  shows "get_settings_by_category T c (snd (upsert_setting_by_name T s db)) = [s]"
proof (cases "set_name s \<in> set_name ` set (docs db)")
  case True
  then have "\<exists>d \<in> set (docs db). set_name d = set_name s" by auto
  then show ?thesis using filter_replaced_one [OF assms(1) True assms(2,3)]
    by (simp add: get_settings_by_category_def td_search docs_upsert)
next
  case False
  then have "\<not> (\<exists>d \<in> set (docs db). set_name d = set_name s)" by (metis image_eqI)
  then show ?thesis using assms(2,3)
    by (simp add: get_settings_by_category_def td_search docs_upsert filter_empty_conv)
qed

lemma upsert_other_category:
  assumes "get_setting_by_name T (set_name s) db = None" "set_category s \<noteq> Some c"
  shows "get_settings_by_category T c (snd (upsert_setting_by_name T s db)) = get_settings_by_category T c db"
proof -
  have "\<not> (\<exists>d \<in> set (docs db). set_name d = set_name s)" using assms(1) by (auto simp: by_name_find find_None_iff)
  then show ?thesis using assms(2) by (simp add: get_settings_by_category_def td_search docs_upsert)
qed

end

text \<open>The data base between the failure and the restoration.\<close>

definition embedders_forgotten :: "('q, 'x, 'c, 'v, 'f, 'db) bootstrap \<Rightarrow> 'db \<Rightarrow> 'db" where
  "embedders_forgotten B db =
     delete_settings_by_category (he_table (bo_env B)) ''embedder_factory''
       (delete_settings_by_category (he_table (bo_env B)) ''embedder'' db)"

lemma restored_database:
  assumes T: "tinydb_table (he_table (bo_env B)) docs" and d: "distinct (map set_name (docs db))"
    and names: "nm \<noteq> ''embedder_selected''" "nm \<noteq> ''llm_selected''" "old \<noteq> ''embedder_selected''" "old \<noteq> ''llm_selected''"
    and ok: "selection_ok B ''llm_selected'' db"
  shows "let db3 = chosen B old val ''embedder_factory'' ''embedder_selected'' ''embedder''
      (embedders_forgotten B (chosen B nm new ''embedder_factory'' ''embedder_selected'' ''embedder'' db))
    in selection_ok B ''llm_selected'' db3 \<and>
      map set_name (get_settings_by_category (he_table (bo_env B)) ''embedder_factory'' db3) = [old]"
proof -
  let ?T = "he_table (bo_env B)"
  let ?db1 = "chosen B nm new ''embedder_factory'' ''embedder_selected'' ''embedder'' db"
  let ?db2 = "embedders_forgotten B ?db1"
  let ?s = "new_setting B old val ''embedder_factory''"
  have d1: "distinct (map set_name (docs ?db1))"
    unfolding chosen_def by (intro tinydb_table.upsert_distinct_names [OF T] d)
  have d2: "distinct (map set_name (docs (delete_settings_by_category ?T ''embedder'' ?db1)))"
    by (simp add: tinydb_table.docs_forget [OF T] d1 distinct_map_filter)
  have llm1: "get_setting_by_name ?T ''llm_selected'' ?db1 = get_setting_by_name ?T ''llm_selected'' db"
    using names by (simp add: chosen_lookup [OF T])
  have llm2: "get_setting_by_name ?T ''llm_selected'' ?db2 \<in> {None, get_setting_by_name ?T ''llm_selected'' db}"
    by (auto simp: embedders_forgotten_def tinydb_table.lookup_forget [OF T] d1 d2 llm1 split: option.splits if_splits)
  have sel2: "get_setting_by_name ?T ''embedder_selected'' ?db2 = None"
    by (simp add: embedders_forgotten_def tinydb_table.lookup_forget [OF T] d1 d2 chosen_lookup [OF T])
  have "selection_ok B ''llm_selected'' (chosen B old val ''embedder_factory'' ''embedder_selected'' ''embedder'' ?db2)"
    using llm2 ok names by (auto simp: selection_ok_def chosen_lookup [OF T])
  moreover have "get_settings_by_category ?T ''embedder_factory'' (snd (upsert_setting_by_name ?T ?s ?db2)) = [?s]"
    by (rule tinydb_table.upsert_category_only [OF T])
      (auto simp: embedders_forgotten_def tinydb_table.docs_forget [OF T] d1 distinct_map_filter)
  moreover have "get_setting_by_name ?T ''embedder_selected'' (snd (upsert_setting_by_name ?T ?s ?db2)) = None"
    using names sel2 by (simp add: tinydb_table.lookup_upsert [OF T])
  ultimately show ?thesis
    by (simp add: chosen_def tinydb_table.upsert_other_category [OF T])
qed

lemma upsert_embedder_prefix:
  assumes T: "tinydb_table (he_table (bo_env B)) docs"
    and classes: "get_allowed_embedder_models (bo_factories B) = Inr classes"
      "schemas_from ''languageEmbedderName'' [] classes = Inr schemas" "nm \<in> set (keys schemas)"
    and models: "get_allowed_language_models (bo_factories B) = Inr models"
    and names: "nm \<noteq> ''embedder_selected''" "nm \<noteq> ''llm_selected''"
    and sel: "get_setting_by_name (he_table (bo_env B)) ''embedder_selected'' (settings_of ca) = Some s"
      "selected_class s = Inr (PStr old)" "selection_ok B ''llm_selected'' (settings_of ca)"
  shows "\<exists>llm. upsert_embedder_setting B nm payload ca =
     bindM (catchM (load_memory B)
         (restore_embedder B (Some (PStr old, get_setting_by_name (he_table (bo_env B)) old (settings_of ca))))) (\<lambda>_.
       bindM (reload_plugins B) (\<lambda>_. retM [(''name'', PStr nm), (''value'', PDict payload)]))
     ((with_settings (chosen B nm (PDict payload) ''embedder_factory'' ''embedder_selected'' ''embedder'' (settings_of ca)) ca)
       \<lparr>ca_llm := llm, ca_embedder := embedder_for (bo_factories B) classes nm (PDict payload)\<rparr>)"
proof -
  let ?db1 = "chosen B nm (PDict payload) ''embedder_factory'' ''embedder_selected'' ''embedder'' (settings_of ca)"
  let ?s1 = "new_setting B ''embedder_selected'' (PDict [(''name'', PStr nm)]) ''embedder''"
  let ?c1 = "new_setting B nm (PDict payload) ''embedder_factory''"
  have ok1: "selection_ok B ''llm_selected'' ?db1" using sel(3) names by (simp add: selection_ok_def chosen_lookup [OF T])
  have look1: "get_setting_by_name (he_table (bo_env B)) ''embedder_selected'' ?db1 = Some ?s1"
    "get_setting_by_name (he_table (bo_env B)) nm ?db1 = Some ?c1" "selected_class ?s1 = Inr (PStr nm)"
    using names by (simp_all add: chosen_lookup [OF T] selected_class_def item_def)
  obtain llm where llm: "load_natural_language B (with_settings ?db1 ca) =
     (Inr (), (with_settings ?db1 ca)\<lparr>ca_llm := llm, ca_embedder := embedder_for (bo_factories B) classes nm (PDict payload)\<rparr>)"
    using load_natural_language_run [OF models _ classes(1), of "with_settings ?db1 ca" ?s1 nm ?c1] ok1 look1 by auto
  have "get_embedders_schemas (bo_factories B) = Inr schemas" using classes by (simp add: get_embedders_schemas_def)
  then show ?thesis using classes(3) sel llm
    by (intro exI [of _ llm]) (simp add: upsert_embedder_setting_def Let_def bindM_def [of "upsert_selection _ _ _ _ _ _"]
        upsert_selection_run [OF T] status_of_def setting_named_def bindM_step bindM_def [of "load_natural_language B"])
qed

subsection \<open>Properties\<close>

text \<open>
  (C17) Changing the embedder to one that does not answer is undone. When the probe with which the size of
  the embedder is measured raises, the request is answered with status 400, the previous
  embedder is selected again with its old configuration and is the one the cat uses, and neither
  the collections nor the vector data base were touched. The stored configurations of all other
  embedders are lost.
\<close>

theorem embedder_change_rolls_back:
  assumes T: "tinydb_table (he_table (bo_env B)) docs" and d: "distinct (map set_name (docs (settings_of ca)))"
    and classes: "get_allowed_embedder_models (bo_factories B) = Inr classes"
      "schemas_from ''languageEmbedderName'' [] classes = Inr schemas" "nm \<in> set (keys schemas)"
    and models: "get_allowed_language_models (bo_factories B) = Inr models"
    and names: "nm \<noteq> ''embedder_selected''" "nm \<noteq> ''llm_selected''" "old \<noteq> ''embedder_selected''" "old \<noteq> ''llm_selected''"
    and sel: "get_setting_by_name (he_table (bo_env B)) ''embedder_selected'' (settings_of ca) = Some s"
      "selected_class s = Inr (PStr old)" "get_setting_by_name (he_table (bo_env B)) old (settings_of ca) = Some cur"
      "selection_ok B ''llm_selected'' (settings_of ca)"
    and fails: "em_embed_query (embedder_for (bo_factories B) classes nm (PDict payload)) ''hello world'' (lb_ext (lab_of ca)) = (Inl e, x')"
  shows "\<exists>ca'. upsert_embedder_setting B nm payload ca =
      (Inl (http_error 400 (explicit_error_message (''Error while changing embedder: '' @ error_text (bo_services B) e))), ca') \<and>
     map_option set_value (get_setting_by_name (he_table (bo_env B)) ''embedder_selected'' (settings_of ca')) =
       Some (PDict [(''name'', PStr old)]) \<and>
     map_option set_value (get_setting_by_name (he_table (bo_env B)) old (settings_of ca')) = Some (set_value cur) \<and>
     ca_embedder ca' = embedder_for (bo_factories B) classes old (set_value cur) \<and>
     ca_memory ca' = ca_memory ca \<and> lb_db (lab_of ca') = lb_db (lab_of ca) \<and>
     map set_name (get_settings_by_category (he_table (bo_env B)) ''embedder_factory'' (settings_of ca')) = [old]"
proof -
  let ?T = "he_table (bo_env B)"
  let ?db1 = "chosen B nm (PDict payload) ''embedder_factory'' ''embedder_selected'' ''embedder'' (settings_of ca)"
  define db3 where "db3 = chosen B old (set_value cur) ''embedder_factory'' ''embedder_selected'' ''embedder''
      (embedders_forgotten B ?db1)"
  have db3: "selection_ok B ''llm_selected'' db3"
    "map set_name (get_settings_by_category ?T ''embedder_factory'' db3) = [old]"
    using restored_database [OF T d names sel(4), of "set_value cur" "PDict payload"] by (simp_all add: db3_def Let_def)
  have look3: "get_setting_by_name ?T ''embedder_selected'' db3 = Some (new_setting B ''embedder_selected'' (PDict [(''name'', PStr old)]) ''embedder'')"
    "get_setting_by_name ?T old db3 = Some (new_setting B old (set_value cur) ''embedder_factory'')"
    using names by (simp_all add: db3_def chosen_lookup [OF T])
  obtain llm where step: "upsert_embedder_setting B nm payload ca =
     bindM (catchM (load_memory B) (restore_embedder B (Some (PStr old, Some cur)))) (\<lambda>_.
       bindM (reload_plugins B) (\<lambda>_. retM [(''name'', PStr nm), (''value'', PDict payload)]))
     ((with_settings ?db1 ca)\<lparr>ca_llm := llm, ca_embedder := embedder_for (bo_factories B) classes nm (PDict payload)\<rparr>)"
    using upsert_embedder_prefix [OF T classes models names(1,2) sel(1,2,4)] sel(3) by auto
  let ?ca1 = "(with_settings ?db1 ca)\<lparr>ca_llm := llm, ca_embedder := embedder_for (bo_factories B) classes nm (PDict payload)\<rparr>"
  have same: "settings_of ?ca1 = ?db1" "lab_of ?ca1 = lab_of ca" "ca_memory ?ca1 = ca_memory ca"
    by (simp_all add: settings_of_def lab_of_def with_settings_def)
  obtain ca2 where ca2: "load_memory B ?ca1 = (Inl e, ca2)" "settings_of ca2 = ?db1" "ca_memory ca2 = ca_memory ca"
    "lb_db (lab_of ca2) = lb_db (lab_of ca)"
    using load_memory_fails [of ?ca1 e x' B] fails same by auto
  let ?c3 = "new_setting B old (set_value cur) ''embedder_factory''"
  let ?s3 = "new_setting B ''embedder_selected'' (PDict [(''name'', PStr old)]) ''embedder''"
  obtain llm3 where reload: "load_natural_language B (with_settings db3 ca2) =
     (Inr (), (with_settings db3 ca2)\<lparr>ca_llm := llm3, ca_embedder := embedder_for (bo_factories B) classes old (set_value cur)\<rparr>)"
    using load_natural_language_run [OF models _ classes(1), of "with_settings db3 ca2" ?s3 old ?c3] db3(1) look3
    by (auto simp: selected_class_def item_def)
  let ?ca3 = "(with_settings db3 ca2)\<lparr>ca_llm := llm3, ca_embedder := embedder_for (bo_factories B) classes old (set_value cur)\<rparr>"
  have forget: "forget_category B c ca = (Inr (), with_settings (delete_settings_by_category ?T c (settings_of ca)) ca)" for c ca
    by (simp add: forget_category_def on_settings_run)
  have "restore_embedder B (Some (PStr old, Some cur)) e ca2 =
      (Inl (http_error 400 (explicit_error_message (''Error while changing embedder: '' @ error_text (bo_services B) e))), ?ca3)"
    using reload by (simp add: restore_embedder_def bindM_def forget upsert_selection_run [OF T] ca2(2) db3_def
        embedders_forgotten_def)
  then have run: "upsert_embedder_setting B nm payload ca =
      (Inl (http_error 400 (explicit_error_message (''Error while changing embedder: '' @ error_text (bo_services B) e))), ?ca3)"
    by (simp add: step bindM_def catchM_def ca2(1))
  have "settings_of ?ca3 = db3" "lab_of ?ca3 = lab_of ca2" by (simp_all add: settings_of_def lab_of_def with_settings_def)
  then show ?thesis using run db3(2) look3 ca2(3,4) by (intro exI [of _ ?ca3]) simp
qed

text \<open>
  Changing the language model is not undone in the same way: when the embedder that goes with the new model
  does not answer, all stored language model settings are deleted, but the cat goes on
  with the model that was refused, until the next start gives it the default one.
\<close>

lemma llm_change_keeps_refused_model:
  assumes T: "tinydb_table (he_table (bo_env B)) docs" and d: "distinct (map set_name (docs (settings_of ca)))"
    and classes: "get_allowed_language_models (bo_factories B) = Inr models"
      "schemas_from ''languageModelName'' [] models = Inr schemas" "nm \<in> set (keys schemas)"
    and load: "load_natural_language B (with_settings (chosen B nm (PDict payload) ''llm_factory'' ''llm_selected'' ''llm'' (settings_of ca)) ca) =
        (Inr (), ca2)"
      "settings_of ca2 = chosen B nm (PDict payload) ''llm_factory'' ''llm_selected'' ''llm'' (settings_of ca)"
    and fails: "em_embed_query (ca_embedder ca2) ''hello world'' (lb_ext (lab_of ca2)) = (Inl e, x')"
  shows "\<exists>ca'. upsert_llm_setting B nm payload ca =
      (Inl (http_error 400 (explicit_error_message (error_text (bo_services B) e))), ca') \<and>
     ca_llm ca' = ca_llm ca2 \<and> load_language_model B (settings_of ca') = Inr LLMDefault \<and>
     get_settings_by_category (he_table (bo_env B)) ''llm_factory'' (settings_of ca') = []"
proof -
  let ?T = "he_table (bo_env B)"
  let ?db1 = "chosen B nm (PDict payload) ''llm_factory'' ''llm_selected'' ''llm'' (settings_of ca)"
  let ?db2 = "delete_settings_by_category ?T ''llm_factory'' (delete_settings_by_category ?T ''llm'' ?db1)"
  obtain ca3 where ca3: "load_memory B ca2 = (Inl e, ca3)" "settings_of ca3 = ?db1" "ca_llm ca3 = ca_llm ca2"
    using load_memory_fails [OF fails, of B] load(2) by auto
  have d1: "distinct (map set_name (docs ?db1))"
    unfolding chosen_def by (intro tinydb_table.upsert_distinct_names [OF T] d)
  have d2: "distinct (map set_name (docs (delete_settings_by_category ?T ''llm'' ?db1)))"
    by (simp add: tinydb_table.docs_forget [OF T] d1 distinct_map_filter)
  have "get_setting_by_name ?T ''llm_selected'' ?db2 = None"
    by (simp add: tinydb_table.lookup_forget [OF T] d1 d2 chosen_lookup [OF T])
  then have "load_language_model B ?db2 = Inr LLMDefault" by (simp add: load_language_model_def)
  moreover have "get_settings_by_category ?T ''llm_factory'' ?db2 = []"
    by (simp add: get_settings_by_category_def tinydb_table.td_search [OF T] tinydb_table.docs_forget [OF T] filter_empty_conv)
  moreover have "upsert_llm_setting B nm payload ca =
      (Inl (http_error 400 (explicit_error_message (error_text (bo_services B) e))), with_settings ?db2 ca3)"
    using classes load(1) ca3(1,2) by (simp add: upsert_llm_setting_def get_llms_schemas_def bindM_def upsert_selection_run [OF T]
        status_of_def catchM_def forget_category_def on_settings_run)
  ultimately show ?thesis using ca3(3) by (intro exI [of _ "with_settings ?db2 ca3"]) simp
qed

definition silent_embedder :: "nat embedder" where
  "silent_embedder = demo_embedder\<lparr>em_embed_query := (\<lambda>t. raiseM (Exn ''ConnectError'' ''no route to host''))\<rparr>"

definition demo_factories :: "(nat, setting list) factories" where
  "demo_factories =
     \<lparr>fa_schema = (\<lambda>nm. [(''title'', PStr nm)]), fa_loads = (\<lambda>t. Inr PNone),
      fa_new_llm = (\<lambda>nm config. Inr \<lparr>lm_class = nm, lm_attrs = config\<rparr>),
      fa_new_embedder = (\<lambda>nm config. Inr (if nm = ''EmbedderDumbConfig'' then demo_embedder else silent_embedder)),
      fa_dumb_embedder = demo_embedder, fa_is_embedder = (\<lambda>nm em. em_class em = nm), fa_is_auth_handler = (\<lambda>nm h. True),
      fa_allowed_llms = Inr, fa_allowed_embedders = Inr, fa_allowed_auth_handlers = Inr\<rparr>"

definition demo_bootstrap :: "(lstore, nat, unit, unit, unit, setting list) bootstrap" where
  "demo_bootstrap =
     \<lparr>bo_env = demo_lab_env, bo_factories = demo_factories, bo_services = demo_services, bo_qdrant = list_qdrant,
      bo_snapshots = False, bo_server = local_server, bo_setting_id = (\<lambda>nm. nm), bo_hook = (\<lambda>n. retM ())\<rparr>"

definition demo_settings :: "setting list" where
  "demo_settings =
     [Setting ''s1'' 0 ''embedder_selected'' (PDict [(''name'', PStr ''EmbedderDumbConfig'')]) (Some ''embedder''),
      Setting ''s2'' 0 ''EmbedderDumbConfig'' (PDict []) (Some ''embedder_factory''),
      Setting ''s3'' 0 ''EmbedderCohereConfig'' (PDict [(''cohere_api_key'', PStr ''k'')]) (Some ''embedder_factory'')]"

definition demo_ccat :: "(lstore, nat, unit, unit, unit, setting list) ccat" where
  "demo_ccat =
     \<lparr>ca_llm = LLMDefault, ca_embedder = demo_embedder, ca_custom_auth_handler = CoreOnlyAuthHandler,
      ca_memory = \<lparr>vm_client = list_qdrant, vm_collections = [(''procedural'', demo_procedural)]\<rparr>,
      ca_hatter = demo_lab_hatter\<lparr>mh_db := demo_settings\<rparr>\<rparr>"

lemma demo_classes:
  "get_allowed_embedder_models (bo_factories demo_bootstrap) = Inr (map (embedder_config demo_factories) list_embedder_default)"
  "get_allowed_language_models (bo_factories demo_bootstrap) = Inr (map (llm_config demo_factories) list_llms_default)"
  by (simp_all add: get_allowed_embedder_models_def get_allowed_language_models_def demo_bootstrap_def demo_factories_def)

lemma schemas_keys:
  assumes "\<forall>c \<in> set classes. map_of (fk_schema c) ''title'' = Some (PStr (fk_name c))"
  shows "\<exists>d. schemas_from label acc classes = Inr d \<and> set (keys d) = set (keys acc) \<union> fk_name ` set classes"
  using assms
proof (induction classes arbitrary: acc)
  case (Cons c classes)
  let ?acc = "AList.update (fk_name c) (AList.update label (PStr (fk_name c)) (fk_schema c)) acc"
  from Cons.IH [of ?acc] Cons.prems obtain d where "schemas_from label ?acc classes = Inr d"
    "set (keys d) = set (keys ?acc) \<union> fk_name ` set classes" by auto
  then show ?case using Cons.prems by (auto simp: item_def keys_update)
qed simp

lemma demo_embedder_for:
  "embedder_for (bo_factories demo_bootstrap) (map (embedder_config demo_factories) list_embedder_default) ''EmbedderOpenAIConfig'' (PDict c) =
     silent_embedder"
  by (simp add: embedder_for_def class_named_def list_embedder_default_def embedder_config_def demo_factories_def)

theorem embedder_change_rolls_back_witness:
  "\<exists>e ca'. upsert_embedder_setting demo_bootstrap ''EmbedderOpenAIConfig'' [] demo_ccat = (Inl (http_error 400 e), ca') \<and>
     map set_name (get_settings_by_category list_table ''embedder_factory'' (settings_of ca')) = [''EmbedderDumbConfig'']"
proof -
  have T: "he_table (bo_env demo_bootstrap) = list_table" by (simp add: demo_bootstrap_def demo_lab_env_def)
  have db: "settings_of demo_ccat = demo_settings" by (simp add: settings_of_def demo_ccat_def)
  have "\<forall>c \<in> set (map (embedder_config demo_factories) list_embedder_default). map_of (fk_schema c) ''title'' = Some (PStr (fk_name c))"
    by (simp add: embedder_config_def demo_factories_def)
  from schemas_keys [OF this, of "''languageEmbedderName''" "[]"] obtain schemas where
    sch: "schemas_from ''languageEmbedderName'' [] (map (embedder_config demo_factories) list_embedder_default) = Inr schemas"
      "''EmbedderOpenAIConfig'' \<in> set (keys schemas)"
    by (auto simp: list_embedder_default_def embedder_config_def)
  have tab: "tinydb_table (he_table (bo_env demo_bootstrap)) (\<lambda>db. db)" using list_table.tinydb_table_axioms T by simp
  have find: "get_setting_by_name (he_table (bo_env demo_bootstrap)) ''embedder_selected'' (settings_of demo_ccat) =
      Some (Setting ''s1'' 0 ''embedder_selected'' (PDict [(''name'', PStr ''EmbedderDumbConfig'')]) (Some ''embedder''))"
    "get_setting_by_name (he_table (bo_env demo_bootstrap)) ''EmbedderDumbConfig'' (settings_of demo_ccat) =
      Some (Setting ''s2'' 0 ''EmbedderDumbConfig'' (PDict []) (Some ''embedder_factory''))"
    "selection_ok demo_bootstrap ''llm_selected'' (settings_of demo_ccat)"
    by (simp_all add: T db get_setting_by_name_def list_table_def demo_settings_def first_or_none_def selection_ok_def)
  have sel: "selected_class (Setting ''s1'' 0 ''embedder_selected'' (PDict [(''name'', PStr ''EmbedderDumbConfig'')]) (Some ''embedder'')) =
      Inr (PStr ''EmbedderDumbConfig'')" by (simp add: selected_class_def item_def)
  have fails: "em_embed_query (embedder_for (bo_factories demo_bootstrap) (map (embedder_config demo_factories) list_embedder_default)
      ''EmbedderOpenAIConfig'' (PDict [])) ''hello world'' (lb_ext (lab_of demo_ccat)) =
      (Inl (Exn ''ConnectError'' ''no route to host''), lb_ext (lab_of demo_ccat))"
    by (simp add: demo_embedder_for silent_embedder_def)
  have d: "distinct (map set_name (settings_of demo_ccat))" by (simp add: db demo_settings_def)
  show ?thesis
    using embedder_change_rolls_back [OF tab d demo_classes(1) sch demo_classes(2) _ _ _ _ find(1) sel find(2,3) fails] T by auto
qed

end
