(* ===== verification/Memory_Routes.thy ===== *)
theory Memory_Routes
  imports Stray_Cat Cheshire_Cat
begin

text \<open>
  The endpoints on points of the vector memory: \<open>core/cat/routes/memory/points.py\<close>. (The endpoints on whole
  collections reload the memory of the cat and stand in the theory Cheshire_Cat.)

  They run on the state of the user's \<open>StrayCat\<close>. A recalled memory is answered as the dictionary pydantic makes of a
  langchain \<open>Document\<close>, which is a parameter, with identifier, score and vector added.
\<close>

subsection \<open>Recall\<close>

text \<open>The loop over the collections of the POST endpoint, which changes the caller's filter as it goes.\<close>

fun recall_collections ::
  "(string, 'q collection) dict \<Rightarrow> string \<Rightarrow> real list \<Rightarrow> int \<Rightarrow> json \<Rightarrow> 'q \<Rightarrow> (string \<times> recalled list) list" where
  "recall_collections [] user_id query_embedding k md q = []"
| "recall_collections ((c, C) # cs) user_id query_embedding k md q =
     (let md' = (if c = ''episodic'' then AList.update ''source'' (PStr user_id) md else AList.delete ''source'' md)
      in (c, recall_memories_from_embedding C query_embedding (Some md') k None q) #
         recall_collections cs user_id query_embedding k md' q)"

definition memory_dict :: "(document \<Rightarrow> json) \<Rightarrow> recalled \<Rightarrow> json" where
  "memory_dict as_dict_of m =
     AList.update ''vector'' (PList (map PFloat (rc_vector m)))
       (AList.update ''score'' (PFloat (rc_score m))
         (AList.update ''id'' (PStr (rc_id m)) (AList.delete ''lc_kwargs'' (as_dict_of (rc_document m)))))"

definition recall_answer ::
  "(document \<Rightarrow> json) \<Rightarrow> string \<Rightarrow> string \<Rightarrow> real list \<Rightarrow> (string \<times> recalled list) list \<Rightarrow> json" where
  "recall_answer as_dict_of embedder_class txt query_embedding recalled =
     [(''query'', PDict [(''text'', PStr txt), (''vector'', PList (map PFloat query_embedding))]),
      (''vectors'', PDict [(''embedder'', PStr embedder_class),
        (''collections'', PDict (dict_of (map (\<lambda>(c, ms). (c, PList (map (\<lambda>m. PDict (memory_dict as_dict_of m)) ms))) recalled)))])]"

definition recall_memory_points ::
  "(document \<Rightarrow> json) \<Rightarrow> string \<Rightarrow> ('w, 'db, 'q, 'x) cheshire \<Rightarrow> string \<Rightarrow> int \<Rightarrow> json \<Rightarrow> ('q, 'x, json) stray_comp" where
  "recall_memory_points as_dict_of embedder_class K txt k md =
     bindM (on_ext (cc_embed_query K txt)) (\<lambda>query_embedding.
     getM (\<lambda>c. recall_answer as_dict_of embedder_class txt query_embedding
       (recall_collections (vm_collections (cc_memory K)) (sr_user_id c) query_embedding k md (sr_db c))))"

text \<open>The deprecated GET endpoint filters the episodic collection only.\<close>

definition user_filter :: "string \<Rightarrow> string \<Rightarrow> json option" where
  "user_filter user_id c = (if c = ''episodic'' then Some [(''source'', PStr user_id)] else None)"

definition recall_memory_points_from_text ::
  "(document \<Rightarrow> json) \<Rightarrow> string \<Rightarrow> ('w, 'db, 'q, 'x) cheshire \<Rightarrow> string \<Rightarrow> int \<Rightarrow> ('q, 'x, json) stray_comp" where
  "recall_memory_points_from_text as_dict_of embedder_class K txt k =
     bindM (on_ext (cc_embed_query K txt)) (\<lambda>query_embedding.
     getM (\<lambda>c. recall_answer as_dict_of embedder_class txt query_embedding
       (map (\<lambda>(n, C). (n, recall_memories_from_embedding C query_embedding (user_filter (sr_user_id c) n) k None (sr_db c)))
         (vm_collections (cc_memory K)))))"

subsection \<open>Points\<close>

record memory_point =
  mp_content :: string
  mp_metadata :: json

record stored_memory_point = memory_point +
  mp_id :: string
  mp_vector :: "real list"

definition no_collection :: exn where
  "no_collection = http_error 400 ''Collection does not exist.''"

definition no_point :: exn where
  "no_point = http_error 400 ''Point does not exist.''"

definition procedural_read_only :: exn where
  "procedural_read_only = http_error 400 ''Procedural memory is read-only.''"

definition collection_of :: "('w, 'db, 'q, 'x) cheshire \<Rightarrow> exn \<Rightarrow> string \<Rightarrow> 'q collection result" where
  "collection_of K e collection_id = lookup_exn e (map_of (vm_collections (cc_memory K)) collection_id)"

definition complete_metadata :: "string \<Rightarrow> real \<Rightarrow> json \<Rightarrow> json" where
  "complete_metadata user_id now md =
     (let md = (if truthy_opt (map_of md ''source'') then md else AList.update ''source'' (PStr user_id) md)
      in if truthy_opt (map_of md ''when'') then md else AList.update ''when'' (PFloat now) md)"

definition MemoryPoint :: "point option \<Rightarrow> stored_memory_point result" where
  "MemoryPoint qdrant_point =
     bindR (lookup_exn (Exn ''AttributeError'' ''payload'') qdrant_point) (\<lambda>p.
     bindR (lookup_exn (Exn ''ValidationError'' ''metadata'') (pt_metadata p)) (\<lambda>md.
     Inr \<lparr>mp_content = pt_page_content p, mp_metadata = md, mp_id = pt_id p, mp_vector = pt_vector p\<rparr>))"

text \<open>
  What both writing endpoints do with the point: embed, complete the metadata, store. The random identifier \<open>add_point\<close> uses when
  it gets none is drawn in any case.
\<close>

definition write_point ::
  "('w, 'db, 'q, 'x) cheshire \<Rightarrow> 'q collection \<Rightarrow> memory_point \<Rightarrow> string option \<Rightarrow> ('q, 'x, stored_memory_point) stray_comp" where
  "write_point K C point point_id =
     bindM (on_ext (cc_embed_query K (mp_content point))) (\<lambda>embedding.
     bindM (time_time K) (\<lambda>now.
     bindM (getM sr_user_id) (\<lambda>user_id.
     bindM (on_ext (cc_uuid K)) (\<lambda>uuid.
     bindM (on_db (add_point C uuid (mp_content point) embedding (Some (complete_metadata user_id now (mp_metadata point))) point_id)) (\<lambda>qdrant_point.
     liftM (MemoryPoint qdrant_point))))))"

definition create_memory_point ::
  "('w, 'db, 'q, 'x) cheshire \<Rightarrow> string \<Rightarrow> memory_point \<Rightarrow> ('q, 'x, stored_memory_point) stray_comp" where
  "create_memory_point K collection_id point =
     (if collection_id = ''procedural'' then raiseM procedural_read_only
      else bindM (liftM (collection_of K no_collection collection_id)) (\<lambda>C. write_point K C point None))"

definition delete_memory_point :: "('w, 'db, 'q, 'x) cheshire \<Rightarrow> string \<Rightarrow> string \<Rightarrow> ('q, 'x, json) stray_comp" where
  "delete_memory_point K collection_id point_id =
     bindM (liftM (collection_of K no_collection collection_id)) (\<lambda>C.
     bindM (getM (\<lambda>c. get_points C [point_id] (sr_db c))) (\<lambda>points.
       if points = [] then raiseM no_point
       else bindM (on_db (delete_points C [point_id])) (\<lambda>_. retM [(''deleted'', PStr point_id)])))"

definition delete_memory_points_by_metadata ::
  "('w, 'db, 'q, 'x) cheshire \<Rightarrow> string \<Rightarrow> json \<Rightarrow> ('q, 'x, json) stray_comp" where
  "delete_memory_points_by_metadata K collection_id md =
     bindM (liftM (collection_of K (Exn ''KeyError'' collection_id) collection_id)) (\<lambda>C.
     bindM (on_db (delete_points_by_metadata_filter C (Some md))) (\<lambda>_. retM [(''deleted'', PList [])]))"

definition get_points_in_collection ::
  "('w, 'db, 'q, 'x) cheshire \<Rightarrow> string \<Rightarrow> nat \<Rightarrow> string option \<Rightarrow> ('q, 'x, point list \<times> string option) stray_comp" where
  "get_points_in_collection K collection_id limit offset =
     (if collection_id = ''procedural'' then raiseM (http_error 400 ''Procedural memory is not readable via API'')
      else bindM (liftM (collection_of K no_collection collection_id)) (\<lambda>C.
           getM (\<lambda>c. get_all_points C limit (if offset = Some [] then None else offset) (sr_db c))))"

definition edit_memory_point ::
  "('w, 'db, 'q, 'x) cheshire \<Rightarrow> string \<Rightarrow> string \<Rightarrow> memory_point \<Rightarrow> ('q, 'x, stored_memory_point) stray_comp" where
  "edit_memory_point K collection_id point_id point =
     (if collection_id = ''procedural'' then raiseM procedural_read_only
      else bindM (liftM (collection_of K no_collection collection_id)) (\<lambda>C.
           bindM (getM (\<lambda>c. get_points C [point_id] (sr_db c))) (\<lambda>points.
             if points = [] then raiseM no_point else write_point K C point (Some point_id))))"

subsection \<open>Lemmas\<close>

text \<open>Whatever else the filter asks for, a condition on the source is met by every result.\<close>

lemma condition_kept:
  assumes "map_of d key = Some v" "scalar v" 
  shows "\<exists>cs. qdrant_filter_from_dict (Some d) = Some cs \<and> meta_condition key v \<in> set cs"
proof -
  from assms(1) have kv: "(key, v) \<in> set d" by (rule map_of_SomeD)
  then have "d \<noteq> []" by auto
  moreover have "meta_condition key v \<in> set (concat (map (\<lambda>(k, v). build_condition k v) d))"
    using kv build_condition_scalar [OF assms(2), of key] by force
  ultimately show ?thesis by (simp add: qdrant_filter_from_dict_def)
qed

lemma recall_collections_episodic:
  assumes "(''episodic'', ms) \<in> set (recall_collections cs user_id e k md q)"
  shows "\<exists>C d. (''episodic'', C) \<in> set cs \<and> map_of d ''source'' = Some (PStr user_id) \<and>
     ms = recall_memories_from_embedding C e (Some d) k None q"
  using assms
proof (induction cs arbitrary: md)
  case (Cons x cs)
  obtain c C where x: "x = (c, C)" by (cases x)
  show ?case
  proof (cases "(''episodic'', ms) = (c, recall_memories_from_embedding C e
      (Some (if c = ''episodic'' then AList.update ''source'' (PStr user_id) md else AList.delete ''source'' md)) k None q)")
    case True
    then show ?thesis by (intro exI [of _ C] exI [of _ "AList.update ''source'' (PStr user_id) md"]) (simp add: x update_conv')
  next
    case False
    with Cons.prems have "\<exists>md. (''episodic'', ms) \<in> set (recall_collections cs user_id e k md q)"
      by (auto simp: x Let_def simp del: prod.inject)
    with Cons.IH show ?thesis by (metis list.set_intros(2))
  qed
qed simp

context qdrant_db
begin

lemma recall_meets_condition:
  assumes "collection_ready Q info C q" "map_of d key = Some v" "scalar v" "plain_key key"
    and "m \<in> set (recall_memories_from_embedding C e (Some d) k t q)"
  shows "\<exists>p. collection_points info C q (rc_id m) = Some p \<and> metadata_matches p key v"
proof -
  from assms(1) obtain i where i: "vc_client C = Q" "info q (vc_name C) = Some i" by (auto simp: collection_ready_def)
  from condition_kept [OF assms(2,3)] obtain cs where
    cs: "qdrant_filter_from_dict (Some d) = Some cs" "meta_condition key v \<in> set cs" by blast
  from assms(5) cs(1) obtain sp where sp: "sp \<in> set (qd_search Q (vc_name C) e (Some cs) k t q)" "m = document_of_point sp"
    by (auto simp: recall_memories_from_embedding_def i)
  have "metadata_matches (sp_point sp) key v" using search_sound [OF i(2) sp(1)] cs(2) sat_plain [OF assms(4)] by auto
  moreover have "ci_points i (pt_id (sp_point sp)) = Some (sp_point sp)" using search_sound [OF i(2) sp(1)] by simp
  ultimately show ?thesis using i(2) sp(2) by (simp add: collection_points_def document_of_point_def)
qed

lemma recall_stored:
  assumes "collection_ready Q info C q" "m \<in> set (recall_memories_from_embedding C e f k t q)"
  shows "\<exists>p. collection_points info C q (rc_id m) = Some p"
proof -
  from assms(1) obtain i where i: "vc_client C = Q" "info q (vc_name C) = Some i" by (auto simp: collection_ready_def)
  with assms(2) obtain sp where "sp \<in> set (qd_search Q (vc_name C) e (qdrant_filter_from_dict f) k t q)" "m = document_of_point sp"
    by (auto simp: recall_memories_from_embedding_def)
  with search_sound [OF i(2)] i(2) show ?thesis by (auto simp: collection_points_def document_of_point_def)
qed

lemma write_point_run:
  assumes ready: "collection_ready Q info C (sr_db c)"
    and emb: "\<And>t x. \<exists>v x'. cc_embed_query K t x = (Inr v, x') \<and> length v = vc_embedder_size C"
    and uuid: "\<And>x. \<exists>u x'. cc_uuid K x = (Inr u, x') \<and> u \<noteq> []"
  shows "\<exists>c' mp now. write_point K C point i c = (Inr mp, c') \<and> sr_user_id c' = sr_user_id c \<and>
     mp_content mp = mp_content point \<and> mp_metadata mp = complete_metadata (sr_user_id c) now (mp_metadata point) \<and> mp_id mp \<noteq> [] \<and>
     (case i of None \<Rightarrow> True | Some s \<Rightarrow> s \<noteq> [] \<longrightarrow> mp_id mp = s) \<and> collection_ready Q info C (sr_db c') \<and>
     collection_points info C (sr_db c') = (collection_points info C (sr_db c))(mp_id mp \<mapsto>
       \<lparr>pt_id = mp_id mp, pt_page_content = mp_content mp, pt_metadata = Some (mp_metadata mp), pt_vector = mp_vector mp\<rparr>)"
proof -
  from emb obtain v x1 where v: "cc_embed_query K (mp_content point) (sr_ext c) = (Inr v, x1)" "length v = vc_embedder_size C" by blast
  from uuid obtain u x2 where u: "cc_uuid K x1 = (Inr u, x2)" "u \<noteq> []" by blast
  let ?md = "complete_metadata (sr_user_id c) (cc_time K x1) (mp_metadata point)"
  let ?p = "new_point u (mp_content point) v (Some ?md) i"
  from coll.add_ok [OF ready v(2), of u "mp_content point" "Some ?md" i] obtain q where
    q: "add_point C u (mp_content point) v (Some ?md) i (sr_db c) = (Inr (Some ?p), q)" "collection_ready Q info C q"
      "collection_points info C q = (collection_points info C (sr_db c))(pt_id ?p \<mapsto> ?p)" by blast
  define k where "k = pt_id ?p"
  let ?mp = "\<lparr>mp_content = mp_content point, mp_metadata = ?md, mp_id = k, mp_vector = v\<rparr>"
  let ?c' = "c\<lparr>sr_ext := x2, sr_db := q\<rparr>"
  have run: "write_point K C point i c = (Inr ?mp, ?c')"
    using v(1) u(1) q(1) by (simp add: write_point_def bindM_def on_ext_def on_db_def time_time_def MemoryPoint_def)
      (simp add: new_point_def k_def)
  have k: "k \<noteq> []" "case i of None \<Rightarrow> True | Some s \<Rightarrow> s \<noteq> [] \<longrightarrow> k = s"
    using u(2) by (simp_all add: k_def new_point_def split: option.split)
  have pts: "collection_points info C q = (collection_points info C (sr_db c))(k \<mapsto>
      \<lparr>pt_id = k, pt_page_content = mp_content point, pt_metadata = Some ?md, pt_vector = v\<rparr>)"
    using q(3) by (simp add: new_point_def k_def)
  have i: "case i of None \<Rightarrow> True | Some s \<Rightarrow> s \<noteq> [] \<longrightarrow> mp_id ?mp = s" using k(2) by (cases i) simp_all
  show ?thesis
    by (intro exI [of _ ?c'] exI [of _ ?mp] exI [of _ "cc_time K x1"] conjI)
      (rule run, simp, simp, simp, simp add: k(1), rule i, simp add: q(2), simp add: pts)
qed

lemma point_exists:
  assumes "collection_ready Q info C q" "collection_points info C q k = Some p"
  shows "get_points C [k] q \<noteq> []"
proof
  assume "get_points C [k] q = []"
  with coll.get_ok [OF assms(1), of "[k]"] assms(2) show False by simp
qed

lemma point_lifecycle:
  assumes cid: "collection_id \<noteq> ''procedural''" "map_of (vm_collections (cc_memory K)) collection_id = Some C"
    and ready: "collection_ready Q info C (sr_db c)"
    and emb: "\<And>t x. \<exists>v x'. cc_embed_query K t x = (Inr v, x') \<and> length v = vc_embedder_size C"
    and uuid: "\<And>x. \<exists>u x'. cc_uuid K x = (Inr u, x') \<and> u \<noteq> []"
  shows "\<exists>mp c1 mp' c2 c3. create_memory_point K collection_id point c = (Inr mp, c1) \<and>
     edit_memory_point K collection_id (mp_id mp) point' c1 = (Inr mp', c2) \<and>
     delete_memory_point K collection_id (mp_id mp) c2 = (Inr [(''deleted'', PStr (mp_id mp))], c3) \<and>
     mp_content mp = mp_content point \<and> mp_content mp' = mp_content point' \<and> mp_id mp' = mp_id mp \<and>
     collection_points info C (sr_db c1) = (collection_points info C (sr_db c))(mp_id mp \<mapsto>
       \<lparr>pt_id = mp_id mp, pt_page_content = mp_content mp, pt_metadata = Some (mp_metadata mp), pt_vector = mp_vector mp\<rparr>) \<and>
     collection_points info C (sr_db c2) = (collection_points info C (sr_db c))(mp_id mp \<mapsto>
       \<lparr>pt_id = mp_id mp, pt_page_content = mp_content mp', pt_metadata = Some (mp_metadata mp'), pt_vector = mp_vector mp'\<rparr>) \<and>
     collection_points info C (sr_db c3) = (collection_points info C (sr_db c))(mp_id mp := None)"
proof -
  let ?pts = "\<lambda>c. collection_points info C (sr_db c)"
  have col: "collection_of K no_collection collection_id = Inr C" using cid(2) by (simp add: collection_of_def)
  from write_point_run [OF ready emb uuid, of point None] obtain c1 mp where
    w1: "write_point K C point None c = (Inr mp, c1)" "mp_content mp = mp_content point" "mp_id mp \<noteq> []" "collection_ready Q info C (sr_db c1)"
      "?pts c1 = (?pts c)(mp_id mp \<mapsto>
        \<lparr>pt_id = mp_id mp, pt_page_content = mp_content mp, pt_metadata = Some (mp_metadata mp), pt_vector = mp_vector mp\<rparr>)" by blast
  from write_point_run [OF w1(4) emb uuid, of point' "Some (mp_id mp)"] w1(3) obtain c2 mp' where
    w2: "write_point K C point' (Some (mp_id mp)) c1 = (Inr mp', c2)" "mp_content mp' = mp_content point'" "mp_id mp' = mp_id mp"
      "collection_ready Q info C (sr_db c2)" "?pts c2 = (?pts c1)(mp_id mp' \<mapsto>
        \<lparr>pt_id = mp_id mp', pt_page_content = mp_content mp', pt_metadata = Some (mp_metadata mp'), pt_vector = mp_vector mp'\<rparr>)"
    unfolding option.case by blast
  have g1: "get_points C [mp_id mp] (sr_db c1) \<noteq> []" using point_exists [OF w1(4)] w1(5) by simp
  have g2: "get_points C [mp_id mp] (sr_db c2) \<noteq> []" using point_exists [OF w2(4)] w2(3,5) by simp
  from coll.del_ok [OF w2(4), of "[mp_id mp]"] obtain q where q: "delete_points C [mp_id mp] (sr_db c2) = (Inr (), q)"
    "collection_points info C q = (\<lambda>k. if k \<in> set [mp_id mp] then None else ?pts c2 k)" by blast
  have "create_memory_point K collection_id point c = (Inr mp, c1)" using w1(1) cid(1) col by (simp add: create_memory_point_def)
  moreover have "edit_memory_point K collection_id (mp_id mp) point' c1 = (Inr mp', c2)"
    using w2(1) cid(1) col g1 by (simp add: edit_memory_point_def)
  moreover have "delete_memory_point K collection_id (mp_id mp) c2 = (Inr [(''deleted'', PStr (mp_id mp))], c2\<lparr>sr_db := q\<rparr>)"
    using col g2 q(1) by (simp add: delete_memory_point_def bindM_def on_db_def)
  moreover have "?pts c2 = (?pts c)(mp_id mp \<mapsto>
        \<lparr>pt_id = mp_id mp, pt_page_content = mp_content mp', pt_metadata = Some (mp_metadata mp'), pt_vector = mp_vector mp'\<rparr>)"
    using w1(5) w2(3,5) by simp
  moreover have "?pts (c2\<lparr>sr_db := q\<rparr>) = (?pts c)(mp_id mp := None)" using q(2) calculation(4) by auto
  ultimately show ?thesis using w1 w2
    by (intro exI [of _ mp] exI [of _ c1] exI [of _ mp'] exI [of _ c2] exI [of _ "c2\<lparr>sr_db := q\<rparr>"]) simp
qed

end

subsection \<open>Properties\<close>

text \<open>
  (C10) Recalling through the API keeps users apart: whatever filter the caller sends, also one that names
  another user as source, every memory of the episodic collection in the answer is a stored point
  whose source is the calling user.
\<close>

theorem recall_endpoint_isolates_users:
  assumes "qdrant_db Q info sat" "\<forall>(n, C) \<in> set cs. collection_ready Q info C q"
    and "(''episodic'', ms) \<in> set (recall_collections cs user_id e k md q)" "m \<in> set ms"
  shows "\<exists>C p. (''episodic'', C) \<in> set cs \<and> collection_points info C q (rc_id m) = Some p \<and>
     metadata_matches p ''source'' (PStr user_id)"
proof -
  from recall_collections_episodic [OF assms(3)] obtain C d where C: "(''episodic'', C) \<in> set cs"
    "map_of d ''source'' = Some (PStr user_id)" "ms = recall_memories_from_embedding C e (Some d) k None q" by blast
  have "collection_ready Q info C q" using assms(2) C(1) by auto
  from qdrant_db.recall_meets_condition [OF assms(1) this C(2), of m e k None] assms(4) C show ?thesis
    by (auto simp: scalar_def plain_key_def)
qed


theorem recall_endpoint_isolates_users_witness:
  "\<exists>m. (''episodic'', [m]) \<in> set (recall_collections [(''episodic'', demo_collection)] ''alice'' [1, 1] 3 [(''source'', PStr ''bob'')] demo_store) \<and>
     (\<exists>p. collection_points linfo demo_collection demo_store (rc_id m) = Some p \<and> metadata_matches p ''source'' (PStr ''alice''))"
proof -
  let ?p = "\<lparr>pt_id = ''p1'', pt_page_content = ''meow'', pt_metadata = Some [(''source'', PStr ''alice'')], pt_vector = [1, 0 :: real]\<rparr>"
  let ?m = "document_of_point \<lparr>sp_point = ?p, sp_score = 1\<rparr>"
  have "lsat ?p (meta_condition ''source'' (PStr ''alice''))"
    by (simp add: lsat_def meta_condition_def metadata_matches_def)
  then have run: "recall_collections [(''episodic'', demo_collection)] ''alice'' [1, 1] 3 [(''source'', PStr ''bob'')] demo_store = [(''episodic'', [?m])]"
    by (simp add: recall_memories_from_embedding_def demo_collection_def demo_store_def list_qdrant_def qdrant_filter_from_dict_def
        lall_def keys_def map_filter_def lscore_def)
  have ready: "\<forall>(n, C) \<in> set [(''episodic'', demo_collection)]. collection_ready list_qdrant linfo C demo_store"
    using demo_store_ready by simp
  have mem: "(''episodic'', [?m]) \<in> set (recall_collections [(''episodic'', demo_collection)] ''alice'' [1, 1] 3 [(''source'', PStr ''bob'')] demo_store)"
    unfolding run by simp
  from recall_endpoint_isolates_users [OF list_qdrant.qdrant_db_axioms ready mem, of ?m] show ?thesis using mem by auto
qed


end
