(* ===== verification/White_Rabbit.thy ===== *)
theory White_Rabbit
  imports Py_Strings
begin

text \<open>
  The scheduler: \<open>core/cat/looking_glass/white_rabbit.py\<close>.

  APScheduler does the work and is a parameter, the record \<open>scheduler\<close>; the locale \<open>apscheduler\<close> states what its
  documentation promises, over \<open>jobs\<close>, the jobs by identifier. Points in time are microseconds, and
  how \<open>strftime\<close> writes them is an argument. The calls of the logger are left out, but for the report on a job that has ended.
\<close>

subsection \<open>Jobs and the scheduler\<close>

text \<open>A job without a next run is paused.\<close>

record job_info =
  ji_id :: string
  ji_name :: string
  ji_next_run :: "int option"

datatype job_trigger =
  Date int
| Interval "int option" "int option" int int int int
| Cron "int option" "int option" "(string, pyval) dict"

datatype 'j job = Callable (job_name: string) (job_body: 'j) | NotCallable (job_type: string)

record ('s, 'j) scheduler =
  sc_get_job :: "string \<Rightarrow> 's \<Rightarrow> job_info option"
  sc_get_jobs :: "'s \<Rightarrow> job_info list"
  sc_pause_job :: "string \<Rightarrow> ('s, unit) comp"
  sc_resume_job :: "string \<Rightarrow> ('s, unit) comp"
  sc_remove_job :: "string \<Rightarrow> ('s, unit) comp"
  sc_add_job :: "string \<Rightarrow> 'j \<Rightarrow> job_trigger \<Rightarrow> string \<Rightarrow> json \<Rightarrow> ('s, unit) comp"

subsection \<open>WhiteRabbit\<close>

text \<open>
  The scheduler is built with these options, where jobs are kept and which pools run them; a scheduler that does not start is reported
  and the construction goes on.
\<close>

definition scheduler_options :: json where
  "scheduler_options =
     [(''jobstores'', PDict [(''default'', PStr ''MemoryJobStore'')]),
      (''executors'', PDict [(''default'', PList [PStr ''ThreadPoolExecutor'', PInt 20]),
                            (''processpool'', PList [PStr ''ProcessPoolExecutor'', PInt 5])]),
      (''job_defaults'', PDict [(''coalesce'', PBool False), (''max_instances'', PInt 10)]),
      (''timezone'', PStr ''UTC'')]"

record 's background =
  bg_build :: "json \<Rightarrow> ('s, unit) comp"
  bg_add_listener :: "string list \<Rightarrow> ('s, unit) comp"
  bg_start :: "('s, unit) comp"

definition WhiteRabbit_init :: "'s background \<Rightarrow> ('s, unit) comp" where
  "WhiteRabbit_init B =
     bindM (bg_build B scheduler_options) (\<lambda>_.
     bindM (bg_add_listener B [''EVENT_JOB_EXECUTED'', ''EVENT_JOB_ERROR'']) (\<lambda>_.
     catchM (bg_start B) (\<lambda>e. retM ())))"

text \<open>What is logged when a job has ended: the level and the message.\<close>

record job_event =
  ev_job_id :: string
  ev_scheduled_run_time :: string
  ev_exception :: "exn option"
  ev_traceback :: string
  ev_retval :: string

definition job_ended_listener :: "job_event \<Rightarrow> string \<times> string" where
  "job_ended_listener ev =
     (if ev_exception ev \<noteq> None
      then (''ERROR'', ''WhiteRabbit: error during the execution of job '' @ ev_job_id ev @ '' started at '' @
              ev_scheduled_run_time ev @ ''. Error: '' @ ev_traceback ev)
      else (''INFO'', ''WhiteRabbit: executed job '' @ ev_job_id ev @ '' started at '' @ ev_scheduled_run_time ev @
              ''. Value returned: '' @ ev_retval ev))"

definition job_dict :: "job_info \<Rightarrow> json" where
  "job_dict job =
     [(''id'', PStr (ji_id job)), (''name'', PStr (ji_name job)),
      (''next_run'', case ji_next_run job of None \<Rightarrow> PNone | Some t \<Rightarrow> PInt t)]"

definition get_job :: "('s, 'j) scheduler \<Rightarrow> string \<Rightarrow> 's \<Rightarrow> json option" where
  "get_job W job_id s = map_option job_dict (sc_get_job W job_id s)"

definition get_jobs :: "('s, 'j) scheduler \<Rightarrow> 's \<Rightarrow> json list" where
  "get_jobs W s = map job_dict (sc_get_jobs W s)"

definition pause_job :: "('s, 'j) scheduler \<Rightarrow> string \<Rightarrow> ('s, bool) comp" where
  "pause_job W job_id = catchM (bindM (sc_pause_job W job_id) (\<lambda>_. retM True)) (\<lambda>e. retM False)"

definition resume_job :: "('s, 'j) scheduler \<Rightarrow> string \<Rightarrow> ('s, bool) comp" where
  "resume_job W job_id = catchM (bindM (sc_resume_job W job_id) (\<lambda>_. retM True)) (\<lambda>e. retM False)"

definition remove_job :: "('s, 'j) scheduler \<Rightarrow> string \<Rightarrow> ('s, bool) comp" where
  "remove_job W job_id = catchM (bindM (sc_remove_job W job_id) (\<lambda>_. retM True)) (\<lambda>e. retM False)"

record delay =
  dl_days :: int
  dl_hours :: int
  dl_minutes :: int
  dl_seconds :: int
  dl_milliseconds :: int
  dl_microseconds :: int

definition timedelta_us :: "delay \<Rightarrow> int" where
  "timedelta_us d =
     (((dl_days d * 24 + dl_hours d) * 60 + dl_minutes d) * 60 + dl_seconds d) * 1000000 + dl_milliseconds d * 1000 + dl_microseconds d"

definition not_callable :: "string \<Rightarrow> exn" where
  "not_callable t = Exn ''TypeError'' (''TypeError: '' @ [CHR 0x27] @ t @ [CHR 0x27] @ '' object is not callable'')"

definition schedule_job ::
  "('s, 'j) scheduler \<Rightarrow> (int \<Rightarrow> string) \<Rightarrow> int \<Rightarrow> 'j job \<Rightarrow> string option \<Rightarrow> delay \<Rightarrow> json \<Rightarrow> ('s, string) comp" where
  "schedule_job W strftime today job job_id d kwargs =
     (let schedule = today + timedelta_us d in
      case job of
        NotCallable t \<Rightarrow> raiseM (not_callable t)
      | Callable nm f \<Rightarrow>
          (let i = (case job_id of Some i \<Rightarrow> i | None \<Rightarrow> nm @ ''-'' @ strftime schedule)
           in bindM (sc_add_job W nm f (Date schedule) i kwargs) (\<lambda>_. retM i)))"

definition schedule_interval_job ::
  "('s, 'j) scheduler \<Rightarrow> 'j job \<Rightarrow> string option \<Rightarrow> int option \<Rightarrow> int option \<Rightarrow> int \<Rightarrow> int \<Rightarrow> int \<Rightarrow> int \<Rightarrow>
   json \<Rightarrow> ('s, string) comp" where
  "schedule_interval_job W job job_id start_date end_date days hours minutes seconds kwargs =
     (case job of
        NotCallable t \<Rightarrow> raiseM (not_callable t)
      | Callable nm f \<Rightarrow>
          (let i = (case job_id of Some i \<Rightarrow> i
                    | None \<Rightarrow> nm @ ''-interval-'' @ join ''-'' (map str_int [days, hours, minutes, seconds]))
           in bindM (sc_add_job W nm f (Interval start_date end_date days hours minutes seconds) i kwargs) (\<lambda>_. retM i)))"

text \<open>\<open>when_fields\<close> are the nine arguments \<open>year\<close> to \<open>second\<close>, passed on by name.\<close>

definition schedule_cron_job ::
  "('s, 'j) scheduler \<Rightarrow> 'j job \<Rightarrow> string option \<Rightarrow> int option \<Rightarrow> int option \<Rightarrow> json \<Rightarrow> json \<Rightarrow> ('s, string) comp" where
  "schedule_cron_job W job job_id start_date end_date when_fields kwargs =
     (case job of
        NotCallable t \<Rightarrow> raiseM (not_callable t)
      | Callable nm f \<Rightarrow>
          (let i = (case job_id of Some i \<Rightarrow> i | None \<Rightarrow> nm @ ''-cron'')
           in bindM (sc_add_job W nm f (Cron start_date end_date when_fields) i kwargs) (\<lambda>_. retM i)))"

definition chat_job_id :: "(int \<Rightarrow> string) \<Rightarrow> int \<Rightarrow> string" where
  "chat_job_id strftime schedule = ''send_ws_message-'' @ strftime schedule"

definition schedule_chat_message ::
  "('s, 'j) scheduler \<Rightarrow> (int \<Rightarrow> string) \<Rightarrow> 'j \<Rightarrow> int \<Rightarrow> string \<Rightarrow> delay \<Rightarrow> ('s, string) comp" where
  "schedule_chat_message W strftime send_ws_message today content d =
     (let schedule = today + timedelta_us d; i = chat_job_id strftime schedule
      in bindM (sc_add_job W ''send_ws_message'' send_ws_message (Date schedule) i
           [(''content'', PStr content), (''msg_type'', PStr ''chat'')]) (\<lambda>_. retM i))"

subsection \<open>What APScheduler promises\<close>

locale apscheduler =
  fixes W :: "('s, 'j) scheduler"
    and jobs :: "'s \<Rightarrow> string \<Rightarrow> job_info option"
  assumes get: "sc_get_job W i s = jobs s i"
    and all: "set (sc_get_jobs W s) = ran (jobs s)"
    and pause: "jobs s i = Some j \<Longrightarrow> \<exists>s'. sc_pause_job W i s = (Inr (), s') \<and> jobs s' = (jobs s)(i \<mapsto> j\<lparr>ji_next_run := None\<rparr>)"
    and pause_lookup: "jobs s i = None \<Longrightarrow> \<exists>e. sc_pause_job W i s = (Inl e, s)"
    and resume: "jobs s i = Some j \<Longrightarrow> \<exists>s' next. sc_resume_job W i s = (Inr (), s') \<and>
        jobs s' = (jobs s)(i := map_option (\<lambda>t. j\<lparr>ji_next_run := Some t\<rparr>) next)"
    and resume_lookup: "jobs s i = None \<Longrightarrow> \<exists>e. sc_resume_job W i s = (Inl e, s)"
    and remove: "jobs s i = Some j \<Longrightarrow> \<exists>s'. sc_remove_job W i s = (Inr (), s') \<and> jobs s' = (jobs s)(i := None)"
    and remove_lookup: "jobs s i = None \<Longrightarrow> \<exists>e. sc_remove_job W i s = (Inl e, s)"
    and add: "jobs s i = None \<Longrightarrow> \<exists>s' next. sc_add_job W nm f t i kw s = (Inr (), s') \<and>
        jobs s' = (jobs s)(i \<mapsto> \<lparr>ji_id = i, ji_name = nm, ji_next_run = next\<rparr>) \<and> (\<forall>d. t = Date d \<longrightarrow> next = Some d)"
    and add_conflict: "jobs s i \<noteq> None \<Longrightarrow> \<exists>e. sc_add_job W nm f t i kw s = (Inl e, s)"
begin

text \<open>The control operations never raise; they say whether the job was there.\<close>

lemma pause_total: "\<exists>s'. pause_job W i s = (Inr (jobs s i \<noteq> None), s') \<and>
    jobs s' = (jobs s)(i := map_option (\<lambda>j. j\<lparr>ji_next_run := None\<rparr>) (jobs s i))"
proof (cases "jobs s i")
  case None
  with pause_lookup [OF None] show ?thesis by (auto simp: pause_job_def catchM_def bindM_def fun_upd_idem)
next
  case (Some j)
  with pause [OF Some] show ?thesis by (auto simp: pause_job_def catchM_def bindM_def)
qed

lemma resume_total: "\<exists>s'. resume_job W i s = (Inr (jobs s i \<noteq> None), s') \<and> (\<forall>k. k \<noteq> i \<longrightarrow> jobs s' k = jobs s k)"
proof (cases "jobs s i")
  case None
  with resume_lookup [OF None] show ?thesis by (auto simp: resume_job_def catchM_def bindM_def)
next
  case (Some j)
  with resume [OF Some] show ?thesis by (auto simp: resume_job_def catchM_def bindM_def)
qed

lemma remove_total: "\<exists>s'. remove_job W i s = (Inr (jobs s i \<noteq> None), s') \<and> jobs s' = (jobs s)(i := None)"
proof (cases "jobs s i")
  case None
  with remove_lookup [OF None] show ?thesis by (auto simp: remove_job_def catchM_def bindM_def fun_upd_idem)
next
  case (Some j)
  with remove [OF Some] show ?thesis by (auto simp: remove_job_def catchM_def bindM_def)
qed

lemma chat_scheduled:
  assumes "jobs s (chat_job_id strftime (today + timedelta_us d)) = None"
  shows "\<exists>s1. schedule_chat_message W strftime send today content d s = (Inr (chat_job_id strftime (today + timedelta_us d)), s1) \<and>
     jobs s1 = (jobs s)(chat_job_id strftime (today + timedelta_us d) \<mapsto>
       \<lparr>ji_id = chat_job_id strftime (today + timedelta_us d), ji_name = ''send_ws_message'', ji_next_run = Some (today + timedelta_us d)\<rparr>)"
  using add [OF assms, of "''send_ws_message''" send "Date (today + timedelta_us d)" "[(''content'', PStr content), (''msg_type'', PStr ''chat'')]"]
  by (auto simp: schedule_chat_message_def Let_def bindM_def)

lemma chat_refused:
  assumes "jobs s (chat_job_id strftime (today + timedelta_us d)) \<noteq> None"
  shows "\<exists>e. schedule_chat_message W strftime send today content d s = (Inl e, s)"
  using add_conflict [OF assms, of "''send_ws_message''" send "Date (today + timedelta_us d)" "[(''content'', PStr content), (''msg_type'', PStr ''chat'')]"]
  by (auto simp: schedule_chat_message_def Let_def bindM_def)

end

subsection \<open>A scheduler in memory\<close>

type_synonym lsched = "(string, job_info) dict"

definition list_scheduler :: "(lsched, unit) scheduler" where
  "list_scheduler =
     \<lparr>sc_get_job = (\<lambda>i s. map_of s i), sc_get_jobs = (\<lambda>s. map (\<lambda>i. the (map_of s i)) (keys s)),
      sc_pause_job = (\<lambda>i s. case map_of s i of None \<Rightarrow> (Inl (Exn ''JobLookupError'' i), s)
        | Some j \<Rightarrow> (Inr (), AList.update i (j\<lparr>ji_next_run := None\<rparr>) s)),
      sc_resume_job = (\<lambda>i s. case map_of s i of None \<Rightarrow> (Inl (Exn ''JobLookupError'' i), s)
        | Some j \<Rightarrow> (Inr (), AList.update i (j\<lparr>ji_next_run := Some 0\<rparr>) s)),
      sc_remove_job = (\<lambda>i s. case map_of s i of None \<Rightarrow> (Inl (Exn ''JobLookupError'' i), s)
        | Some j \<Rightarrow> (Inr (), AList.delete i s)),
      sc_add_job = (\<lambda>nm f t i kw s. case map_of s i of Some j \<Rightarrow> (Inl (Exn ''ConflictingIdError'' i), s)
        | None \<Rightarrow> (Inr (), AList.update i \<lparr>ji_id = i, ji_name = nm, ji_next_run = (case t of Date d \<Rightarrow> Some d | _ \<Rightarrow> None)\<rparr> s))\<rparr>"

interpretation list_scheduler: apscheduler list_scheduler map_of
proof (unfold_locales, goal_cases)
  case (2 s)
  show ?case by (force simp: list_scheduler_def in_keys_iff ran_def)
next
  case (5 s i j)
  then show ?case by (auto simp: list_scheduler_def update_conv' intro!: exI [of _ "Some 0"])
qed (auto simp: list_scheduler_def update_conv' delete_conv')

subsection \<open>Properties\<close>


definition in_minutes :: "int \<Rightarrow> delay" where
  "in_minutes n = \<lparr>dl_days = 0, dl_hours = 0, dl_minutes = n, dl_seconds = 0, dl_milliseconds = 0, dl_microseconds = 0\<rparr>"


end
