(* ===== verification/Plugin_Routes.thy ===== *)
theory Plugin_Routes
  imports Cheshire_Cat
begin

text \<open>
  The endpoints on plugins, \<open>core/cat/routes/plugins.py\<close>, and the registry client
  \<open>core/cat/mad_hatter/registry.py\<close>.

  They run on the state of the plugin manager. What the registry answers, the MIME type of an upload, the text of an
  exception and the validation by a plugin's pydantic model are arguments. An archive is the \<open>package\<close> of the
  theory Mad_Hatter.
\<close>

subsection \<open>The registry\<close>

record registry =
  rg_search :: "string \<Rightarrow> (int \<times> pyval) result"
  rg_plugins :: "(int \<times> pyval) result"
  rg_shuffle :: "pyval list \<Rightarrow> pyval list"
  rg_post :: "string \<Rightarrow> json \<Rightarrow> (int \<times> package) result"
  rg_slugify :: "string \<Rightarrow> string"

definition get_registry_url :: string where
  "get_registry_url = ''https://registry.cheshirecat.ai''"

text \<open>
  Downloading: a status that is no success raises. The archive gets the last segment of the address as its name;
  a name of dots only has no extension, for \<open>mimetypes\<close> and for \<open>os.path.splitext\<close>.
\<close>

definition registry_download_plugin :: "registry \<Rightarrow> string \<Rightarrow> package result" where
  "registry_download_plugin R url =
     bindR (rg_post R (get_registry_url @ ''/download'') [(''url'', PStr url)]) (\<lambda>(status, content).
       if \<not> (200 \<le> status \<and> status < 300) then Inl (Exn ''HTTPStatusError'' url)
       else (let segment = last (split_char CHR ''/'' url);
                 bare = (\<forall>c \<in> set segment. c = CHR ''.'')
             in Inr (content\<lparr>pk_file := segment @ ''.zip'', pk_content_type := if bare then None else Some ''application/zip'',
                  pk_slug := rg_slugify R (if bare then segment @ ''.zip'' else segment)\<rparr>)))"

text \<open>Every failure gives the empty list.\<close>

text \<open>The list of the registry comes in the order of \<open>random.shuffle\<close>.\<close>

definition listed_plugins :: "registry \<Rightarrow> pyval \<Rightarrow> pyval result" where
  "listed_plugins R body =
     bindR (as_dict body) (\<lambda>d. bindR (item d ''plugins'') (\<lambda>v. bindR (as_list v) (\<lambda>xs. Inr (PList (rg_shuffle R xs)))))"

definition registry_search_plugins :: "registry \<Rightarrow> string option \<Rightarrow> pyval" where
  "registry_search_plugins R query =
     (let answer =
        (if query \<noteq> None \<and> query \<noteq> Some [] then
           bindR (rg_search R (the query)) (\<lambda>(status, body). Inr (if status = 200 then body else PList []))
         else
           bindR (rg_plugins R) (\<lambda>(status, body). if status = 200 then listed_plugins R body else Inr (PList [])))
      in case answer of Inr v \<Rightarrow> v | Inl e \<Rightarrow> PList [])"

text \<open>The address of a repository may end with a slash; then the archive that arrived is not taken for an archive.\<close>

lemma split_char_snoc: "split_char c (s @ [c]) = split_char c s @ [[]]"
proof (induction s)
  case (Cons a s)
  then show ?case by (cases "split_char c s") (simp_all add: split_char_not_Nil)
qed simp

lemma trailing_slash_not_installed:
  assumes "rg_post R (get_registry_url @ ''/download'') [(''url'', PStr (url @ ''/''))] = Inr (200, content)"
  shows "\<exists>pk. registry_download_plugin R (url @ ''/'') = Inr pk \<and> (\<exists>e. PluginExtractor_init pk = Inl e)"
  using assms by (simp add: split_char_snoc registry_download_plugin_def PluginExtractor_init_def Let_def)

subsection \<open>Listing\<close>

definition not_found :: exn where
  "not_found = http_error 404 ''Plugin not found''"

definition named :: "string \<Rightarrow> pyval" where
  "named n = PDict [(''name'', PStr n)]"

text \<open>The manifest with what the plugin brings, as both listings show it.\<close>

definition hooks_of :: "('w, 'c, 'v, 'f) plugin \<Rightarrow> pyval" where
  "hooks_of p = PList (map (\<lambda>h. PDict [(''name'', PStr (hk_name h)), (''priority'', PInt (hk_priority h))]) (pl_hooks p))"

definition endpoints_of :: "('w, 'c, 'v, 'f) plugin \<Rightarrow> pyval" where
  "endpoints_of p = PList (map (\<lambda>e. PDict [(''name'', PStr (ep_name e)), (''tags'', PList (map PStr (ep_tags e)))]) (pl_endpoints p))"

definition installed_manifest :: "string list \<Rightarrow> ('w, 'c, 'v, 'f) plugin \<Rightarrow> json" where
  "installed_manifest active p =
     dict_merge (pl_manifest p)
       [(''active'', PBool (pl_id p \<in> set active)), (''upgrade'', PNone), (''hooks'', hooks_of p),
        (''tools'', PList (map (\<lambda>t. named (tl_name t)) (pl_tools p))), (''endpoints'', endpoints_of p),
        (''forms'', PList (map (\<lambda>f. named (fc_name f)) (pl_forms p)))]"

fun find_upgrade :: "json \<Rightarrow> json \<Rightarrow> pyval list \<Rightarrow> json result" where
  "find_upgrade own manifest [] = Inr manifest"
| "find_upgrade own manifest (r # rs) =
     bindR (as_dict r) (\<lambda>rd.
     bindR (item rd ''plugin_url'') (\<lambda>url.
     bindR (item own ''plugin_url'') (\<lambda>own_url.
       if url = own_url then
         bindR (item rd ''version'') (\<lambda>v.
         bindR (item own ''version'') (\<lambda>own_v.
         find_upgrade own (if v \<noteq> own_v then AList.update ''upgrade'' v manifest else manifest) rs))
       else find_upgrade own manifest rs)))"

definition query_matches :: "(pyval \<Rightarrow> string) \<Rightarrow> string option \<Rightarrow> json \<Rightarrow> bool" where
  "query_matches str_of query manifest =
     (case query of None \<Rightarrow> True
      | Some q \<Rightarrow> contains (lower q) (lower (join '' '' (map str_of (dict_values manifest)))))"

fun list_installed ::
  "(pyval \<Rightarrow> string) \<Rightarrow> string option \<Rightarrow> string list \<Rightarrow> pyval list \<Rightarrow> ('w, 'c, 'v, 'f) plugin list \<Rightarrow>
   (pyval, pyval) dict \<Rightarrow> json list \<Rightarrow> (json list \<times> (pyval, pyval) dict) result" where
  "list_installed str_of query active registry [] index installed = Inr (installed, index)"
| "list_installed str_of query active registry (p # ps) index installed =
     (let manifest = installed_manifest active p in
      bindR (if query_matches str_of query manifest
             then bindR (find_upgrade (pl_manifest p) manifest registry) (\<lambda>m. Inr (installed @ [m]))
             else Inr installed) (\<lambda>installed.
      bindR (item manifest ''plugin_url'') (\<lambda>url.
      list_installed str_of query active registry ps (AList.delete url index) installed)))"

fun index_by_url :: "pyval list \<Rightarrow> (pyval, pyval) dict \<Rightarrow> (pyval, pyval) dict result" where
  "index_by_url [] index = Inr index"
| "index_by_url (p # ps) index =
     bindR (as_dict p) (\<lambda>d. bindR (item d ''url'') (\<lambda>url. index_by_url ps (AList.update url p index)))"

definition get_available_plugins ::
  "registry \<Rightarrow> ('w, 'c, 'v, 'f, 'db) hatter_env \<Rightarrow> (pyval \<Rightarrow> string) \<Rightarrow> string option \<Rightarrow> ('w, 'c, 'v, 'f, 'db) hatter \<Rightarrow> json result" where
  "get_available_plugins R E str_of query s =
     bindR (as_list (registry_search_plugins R query)) (\<lambda>registry_plugins.
      bindR (index_by_url registry_plugins []) (\<lambda>index.
      bindR (load_active_plugins_from_db (he_table E) (mh_db s)) (\<lambda>active.
      bindR (list_installed str_of query active registry_plugins (dict_values (mh_plugins s)) index []) (\<lambda>(installed, index).
      Inr [(''filters'', PDict [(''query'', case query of None \<Rightarrow> PNone | Some q \<Rightarrow> PStr q)]),
           (''installed'', PList (map PDict installed)), (''registry'', PList (dict_values index))]))))"

definition get_plugin_details ::
  "('w, 'c, 'v, 'f, 'db) hatter_env \<Rightarrow> string \<Rightarrow> ('w, 'c, 'v, 'f, 'db) hatter \<Rightarrow> json result" where
  "get_plugin_details E plugin_id s =
     bindR (lookup_exn not_found (map_of (mh_plugins s) plugin_id)) (\<lambda>plugin.
     bindR (load_active_plugins_from_db (he_table E) (mh_db s)) (\<lambda>active.
     Inr [(''data'', PDict (dict_merge (pl_manifest plugin)
       [(''active'', PBool (plugin_id \<in> set active)), (''hooks'', hooks_of plugin),
        (''tools'', PList (map (\<lambda>t. named (tl_name t)) (pl_tools plugin))),
        (''forms'', PList (map (\<lambda>f. named (fc_name f)) (pl_forms plugin))), (''endpoints'', endpoints_of plugin)]))]))"

subsection \<open>Installing, toggling, removing\<close>

definition admitted_mime_types :: "string list" where
  "admitted_mime_types = [''application/zip'', ''application/x-tar'']"

text \<open>The check uses the type guessed from the name, the message the type the client declared.\<close>

definition install_plugin_endpoint ::
  "('w, 'c, 'v, 'f, 'db) hatter_env \<Rightarrow> (string \<Rightarrow> string option) \<Rightarrow> string \<Rightarrow> package \<Rightarrow> ('w, 'c, 'v, 'f, 'db, json) hatter_comp" where
  "install_plugin_endpoint E guess_type declared_type pk =
     (if guess_type (pk_file pk) \<notin> Some ` set admitted_mime_types then
        raiseM (http_error 400 (''MIME type '' @ backquote @ declared_type @ backquote @ '' not supported. Admitted types: '' @
          join '', '' admitted_mime_types))
      else bindM (install_plugin E pk) (\<lambda>_.
        retM [(''filename'', PStr (pk_file pk)), (''content_type'', PStr declared_type),
              (''info'', PStr ''Plugin is being installed asynchronously'')]))"

definition install_plugin_from_registry ::
  "('w, 'c, 'v, 'f, 'db) hatter_env \<Rightarrow> (exn \<Rightarrow> string) \<Rightarrow> registry \<Rightarrow> json \<Rightarrow> ('w, 'c, 'v, 'f, 'db, json) hatter_comp" where
  "install_plugin_from_registry E show_exn R payload =
     bindM (catchM
       (bindM (liftM (bindR (item payload ''url'') as_str)) (\<lambda>url.
        bindM (liftM (registry_download_plugin R url)) (\<lambda>pk. install_plugin E pk)))
       (\<lambda>e. raiseM (http_error 500 (show_exn e)))) (\<lambda>_.
     bindM (liftM (item payload ''url'')) (\<lambda>url.
     retM [(''url'', url), (''info'', PStr ''Plugin is being installed asynchronously'')]))"

definition toggle_plugin_endpoint ::
  "('w, 'c, 'v, 'f, 'db) hatter_env \<Rightarrow> (exn \<Rightarrow> string) \<Rightarrow> string \<Rightarrow> ('w, 'c, 'v, 'f, 'db, json) hatter_comp" where
  "toggle_plugin_endpoint E show_exn plugin_id =
     bindM (getM (plugin_exists plugin_id)) (\<lambda>there.
       if \<not> there then raiseM not_found
       else catchM (bindM (toggle_plugin E plugin_id) (\<lambda>_. retM [(''info'', PStr (''Plugin '' @ plugin_id @ '' toggled''))]))
              (\<lambda>e. raiseM (http_error 500 (show_exn e))))"

definition delete_plugin ::
  "('w, 'c, 'v, 'f, 'db) hatter_env \<Rightarrow> string \<Rightarrow> ('w, 'c, 'v, 'f, 'db, json) hatter_comp" where
  "delete_plugin E plugin_id =
     bindM (getM (plugin_exists plugin_id)) (\<lambda>there.
       if \<not> there then raiseM (http_error 404 ''Item not found'')
       else bindM (uninstall_plugin E plugin_id) (\<lambda>_. retM [(''deleted'', PStr plugin_id)]))"

subsection \<open>Settings\<close>

definition hide_empty :: "json \<Rightarrow> json result" where
  "hide_empty schema = bindR (item schema ''properties'') (\<lambda>props. Inr (if props = PDict [] then [] else schema))"

definition plugin_settings ::
  "('w, 'c, 'v, 'f) host \<Rightarrow> string \<Rightarrow> ('w, 'c, 'v, 'f, 'db, pyval \<times> json) hatter_comp" where
  "plugin_settings H plugin_id =
     bindM (on_plugin plugin_id (Plugin_load_settings H)) (\<lambda>settings.
     bindM (on_plugin plugin_id Plugin_settings_schema) (\<lambda>schema. retM (settings, schema)))"

definition settings_answer :: "string \<Rightarrow> pyval \<Rightarrow> json \<Rightarrow> json" where
  "settings_answer plugin_id settings schema = [(''name'', PStr plugin_id), (''value'', settings), (''schema'', PDict schema)]"

text \<open>A plugin whose settings cannot be loaded is left out of the list.\<close>

fun collect_settings ::
  "('w, 'c, 'v, 'f) host \<Rightarrow> string list \<Rightarrow> json list \<Rightarrow> ('w, 'c, 'v, 'f, 'db, json list) hatter_comp" where
  "collect_settings H [] acc = retM acc"
| "collect_settings H (i # ids) acc =
     bindM (catchM (bindM (plugin_settings H i) (\<lambda>(settings, schema).
              bindM (liftM (hide_empty schema)) (\<lambda>schema. retM (acc @ [settings_answer i settings schema]))))
            (\<lambda>e. retM acc)) (collect_settings H ids)"

definition get_plugins_settings :: "('w, 'c, 'v, 'f) host \<Rightarrow> ('w, 'c, 'v, 'f, 'db, json) hatter_comp" where
  "get_plugins_settings H =
     bindM (getM (\<lambda>s. keys (mh_plugins s))) (\<lambda>ids.
     bindM (collect_settings H ids []) (\<lambda>settings. retM [(''settings'', PList (map PDict settings))]))"

definition get_plugin_settings ::
  "('w, 'c, 'v, 'f) host \<Rightarrow> (exn \<Rightarrow> pyval) \<Rightarrow> string \<Rightarrow> ('w, 'c, 'v, 'f, 'db, json) hatter_comp" where
  "get_plugin_settings H exn_value plugin_id =
     bindM (getM (plugin_exists plugin_id)) (\<lambda>there.
       if \<not> there then raiseM not_found
       else
         bindM (catchM (plugin_settings H plugin_id) (\<lambda>e. raiseM (HTTPException 500 (PDict [(''error'', exn_value e)])))) (\<lambda>(settings, schema).
         bindM (liftM (hide_empty schema)) (\<lambda>schema. retM (settings_answer plugin_id settings schema))))"

text \<open>\<open>pydantic_errors\<close> is the validation by pydantic: the messages of the errors, none if the payload is valid.\<close>

definition upsert_plugin_settings ::
  "('w, 'c, 'v, 'f) host \<Rightarrow> (settings_model \<Rightarrow> json \<Rightarrow> string list) \<Rightarrow> string \<Rightarrow> json \<Rightarrow> ('w, 'c, 'v, 'f, 'db, json) hatter_comp" where
  "upsert_plugin_settings H pydantic_errors plugin_id payload =
     bindM (getM (plugin_exists plugin_id)) (\<lambda>there.
       if \<not> there then raiseM not_found
       else
         bindM (on_plugin plugin_id Plugin_settings_model) (\<lambda>model.
           if pydantic_errors model payload \<noteq> [] then raiseM (http_error 400 (join [CHR 0x0A] (pydantic_errors model payload)))
           else
             bindM (on_plugin plugin_id (Plugin_save_settings H payload)) (\<lambda>final_settings.
             retM [(''name'', PStr plugin_id), (''value'', PDict final_settings)])))"

subsection \<open>Answers\<close>

text \<open>
  The core plugin is not removed: the answer says it was. For an unknown plugin every endpoint answers 404 before anything happens,
  and a plugin that fails to switch is reported with status 500.
\<close>

lemma delete_core_plugin_does_nothing:
  "plugin_exists ''core_plugin'' s \<Longrightarrow> delete_plugin E ''core_plugin'' s = (Inr [(''deleted'', PStr ''core_plugin'')], s)"
  by (simp add: delete_plugin_def uninstall_plugin_def bindM_apply)

lemma unknown_plugin_not_found:
  assumes "\<not> plugin_exists i s"
  shows "toggle_plugin_endpoint E show_exn i s = (Inl not_found, s)"
    "delete_plugin E i s = (Inl (http_error 404 ''Item not found''), s)"
    "get_plugin_settings H exn_value i s = (Inl not_found, s)"
    "upsert_plugin_settings H pydantic_errors i payload s = (Inl not_found, s)"
    "get_plugin_details E i s = Inl not_found"
  using assms by (simp_all add: toggle_plugin_endpoint_def delete_plugin_def get_plugin_settings_def upsert_plugin_settings_def
      get_plugin_details_def plugin_exists_def in_keys_iff)

lemma toggle_answers:
  assumes "plugin_exists i s" "toggle_plugin_endpoint E show_exn i s = (r, s')"
  shows "r = Inr [(''info'', PStr (''Plugin '' @ i @ '' toggled''))] \<or> (\<exists>e. r = Inl (http_error 500 (show_exn e)))"
  using assms by (cases "toggle_plugin E i s"; cases "fst (toggle_plugin E i s)")
    (auto simp: toggle_plugin_endpoint_def bindM_def catchM_def)

end
