(* ===== verification/Doc_Front_End.thy ===== *)
theory Doc_Front_End
  imports Rabbit_Hole Memory_Routes
begin

text \<open>
  The bundled plugin \<open>core/cat/plugins/CAT_doc_front_end_manager\<close>: \<open>filter_and_upload.py\<close>, \<open>user_tags_endpoint.py\<close> and the
  synchronisation that \<open>settings.py\<close> starts. Every user has tags with a state, a list of documents and prompts; they are kept in the
  file \<open>cat/static/user_status.json\<close>, the names of the tags in \<open>cat/static/tags.json\<close>. Hooks put the active tags and the
  user's name into the metadata of uploaded documents and ask for them when documents are recalled.

  A file is blank, not JSON, or a JSON value. \<open>json.dump\<close> of a JSON value followed by reading gives the value back. A value
  without the methods of a dictionary raises AttributeError, one that cannot be iterated TypeError. The last section is about
  processes that update the file at the same time.
\<close>

subsection \<open>Files\<close>

datatype json_file = Blank | Malformed | Json pyval

record status_files =
  sf_status :: "json_file option"
  sf_tags :: "json_file option"

definition load_json_safe :: "json_file option \<Rightarrow> pyval \<Rightarrow> pyval" where
  "load_json_safe f fallback = (case f of Some (Json v) \<Rightarrow> v | _ \<Rightarrow> fallback)"

definition atomic_write_json :: "pyval \<Rightarrow> (status_files, unit) comp" where
  "atomic_write_json v = modM (\<lambda>f. f\<lparr>sf_status := Some (Json v)\<rparr>)"

definition file_data :: "json_file \<Rightarrow> pyval" where
  "file_data f = (case f of Json v \<Rightarrow> v | _ \<Rightarrow> PDict [])"

definition update_user_status_atomic :: "(pyval \<Rightarrow> pyval result) \<Rightarrow> (status_files, unit) comp" where
  "update_user_status_atomic mutator =
     bindM (modM (\<lambda>f. if sf_status f = None then f\<lparr>sf_status := Some (Json (PDict []))\<rparr> else f)) (\<lambda>_.
     bindM (getM (\<lambda>f. case sf_status f of None \<Rightarrow> PDict [] | Some j \<Rightarrow> file_data j)) (\<lambda>data.
     bindM (liftM (mutator data)) atomic_write_json))"

subsection \<open>Schema\<close>

definition default_tag_obj :: json where
  "default_tag_obj =
     [(''status'', PBool False), (''documents'', PList []), (''prompt_list'', PList []),
      (''selected_prompt'', PStr []), (''prompt'', PStr [])]"

text \<open>\<open>str(t)\<close> of the strings and integers; a boolean is an integer too.\<close>

definition tag_name :: "pyval \<Rightarrow> string option" where
  "tag_name t =
     (case t of PStr s \<Rightarrow> Some s | PInt i \<Rightarrow> Some (str_int i) | PBool b \<Rightarrow> Some (if b then ''True'' else ''False'') | _ \<Rightarrow> None)"

definition load_tags_list :: "status_files \<Rightarrow> string list result" where
  "load_tags_list f =
     bindR (with_get (load_json_safe (sf_tags f) (PDict []))) (\<lambda>data.
     bindR (iterate (case map_of data ''tags'' of None \<Rightarrow> PList [] | Some v \<Rightarrow> v)) (\<lambda>tags.
     Inr (List.map_filter tag_name tags)))"

definition complete_tag :: "json \<Rightarrow> json" where
  "complete_tag t = foldl (\<lambda>t (k, v). if k \<in> set (keys t) then t else AList.update k v t) t default_tag_obj"

definition ensure_tag :: "json \<Rightarrow> string \<Rightarrow> json" where
  "ensure_tag tagmap tag =
     AList.update tag (PDict (case map_of tagmap tag of Some (PDict t) \<Rightarrow> complete_tag t | _ \<Rightarrow> default_tag_obj)) tagmap"

definition ensure_tags :: "string list \<Rightarrow> pyval \<Rightarrow> json" where
  "ensure_tags tags tagmap = foldl ensure_tag (case tagmap of PDict m \<Rightarrow> m | _ \<Rightarrow> []) tags"

definition ensure_user_status_schema :: "json \<Rightarrow> string list \<Rightarrow> json" where
  "ensure_user_status_schema user_status tags = map (\<lambda>(user, tagmap). (user, PDict (ensure_tags tags tagmap))) user_status"

definition load_user_status_with_schema :: "status_files \<Rightarrow> json result" where
  "load_user_status_with_schema f =
     bindR (load_tags_list f) (\<lambda>tags.
     bindR (with_get (load_json_safe (sf_status f) (PDict []))) (\<lambda>user_status.
     Inr (ensure_user_status_schema user_status tags)))"

subsection \<open>Prompts\<close>

text \<open>\<open>(x or "").strip()\<close>\<close>

definition stripped :: "pyval option \<Rightarrow> string result" where
  "stripped v =
     (if \<not> truthy_opt v then Inr []
      else case v of Some (PStr s) \<Rightarrow> Inr (strip s) | _ \<Rightarrow> Inl (Exn ''AttributeError'' ''strip''))"

fun find_prompt :: "string \<Rightarrow> string \<Rightarrow> pyval list \<Rightarrow> json option result" where
  "find_prompt k sel [] = Inr None"
| "find_prompt k sel (it # its) =
     bindR (with_get it) (\<lambda>d.
     bindR (stripped (map_of d k)) (\<lambda>s. if s = sel then Inr (Some d) else find_prompt k sel its))"

definition resolve_selected_prompt :: "json \<Rightarrow> string option result" where
  "resolve_selected_prompt tag_obj =
     bindR (stripped (map_of tag_obj ''selected_prompt'')) (\<lambda>sel.
       if sel = [] then Inr None
       else
         bindR (case map_of tag_obj ''prompt_list'' of None \<Rightarrow> Inr [] | Some v \<Rightarrow> if truthy v then iterate v else Inr []) (\<lambda>plist.
         bindR (find_prompt ''prompt_content'' sel plist) (\<lambda>by_content.
           if by_content \<noteq> None then Inr (Some sel)
           else
             bindR (find_prompt ''prompt_title'' sel plist) (\<lambda>by_title.
               case by_title of
                 None \<Rightarrow> Inr (Some sel)
               | Some it \<Rightarrow> bindR (stripped (map_of it ''prompt_content'')) (\<lambda>content.
                   Inr (if content = [] then None else Some content))))))"

subsection \<open>Users and sources\<close>

definition ensure_user :: "string list \<Rightarrow> json \<Rightarrow> string \<Rightarrow> json" where
  "ensure_user tags user_status username =
     AList.update username (PDict (ensure_tags tags (case map_of user_status username of Some v \<Rightarrow> v | None \<Rightarrow> PDict []))) user_status"

definition usernames :: "json \<Rightarrow> string list result" where
  "usernames users_db =
     bindR (mapR as_dict (dict_values users_db)) (\<lambda>us.
     mapR (\<lambda>u. bindR (item u ''username'') as_str) (filter (\<lambda>u. ''username'' \<in> set (keys u)) us))"

definition aggiorna_users_tags :: "json \<Rightarrow> (status_files, unit) comp" where
  "aggiorna_users_tags users_db =
     bindM (liftM (usernames users_db)) (\<lambda>users.
     bindM (getM (\<lambda>f. load_json_safe (sf_status f) (PDict []))) (\<lambda>user_status.
     bindM (\<lambda>f. (load_tags_list f, f)) (\<lambda>tags.
       if users = [] then atomic_write_json user_status
       else
         bindM (liftM (with_get user_status)) (\<lambda>us.
         atomic_write_json (PDict (foldl (ensure_user tags) us users))))))"

text \<open>Asking for the schema of the settings completes the status file first; when that fails it is only logged.\<close>

definition doc_settings_schema :: "json \<Rightarrow> json \<Rightarrow> (status_files, json) comp" where
  "doc_settings_schema model_json_schema users_db =
     bindM (catchM (aggiorna_users_tags users_db) (\<lambda>e. retM ())) (\<lambda>_. retM model_json_schema)"

text \<open>\<open>Path(s).name\<close>: the last part that is neither empty nor a dot.\<close>

definition path_name :: "string \<Rightarrow> string" where
  "path_name s = (case rev (filter (\<lambda>p. p \<noteq> [] \<and> p \<noteq> ''.'') (split_char (CHR ''/'') s)) of [] \<Rightarrow> [] | p # _ \<Rightarrow> p)"

definition add_source :: "pyval list \<Rightarrow> string \<Rightarrow> pyval list" where
  "add_source docs_list s = (if PStr s \<in> set docs_list then docs_list else docs_list @ [PStr s])"

definition add_to_tag :: "string list \<Rightarrow> json \<Rightarrow> string \<Rightarrow> json result" where
  "add_to_tag sources user_map tag =
     bindR (with_get (case map_of user_map tag of Some v \<Rightarrow> v | None \<Rightarrow> PDict default_tag_obj)) (\<lambda>tag_obj.
     let docs_list = (case map_of tag_obj ''documents'' of Some (PList xs) \<Rightarrow> xs | _ \<Rightarrow> [])
     in Inr (AList.update tag (PDict (AList.update ''documents'' (PList (foldl add_source docs_list sources)) tag_obj)) user_map))"

fun add_to_tags :: "string list \<Rightarrow> string list \<Rightarrow> pyval \<Rightarrow> pyval result" where
  "add_to_tags sources [] user_map = Inr user_map"
| "add_to_tags sources (tag # tags) user_map =
     bindR (with_get user_map) (\<lambda>m.
     bindR (add_to_tag sources m tag) (\<lambda>m'. add_to_tags sources tags (PDict m')))"

definition source_mutator :: "string \<Rightarrow> string list \<Rightarrow> string list \<Rightarrow> pyval \<Rightarrow> pyval result" where
  "source_mutator user active_tags sources current =
     bindR (with_get current) (\<lambda>state.
     bindR (add_to_tags sources active_tags (case map_of state user of Some v \<Rightarrow> v | None \<Rightarrow> PDict [])) (\<lambda>user_map.
     Inr (PDict (AList.update user user_map state))))"

definition merge_sources_for_user_atomic :: "string \<Rightarrow> string list \<Rightarrow> pyval list \<Rightarrow> (status_files, unit) comp" where
  "merge_sources_for_user_atomic user active_tags sources =
     update_user_status_atomic (source_mutator user active_tags
       (List.map_filter (\<lambda>s. case s of PStr t \<Rightarrow> if strip t \<noteq> [] then Some (path_name t) else None | _ \<Rightarrow> None) sources))"

subsection \<open>Hooks\<close>

definition tags_of :: "json \<Rightarrow> string \<Rightarrow> json" where
  "tags_of user_status user = (case map_of user_status user of Some (PDict m) \<Rightarrow> m | _ \<Rightarrow> [])"

definition is_active_tag :: "pyval \<Rightarrow> bool" where
  "is_active_tag tag_obj = (case tag_obj of PDict t \<Rightarrow> truthy_opt (map_of t ''status'') | _ \<Rightarrow> False)"

definition active_tags_of :: "json \<Rightarrow> string \<Rightarrow> string list" where
  "active_tags_of user_status user = map fst (filter (\<lambda>(tag, t). is_active_tag t) (tags_of user_status user))"

text \<open>\<open>{tag: True for tag in active_tags}\<close> with the flag of the user.\<close>

definition flags :: "string \<Rightarrow> string list \<Rightarrow> json" where
  "flags user active_tags = AList.update user (PBool True) (dict_of (map (\<lambda>tag. (tag, PBool True)) active_tags))"

fun first_prompt :: "json \<Rightarrow> string option result" where
  "first_prompt [] = Inr None"
| "first_prompt ((tag, t) # rest) =
     (case t of
        PDict tag_obj \<Rightarrow>
          if is_active_tag t then
            bindR (resolve_selected_prompt tag_obj) (\<lambda>resolved.
              if str_truthy resolved then Inr resolved else first_prompt rest)
          else first_prompt rest
      | _ \<Rightarrow> first_prompt rest)"

definition doc_agent_prompt_prefix :: "string \<Rightarrow> string \<Rightarrow> (status_files, string) comp" where
  "doc_agent_prompt_prefix user pre =
     bindM (\<lambda>f. (load_user_status_with_schema f, f)) (\<lambda>user_status.
     bindM (liftM (first_prompt (tags_of user_status user))) (\<lambda>resolved.
     retM (case resolved of Some r \<Rightarrow> r | None \<Rightarrow> pre)))"

definition doc_before_cat_recalls_declarative_memories :: "string \<Rightarrow> recall_config \<Rightarrow> (status_files, recall_config) comp" where
  "doc_before_cat_recalls_declarative_memories user declarative_recall_config =
     bindM (\<lambda>f. (load_user_status_with_schema f, f)) (\<lambda>user_status.
     retM (declarative_recall_config\<lparr>rcf_metadata := flags user (active_tags_of user_status user)\<rparr>))"

definition flag_document :: "string \<Rightarrow> string list \<Rightarrow> document \<Rightarrow> document" where
  "flag_document user active_tags doc = doc\<lparr>metadata := dict_merge (metadata doc) (flags user active_tags)\<rparr>"

definition source_name :: "document \<Rightarrow> string option" where
  "source_name doc =
     (case map_of (metadata doc) ''source'' of
        Some (PStr s) \<Rightarrow> if strip s \<noteq> [] then Some (path_name (strip s)) else None
      | _ \<Rightarrow> None)"

definition note_source :: "string \<Rightarrow> string list \<Rightarrow> document \<Rightarrow> (status_files, unit) comp" where
  "note_source user active_tags doc =
     (case source_name doc of
        None \<Rightarrow> retM ()
      | Some s \<Rightarrow> update_user_status_atomic (source_mutator user active_tags [s]))"

text \<open>
  The documents are changed in place in the source. When noting a source fails, the documents before it keep their flags there; here the
  hook gives nothing back.
\<close>

definition doc_before_rabbithole_stores_documents :: "string \<Rightarrow> document list \<Rightarrow> (status_files, document list) comp" where
  "doc_before_rabbithole_stores_documents user docs =
     bindM (\<lambda>f. (load_user_status_with_schema f, f)) (\<lambda>user_status.
     let active_tags = active_tags_of user_status user; docs' = map (flag_document user active_tags) docs
     in bindM (forM docs' (note_source user active_tags)) (\<lambda>_. retM docs'))"

text \<open>The hooks as the decorators register them, over the part of the outside world that holds the files.\<close>

record 'x file_access =
  fa_files :: "'x \<Rightarrow> status_files"
  fa_put :: "status_files \<Rightarrow> 'x \<Rightarrow> 'x"

definition on_files :: "'x file_access \<Rightarrow> (status_files, 'a) comp \<Rightarrow> ('q, 'x, 'a) stray_comp" where
  "on_files A m = on_ext (\<lambda>x. case m (fa_files A x) of (r, f) \<Rightarrow> (r, fa_put A f x))"

definition prefix_hook :: "'x file_access \<Rightarrow> (('q, 'x) stray, tea) hook_body" where
  "prefix_hook A args =
     (case args of
        TText pre # _ \<Rightarrow>
          bindM (getM sr_user_id) (\<lambda>user. bindM (on_files A (doc_agent_prompt_prefix user pre)) (\<lambda>p. retM (Some (TText p))))
      | _ \<Rightarrow> raiseM (Exn ''TypeError'' ''prefix''))"

definition declarative_hook :: "'x file_access \<Rightarrow> (('q, 'x) stray, tea) hook_body" where
  "declarative_hook A args =
     (case args of
        TConfig cf # _ \<Rightarrow>
          bindM (getM sr_user_id) (\<lambda>user.
          bindM (on_files A (doc_before_cat_recalls_declarative_memories user cf)) (\<lambda>cf'. retM (Some (TConfig cf'))))
      | _ \<Rightarrow> raiseM (Exn ''TypeError'' ''declarative_recall_config''))"

definition documents_hook :: "'x file_access \<Rightarrow> (('q, 'x) stray, tea) hook_body" where
  "documents_hook A args =
     (case args of
        TDocuments docs # _ \<Rightarrow>
          bindM (getM sr_user_id) (\<lambda>user.
          bindM (on_files A (doc_before_rabbithole_stores_documents user docs)) (\<lambda>ds. retM (Some (TDocuments ds))))
      | _ \<Rightarrow> raiseM (Exn ''TypeError'' ''docs''))"

subsection \<open>Endpoints\<close>

text \<open>\<open>user_tags_endpoint.py\<close>. None of the four asks who is calling. \<open>broken\<close> is the text of the error that reading a broken file gives.\<close>

definition get_user_status :: "string \<Rightarrow> status_files \<Rightarrow> pyval result" where
  "get_user_status broken f =
     (case sf_status f of
        None \<Rightarrow> Inl (HTTPException 404 (PStr ''File user_status.json non trovato''))
      | Some (Json v) \<Rightarrow> Inr v
      | Some _ \<Rightarrow> Inl (HTTPException 500 (PStr broken)))"

definition update_user_status :: "json \<Rightarrow> (status_files, json) comp" where
  "update_user_status new_user_status =
     bindM (modM (\<lambda>f. f\<lparr>sf_status := Some (Json (PDict new_user_status))\<rparr>)) (\<lambda>_.
     retM [(''status'', PStr ''success''), (''message'', PStr ''tags.json aggiornato con successo'')])"

definition get_tags :: "string \<Rightarrow> status_files \<Rightarrow> pyval result" where
  "get_tags broken f =
     (case sf_tags f of
        None \<Rightarrow> Inl (HTTPException 404 (PStr ''File tags.json non trovato''))
      | Some (Json v) \<Rightarrow> Inr v
      | Some _ \<Rightarrow> Inl (HTTPException 500 (PStr (''JSON non valido: '' @ broken))))"

definition update_tags :: "string list \<Rightarrow> (status_files, json) comp" where
  "update_tags tags =
     bindM (modM (\<lambda>f. f\<lparr>sf_tags := Some (Json (PDict [(''tags'', PList (map PStr tags))]))\<rparr>)) (\<lambda>_.
     retM [(''status'', PStr ''success''), (''message'', PStr ''tags.json aggiornato con successo'')])"

subsection \<open>Updates at the same time\<close>

text \<open>
  \<open>update_user_status_atomic\<close> in several processes or threads, with the file there: a process opens the path, takes the lock of
  the file it opened, reads it, writes the result to the one temporary path and moves that over the path. A file
  is a number; the file that was opened stays the same when another one takes its place under the path. Reading happens with the writing
  here, as nobody changes a file in place; a write is one step, and the lock goes with the move or with the exception
  that a missing temporary file gives.
\<close>

datatype phase = Start | Opened nat | Locked nat | Written nat | Done | Failed

record race =
  ra_path :: nat
  ra_next :: nat
  ra_content :: "nat \<Rightarrow> pyval"
  ra_lock :: "nat \<Rightarrow> nat option"
  ra_tmp :: "pyval option"
  ra_phase :: "nat \<Rightarrow> phase"

definition race_start :: "pyval \<Rightarrow> race" where
  "race_start d =
     \<lparr>ra_path = 0, ra_next = 1, ra_content = (\<lambda>_. d), ra_lock = (\<lambda>_. None), ra_tmp = None, ra_phase = (\<lambda>_. Start)\<rparr>"

text \<open>The next step of process \<open>i\<close> with the mutator \<open>M i\<close>, if it can do one.\<close>

definition race_do :: "(nat \<Rightarrow> pyval \<Rightarrow> pyval) \<Rightarrow> nat \<Rightarrow> race \<Rightarrow> race option" where
  "race_do M i s =
     (case ra_phase s i of
        Start \<Rightarrow> Some (s\<lparr>ra_phase := (ra_phase s)(i := Opened (ra_path s))\<rparr>)
      | Opened n \<Rightarrow>
          if ra_lock s n = None
          then Some (s\<lparr>ra_lock := (ra_lock s)(n := Some i), ra_phase := (ra_phase s)(i := Locked n)\<rparr>) else None
      | Locked n \<Rightarrow> Some (s\<lparr>ra_tmp := Some (M i (ra_content s n)), ra_phase := (ra_phase s)(i := Written n)\<rparr>)
      | Written n \<Rightarrow>
          (case ra_tmp s of
             None \<Rightarrow> Some (s\<lparr>ra_lock := (ra_lock s)(n := None), ra_phase := (ra_phase s)(i := Failed)\<rparr>)
           | Some v \<Rightarrow> Some (s\<lparr>ra_path := ra_next s, ra_next := Suc (ra_next s), ra_content := (ra_content s)(ra_next s := v),
               ra_tmp := None, ra_lock := (ra_lock s)(n := None), ra_phase := (ra_phase s)(i := Done)\<rparr>))
      | Done \<Rightarrow> None
      | Failed \<Rightarrow> None)"

inductive race_reach :: "(nat \<Rightarrow> pyval \<Rightarrow> pyval) \<Rightarrow> pyval \<Rightarrow> race \<Rightarrow> bool" for M d where
  start: "race_reach M d (race_start d)"
| step: "race_reach M d s \<Longrightarrow> race_do M i s = Some t \<Longrightarrow> race_reach M d t"

fun race_run :: "(nat \<Rightarrow> pyval \<Rightarrow> pyval) \<Rightarrow> nat list \<Rightarrow> race \<Rightarrow> race option" where
  "race_run M [] s = Some s"
| "race_run M (i # is) s = (case race_do M i s of None \<Rightarrow> None | Some t \<Rightarrow> race_run M is t)"

lemma race_run_reach: "race_reach M d s \<Longrightarrow> race_run M is s = Some t \<Longrightarrow> race_reach M d t"
  by (induction "is" arbitrary: s) (auto split: option.splits intro: race_reach.step)

definition has_written :: "phase \<Rightarrow> bool" where
  "has_written p = (case p of Written n \<Rightarrow> True | Done \<Rightarrow> True | Failed \<Rightarrow> True | _ \<Rightarrow> False)"

lemma has_written_simps [simp]:
  "\<not> has_written Start" "\<not> has_written (Opened n)" "\<not> has_written (Locked n)"
  "has_written (Written n)" "has_written Done" "has_written Failed"
  by (simp_all add: has_written_def)

text \<open>A value that comes from complete updates of different processes that have written.\<close>

definition updated_by :: "(nat \<Rightarrow> pyval \<Rightarrow> pyval) \<Rightarrow> pyval \<Rightarrow> (nat \<Rightarrow> phase) \<Rightarrow> pyval \<Rightarrow> bool" where
  "updated_by M d ph v \<longleftrightarrow> (\<exists>is. distinct is \<and>
     (\<forall>i \<in> set is. has_written (ph i)) \<and> v = foldl (\<lambda>v i. M i v) d is)"

lemma updated_by_step:
  assumes "updated_by M d ph v" "\<not> has_written (ph i)"
  shows "updated_by M d (ph(i := p)) v"
  using assms unfolding updated_by_def by fastforce

lemma updated_by_keep:
  assumes "updated_by M d ph v" "has_written p"
  shows "updated_by M d (ph(i := p)) v"
  using assms unfolding updated_by_def by fastforce

lemma updated_by_write:
  assumes "updated_by M d ph v" "\<not> has_written (ph i)"
  shows "updated_by M d (ph(i := Written n)) (M i v)"
proof -
  from assms(1) obtain js where js: "distinct js" "\<forall>j \<in> set js. has_written (ph j)"
    "v = foldl (\<lambda>v i. M i v) d js" unfolding updated_by_def by blast
  then have "i \<notin> set js" using assms(2) by blast
  with js show ?thesis unfolding updated_by_def by (intro exI [of _ "js @ [i]"]) auto
qed

lemma race_invariant:
  assumes "race_reach M d s"
  shows "(\<forall>n. updated_by M d (ra_phase s) (ra_content s n)) \<and> (\<forall>v. ra_tmp s = Some v \<longrightarrow> updated_by M d (ra_phase s) v)"
  using assms
proof induction
  case start
  then show ?case by (auto simp: race_start_def updated_by_def intro!: exI [of _ "[]"])
next
  case (step s i t)
  then show ?case
    by (cases "ra_phase s i")
      (auto simp: race_do_def updated_by_step updated_by_keep updated_by_write fun_upd_apply [of "ra_content s"]
        simp del: fun_upd_apply split: if_splits option.splits)
qed

text \<open>A lock is held by a process that will let it go.\<close>

lemma race_lock_holder:
  assumes "race_reach M d s"
  shows "\<forall>n j. ra_lock s n = Some j \<longrightarrow> ra_phase s j = Locked n \<or> ra_phase s j = Written n"
  using assms
proof induction
  case start
  then show ?case by (simp add: race_start_def)
next
  case (step s i t)
  show ?case
  proof (intro allI impI)
    fix n j assume lock: "ra_lock t n = Some j"
    have "ra_lock s n = Some j \<Longrightarrow> ra_phase s j = Locked n \<or> ra_phase s j = Written n" using step.IH by blast
    with lock step.hyps(2) show "ra_phase t j = Locked n \<or> ra_phase t j = Written n"
      by (cases "ra_phase s i"; cases "j = i") (auto simp: race_do_def split: if_splits option.splits)
  qed
qed

abbreviation through :: "phase \<Rightarrow> bool" where
  "through p \<equiv> p = Done \<or> p = Failed"

lemma race_run_append: "race_run M (is @ js) s = Option.bind (race_run M is s) (race_run M js)"
  by (induction "is" arbitrary: s) (auto split: option.splits)

lemma race_leave_lock:
  assumes "ra_phase s i = Locked n \<or> ra_phase s i = Written n"
  shows "\<exists>is t. race_run M is s = Some t \<and> set is \<subseteq> {i} \<and> through (ra_phase t i) \<and> ra_lock t n = None \<and>
     (\<forall>k. k \<noteq> i \<longrightarrow> ra_phase t k = ra_phase s k)"
proof -
  have written: "\<exists>t. race_run M [i] u = Some t \<and> through (ra_phase t i) \<and> ra_lock t n = None \<and>
      (\<forall>k. k \<noteq> i \<longrightarrow> ra_phase t k = ra_phase u k)" if "ra_phase u i = Written n" for u
    using that by (auto simp: race_do_def split: option.split)
  show ?thesis
  proof (cases "ra_phase s i = Written n")
    case True
    from written [OF this] show ?thesis by (intro exI [of _ "[i]"]) simp
  next
    case False
    with assms have locked: "ra_phase s i = Locked n" by simp
    let ?u = "s\<lparr>ra_tmp := Some (M i (ra_content s n)), ra_phase := (ra_phase s)(i := Written n)\<rparr>"
    have "race_do M i s = Some ?u" using locked by (simp add: race_do_def)
    then have run: "race_run M [i, i] s = race_run M [i] ?u" by simp
    obtain t where t: "race_run M [i] ?u = Some t" "through (ra_phase t i)" "ra_lock t n = None"
        "\<forall>k. k \<noteq> i \<longrightarrow> ra_phase t k = ra_phase s k"
      using written [of ?u] by auto
    show ?thesis by (intro exI [of _ "[i, i]"] exI [of _ t]) (use run t in auto)
  qed
qed

lemma race_open_free:
  assumes "ra_phase s i = Opened n" "ra_lock s n = None"
  shows "\<exists>is t. race_run M is s = Some t \<and> set is \<subseteq> {i} \<and> through (ra_phase t i)"
proof -
  let ?u = "s\<lparr>ra_lock := (ra_lock s)(n := Some i), ra_phase := (ra_phase s)(i := Locked n)\<rparr>"
  have "race_do M i s = Some ?u" using assms by (simp add: race_do_def)
  moreover obtain js t where "race_run M js ?u = Some t" "set js \<subseteq> {i}" "through (ra_phase t i)"
    using race_leave_lock [of ?u i n M] by auto
  ultimately show ?thesis by (intro exI [of _ "i # js"] exI [of _ t]) simp
qed

subsection \<open>Lemmas on the schema\<close>

lemma keys_Cons: "keys ((k, v) # d) = k # keys d"
  by (simp add: keys_def)

lemma keys_complete_tag: "set (keys (complete_tag t)) = set (keys t) \<union> set (keys default_tag_obj)"
proof -
  have "set (keys (foldl (\<lambda>t (k, v). if k \<in> set (keys t) then t else AList.update k v t) t ds)) = set (keys t) \<union> set (keys ds)"
    for ds :: json
  proof (induction ds arbitrary: t)
    case (Cons d ds)
    obtain k v where "d = (k, v)" by (cases d)
    with Cons show ?case by (auto simp: keys_update keys_Cons)
  qed simp
  then show ?thesis by (simp add: complete_tag_def)
qed

lemma complete_tag_id:
  assumes "set (keys default_tag_obj) \<subseteq> set (keys t)"
  shows "complete_tag t = t"
proof -
  have "foldl (\<lambda>t (k, v). if k \<in> set (keys t) then t else AList.update k v t) t ds = t" if "set (keys ds) \<subseteq> set (keys t)" for ds :: json
    using that by (induction ds) (auto simp: keys_Cons)
  then show ?thesis using assms by (simp add: complete_tag_def)
qed

lemma update_same: "map_of m k = Some v \<Longrightarrow> AList.update k v m = m"
  by (induction m) (auto split: if_splits)

text \<open>A tag that is there with all its fields.\<close>

definition tag_complete :: "json \<Rightarrow> string \<Rightarrow> bool" where
  "tag_complete m tag \<longleftrightarrow> (\<exists>t. map_of m tag = Some (PDict t) \<and> set (keys default_tag_obj) \<subseteq> set (keys t))"

lemma ensure_tag_complete: "tag_complete (ensure_tag m tag) tag"
  by (auto simp: tag_complete_def ensure_tag_def update_conv' keys_complete_tag split: option.split pyval.split)

lemma ensure_tag_keeps_complete: "tag_complete m tag \<Longrightarrow> tag_complete (ensure_tag m a) tag"
  by (cases "a = tag") (auto simp: ensure_tag_complete, auto simp: tag_complete_def ensure_tag_def update_conv')

lemma ensure_tag_id: "tag_complete m tag \<Longrightarrow> ensure_tag m tag = m"
  by (auto simp: tag_complete_def ensure_tag_def complete_tag_id update_same)

lemma ensure_tags_complete: "tag \<in> set tags \<Longrightarrow> tag_complete (ensure_tags tags v) tag"
proof -
  have "\<forall>tag. tag_complete m tag \<or> tag \<in> set tags \<longrightarrow> tag_complete (foldl ensure_tag m tags) tag" for m
    by (induction tags arbitrary: m) (auto simp: ensure_tag_complete ensure_tag_keeps_complete)
  then show "tag \<in> set tags \<Longrightarrow> tag_complete (ensure_tags tags v) tag" by (simp add: ensure_tags_def)
qed

lemma ensure_tags_id: "\<forall>tag \<in> set tags. tag_complete m tag \<Longrightarrow> ensure_tags tags (PDict m) = m"
  unfolding ensure_tags_def by (induction tags) (auto simp: ensure_tag_id)

subsection \<open>Lemmas on the hooks\<close>

lemma map_of_flags:
  "map_of (flags user tags) k = (if k = user \<or> k \<in> set tags then Some (PBool True) else None)"
proof -
  have "map_of (dict_of (map (\<lambda>tag. (tag, PBool True)) tags)) k = (if k \<in> set tags then Some (PBool True) else None)"
    by (simp add: map_of_dict_of rev_map map_of_map_pair)
  then show ?thesis by (auto simp: flags_def update_conv')
qed

lemma dict_wf_flags: "dict_wf (flags user tags)"
  unfolding flags_def by (simp add: dict_wf_update dict_wf_dict_of)

lemma flag_document_metadata:
  "map_of (metadata (flag_document user tags doc)) k =
     (if k = user \<or> k \<in> set tags then Some (PBool True) else map_of (metadata doc) k)"
  by (simp add: flag_document_def map_of_dict_merge_wf dict_wf_flags map_of_flags)

lemma page_content_flag [simp]: "page_content (flag_document user tags doc) = page_content doc"
  by (simp add: flag_document_def)

text \<open>Among other hooks that leave the tea cup alone, a hook decides alone.\<close>

lemma quiet_around:
  assumes "list_all quiet_hook before" "list_all quiet_hook after"
    and "hk_function h (cup # args) c = (Inr (Some cup'), c')"
  shows "pipe_hooks ps args (before @ h # after) cup c = (Inr cup', c')"
  using assms(1)
proof (induction before)
  case Nil
  then show ?case using assms(3) quiet_pipe_hooks [OF assms(2)] by (simp add: bindM_def catchM_def)
next
  case (Cons g gs)
  then have "hk_function g (cup # args) c = (Inr None, c) \<or> hk_function g (cup # args) c = (Inr (Some cup), c)"
    by (auto simp: quiet_hook_def)
  then show ?case using Cons by (auto simp: bindM_def catchM_def)
qed

lemma failing_around:
  assumes "list_all quiet_hook before" "list_all quiet_hook after"
    and "hk_function h (cup # args) c = (Inl e, c')" "hk_plugin_id h \<in> set ps"
  shows "pipe_hooks ps args (before @ h # after) cup c = (Inr cup, c')"
  using assms(1)
proof (induction before)
  case Nil
  then show ?case using assms(3,4) quiet_pipe_hooks [OF assms(2)] by (simp add: bindM_def catchM_def hook_error_def)
next
  case (Cons g gs)
  then have "hk_function g (cup # args) c = (Inr None, c) \<or> hk_function g (cup # args) c = (Inr (Some cup), c)"
    by (auto simp: quiet_hook_def)
  then show ?case using Cons by (auto simp: bindM_def catchM_def)
qed

definition file_access_ok :: "'x file_access \<Rightarrow> bool" where
  "file_access_ok A \<longleftrightarrow> (\<forall>x f. fa_files A (fa_put A f x) = f \<and> fa_put A (fa_files A x) x = x)"

lemma declarative_hook_run:
  assumes "file_access_ok A"
  shows "declarative_hook A (TConfig cf # args) c =
     (case load_user_status_with_schema (fa_files A (sr_ext c)) of
        Inl e \<Rightarrow> (Inl e, c)
      | Inr us \<Rightarrow> (Inr (Some (TConfig (cf\<lparr>rcf_metadata := flags (sr_user_id c) (active_tags_of us (sr_user_id c))\<rparr>))), c))"
proof -
  have "c\<lparr>sr_ext := fa_put A (fa_files A (sr_ext c)) (sr_ext c)\<rparr> = c" using assms by (simp add: file_access_ok_def)
  then show ?thesis
    by (simp add: declarative_hook_def doc_before_cat_recalls_declarative_memories_def on_files_def on_ext_def bindM_def split: sum.split)
qed

lemma recall_flagged:
  assumes "qdrant_db Q info sat" "collection_ready Q info C q"
    and "m \<in> set (recall_memories_from_embedding C e (Some (flags user tags)) k t q)"
  shows "\<exists>p. collection_points info C q (rc_id m) = Some p \<and>
     (\<forall>x \<in> insert user (set tags). plain_key x \<longrightarrow> metadata_matches p x (PBool True))"
proof -
  have each: "\<exists>p. collection_points info C q (rc_id m) = Some p \<and> metadata_matches p x (PBool True)"
    if "x \<in> insert user (set tags)" "plain_key x" for x
    using qdrant_db.recall_meets_condition [OF assms(1,2) _ _ that(2) assms(3), of "PBool True"] that(1)
    by (auto simp: map_of_flags scalar_def)
  obtain p where "collection_points info C q (rc_id m) = Some p"
    using qdrant_db.recall_stored [OF assms(1,2,3)] by blast
  then show ?thesis using each by fastforce
qed

text \<open>The documents of a user's tag, and tags that are there.\<close>

definition tag_object :: "json \<Rightarrow> string \<Rightarrow> string \<Rightarrow> json option" where
  "tag_object state user tag =
     (case map_of state user of Some (PDict m) \<Rightarrow> (case map_of m tag of Some (PDict t) \<Rightarrow> Some t | _ \<Rightarrow> None) | _ \<Rightarrow> None)"

definition documents_of :: "json \<Rightarrow> pyval list" where
  "documents_of tag_obj = (case map_of tag_obj ''documents'' of Some (PList xs) \<Rightarrow> xs | _ \<Rightarrow> [])"

lemma set_add_sources: "set (foldl add_source xs srcs) = set xs \<union> PStr ` set srcs"
  by (induction srcs arbitrary: xs) (auto simp: add_source_def)

lemma complete_tag_status: "is_active_tag (PDict (complete_tag t)) \<longleftrightarrow> is_active_tag (PDict t)"
proof -
  define step where "step = (\<lambda>(t :: json) (k, v). if k \<in> set (keys t) then t else AList.update k v t)"
  have "is_active_tag (PDict (foldl step t ds)) \<longleftrightarrow> is_active_tag (PDict t)"
    if "\<forall>(k, v) \<in> set ds. k = ''status'' \<longrightarrow> \<not> truthy v" for ds
    using that
  proof (induction ds arbitrary: t)
    case (Cons d ds)
    obtain k v where d: "d = (k, v)" by (cases d)
    have "is_active_tag (PDict (step t (k, v))) \<longleftrightarrow> is_active_tag (PDict t)"
      using Cons.prems by (auto simp: d step_def is_active_tag_def update_conv' truthy_opt_def in_keys_iff)
    with Cons show ?case by (simp add: d)
  qed simp
  moreover have "\<forall>(k, v) \<in> set default_tag_obj. k = ''status'' \<longrightarrow> \<not> truthy v" by (simp add: default_tag_obj_def)
  moreover have "complete_tag t = foldl step t default_tag_obj" by (simp add: complete_tag_def step_def)
  ultimately show ?thesis by simp
qed

lemma default_inactive: "\<not> is_active_tag (PDict default_tag_obj)"
  by (simp add: is_active_tag_def default_tag_obj_def truthy_opt_def)

lemma map_of_ensure_tag:
  "map_of (ensure_tag m a) tag =
     (if tag = a then Some (PDict (case map_of m a of Some (PDict t) \<Rightarrow> complete_tag t | _ \<Rightarrow> default_tag_obj)) else map_of m tag)"
  by (simp add: ensure_tag_def update_conv')

lemma dict_wf_ensure_tag: "dict_wf m \<Longrightarrow> dict_wf (ensure_tag m a)"
  by (simp add: ensure_tag_def)

text \<open>Completing the schema switches no tag on.\<close>

lemma ensure_tags_active:
  assumes "dict_wf m" "(tag, x) \<in> set (ensure_tags tags (PDict m))" "is_active_tag x"
  shows "\<exists>t. map_of m tag = Some (PDict t)"
proof -
  have "dict_wf (foldl ensure_tag m ts) \<and>
      (\<forall>x. map_of (foldl ensure_tag m ts) tag = Some x \<longrightarrow> is_active_tag x \<longrightarrow>
        (\<exists>t. map_of m tag = Some (PDict t)))" for ts
  proof (induction ts rule: rev_induct)
    case Nil
    then show ?case using assms(1) by (auto simp: is_active_tag_def split: pyval.splits)
  next
    case (snoc a ts)
    show ?case
    proof (cases "a = tag")
      case False
      with snoc show ?thesis by (simp add: map_of_ensure_tag dict_wf_ensure_tag)
    next
      case True
      have "\<exists>t. map_of m tag = Some (PDict t)"
        if "is_active_tag (PDict (case map_of (foldl ensure_tag m ts) tag of Some (PDict t) \<Rightarrow> complete_tag t | _ \<Rightarrow> default_tag_obj))"
        using that snoc complete_tag_status default_inactive by (auto split: option.splits pyval.splits)
      with snoc True show ?thesis by (simp add: map_of_ensure_tag dict_wf_ensure_tag)
    qed
  qed
  with assms(2,3) show ?thesis by (auto simp: ensure_tags_def dict_wf_map_of_iff)
qed

lemma active_tags_there:
  assumes "\<And>m. map_of s user = Some (PDict m) \<Longrightarrow> dict_wf m"
    and "tag \<in> set (active_tags_of (ensure_user_status_schema s tags) user)"
  shows "tag_object s user tag \<noteq> None"
proof -
  have "map_of (ensure_user_status_schema s tags) user = map_option (\<lambda>v. PDict (ensure_tags tags v)) (map_of s user)"
    by (induction s) (auto simp: ensure_user_status_schema_def)
  with assms(2) obtain v x where v: "map_of s user = Some v" "(tag, x) \<in> set (ensure_tags tags v)" "is_active_tag x"
    by (cases "map_of s user") (auto simp: active_tags_of_def tags_of_def)
  show ?thesis
  proof (cases "\<exists>m. v = PDict m")
    case True
    with v ensure_tags_active [OF assms(1), of _ tag x tags] show ?thesis by (auto simp: tag_object_def)
  next
    case False
    then have "ensure_tags tags v = ensure_tags tags (PDict [])" by (simp add: ensure_tags_def split: pyval.splits)
    with v ensure_tags_active [of "[]" tag x tags] show ?thesis by simp
  qed
qed

lemma add_to_tags_run:
  assumes "\<And>tag. tag \<in> set tags \<Longrightarrow> \<exists>t. map_of m tag = Some (PDict t)"
  shows "\<exists>m'. add_to_tags srcs tags (PDict m) = Inr (PDict m') \<and>
     (\<forall>tag t. map_of m tag = Some (PDict t) \<longrightarrow> (\<exists>t'. map_of m' tag = Some (PDict t') \<and>
        set (documents_of t') = set (documents_of t) \<union> (if tag \<in> set tags then PStr ` set srcs else {})))"
  using assms
proof (induction tags arbitrary: m)
  case (Cons a tags)
  from Cons.prems obtain t where t: "map_of m a = Some (PDict t)" by auto
  let ?t = "AList.update ''documents'' (PList (foldl add_source (documents_of t) srcs)) t"
  let ?m = "AList.update a (PDict ?t) m"
  have step: "add_to_tag srcs m a = Inr ?m" using t by (simp add: add_to_tag_def with_get_def documents_of_def Let_def)
  have "\<exists>t. map_of ?m tag = Some (PDict t)" if "tag \<in> set tags" for tag
    using Cons.prems [of tag] that by (auto simp: update_conv')
  from Cons.IH [OF this] obtain m' where m': "add_to_tags srcs tags (PDict ?m) = Inr (PDict m')"
    "\<forall>tag t. map_of ?m tag = Some (PDict t) \<longrightarrow> (\<exists>t'. map_of m' tag = Some (PDict t') \<and>
        set (documents_of t') = set (documents_of t) \<union> (if tag \<in> set tags then PStr ` set srcs else {}))" by blast
  have docs: "set (documents_of ?t) = set (documents_of t) \<union> PStr ` set srcs"
    using set_add_sources [of "documents_of t" srcs] by (simp add: documents_of_def [of "AList.update _ _ _"] update_conv')
  have "\<exists>t'. map_of m' tag = Some (PDict t') \<and>
      set (documents_of t') = set (documents_of u) \<union> (if tag \<in> set (a # tags) then PStr ` set srcs else {})"
    if u: "map_of m tag = Some (PDict u)" for tag u
  proof (cases "tag = a")
    case True
    with m'(2) have "\<exists>t'. map_of m' a = Some (PDict t') \<and>
        set (documents_of t') = set (documents_of ?t) \<union> (if a \<in> set tags then PStr ` set srcs else {})" by (auto simp: update_conv')
    then show ?thesis using True t u docs by auto
  next
    case False
    with m'(2) u show ?thesis by (auto simp: update_conv')
  qed
  then show ?case using m'(1) step by (auto simp: with_get_def)
qed simp

text \<open>What noting sources does to the state.\<close>

definition noted :: "string \<Rightarrow> string list \<Rightarrow> string set \<Rightarrow> json \<Rightarrow> json \<Rightarrow> bool" where
  "noted user tags srcs s s' \<longleftrightarrow>
     (\<forall>u. u \<noteq> user \<longrightarrow> map_of s' u = map_of s u) \<and>
     (\<forall>tag t. tag_object s user tag = Some t \<longrightarrow> (\<exists>t'. tag_object s' user tag = Some t' \<and>
        set (documents_of t') = set (documents_of t) \<union> (if tag \<in> set tags then PStr ` srcs else {})))"

lemma noted_trans:
  assumes "noted user tags A s s1" "noted user tags B s1 s2"
  shows "noted user tags (A \<union> B) s s2"
  unfolding noted_def
proof (intro conjI allI impI)
  fix u assume "u \<noteq> user"
  with assms show "map_of s2 u = map_of s u" by (simp add: noted_def)
next
  fix tag t assume "tag_object s user tag = Some t"
  with assms(1) obtain t1 where t1: "tag_object s1 user tag = Some t1"
    "set (documents_of t1) = set (documents_of t) \<union> (if tag \<in> set tags then PStr ` A else {})" unfolding noted_def by blast
  with assms(2) obtain t2 where "tag_object s2 user tag = Some t2"
    "set (documents_of t2) = set (documents_of t1) \<union> (if tag \<in> set tags then PStr ` B else {})" unfolding noted_def by blast
  with t1 show "\<exists>t'. tag_object s2 user tag = Some t' \<and>
      set (documents_of t') = set (documents_of t) \<union> (if tag \<in> set tags then PStr ` (A \<union> B) else {})" by auto
qed

lemma source_mutator_run:
  assumes "\<And>tag. tag \<in> set tags \<Longrightarrow> tag_object s user tag \<noteq> None"
  shows "\<exists>s'. source_mutator user tags srcs (PDict s) = Inr (PDict s') \<and> noted user tags (set srcs) s s'"
proof (cases "\<exists>m. map_of s user = Some (PDict m)")
  case True
  then obtain m where m: "map_of s user = Some (PDict m)" by blast
  have "\<exists>t. map_of m tag = Some (PDict t)" if "tag \<in> set tags" for tag
    using assms [OF that] m by (auto simp: tag_object_def split: option.splits pyval.splits)
  from add_to_tags_run [OF this, where srcs = srcs] obtain m' where m': "add_to_tags srcs tags (PDict m) = Inr (PDict m')"
    "\<forall>tag t. map_of m tag = Some (PDict t) \<longrightarrow> (\<exists>t'. map_of m' tag = Some (PDict t') \<and>
        set (documents_of t') = set (documents_of t) \<union> (if tag \<in> set tags then PStr ` set srcs else {}))" by blast
  have "noted user tags (set srcs) s (AList.update user (PDict m') s)"
    unfolding noted_def
  proof (intro conjI allI impI)
    fix tag t assume "tag_object s user tag = Some t"
    then have "map_of m tag = Some (PDict t)" using m by (auto simp: tag_object_def split: option.splits pyval.splits)
    with m'(2) show "\<exists>t'. tag_object (AList.update user (PDict m') s) user tag = Some t' \<and>
      set (documents_of t') = set (documents_of t) \<union> (if tag \<in> set tags then PStr ` set srcs else {})"
      by (fastforce simp: tag_object_def update_conv')
  qed (simp add: update_conv')
  then show ?thesis using m m'(1) by (simp add: source_mutator_def with_get_def)
next
  case False
  then have no: "tag_object s user tag = None" for tag by (auto simp: tag_object_def split: option.splits pyval.splits)
  with assms have "tags = []" by (cases tags) auto
  then show ?thesis using no by (auto simp: source_mutator_def with_get_def noted_def update_conv')
qed

lemma note_sources_run:
  assumes "sf_status f = Some (Json (PDict s))" "\<And>tag. tag \<in> set tags \<Longrightarrow> tag_object s user tag \<noteq> None"
  shows "\<exists>s'. forM docs (note_source user tags) f = (Inr (), f\<lparr>sf_status := Some (Json (PDict s'))\<rparr>) \<and>
     noted user tags {n. \<exists>doc \<in> set docs. source_name doc = Some n} s s'"
  using assms
proof (induction docs arbitrary: f s)
  case Nil
  then have "f\<lparr>sf_status := Some (Json (PDict s))\<rparr> = f" by simp
  with Nil show ?case by (intro exI [of _ s]) (simp add: noted_def)
next
  case (Cons doc docs)
  show ?case
  proof (cases "source_name doc")
    case None
    with Cons.IH [OF Cons.prems] show ?thesis by (simp add: note_source_def)
  next
    case (Some n)
    from source_mutator_run [OF Cons.prems(2), where srcs = "[n]"] obtain s1 where
      s1: "source_mutator user tags [n] (PDict s) = Inr (PDict s1)" "noted user tags {n} s s1" by auto
    let ?f = "f\<lparr>sf_status := Some (Json (PDict s1))\<rparr>"
    have run: "note_source user tags doc f = (Inr (), ?f)"
      using Some s1(1) Cons.prems(1) by (simp add: note_source_def update_user_status_atomic_def file_data_def atomic_write_json_def)
    have "tag_object s1 user tag \<noteq> None" if "tag \<in> set tags" for tag
      using s1(2) Cons.prems(2) [OF that] unfolding noted_def by blast
    from Cons.IH [of ?f s1, OF _ this] obtain s2 where
      s2: "forM docs (note_source user tags) ?f = (Inr (), ?f\<lparr>sf_status := Some (Json (PDict s2))\<rparr>)"
        "noted user tags {n. \<exists>doc \<in> set docs. source_name doc = Some n} s1 s2" by auto
    have "{n} \<union> {n. \<exists>doc \<in> set docs. source_name doc = Some n} = {n. \<exists>doc \<in> set (doc # docs). source_name doc = Some n}"
      using Some by auto
    with noted_trans [OF s1(2) s2(2)] s2(1) run show ?thesis
      by (intro exI [of _ s2]) (simp add: bindM_Inr [where m = "note_source user tags doc", OF run])
  qed
qed

subsection \<open>Properties\<close>

text \<open>
  (C11) With this plugin the documents a user recalls carry the flag of the user and of every tag that is active for the user,
  whatever the other users uploaded and whatever configuration the hook was given (keys with dots or brackets are paths for Qdrant and
  are left out here). But when the two files do not have the expected shape the hook fails, the error is swallowed and the
  recall runs with the configuration as it came, which by default has no filter at all: then everybody's documents are recalled.
\<close>

theorem declarative_recall_is_private:
  assumes "qdrant_db Q info sat" "collection_ready Q info C (sr_db c)" "file_access_ok A"
    and "map_of (mh_hooks mh) ''before_cat_recalls_declarative_memories'' = Some (before @ h # after)"
    and "list_all quiet_hook before" "list_all quiet_hook after"
    and "hk_function h = declarative_hook A" "hk_plugin_id h \<in> set (keys (mh_plugins mh))"
  shows "\<exists>c'. bindM (execute_hook mh ''before_cat_recalls_declarative_memories'' [TConfig cf])
       (\<lambda>t. recall_one (case t of Some t \<Rightarrow> t | None \<Rightarrow> TNone, ''declarative'', C)) c = (Inr (), c') \<and>
     (case load_user_status_with_schema (fa_files A (sr_ext c)) of
        Inl e \<Rightarrow> declarative_memories (memory_of c') =
          recall_memories_from_embedding C (rcf_embedding cf) (Some (rcf_metadata cf)) (rcf_k cf) (rcf_threshold cf) (sr_db c)
      | Inr us \<Rightarrow> \<forall>m \<in> set (declarative_memories (memory_of c')). \<exists>p. collection_points info C (sr_db c) (rc_id m) = Some p \<and>
          (\<forall>k \<in> insert (sr_user_id c) (set (active_tags_of us (sr_user_id c))). plain_key k \<longrightarrow> metadata_matches p k (PBool True)))"
proof (cases "load_user_status_with_schema (fa_files A (sr_ext c))")
  case (Inl e)
  have "pipe_hooks ps [] (before @ h # after) (TConfig cf) c = (Inr (TConfig cf), c)" if "hk_plugin_id h \<in> set ps" for ps
    using failing_around [OF assms(5,6) _ that, of "TConfig cf" "[]" c e c] Inl assms(7)
    by (simp add: declarative_hook_run [OF assms(3)])
  then show ?thesis using assms(4,8) Inl
    by (simp add: execute_hook_def bindM_def recall_one_def set_memories_def)
next
  case (Inr us)
  let ?d = "flags (sr_user_id c) (active_tags_of us (sr_user_id c))"
  let ?ms = "recall_memories_from_embedding C (rcf_embedding cf) (Some ?d) (rcf_k cf) (rcf_threshold cf) (sr_db c)"
  have "pipe_hooks ps [] (before @ h # after) (TConfig cf) c = (Inr (TConfig (cf\<lparr>rcf_metadata := ?d\<rparr>)), c)" for ps
    using quiet_around [OF assms(5,6), of h "TConfig cf" "[]" c "TConfig (cf\<lparr>rcf_metadata := ?d\<rparr>)" c] Inr assms(7)
    by (simp add: declarative_hook_run [OF assms(3)])
  then have "bindM (execute_hook mh ''before_cat_recalls_declarative_memories'' [TConfig cf])
      (\<lambda>t. recall_one (case t of Some t \<Rightarrow> t | None \<Rightarrow> TNone, ''declarative'', C)) c =
    (Inr (), set_memory (set_memories ''declarative'' ?ms) c)"
    using assms(4) by (simp add: execute_hook_def bindM_def recall_one_def)
  moreover have "\<exists>p. collection_points info C (sr_db c) (rc_id m) = Some p \<and>
      (\<forall>k \<in> insert (sr_user_id c) (set (active_tags_of us (sr_user_id c))). plain_key k \<longrightarrow> metadata_matches p k (PBool True))"
    if "m \<in> set ?ms" for m
    using recall_flagged [OF assms(1,2) that] .
  ultimately show ?thesis using Inr by (simp add: set_memories_def)
qed

text \<open>
  (C15) Uploading with this plugin. If the two files have the expected shape the hook returns, and every document keeps its text and gets the
  flags of the user and of the tags that are active, and no others. In the status file each of these tags of the user has the
  file names of the documents in addition, every other tag of the user has the documents it had, and the entries of the other
  users are as they were.
\<close>

theorem upload_flags_and_notes:
  assumes "sf_status f = Some (Json (PDict s))" "load_tags_list f = Inr tags"
    and "\<forall>m. map_of s user = Some (PDict m) \<longrightarrow> dict_wf m"
  shows "\<exists>docs' s'. doc_before_rabbithole_stores_documents user docs f = (Inr docs', f\<lparr>sf_status := Some (Json (PDict s'))\<rparr>) \<and>
     (let active = active_tags_of (ensure_user_status_schema s tags) user in
      list_all2 (\<lambda>doc doc'. page_content doc' = page_content doc \<and>
        (\<forall>k. map_of (metadata doc') k = (if k = user \<or> k \<in> set active then Some (PBool True) else map_of (metadata doc) k))) docs docs' \<and>
      (\<forall>tag t. tag_object s user tag = Some t \<longrightarrow> (\<exists>t'. tag_object s' user tag = Some t' \<and>
         set (documents_of t') = set (documents_of t) \<union>
           (if tag \<in> set active then {PStr n | n doc. doc \<in> set docs' \<and> source_name doc = Some n} else {}))) \<and>
      (\<forall>u. u \<noteq> user \<longrightarrow> map_of s' u = map_of s u))"
proof -
  let ?active = "active_tags_of (ensure_user_status_schema s tags) user"
  let ?docs = "map (flag_document user ?active) docs"
  let ?names = "{n. \<exists>doc \<in> set ?docs. source_name doc = Some n}"
  have load: "load_user_status_with_schema f = Inr (ensure_user_status_schema s tags)"
    using assms(1,2) by (simp add: load_user_status_with_schema_def load_json_safe_def with_get_def)
  have "tag_object s user tag \<noteq> None" if "tag \<in> set ?active" for tag
    using active_tags_there [of s user tag tags] assms(3) that by blast
  from note_sources_run [OF assms(1) this, where docs = ?docs] obtain s' where
    s': "forM ?docs (note_source user ?active) f = (Inr (), f\<lparr>sf_status := Some (Json (PDict s'))\<rparr>)"
    "noted user ?active ?names s s'" by blast
  have names: "PStr ` ?names = {PStr n | n doc. doc \<in> set ?docs \<and> source_name doc = Some n}" by blast
  have "doc_before_rabbithole_stores_documents user docs f = (Inr ?docs, f\<lparr>sf_status := Some (Json (PDict s'))\<rparr>)"
    by (simp only: doc_before_rabbithole_stores_documents_def Let_def bindM_def load s'(1) case_prod_conv sum.case prod.case)
      (simp add: retM_def)
  moreover have "list_all2 (\<lambda>doc doc'. page_content doc' = page_content doc \<and>
      (\<forall>k. map_of (metadata doc') k = (if k = user \<or> k \<in> set ?active then Some (PBool True) else map_of (metadata doc) k))) docs ?docs"
    by (simp add: list_all2_map2 list.rel_refl flag_document_metadata)
  moreover have "\<forall>tag t. tag_object s user tag = Some t \<longrightarrow> (\<exists>t'. tag_object s' user tag = Some t' \<and>
      set (documents_of t') = set (documents_of t) \<union>
        (if tag \<in> set ?active then {PStr n | n doc. doc \<in> set ?docs \<and> source_name doc = Some n} else {}))"
    using s'(2) unfolding noted_def names by blast
  moreover have "\<forall>u. u \<noteq> user \<longrightarrow> map_of s' u = map_of s u" using s'(2) unfolding noted_def by blast
  ultimately show ?thesis unfolding Let_def by blast
qed




subsection \<open>Concrete inputs\<close>

definition on_tag :: "pyval" where
  "on_tag = PDict [(''status'', PBool True), (''documents'', PList [PStr ''old.txt'']), (''prompt_list'', PList []),
     (''selected_prompt'', PStr []), (''prompt'', PStr [])]"

definition demo_files :: status_files where
  "demo_files =
     \<lparr>sf_status = Some (Json (PDict [(''alice'', PDict [(''tea'', on_tag), (''cake'', PDict [])]), (''bob'', PDict [(''tea'', on_tag)])])),
      sf_tags = Some (Json (PDict [(''tags'', PList [PStr ''tea'', PStr ''cake''])]))\<rparr>"

lemma demo_files_load:
  "load_tags_list demo_files = Inr [''tea'', ''cake'']"
  "active_tags_of (ensure_user_status_schema [(''alice'', PDict [(''tea'', on_tag), (''cake'', PDict [])]), (''bob'', PDict [(''tea'', on_tag)])]
     [''tea'', ''cake'']) ''alice'' = [''tea'']"
  "load_user_status_with_schema demo_files =
     Inr (ensure_user_status_schema [(''alice'', PDict [(''tea'', on_tag), (''cake'', PDict [])]), (''bob'', PDict [(''tea'', on_tag)])]
       [''tea'', ''cake''])"
  by (simp_all add: load_tags_list_def load_json_safe_def demo_files_def with_get_def iterate_def tag_name_def map_filter_def
      load_user_status_with_schema_def active_tags_of_def tags_of_def ensure_user_status_schema_def ensure_tags_def ensure_tag_def
      is_active_tag_def on_tag_def truthy_opt_def complete_tag_def default_tag_obj_def keys_def)

theorem upload_flags_and_notes_witness:
  "\<exists>docs' s' t'. doc_before_rabbithole_stores_documents ''alice''
       [\<lparr>page_content = ''milk first'', metadata = [(''source'', PStr ''dir/new.txt'')]\<rparr>] demo_files = (Inr docs', demo_files\<lparr>sf_status := Some (Json (PDict s'))\<rparr>) \<and>
     length docs' = 1 \<and> tag_object s' ''alice'' ''tea'' = Some t' \<and> PStr ''old.txt'' \<in> set (documents_of t')"
proof -
  let ?s = "[(''alice'', PDict [(''tea'', on_tag), (''cake'', PDict [])]), (''bob'', PDict [(''tea'', on_tag)])]"
  have f: "sf_status demo_files = Some (Json (PDict ?s))" by (simp add: demo_files_def)
  have wf: "\<forall>m. map_of ?s ''alice'' = Some (PDict m) \<longrightarrow> dict_wf m" by (simp add: dict_wf_def keys_def)
  obtain t where t: "tag_object ?s ''alice'' ''tea'' = Some t" "PStr ''old.txt'' \<in> set (documents_of t)"
    by (simp add: tag_object_def on_tag_def documents_of_def)
  let ?docs = "[\<lparr>page_content = ''milk first'', metadata = [(''source'', PStr ''dir/new.txt'')]\<rparr>]"
  show ?thesis
    using upload_flags_and_notes [where user = "''alice''", OF f demo_files_load(1) wf, of ?docs] unfolding Let_def
  proof (elim exE conjE, goal_cases)
    case (1 docs' s')
    have "length docs' = 1" using list_all2_lengthD [OF 1(2)] by simp
    moreover obtain t' where "tag_object s' ''alice'' ''tea'' = Some t'" "set (documents_of t) \<subseteq> set (documents_of t')"
      using 1(3) t(1) by blast
    ultimately show ?case using 1(1) t(2) by blast
  qed
qed

definition alice_store :: lstore where
  "alice_store = [(''declarative'', \<lparr>lc_size = 2, lc_aliases = [''dumb_declarative''],
     lc_points = [(''p1'', \<lparr>pt_id = ''p1'', pt_page_content = ''purr'', pt_metadata = Some [(''alice'', PBool True), (''tea'', PBool True)], pt_vector = [1, 0]\<rparr>),
       (''p2'', \<lparr>pt_id = ''p2'', pt_page_content = ''hiss'', pt_metadata = Some [(''bob'', PBool True)], pt_vector = [1, 0]\<rparr>)]\<rparr>)]"

definition alice_session :: "(lstore, status_files) stray" where
  "alice_session =
     \<lparr>sr_user_id = ''alice'', sr_wm = 0, sr_heap = (\<lambda>_. new_session), sr_next = 1, sr_cache = InMemory InMemoryCache_init,
      sr_db = alice_store, sr_connections = [], sr_sent = [], sr_ext = demo_files\<rparr>"

definition the_files :: "status_files file_access" where
  "the_files = \<lparr>fa_files = (\<lambda>f. f), fa_put = (\<lambda>f _. f)\<rparr>"

definition recall_hook :: "((lstore, status_files) stray, tea) cat_hook" where
  "recall_hook = (CatHook ''before_cat_recalls_declarative_memories'' (declarative_hook the_files) 1)\<lparr>hk_plugin_id := ''docs''\<rparr>"

definition docs_hatter :: "(unit, (lstore, status_files) stray, tea, unit, unit) hatter" where
  "docs_hatter = (MadHatter_init core_machine ())
     \<lparr>mh_plugins := [(''docs'', cheese_plugin)], mh_hooks := [(''before_cat_recalls_declarative_memories'', [recall_hook])]\<rparr>"

theorem declarative_recall_is_private_witness:
  "\<exists>c'. bindM (execute_hook docs_hatter ''before_cat_recalls_declarative_memories''
         [TConfig \<lparr>rcf_embedding = [1, 0], rcf_k = 3, rcf_threshold = None, rcf_metadata = []\<rparr>])
       (\<lambda>t. recall_one (case t of Some t \<Rightarrow> t | None \<Rightarrow> TNone, ''declarative'', demo_collection\<lparr>vc_name := ''declarative''\<rparr>)) alice_session = (Inr (), c') \<and>
     (\<forall>m \<in> set (declarative_memories (memory_of c')). \<exists>p. collection_points linfo (demo_collection\<lparr>vc_name := ''declarative''\<rparr>) alice_store (rc_id m) = Some p \<and>
        metadata_matches p ''alice'' (PBool True) \<and> metadata_matches p ''tea'' (PBool True))"
proof -
  let ?C = "demo_collection\<lparr>vc_name := ''declarative''\<rparr>"
  have ready: "collection_ready list_qdrant linfo ?C (sr_db alice_session)"
    by (simp add: collection_ready_def demo_collection_def linfo_def alice_session_def alice_store_def)
  have ok: "file_access_ok the_files" by (simp add: file_access_ok_def the_files_def)
  have hooks: "map_of (mh_hooks docs_hatter) ''before_cat_recalls_declarative_memories'' = Some ([] @ recall_hook # [])"
    by (simp add: docs_hatter_def)
  have h: "hk_function recall_hook = declarative_hook the_files" "hk_plugin_id recall_hook \<in> set (keys (mh_plugins docs_hatter))"
    by (simp_all add: recall_hook_def CatHook_def docs_hatter_def keys_def)
  have ext: "fa_files the_files (sr_ext alice_session) = demo_files" "sr_user_id alice_session = ''alice''" "sr_db alice_session = alice_store"
    by (simp_all add: the_files_def alice_session_def)
  have plain: "plain_key ''alice''" "plain_key ''tea''" by (simp_all add: plain_key_def)
  show ?thesis
    using declarative_recall_is_private [OF list_qdrant.qdrant_db_axioms ready ok hooks _ _ h,
        of "\<lparr>rcf_embedding = [1, 0], rcf_k = 3, rcf_threshold = None, rcf_metadata = []\<rparr>"] plain
    by (simp add: ext demo_files_load)
qed




end
