(* ===== verification/Project_Costs.thy ===== *)
theory Project_Costs
  imports Agents
begin

text \<open>
  The bundled plugin \<open>core/cat/plugins/CAT_new_project_cost_manager\<close>: \<open>todo.py\<close>, which keeps the components of all projects in
  \<open>todo.csv\<close> with pandas, and the tools of \<open>meow_todo_list.py\<close> over it and over the list of projects \<open>projects.csv\<close>.

  \<open>projects.csv\<close> is its list of rows, as the standard csv module reads and writes them (the file ends with a line break); an empty line
  is an empty row. The content of \<open>todo.csv\<close> is abstract, pandas reads and writes it. A row is a dictionary of cells, a cell is a value or
  the NaN that pandas reads for an empty cell. Numbers are exact, as in the other theories; lists, sets and the numbers of text are those of the
  fields of \<open>cost_env\<close>. \<open>ast.literal_eval\<close> and \<open>str\<close> of a value are fields too; literals with sets, tuples or bytes are left out, and the
  texts of Python's own exceptions are abbreviated.
\<close>

subsection \<open>State\<close>

datatype cell = NaN | Cell pyval

type_synonym row = "(string, cell) dict"

record ('t, 'x) cost_env =
  ce_read_csv :: "'t \<Rightarrow> row list result"
  ce_to_csv :: "row list \<Rightarrow> 't"
  ce_empty_csv :: "string list \<Rightarrow> 't"
  ce_literal_eval :: "pyval \<Rightarrow> pyval result"
  ce_str :: "cell \<Rightarrow> string"
  ce_float :: "string \<Rightarrow> cell option"
  ce_int :: "string \<Rightarrow> int option"
  ce_set :: "string list \<Rightarrow> string list"
  ce_pairs :: "(string \<times> string) list \<Rightarrow> (string \<times> string) list"
  ce_tabulate :: "cell list list \<Rightarrow> string list \<Rightarrow> string"
  ce_time :: "'x \<Rightarrow> real \<times> 'x"

record ('t, 'x) costs =
  co_projects :: "string list list option"
  co_todos :: "'t option"
  co_ext :: 'x

type_synonym ('t, 'x, 'a) costs_comp = "(('t, 'x) costs, 'a) comp"

subsection \<open>Python's numbers and text\<close>

definition as_number :: "pyval \<Rightarrow> real option" where
  "as_number v = (case v of PInt i \<Rightarrow> Some (of_int i) | PFloat r \<Rightarrow> Some r | PBool b \<Rightarrow> Some (if b then 1 else 0) | _ \<Rightarrow> None)"

text \<open>\<open>==\<close>: numbers by their value. NaN is not equal to anything.\<close>

definition same_value :: "cell \<Rightarrow> pyval \<Rightarrow> bool" where
  "same_value c v =
     (case c of NaN \<Rightarrow> False
      | Cell u \<Rightarrow> (case (as_number u, as_number v) of (Some a, Some b) \<Rightarrow> a = b | _ \<Rightarrow> u = v))"

definition cell_get :: "row \<Rightarrow> string \<Rightarrow> pyval \<Rightarrow> cell" where
  "cell_get row k fallback = (case map_of row k of Some c \<Rightarrow> c | None \<Rightarrow> Cell fallback)"

definition truthy_cell :: "cell \<Rightarrow> bool" where
  "truthy_cell c = (case c of NaN \<Rightarrow> True | Cell v \<Rightarrow> truthy v)"

definition text_of :: "('t, 'x) cost_env \<Rightarrow> cell \<Rightarrow> string" where
  "text_of E c = (case c of Cell (PStr s) \<Rightarrow> s | Cell (PInt i) \<Rightarrow> str_int i | _ \<Rightarrow> ce_str E c)"

definition py_float :: "('t, 'x) cost_env \<Rightarrow> cell \<Rightarrow> cell result" where
  "py_float E c =
     (case c of NaN \<Rightarrow> Inr NaN
      | Cell v \<Rightarrow> (case as_number v of
          Some r \<Rightarrow> Inr (Cell (PFloat r))
        | None \<Rightarrow> (case v of
            PStr s \<Rightarrow> lookup_exn (Exn ''ValueError'' ''could not convert string to float'') (ce_float E s)
          | _ \<Rightarrow> Inl (Exn ''TypeError'' ''float() argument must be a string or a real number''))))"

definition py_int :: "('t, 'x) cost_env \<Rightarrow> pyval \<Rightarrow> int result" where
  "py_int E v =
     (case v of PInt i \<Rightarrow> Inr i
      | PBool b \<Rightarrow> Inr (if b then 1 else 0)
      | PFloat r \<Rightarrow> Inr (if r < 0 then - \<lfloor>- r\<rfloor> else \<lfloor>r\<rfloor>)
      | PStr s \<Rightarrow> lookup_exn (Exn ''ValueError'' ''invalid literal for int() with base 10'') (ce_int E s)
      | _ \<Rightarrow> Inl (Exn ''TypeError'' ''int() argument must be a string, a bytes-like object or a real number''))"

text \<open>\<open>f"{x:.2f}"\<close> of a float: the nearest number of hundredths, a tie to the even one.\<close>

definition round_even :: "real \<Rightarrow> int" where
  "round_even r =
     (let n = \<lfloor>r\<rfloor>; d = r - of_int n in if d < 1/2 \<or> d = 1/2 \<and> even n then n else n + 1)"

definition two_digits :: "int \<Rightarrow> string" where
  "two_digits i = (if i < 10 then ''0'' @ str_int i else str_int i)"

definition fixed2 :: "cell \<Rightarrow> string" where
  "fixed2 c =
     (case c of
        Cell (PFloat r) \<Rightarrow>
          (let n = round_even (\<bar>r\<bar> * 100)
           in (if r < 0 then ''-'' else []) @ str_int (n div 100) @ ''.'' @ two_digits (n mod 100))
      | Cell (PInt i) \<Rightarrow> str_int i @ ''.00''
      | _ \<Rightarrow> ''nan'')"

text \<open>\<open>a + b\<close> of numbers, and \<open>sum(float(x) for x in xs)\<close>.\<close>

definition add_cells :: "cell \<Rightarrow> cell \<Rightarrow> cell" where
  "add_cells a b =
     (case (a, b) of
        (Cell u, Cell v) \<Rightarrow> (case (as_number u, as_number v) of (Some x, Some y) \<Rightarrow> Cell (PFloat (x + y)) | _ \<Rightarrow> NaN)
      | _ \<Rightarrow> NaN)"

definition sum_floats :: "('t, 'x) cost_env \<Rightarrow> cell list \<Rightarrow> cell result" where
  "sum_floats E cs = bindR (mapR (py_float E) cs) (\<lambda>fs. Inr (foldl add_cells (Cell (PInt 0)) fs))"

subsection \<open>The components\<close>

text \<open>\<open>todo.py\<close>. The column for quantities is the Italian word with its accent.\<close>

definition quantita :: string where
  "quantita = ''Quantit'' @ [CHR 0xE0]"

definition todo_columns :: "string list" where
  "todo_columns =
     [''created'', ''user'', ''nome progetto'', ''codice componente'', ''Descrizione'', ''Costo Unitario'', quantita, ''Costo Totale'', ''NOTA'']"

definition get_todos :: "('t, 'x) cost_env \<Rightarrow> ('t, 'x, row list) costs_comp" where
  "get_todos E s =
     (let fresh = s\<lparr>co_todos := Some (ce_empty_csv E todo_columns)\<rparr> in
      case co_todos s of
        None \<Rightarrow> (Inr [], fresh)
      | Some t \<Rightarrow>
          (case ce_read_csv E t of
             Inr rows \<Rightarrow> (Inr rows, if rows = [] then fresh else s)
           | Inl (Exn cls msg) \<Rightarrow> if cls = ''EmptyDataError'' then (Inr [], fresh) else (Inl (Exn cls msg), s)
           | Inl e \<Rightarrow> (Inl e, s)))"

definition save_todos :: "('t, 'x) cost_env \<Rightarrow> row list \<Rightarrow> ('t, 'x, unit) costs_comp" where
  "save_todos E todos s =
     (if todos = [] then
        (case co_todos s of
           None \<Rightarrow> (Inl (Exn ''FileNotFoundError'' ''todo.csv''), s)
         | Some t \<Rightarrow> (Inr (), s\<lparr>co_todos := None\<rparr>))
      else (Inr (), s\<lparr>co_todos := Some (ce_to_csv E todos)\<rparr>))"

text \<open>\<open>'user' not in t or t['user'] == user_id\<close> and \<open>t.get('user') == user_id\<close>.\<close>

definition owned_by :: "string \<Rightarrow> row \<Rightarrow> bool" where
  "owned_by user r = (map_of r ''user'' = Some (Cell (PStr user)))"

definition visible_to :: "string \<Rightarrow> row \<Rightarrow> bool" where
  "visible_to user r = (map_of r ''user'' = None \<or> owned_by user r)"

definition in_project :: "pyval \<Rightarrow> row \<Rightarrow> bool" where
  "in_project project r = same_value (cell_get r ''nome progetto'' PNone) project"

text \<open>
  Rows whose project has no name are each a project of their own in the source, since a NaN is no key that is found again; here they are together.
\<close>

definition group_by_project :: "row list \<Rightarrow> (cell, row list) dict" where
  "group_by_project cs =
     foldl (\<lambda>d c. let p = cell_get c ''nome progetto'' (PStr ''Unknown Project'')
        in AList.update p ((case map_of d p of Some xs \<Rightarrow> xs | None \<Rightarrow> []) @ [c]) d) [] cs"

definition component_lines :: "('t, 'x) cost_env \<Rightarrow> string option \<Rightarrow> row \<Rightarrow> string" where
  "component_lines E user_id component =
     (let get = (\<lambda>k. text_of E (cell_get component k (PStr ''N/A'')));
          user_info = (case map_of component ''user'' of
            Some u \<Rightarrow> if str_truthy user_id then [] else '' (by '' @ text_of E u @ '')'' | None \<Rightarrow> [])
      in newline @ '' - '' @ get ''codice componente'' @ '': '' @ get ''Descrizione'' @ '' - '' @
         ''Quantity: '' @ get quantita @ '', Unit cost: '' @ get ''Costo Unitario'' @ '', Total: '' @ get ''Costo Totale'' @ user_info @
         (if truthy_cell (cell_get component ''NOTA'' PNone) then newline @ ''   Note: '' @ text_of E (cell_get component ''NOTA'' PNone) else []))"

definition stringify_todos :: "('t, 'x) cost_env \<Rightarrow> row list \<Rightarrow> string option \<Rightarrow> string result" where
  "stringify_todos E todos user_id =
     (let user_components = (case user_id of
            Some u \<Rightarrow> if u = [] then todos else filter (visible_to u) todos | None \<Rightarrow> todos)
      in if user_components = [] then Inr ''No components found in any project.''
         else
           bindR (mapR (\<lambda>(p, cs).
             bindR (sum_floats E (map (\<lambda>c. cell_get c ''Costo Totale'' (PInt 0)) cs)) (\<lambda>total.
               Inr (newline @ newline @ ''## '' @ text_of E p @ '' (Total: '' @ fixed2 total @ '')'' @
                 concat (map (component_lines E user_id) cs)))) (group_by_project user_components)) (\<lambda>parts.
           Inr (''### Project Components:'' @ concat parts)))"

subsection \<open>Projects\<close>

text \<open>\<open>meow_todo_list.py\<close>. A message is what the user reads; None as the answer of a check means that the project exists.\<close>

abbreviation quoted :: "string \<Rightarrow> string" where
  "quoted s \<equiv> [CHR 0x27] @ s @ [CHR 0x27]"

definition check_project_existence_for_user :: "('t, 'x) cost_env \<Rightarrow> pyval \<Rightarrow> string \<Rightarrow> ('t, 'x) costs \<Rightarrow> string option result" where
  "check_project_existence_for_user E project_name user_id s =
     (case co_projects s of
        None \<Rightarrow> Inr (Some ''Project file not found.'')
      | Some rows \<Rightarrow>
          (let unique_projects = map (\<lambda>row. (row ! 0, row ! 1)) (filter (\<lambda>row. length row \<ge> 2) rows);
               absent = Inr (Some (''Project '' @ quoted (text_of E (Cell project_name)) @ '' does not exist for user '' @
                 user_id @ ''. Available projects are:'' @ newline @
                 join newline (map (\<lambda>p. ''- '' @ fst p) (filter (\<lambda>p. snd p = user_id) (ce_pairs E (remdups unique_projects)))) @ newline @
                 ''Would you like to create a new project?''))
           in case project_name of
                PStr n \<Rightarrow> if (n, user_id) \<in> set unique_projects then Inr None else absent
              | PList _ \<Rightarrow> Inl (Exn ''TypeError'' ''unhashable type'')
              | PDict _ \<Rightarrow> Inl (Exn ''TypeError'' ''unhashable type'')
              | _ \<Rightarrow> absent))"

definition check_project_existence :: "('t, 'x) cost_env \<Rightarrow> pyval \<Rightarrow> ('t, 'x) costs \<Rightarrow> string option result" where
  "check_project_existence E project_name s =
     (case co_projects s of
        None \<Rightarrow> Inr (Some ''Project file not found.'')
      | Some rows \<Rightarrow>
          (let unique_projects = map (\<lambda>row. row ! 0) (filter (\<lambda>row. length row \<ge> 1) rows);
               absent = Inr (Some (''Project '' @ quoted (text_of E (Cell project_name)) @
                 '' does not exist. Available projects are:'' @ newline @
                 join newline (map (\<lambda>p. ''- '' @ p) (ce_set E (remdups unique_projects))) @ newline @
                 ''Would you like to create a new project?''))
           in case project_name of
                PStr n \<Rightarrow> if n \<in> set unique_projects then Inr None else absent
              | PList _ \<Rightarrow> Inl (Exn ''TypeError'' ''unhashable type'')
              | PDict _ \<Rightarrow> Inl (Exn ''TypeError'' ''unhashable type'')
              | _ \<Rightarrow> absent))"

definition create_project :: "('t, 'x) cost_env \<Rightarrow> string \<Rightarrow> pyval \<Rightarrow> ('t, 'x, string) costs_comp" where
  "create_project E user_id project_name =
     (if \<not> truthy project_name then retM ''Please provide a valid project name.''
      else case project_name of
        PStr n \<Rightarrow>
          if strip n = [] then retM ''Please provide a valid project name.''
          else
            bindM (\<lambda>s. (check_project_existence_for_user E project_name user_id s, s)) (\<lambda>existence_message.
              if existence_message = None then retM (''Project '' @ quoted n @ '' already exists for user '' @ user_id @ ''.'')
              else
                bindM (modM (\<lambda>s. s\<lparr>co_projects := Some ((case co_projects s of None \<Rightarrow> [] | Some rows \<Rightarrow> rows) @ [[n, user_id]])\<rparr>)) (\<lambda>_.
                retM (''Project '' @ quoted n @ '' has been successfully created for user '' @ user_id @ ''.'')))
      | _ \<Rightarrow> raiseM (Exn ''AttributeError'' ''strip''))"

text \<open>\<open>proj[0] == project_name and proj[1] == str(user_id)\<close>: a row that is too short raises.\<close>

fun without_project :: "pyval \<Rightarrow> string \<Rightarrow> string list list \<Rightarrow> string list list result" where
  "without_project project_name user_id [] = Inr []"
| "without_project project_name user_id (proj # projects) =
     (case proj of
        [] \<Rightarrow> Inl (Exn ''IndexError'' ''list index out of range'')
      | p # rest \<Rightarrow>
          if PStr p = project_name then
            (case rest of
               [] \<Rightarrow> Inl (Exn ''IndexError'' ''list index out of range'')
             | u # _ \<Rightarrow> bindR (without_project project_name user_id projects) (\<lambda>ps. Inr (if u = user_id then ps else proj # ps)))
          else bindR (without_project project_name user_id projects) (\<lambda>ps. Inr (proj # ps)))"

definition delete_project :: "('t, 'x) cost_env \<Rightarrow> string \<Rightarrow> pyval \<Rightarrow> ('t, 'x, string) costs_comp" where
  "delete_project E user_id project_name =
     bindM (\<lambda>s. (check_project_existence_for_user E project_name user_id s, s)) (\<lambda>existence_message.
       case existence_message of
         Some m \<Rightarrow> retM m
       | None \<Rightarrow>
           bindM (getM co_projects) (\<lambda>projects.
             case without_project project_name user_id (case projects of None \<Rightarrow> [] | Some rows \<Rightarrow> rows) of
               Inl e \<Rightarrow> retM (''Failed to delete project '' @ quoted (text_of E (Cell project_name)) @ '' for user '' @ user_id @ '': '' @ exn_text e)
             | Inr rows \<Rightarrow>
                 bindM (modM (\<lambda>s. s\<lparr>co_projects := Some rows\<rparr>)) (\<lambda>_.
                 bindM (get_todos E) (\<lambda>todos.
                 bindM (save_todos E (filter (\<lambda>t. \<not> (in_project project_name t \<and> owned_by user_id t)) todos)) (\<lambda>_.
                 retM (''Project '' @ quoted (text_of E (Cell project_name)) @ '' and all its components have been successfully deleted for user '' @
                   user_id @ ''.''))))))"

definition list_user_projects :: "string \<Rightarrow> ('t, 'x) costs \<Rightarrow> string" where
  "list_user_projects user_id s =
     (case co_projects s of
        None \<Rightarrow> ''Project file not found.''
      | Some rows \<Rightarrow>
          (let user_projects = map (\<lambda>row. row ! 0) (filter (\<lambda>row. length row \<ge> 2 \<and> strip (row ! 1) = user_id) rows)
           in if user_projects = [] then ''No projects found for user '' @ user_id @ ''.''
              else ''Projects for user '' @ user_id @ '':'' @ newline @ join newline (map (\<lambda>p. ''- '' @ p) user_projects)))"

subsection \<open>Adding components\<close>

definition map_input_fields :: "('t, 'x) cost_env \<Rightarrow> json \<Rightarrow> (string \<times> string) list \<Rightarrow> row" where
  "map_input_fields E component field_mapping =
     foldl (\<lambda>mapped_data (input_field, db_field).
       case map_of component input_field of
         None \<Rightarrow> mapped_data
       | Some PNone \<Rightarrow> mapped_data
       | Some v \<Rightarrow>
           AList.update db_field
             (if input_field \<in> {''unit_cost'', ''quantity''} then (case py_float E (Cell v) of Inr c \<Rightarrow> c | Inl e \<Rightarrow> Cell v)
              else Cell (PStr (text_of E (Cell v)))) mapped_data) [] field_mapping"

definition validate_required_fields :: "row \<Rightarrow> string list \<Rightarrow> string \<Rightarrow> string option" where
  "validate_required_fields mapped_data required_fields component_code =
     (let missing_fields = filter (\<lambda>f. f \<notin> set (keys mapped_data)) required_fields
      in if missing_fields = [] then None
         else Some (''Missing required fields: '' @ join '', '' missing_fields @ '' for component '' @ component_code @
           ''. Please provide all required information.''))"

text \<open>The text of the TypeError of \<open>a * b\<close>, when one of the two is not a number.\<close>

definition type_name :: "cell \<Rightarrow> string" where
  "type_name c =
     (case c of NaN \<Rightarrow> ''float'' | Cell PNone \<Rightarrow> ''NoneType'' | Cell (PBool b) \<Rightarrow> ''bool'' | Cell (PInt i) \<Rightarrow> ''int'' | Cell (PFloat r) \<Rightarrow> ''float''
      | Cell (PStr t) \<Rightarrow> ''str'' | Cell (PList l) \<Rightarrow> ''list'' | Cell (PDict d) \<Rightarrow> ''dict'')"

definition is_sequence :: "cell \<Rightarrow> bool" where
  "is_sequence c = (case c of Cell (PStr t) \<Rightarrow> True | Cell (PList l) \<Rightarrow> True | _ \<Rightarrow> False)"

definition times_error :: "cell \<Rightarrow> cell \<Rightarrow> string" where
  "times_error a b =
     (if is_sequence a then ''can'' @ [CHR 0x27] @ ''t multiply sequence by non-int of type '' @ quoted (type_name b)
      else if is_sequence b then ''can'' @ [CHR 0x27] @ ''t multiply sequence by non-int of type '' @ quoted (type_name a)
      else ''unsupported operand type(s) for *: '' @ quoted (type_name a) @ '' and '' @ quoted (type_name b))"

text \<open>
  Both callers give floats, or values that \<open>float\<close> does not take, so a sequence never meets an integer here. The result is the error
  message or the cost.
\<close>

definition calculate_total_cost :: "cell \<Rightarrow> cell \<Rightarrow> string \<Rightarrow> string + cell" where
  "calculate_total_cost unit_cost quantity component_code =
     (let number = (\<lambda>c. case c of NaN \<Rightarrow> True | Cell v \<Rightarrow> as_number v \<noteq> None) in
      if number unit_cost \<and> number quantity then
        Inr (case (unit_cost, quantity) of
               (Cell u, Cell v) \<Rightarrow> (case (as_number u, as_number v) of (Some x, Some y) \<Rightarrow> Cell (PFloat (x * y)) | _ \<Rightarrow> NaN)
             | _ \<Rightarrow> NaN)
      else Inl (''Error calculating total cost for component '' @ component_code @ '': '' @ times_error unit_cost quantity @
        ''. Please ensure cost and quantity are valid numbers.''))"

definition field_mapping :: "(string \<times> string) list" where
  "field_mapping =
     [(''project_name'', ''nome progetto''), (''component_code'', ''codice componente''), (''description'', ''Descrizione''),
      (''unit_cost'', ''Costo Unitario''), (''quantity'', quantita), (''note'', ''NOTA'')]"

definition required_fields :: "string list" where
  "required_fields = [''nome progetto'', ''codice componente'', ''Descrizione'', ''Costo Unitario'', quantita]"

text \<open>
  \<open>max(..., default=0) + 1\<close>: a later number replaces the first one only if it is greater, so a NaN stays when it comes first and is skipped otherwise.
  Anything that is not a number raises, in the comparison or in the addition.
\<close>

definition greater_cell :: "cell \<Rightarrow> cell \<Rightarrow> bool" where
  "greater_cell a b =
     (case (a, b) of
        (Cell u, Cell v) \<Rightarrow> (case (as_number u, as_number v) of (Some x, Some y) \<Rightarrow> x > y | _ \<Rightarrow> False)
      | _ \<Rightarrow> False)"

fun max_cell :: "cell \<Rightarrow> cell list \<Rightarrow> cell" where
  "max_cell m [] = m"
| "max_cell m (c # cs) = max_cell (if greater_cell c m then c else m) cs"

definition succ_cell :: "cell \<Rightarrow> cell result" where
  "succ_cell c =
     (case c of
        NaN \<Rightarrow> Inr NaN
      | Cell (PInt i) \<Rightarrow> Inr (Cell (PInt (i + 1)))
      | Cell (PFloat r) \<Rightarrow> Inr (Cell (PFloat (r + 1)))
      | Cell (PBool b) \<Rightarrow> Inr (Cell (PInt (if b then 2 else 1)))
      | _ \<Rightarrow> Inl (Exn ''TypeError'' ''can only concatenate''))"

definition next_id :: "row list \<Rightarrow> cell result" where
  "next_id todos =
     (let ids = map (\<lambda>t. cell_get t ''ID'' (PInt 0)) todos in
      if \<exists>c \<in> set ids. case c of NaN \<Rightarrow> False | Cell v \<Rightarrow> as_number v = None then Inl (Exn ''TypeError'' ''ID'')
      else succ_cell (case ids of [] \<Rightarrow> Cell (PInt 0) | c # cs \<Rightarrow> max_cell c cs))"

definition component_entry :: "cell \<Rightarrow> real \<Rightarrow> string \<Rightarrow> pyval \<Rightarrow> row \<Rightarrow> cell \<Rightarrow> row result" where
  "component_entry i now user_id project_name mapped_data total_cost =
     bindR (lookup_exn (Exn ''KeyError'' ''codice componente'') (map_of mapped_data ''codice componente'')) (\<lambda>code.
     bindR (lookup_exn (Exn ''KeyError'' ''Descrizione'') (map_of mapped_data ''Descrizione'')) (\<lambda>description.
     bindR (lookup_exn (Exn ''KeyError'' ''Costo Unitario'') (map_of mapped_data ''Costo Unitario'')) (\<lambda>unit_cost.
     bindR (lookup_exn (Exn ''KeyError'' quantita) (map_of mapped_data quantita)) (\<lambda>quantity.
     Inr [(''ID'', i), (''created'', Cell (PFloat now)), (''user'', Cell (PStr user_id)), (''nome progetto'', Cell project_name),
          (''codice componente'', code), (''Descrizione'', description), (''Costo Unitario'', unit_cost), (quantita, quantity),
          (''Costo Totale'', total_cost), (''NOTA'', cell_get mapped_data ''NOTA'' (PStr []))]))))"

definition project_time :: "('t, 'x) cost_env \<Rightarrow> ('t, 'x, real) costs_comp" where
  "project_time E s = (case ce_time E (co_ext s) of (now, x) \<Rightarrow> (Inr now, s\<lparr>co_ext := x\<rparr>))"

text \<open>One pass of the loop: a message for the user, or the new row.\<close>

definition new_component :: "('t, 'x) cost_env \<Rightarrow> string \<Rightarrow> cell \<Rightarrow> pyval \<Rightarrow> ('t, 'x, string + row) costs_comp" where
  "new_component E user_id i component =
     bindM (liftM (with_get component)) (\<lambda>d.
     let project_name = (case map_of d ''project_name'' of Some v \<Rightarrow> v | None \<Rightarrow> PStr []) in
     bindM (\<lambda>s. (check_project_existence E project_name s, s)) (\<lambda>project_check_message.
     case project_check_message of
       Some m \<Rightarrow> retM (Inl m)
     | None \<Rightarrow>
         (let mapped_data = map_input_fields E d field_mapping in
          case validate_required_fields mapped_data required_fields
                 (case map_of d ''component_code'' of Some v \<Rightarrow> text_of E (Cell v) | None \<Rightarrow> ''unknown'') of
            Some m \<Rightarrow> retM (Inl m)
          | None \<Rightarrow>
              (case calculate_total_cost (cell_get mapped_data ''Costo Unitario'' PNone) (cell_get mapped_data quantita PNone)
                      (text_of E (cell_get mapped_data ''codice componente'' PNone)) of
                 Inl m \<Rightarrow> retM (Inl m)
               | Inr total_cost \<Rightarrow>
                   bindM (project_time E) (\<lambda>now.
                   bindM (liftM (component_entry i now user_id project_name mapped_data total_cost)) (\<lambda>r. retM (Inr r)))))))"

fun new_components :: "('t, 'x) cost_env \<Rightarrow> string \<Rightarrow> cell \<Rightarrow> pyval list \<Rightarrow> row list \<Rightarrow> ('t, 'x, string + row list) costs_comp" where
  "new_components E user_id i [] added = retM (Inr added)"
| "new_components E user_id i (component # components) added =
     bindM (new_component E user_id i component) (\<lambda>r.
       case r of
         Inl m \<Rightarrow> retM (Inl m)
       | Inr c \<Rightarrow> bindM (liftM (succ_cell i)) (\<lambda>i'. new_components E user_id i' components (added @ [c])))"

definition added_message :: "('t, 'x) cost_env \<Rightarrow> row list \<Rightarrow> string" where
  "added_message E added =
     (let get = (\<lambda>c k. text_of E (cell_get c k PNone)); total = (\<lambda>c. fixed2 (cell_get c ''Costo Totale'' PNone)) in
      case added of
        [c] \<Rightarrow> ''Component '' @ quoted (get c ''codice componente'') @ '' added to project '' @ quoted (get c ''nome progetto'') @
          '' with total cost '' @ total c @ ''.''
      | _ \<Rightarrow> ''Added '' @ str_nat (length added) @ '' components:'' @ newline @
          concat (map (\<lambda>c. ''- '' @ quoted (get c ''codice componente'') @ '' to project '' @ quoted (get c ''nome progetto'') @
            '' (cost: '' @ total c @ '')'' @ newline) added))"

text \<open>\<open>{todo["nome progetto"] for todo in todos if todo.get("user") == user_id}\<close>, which nobody uses: it only raises.\<close>

definition user_projects_named :: "string \<Rightarrow> row list \<Rightarrow> unit result" where
  "user_projects_named user_id todos =
     (if \<exists>t \<in> set todos. owned_by user_id t \<and> map_of t ''nome progetto'' = None then Inl (Exn ''KeyError'' ''nome progetto'') else Inr ())"

definition add_component :: "('t, 'x) cost_env \<Rightarrow> string \<Rightarrow> pyval \<Rightarrow> ('t, 'x, string) costs_comp" where
  "add_component E user_id component_data =
     (case (case component_data of
              PStr text \<Rightarrow> ce_literal_eval E (PStr (replace_all ''null'' ''None'' text))
            | _ \<Rightarrow> Inl (Exn ''AttributeError'' ''replace'')) of
        Inl e \<Rightarrow> retM (''Sorry there was an error: '' @ exn_text e @ ''. Can you ask in a different way?'')
      | Inr parsed \<Rightarrow>
          bindM (get_todos E) (\<lambda>todos.
          bindM (liftM (user_projects_named user_id todos)) (\<lambda>_.
          case parsed of
            PList components \<Rightarrow>
              bindM (liftM (next_id todos)) (\<lambda>i.
              bindM (new_components E user_id i components []) (\<lambda>r.
                case r of
                  Inl m \<Rightarrow> retM m
                | Inr added \<Rightarrow> bindM (save_todos E (todos @ added)) (\<lambda>_. retM (added_message E added))))
          | _ \<Rightarrow> retM ''Input must be a list of component objects. Please check the format and try again.'')))"

subsection \<open>Summary, deletion and modification\<close>

definition summary_columns :: "string list" where
  "summary_columns = [''ID'', ''codice componente'', ''Descrizione'', quantita, ''Costo Unitario'', ''Costo Totale'', ''NOTA'']"

definition summary_headers :: "string list" where
  "summary_headers = [''ID'', ''Component Code'', ''Description'', ''Quantity'', ''Unit Cost'', ''Total Cost'', ''NOTA'']"

definition project_components :: "string \<Rightarrow> pyval \<Rightarrow> row list \<Rightarrow> row list" where
  "project_components user_id project_name todos = filter (\<lambda>t. in_project project_name t \<and> visible_to user_id t) todos"

definition summary_text :: "('t, 'x) cost_env \<Rightarrow> pyval \<Rightarrow> cell \<Rightarrow> row list \<Rightarrow> string" where
  "summary_text E project_name total_project_cost components =
     ''### Project Summary: '' @ text_of E (Cell project_name) @ newline @ newline @
     ''Total components: '' @ str_nat (length components) @ newline @
     ''Total project cost: '' @ fixed2 total_project_cost @ newline @ newline @ newline @
     ''### Components:'' @ newline @ newline @
     ce_tabulate E (map (\<lambda>c. map (\<lambda>k. cell_get c k (PStr ''N/A'')) summary_columns) components) summary_headers"

definition project_summary :: "('t, 'x) cost_env \<Rightarrow> string \<Rightarrow> pyval \<Rightarrow> ('t, 'x, string) costs_comp" where
  "project_summary E user_id project_name =
     bindM (get_todos E) (\<lambda>todos.
     bindM (liftM (if \<not> truthy project_name then Inr True
         else case project_name of PStr n \<Rightarrow> Inr (strip n = []) | _ \<Rightarrow> Inl (Exn ''AttributeError'' ''strip''))) (\<lambda>nameless.
     if nameless then retM ''Please provide a project name.''
     else
       bindM (liftM (user_projects_named user_id todos)) (\<lambda>_.
       bindM (\<lambda>s. (check_project_existence E project_name s, s)) (\<lambda>project_check_message.
         case project_check_message of
           Some m \<Rightarrow> retM m
         | None \<Rightarrow>
             (let components = project_components user_id project_name todos in
              if components = [] then retM (''No components found for project '' @ quoted (text_of E (Cell project_name)) @ ''.'')
              else
                bindM (liftM (sum_floats E (map (\<lambda>c. cell_get c ''Costo Totale'' (PInt 0)) components))) (\<lambda>total_project_cost.
                retM (summary_text E project_name total_project_cost components)))))))"

text \<open>\<open>next((comp for comp in todos if comp.get("ID") == i and comp.get("user") == user_id), None)\<close>\<close>

definition is_component :: "string \<Rightarrow> pyval \<Rightarrow> row \<Rightarrow> bool" where
  "is_component user_id i t = (same_value (cell_get t ''ID'' PNone) i \<and> owned_by user_id t)"

fun delete_ids :: "string \<Rightarrow> int list \<Rightarrow> row list \<Rightarrow> int list \<Rightarrow> row list \<times> int list" where
  "delete_ids user_id [] todos deleted = (todos, deleted)"
| "delete_ids user_id (i # ids) todos deleted =
     (case List.find (is_component user_id (PInt i)) todos of
        None \<Rightarrow> delete_ids user_id ids todos deleted
      | Some c \<Rightarrow> delete_ids user_id ids (remove1 c todos) (deleted @ [i]))"

definition invalid_ids :: string where
  "invalid_ids = ''Invalid ID format. Please provide a string representation of a list of numeric IDs.''"

definition delete_components_by_ids :: "('t, 'x) cost_env \<Rightarrow> string \<Rightarrow> pyval \<Rightarrow> ('t, 'x, string) costs_comp" where
  "delete_components_by_ids E user_id component_ids =
     (case bindR (ce_literal_eval E component_ids) (\<lambda>v. bindR (iterate v) (mapR (py_int E))) of
        Inl e \<Rightarrow> if \<exists>m. e = Exn ''ValueError'' m \<or> e = Exn ''SyntaxError'' m then retM invalid_ids else raiseM e
      | Inr ids \<Rightarrow>
          bindM (get_todos E) (\<lambda>todos.
            case delete_ids user_id ids todos [] of (todos', deleted) \<Rightarrow>
              if deleted = [] then retM ''No components found with the provided IDs.''
              else
                bindM (save_todos E todos') (\<lambda>_.
                retM (''Components with IDs ['' @ join '', '' (map str_int deleted) @ ''] have been successfully deleted.''))))"

text \<open>\<open>"ID" in updates\<close> and \<open>updates.items()\<close>, of any value.\<close>

definition has_key :: "string \<Rightarrow> pyval \<Rightarrow> bool result" where
  "has_key k v =
     (case v of PDict d \<Rightarrow> Inr (k \<in> set (keys d)) | PList xs \<Rightarrow> Inr (PStr k \<in> set xs) | PStr s \<Rightarrow> Inr (contains k s)
      | _ \<Rightarrow> Inl (Exn ''TypeError'' ''is not iterable''))"

definition with_items :: "pyval \<Rightarrow> json result" where
  "with_items v = (case v of PDict d \<Rightarrow> Inr d | _ \<Rightarrow> Inl (Exn ''AttributeError'' ''items''))"

definition apply_updates :: "json \<Rightarrow> row \<Rightarrow> row" where
  "apply_updates updates component =
     foldl (\<lambda>c (column, v). if column \<in> set (keys c) then AList.update column (Cell v) c else c) component updates"

text \<open>The changed row, or the message about its cost.\<close>

definition modified :: "('t, 'x) cost_env \<Rightarrow> json \<Rightarrow> row \<Rightarrow> (string + row) result" where
  "modified E updates component =
     (let c = apply_updates updates component in
      if ''Costo Unitario'' \<in> set (keys updates) \<or> quantita \<in> set (keys updates) then
        bindR (py_float E (cell_get c ''Costo Unitario'' (PInt 0))) (\<lambda>unit_cost.
        bindR (py_float E (cell_get c quantita (PInt 0))) (\<lambda>quantity.
        Inr (case calculate_total_cost unit_cost quantity (text_of E (cell_get c ''codice componente'' PNone)) of
               Inl m \<Rightarrow> Inl m | Inr total_cost \<Rightarrow> Inr (AList.update ''Costo Totale'' total_cost c))))
      else Inr (Inr c))"

text \<open>The first row with the property, with its place in the list.\<close>

fun find_at :: "('a \<Rightarrow> bool) \<Rightarrow> 'a list \<Rightarrow> (nat \<times> 'a) option" where
  "find_at P [] = None"
| "find_at P (x # xs) = (if P x then Some (0, x) else map_option (\<lambda>(n, y). (Suc n, y)) (find_at P xs))"

definition modify_component_by_id :: "('t, 'x) cost_env \<Rightarrow> string \<Rightarrow> pyval \<Rightarrow> ('t, 'x, string) costs_comp" where
  "modify_component_by_id E user_id modification_data =
     (case bindR (ce_literal_eval E modification_data) with_get of
        Inl e \<Rightarrow> retM (''Invalid input format: '' @ exn_text e @ ''. Please provide a valid dictionary.'')
      | Inr d \<Rightarrow>
          (let row_id = (case map_of d ''ID'' of Some v \<Rightarrow> v | None \<Rightarrow> PNone);
               updates = (case map_of d ''updates'' of Some v \<Rightarrow> v | None \<Rightarrow> PDict []) in
           bindM (liftM (has_key ''ID'' updates)) (\<lambda>edits_id.
             if edits_id then retM ''Editing the ID field is not allowed.''
             else
               bindM (get_todos E) (\<lambda>todos.
                 case find_at (is_component user_id row_id) todos of
                   None \<Rightarrow> retM (''No component found with ID '' @ text_of E (Cell row_id) @ ''.'')
                 | Some (n, component) \<Rightarrow>
                     bindM (liftM (with_items updates)) (\<lambda>us.
                     bindM (liftM (modified E us component)) (\<lambda>r.
                       case r of
                         Inl m \<Rightarrow> retM m
                       | Inr c \<Rightarrow>
                           bindM (save_todos E (todos[n := c])) (\<lambda>_.
                           retM (''Component with ID '' @ text_of E (Cell row_id) @ '' has been successfully updated.''))))))))"

subsection \<open>The tools\<close>

text \<open>The tools as the decorators register them, over the part of the outside world that holds the two files.\<close>

record ('t, 'x, 'y) cost_access =
  ca_costs :: "'y \<Rightarrow> ('t, 'x) costs"
  ca_put :: "('t, 'x) costs \<Rightarrow> 'y \<Rightarrow> 'y"

definition on_costs :: "('t, 'x, 'y) cost_access \<Rightarrow> ('t, 'x, 'a) costs_comp \<Rightarrow> ('q, 'y, 'a) stray_comp" where
  "on_costs A m = on_ext (\<lambda>y. case m (ca_costs A y) of (r, s) \<Rightarrow> (r, ca_put A s y))"

definition cost_operations :: "('t, 'x) cost_env \<Rightarrow> (string \<times> (string \<Rightarrow> pyval \<Rightarrow> ('t, 'x, string) costs_comp)) list" where
  "cost_operations E =
     [(''create_project'', create_project E), (''delete_project'', delete_project E), (''add_component'', add_component E),
      (''project_summary'', project_summary E), (''delete_components_by_ids'', delete_components_by_ids E),
      (''modify_component_by_id'', modify_component_by_id E), (''list_user_projects'', \<lambda>user_id _. getM (list_user_projects user_id))]"

definition cost_tool_body ::
  "('t, 'x, 'y) cost_access \<Rightarrow> (string \<Rightarrow> pyval \<Rightarrow> ('t, 'x, string) costs_comp) \<Rightarrow> ('q, 'y) stray tool_body" where
  "cost_tool_body A operation input = bindM (getM sr_user_id) (\<lambda>user_id. on_costs A (operation user_id input))"

subsection \<open>Lemmas\<close>

text \<open>The rows a state stands for, and a state that holds given rows.\<close>

definition todos_of :: "('t, 'x) cost_env \<Rightarrow> ('t, 'x) costs \<Rightarrow> row list" where
  "todos_of E s = (case co_todos s of None \<Rightarrow> [] | Some t \<Rightarrow> (case ce_read_csv E t of Inr rows \<Rightarrow> rows | Inl e \<Rightarrow> []))"

definition holds_rows :: "('t, 'x) cost_env \<Rightarrow> row list \<Rightarrow> ('t, 'x) costs \<Rightarrow> bool" where
  "holds_rows E rows s \<longleftrightarrow>
     co_todos s = (if rows = [] then None else Some (ce_to_csv E rows)) \<or> rows = [] \<and> co_todos s = Some (ce_empty_csv E todo_columns)"

lemma get_todos_cases:
  "(\<exists>e. get_todos E s = (Inl e, s)) \<or> get_todos E s = (Inr (todos_of E s), s) \<or>
   todos_of E s = [] \<and> get_todos E s = (Inr [], s\<lparr>co_todos := Some (ce_empty_csv E todo_columns)\<rparr>)"
  by (auto simp: get_todos_def todos_of_def Let_def split: option.splits sum.splits exn.splits)

lemma get_todos_bind:
  assumes "bindM (get_todos E) f s = (r, s')"
  obtains (fails) e where "r = Inl e" "s' = s"
  | (same) "f (todos_of E s) s = (r, s')"
  | (fresh) "todos_of E s = []" "f [] (s\<lparr>co_todos := Some (ce_empty_csv E todo_columns)\<rparr>) = (r, s')"
  using get_todos_cases [of E s] assms that by (auto simp: bindM_def)

lemma save_todos_cases:
  assumes "save_todos E rows s = (r, s')"
  obtains "s' = s" "rows = []" "r \<noteq> Inr ()" | "r = Inr ()" "holds_rows E rows s'" "co_projects s' = co_projects s" "co_ext s' = co_ext s"
  using assms by (auto simp: save_todos_def holds_rows_def split: if_splits option.splits)

lemma save_todos_there:
  "co_todos s \<noteq> None \<Longrightarrow> \<exists>s'. save_todos E rows s = (Inr (), s') \<and> co_projects s' = co_projects s \<and> holds_rows E rows s'"
  by (cases "rows = []") (auto simp: save_todos_def holds_rows_def)

lemma save_todos_bind:
  assumes "bindM (save_todos E rows) (\<lambda>_. retM m) s = (r, s')"
  obtains "s' = s" "\<forall>x. r \<noteq> Inr x" | "r = Inr m" "holds_rows E rows s'" "co_projects s' = co_projects s" "co_ext s' = co_ext s"
proof -
  obtain r1 s1 where run: "save_todos E rows s = (r1, s1)" by (cases "save_todos E rows s")
  from run show thesis
  proof (cases rule: save_todos_cases)
    case 1
    with run assms that(1) show ?thesis by (cases r1) (auto simp: bindM_def)
  next
    case 2
    with run assms that(2) show ?thesis by (auto simp: bindM_def)
  qed
qed

lemma without_project_long:
  "\<forall>row \<in> set rows. 2 \<le> length row \<Longrightarrow>
   without_project (PStr n) user rows = Inr (filter (\<lambda>row. \<not> (row ! 0 = n \<and> row ! 1 = user)) rows)"
  by (induction rows) (auto split: list.split)

lemma without_project_short:
  "[] \<in> set rows \<Longrightarrow> without_project v user rows = Inl (Exn ''IndexError'' ''list index out of range'')"
  by (induction rows) (auto split: list.split)

text \<open>What belongs to the other users.\<close>

definition foreign_rows :: "string \<Rightarrow> row list \<Rightarrow> row list" where
  "foreign_rows user rows = filter (\<lambda>r. \<not> owned_by user r) rows"

definition foreign_projects :: "string \<Rightarrow> ('t, 'x) costs \<Rightarrow> string list list" where
  "foreign_projects user s =
     (case co_projects s of None \<Rightarrow> [] | Some rows \<Rightarrow> filter (\<lambda>row. \<not> (length row \<ge> 2 \<and> row ! 1 = user)) rows)"

lemma foreign_projects_cong [simp]:
  "foreign_projects user (s\<lparr>co_todos := t\<rparr>) = foreign_projects user s" "foreign_projects user (s\<lparr>co_ext := x\<rparr>) = foreign_projects user s"
  by (simp_all add: foreign_projects_def)

lemma foreign_projects_eq: "co_projects s' = co_projects s \<Longrightarrow> foreign_projects user s' = foreign_projects user s"
  by (simp add: foreign_projects_def)

lemma foreign_rows_append: "\<forall>r \<in> set ys. owned_by user r \<Longrightarrow> foreign_rows user (xs @ ys) = foreign_rows user xs"
  by (simp add: foreign_rows_def filter_empty_conv)

lemma foreign_rows_filter: "foreign_rows user (filter (\<lambda>t. \<not> (P t \<and> owned_by user t)) xs) = foreign_rows user xs"
  by (induction xs) (auto simp: foreign_rows_def)

lemma foreign_rows_remove1: "owned_by user c \<Longrightarrow> foreign_rows user (remove1 c xs) = foreign_rows user xs"
  by (induction xs) (auto simp: foreign_rows_def)

lemma delete_ids_foreign: "foreign_rows user (fst (delete_ids user ids todos deleted)) = foreign_rows user todos"
proof (induction ids arbitrary: todos deleted)
  case (Cons i ids)
  show ?case
  proof (cases "List.find (is_component user (PInt i)) todos")
    case (Some c)
    then have "owned_by user c" by (auto simp: find_Some_iff is_component_def)
    with Some Cons show ?thesis by (simp add: foreign_rows_remove1)
  qed (simp add: Cons)
qed simp

lemma delete_ids_subset: "set (fst (delete_ids user ids todos deleted)) \<subseteq> set todos"
proof (induction ids arbitrary: todos deleted)
  case (Cons i ids)
  then show ?case
    by (cases "List.find (is_component user (PInt i)) todos") (simp_all, metis set_remove1_subset subset_trans)
qed simp

lemma find_at_Some: "find_at P xs = Some (n, x) \<Longrightarrow> n < length xs \<and> xs ! n = x \<and> P x"
  by (induction xs arbitrary: n) (auto split: if_splits)

lemma without_project_rows:
  assumes "without_project (PStr n) user rows = Inr rows'"
  shows "rows' = filter (\<lambda>row. \<not> (length row \<ge> 2 \<and> row ! 0 = n \<and> row ! 1 = user)) rows"
  using assms
  by (induction rows arbitrary: rows') (auto simp: bindR_Inr_iff split: list.splits if_splits)

text \<open>The total of a row is the product of its cost and its quantity, when both are numbers.\<close>

definition total_ok :: "('t, 'x) cost_env \<Rightarrow> row \<Rightarrow> bool" where
  "total_ok E c \<longleftrightarrow>
     (\<forall>x y. py_float E (cell_get c ''Costo Unitario'' (PInt 0)) = Inr (Cell (PFloat x)) \<longrightarrow>
        py_float E (cell_get c quantita (PInt 0)) = Inr (Cell (PFloat y)) \<longrightarrow>
        cell_get c ''Costo Totale'' (PInt 0) = Cell (PFloat (x * y)))"

lemma calculate_total_cost_product:
  assumes "calculate_total_cost a b code = Inr tot" "py_float E a = Inr (Cell (PFloat x))" "py_float E b = Inr (Cell (PFloat y))"
  shows "tot = Cell (PFloat (x * y))"
  using assms by (cases a; cases b) (auto simp: calculate_total_cost_def py_float_def Let_def split: if_splits option.splits)

lemma py_float_twice: "py_float E c = Inr d \<Longrightarrow> d = Cell (PFloat x) \<Longrightarrow> py_float E d = Inr (Cell (PFloat x))"
  by (simp add: py_float_def as_number_def)

lemma quantita_differs [simp]:
  "quantita \<noteq> ''ID''" "quantita \<noteq> ''Costo Totale''" "quantita \<noteq> ''Costo Unitario''" "quantita \<noteq> ''user''"
  "''Costo Totale'' \<noteq> quantita" "''Costo Unitario'' \<noteq> quantita" "''ID'' \<noteq> quantita"
  by (simp_all add: quantita_def)

text \<open>Adding touches only the clock until the rows are stored.\<close>

lemma new_component_run:
  assumes "new_component E user i component s = (r, s')"
  shows "co_projects s' = co_projects s \<and> co_todos s' = co_todos s \<and>
    (\<forall>c. r = Inr (Inr c) \<longrightarrow> owned_by user c \<and> total_ok E c \<and> map_of c ''ID'' = Some i)"
proof -
  have clock: "co_projects (snd (project_time E t)) = co_projects t \<and> co_todos (snd (project_time E t)) = co_todos t" for t
    by (simp add: project_time_def split: prod.split)
  have entry: "owned_by user c \<and> total_ok E c \<and> map_of c ''ID'' = Some i"
    if "component_entry i now user pn m tot = Inr c"
      "calculate_total_cost (cell_get m ''Costo Unitario'' PNone) (cell_get m quantita PNone) code = Inr tot" for now pn m tot c code
  proof -
    from that(1) obtain a b u q where c: "c = [(''ID'', i), (''created'', Cell (PFloat now)), (''user'', Cell (PStr user)), (''nome progetto'', Cell pn),
          (''codice componente'', a), (''Descrizione'', b), (''Costo Unitario'', u), (quantita, q),
          (''Costo Totale'', tot), (''NOTA'', cell_get m ''NOTA'' (PStr []))]"
      "map_of m ''Costo Unitario'' = Some u" "map_of m quantita = Some q"
      by (auto simp: component_entry_def bindR_Inr_iff)
    have get: "cell_get c ''Costo Unitario'' (PInt 0) = u" "cell_get c quantita (PInt 0) = q" "cell_get c ''Costo Totale'' (PInt 0) = tot"
      by (simp_all add: c(1) cell_get_def quantita_def)
    have "calculate_total_cost u q code = Inr tot" using that(2) c(2,3) by (simp add: cell_get_def)
    then have "total_ok E c" unfolding total_ok_def get using calculate_total_cost_product by blast
    moreover have "owned_by user c \<and> map_of c ''ID'' = Some i" by (simp add: c(1) owned_by_def)
    ultimately show ?thesis by blast
  qed
  show ?thesis
  proof (cases "with_get component")
    case (Inl e)
    with assms show ?thesis by (auto simp: new_component_def)
  next
    case (Inr d)
    then show ?thesis using assms clock [of s] entry
      by (auto simp: new_component_def Let_def bindM_apply split: sum.splits option.splits)
  qed
qed

lemma new_components_run:
  assumes "new_components E user i components added s = (r, s')"
  shows "co_projects s' = co_projects s \<and> co_todos s' = co_todos s \<and>
    (\<forall>res. r = Inr (Inr res) \<longrightarrow> (\<exists>cs. res = added @ cs \<and> length cs = length components \<and> (\<forall>c \<in> set cs. owned_by user c \<and> total_ok E c)))"
  using assms
proof (induction components arbitrary: i added s)
  case (Cons component components)
  obtain r1 s1 where one: "new_component E user i component s = (r1, s1)" by (cases "new_component E user i component s")
  note keep = new_component_run [OF one]
  show ?case
  proof (cases "\<exists>c i'. r1 = Inr (Inr c) \<and> succ_cell i = Inr i'")
    case True
    then obtain c i' where c: "r1 = Inr (Inr c)" "succ_cell i = Inr i'" by blast
    then have run: "new_components E user i' components (added @ [c]) s1 = (r, s')"
      using Cons.prems one by (simp add: bindM_def)
    from Cons.IH [OF run] keep c(1) show ?thesis by fastforce
  next
    case False
    then have "s' = s1 \<and> (\<forall>res. r \<noteq> Inr (Inr res))"
      using Cons.prems one by (cases r1; cases "succ_cell i") (auto simp: bindM_def split: sum.splits)
    with keep show ?thesis by simp
  qed
qed auto

text \<open>A step that leaves everything of the other users alone.\<close>

definition keeps_rows :: "('t, 'x) cost_env \<Rightarrow> string \<Rightarrow> row list \<Rightarrow> row list \<Rightarrow> bool" where
  "keeps_rows E user old rows \<longleftrightarrow> foreign_rows user rows = foreign_rows user old \<and>
     (\<forall>c \<in> set rows. c \<in> set old \<or> owned_by user c \<and> total_ok E c)"

definition leaves_others :: "('t, 'x) cost_env \<Rightarrow> string \<Rightarrow> ('t, 'x) costs \<Rightarrow> ('t, 'x) costs \<Rightarrow> bool" where
  "leaves_others E user s s' \<longleftrightarrow> foreign_projects user s' = foreign_projects user s \<and>
     (co_todos s' = co_todos s \<or>
      (\<exists>rows. holds_rows E rows s' \<and> keeps_rows E user (todos_of E s) rows))"

lemma keeps_rows_Nil [simp]: "keeps_rows E user [] []"
  by (simp add: keeps_rows_def)

lemma leaves_others_unchanged [simp]: "leaves_others E user s s"
  by (simp add: leaves_others_def)

lemma leaves_others_fresh: "todos_of E s = [] \<Longrightarrow> leaves_others E user s (s\<lparr>co_todos := Some (ce_empty_csv E todo_columns)\<rparr>)"
  unfolding leaves_others_def by (auto simp: holds_rows_def intro!: exI [of _ "[]"])

lemma leaves_others_same: "co_projects s' = co_projects s \<Longrightarrow> co_todos s' = co_todos s \<Longrightarrow> leaves_others E user s s'"
  by (simp add: leaves_others_def foreign_projects_def)

lemma leaves_others_saved:
  assumes "bindM (save_todos E rows) (\<lambda>_. retM m) s1 = (r, s')" "leaves_others E user s s1"
    and "keeps_rows E user (todos_of E s) rows"
  shows "leaves_others E user s s'"
  using assms(1)
proof (cases rule: save_todos_bind)
  case 2
  then have "foreign_projects user s' = foreign_projects user s1" by (simp add: foreign_projects_def)
  with 2 assms(2,3) show ?thesis unfolding leaves_others_def by auto
qed (use assms(2) in simp)

lemma create_project_leaves_others:
  assumes "create_project E user v s = (r, s')"
  shows "leaves_others E user s s'"
  using assms
  by (auto simp: create_project_def bindM_apply leaves_others_def foreign_projects_def split: if_splits pyval.splits sum.splits option.splits)

lemma delete_project_leaves_others:
  assumes "delete_project E user v s = (r, s')"
  shows "leaves_others E user s s'"
proof (cases "check_project_existence_for_user E v user s = Inr None")
  case False
  then show ?thesis using assms by (cases "check_project_existence_for_user E v user s") (auto simp: delete_project_def bindM_apply split: option.splits)
next
  case True
  then obtain n rows where n: "v = PStr n" "co_projects s = Some rows"
    by (auto simp: check_project_existence_for_user_def Let_def split: option.splits pyval.splits)
  show ?thesis
  proof (cases "without_project v user rows")
    case (Inl e)
    then show ?thesis using assms True n by (auto simp: delete_project_def bindM_apply)
  next
    case (Inr rows')
    let ?s = "s\<lparr>co_projects := Some rows'\<rparr>"
    let ?keep = "\<lambda>todos. filter (\<lambda>t. \<not> (in_project v t \<and> owned_by user t)) todos"
    obtain m where run: "bindM (get_todos E) (\<lambda>todos. bindM (save_todos E (?keep todos)) (\<lambda>_. retM m)) ?s = (r, s')"
      using assms True n Inr by (auto simp: delete_project_def bindM_apply)
    have todos: "todos_of E ?s = todos_of E s" by (simp add: todos_of_def)
    have "rows' = filter (\<lambda>row. \<not> (length row \<ge> 2 \<and> row ! 0 = n \<and> row ! 1 = user)) rows"
      using without_project_rows Inr n(1) by blast
    then have start: "leaves_others E user s ?s"
      using n(2) by (auto simp: leaves_others_def foreign_projects_def intro!: filter_cong)
    have keep: "keeps_rows E user (todos_of E s) (?keep (todos_of E s))" unfolding keeps_rows_def foreign_rows_filter by simp
    from run show ?thesis
    proof (cases rule: get_todos_bind)
      case (fails e)
      with start show ?thesis by simp
    next
      case same
      then show ?thesis using leaves_others_saved [OF _ start keep] todos by simp
    next
      case fresh
      have "leaves_others E user s (?s\<lparr>co_todos := Some (ce_empty_csv E todo_columns)\<rparr>)"
        using fresh(1) start todos by (auto simp: leaves_others_def holds_rows_def intro!: exI [of _ "[]"])
      from leaves_others_saved [OF fresh(2) this] fresh(1) todos show ?thesis by simp
    qed
  qed
qed

text \<open>Either nothing new is stored, or the whole list is.\<close>

lemma add_component_cases:
  assumes "add_component E user v s = (r, s')"
  obtains (idle) "co_projects s' = co_projects s" "co_todos s' = co_todos s \<or> todos_of E s = [] \<and> holds_rows E [] s'"
  | (all) t cs i s1 s2 added where "v = PStr t" "ce_literal_eval E (PStr (replace_all ''null'' ''None'' t)) = Inr (PList cs)"
      "next_id (todos_of E s) = Inr i" "new_components E user i cs [] s1 = (Inr (Inr added), s2)"
      "r = Inr (added_message E added)" "holds_rows E (todos_of E s @ added) s'" "co_projects s' = co_projects s"
proof -
  define rest where "rest = (\<lambda>parsed todos. bindM (liftM (user_projects_named user todos)) (\<lambda>_.
      case parsed of
        PList components \<Rightarrow>
          bindM (liftM (next_id todos)) (\<lambda>i.
          bindM (new_components E user i components []) (\<lambda>r.
            case r of
              Inl m \<Rightarrow> retM m
            | Inr added \<Rightarrow> bindM (save_todos E (todos @ added)) (\<lambda>_. retM (added_message E added))))
      | _ \<Rightarrow> retM ''Input must be a list of component objects. Please check the format and try again.''))"
  let ?quiet = "\<lambda>s1. co_projects s1 = co_projects s \<and> (co_todos s1 = co_todos s \<or> todos_of E s = [] \<and> holds_rows E [] s1)"
  have rest: "?quiet s' \<or> (\<exists>cs i s2 added. parsed = PList cs \<and> next_id (todos_of E s) = Inr i \<and>
        new_components E user i cs [] s1 = (Inr (Inr added), s2) \<and> r = Inr (added_message E added) \<and>
        holds_rows E (todos_of E s @ added) s' \<and> co_projects s' = co_projects s)"
    if run: "rest parsed (todos_of E s) s1 = (r, s')" and start: "?quiet s1" for parsed s1
  proof (cases "\<exists>components i. user_projects_named user (todos_of E s) = Inr () \<and> parsed = PList components \<and> next_id (todos_of E s) = Inr i")
    case False
    then have "s' = s1" using run
      by (cases "user_projects_named user (todos_of E s)"; cases parsed; cases "next_id (todos_of E s)") (auto simp: rest_def bindM_apply)
    with start show ?thesis by simp
  next
    case True
    then obtain components i where c: "user_projects_named user (todos_of E s) = Inr ()" "parsed = PList components"
      "next_id (todos_of E s) = Inr i" by blast
    obtain r2 s2 where loop: "new_components E user i components [] s1 = (r2, s2)" by (cases "new_components E user i components [] s1")
    note new = new_components_run [OF loop]
    have s2: "?quiet s2" using start new by (auto simp: holds_rows_def)
    show ?thesis
    proof (cases "\<exists>added. r2 = Inr (Inr added)")
      case True
      then obtain added where a: "r2 = Inr (Inr added)" by blast
      with run c loop have save: "bindM (save_todos E (todos_of E s @ added)) (\<lambda>_. retM (added_message E added)) s2 = (r, s')"
        by (simp add: rest_def bindM_apply)
      then show ?thesis using s2 c loop a by (cases rule: save_todos_bind) auto
    next
      case False
      then have "s' = s2" using run c loop by (cases r2) (auto simp: rest_def bindM_apply split: sum.splits)
      with s2 show ?thesis by simp
    qed
  qed
  show thesis
  proof (cases "\<exists>t parsed. v = PStr t \<and> ce_literal_eval E (PStr (replace_all ''null'' ''None'' t)) = Inr parsed")
    case False
    then have "s' = s" using assms by (cases v) (auto simp: add_component_def split: sum.splits)
    with idle show ?thesis by simp
  next
    case True
    then obtain t parsed where p: "v = PStr t" "ce_literal_eval E (PStr (replace_all ''null'' ''None'' t)) = Inr parsed" by blast
    with assms have "bindM (get_todos E) (rest parsed) s = (r, s')" by (simp add: add_component_def rest_def)
    then show ?thesis
    proof (cases rule: get_todos_bind)
      case (fails e)
      with idle show ?thesis by simp
    next
      case same
      from rest [OF this] p show ?thesis using idle all by auto
    next
      case fresh
      have "?quiet (s\<lparr>co_todos := Some (ce_empty_csv E todo_columns)\<rparr>)" using fresh(1) by (simp add: holds_rows_def)
      from rest [OF _ this, of parsed] fresh p show ?thesis using idle all by auto
    qed
  qed
qed

lemma add_component_leaves_others:
  assumes "add_component E user v s = (r, s')"
  shows "leaves_others E user s s'"
  using assms
proof (cases rule: add_component_cases)
  case idle
  then show ?thesis unfolding leaves_others_def by (metis foreign_projects_eq keeps_rows_Nil)
next
  case (all t cs i s1 s2 added)
  have "keeps_rows E user (todos_of E s) (todos_of E s @ added)"
    using new_components_run [OF all(4)] by (auto simp: keeps_rows_def foreign_rows_append)
  with all(6,7) show ?thesis unfolding leaves_others_def by (metis foreign_projects_eq)
qed

text \<open>New IDs count up from the first number above all of them.\<close>

lemma max_cell_int: "\<exists>k. max_cell (Cell (PInt m)) (map (\<lambda>j. Cell (PInt j)) js) = Cell (PInt k) \<and> (\<forall>j \<in> set (m # js). j \<le> k)"
proof (induction js arbitrary: m)
  case (Cons j js)
  show ?case
  proof (cases "m < j")
    case True
    with Cons [of j] show ?thesis by (force simp: greater_cell_def as_number_def)
  next
    case False
    with Cons [of m] show ?thesis by (force simp: greater_cell_def as_number_def)
  qed
qed simp

lemma next_id_above:
  assumes "\<forall>c \<in> set rows. \<exists>i. map_of c ''ID'' = Some (Cell (PInt i))" "next_id rows = Inr i"
  shows "\<exists>k. i = Cell (PInt k) \<and> (\<forall>c \<in> set rows. \<forall>j. map_of c ''ID'' = Some (Cell (PInt j)) \<longrightarrow> j < k)"
proof -
  let ?ids = "map (\<lambda>t. cell_get t ''ID'' (PInt 0)) rows"
  have "\<forall>c \<in> set ?ids. \<exists>j. c = Cell (PInt j)" using assms(1) by (auto simp: cell_get_def)
  then obtain js where js: "?ids = map (\<lambda>j. Cell (PInt j)) js" using ex_map_conv [of ?ids "\<lambda>j. Cell (PInt j)"] by blast
  have mem: "j \<in> set js" if "c \<in> set rows" "map_of c ''ID'' = Some (Cell (PInt j))" for c j
  proof -
    have "Cell (PInt j) \<in> set ?ids" using that by (force simp: cell_get_def)
    then show ?thesis unfolding js by auto
  qed
  show ?thesis
  proof (cases js)
    case Nil
    then show ?thesis using assms(2) js mem by (auto simp: next_id_def succ_cell_def)
  next
    case (Cons j0 js')
    from max_cell_int [of j0 js'] obtain k where k: "max_cell (Cell (PInt j0)) (map (\<lambda>j. Cell (PInt j)) js') = Cell (PInt k)"
      "\<forall>j \<in> set js. j \<le> k" using Cons by auto
    have "i = Cell (PInt (k + 1))" using assms(2) js Cons k(1) by (simp add: next_id_def succ_cell_def as_number_def split: if_splits)
    then show ?thesis using mem k(2) by force
  qed
qed

lemma new_components_ids:
  assumes "new_components E user (Cell (PInt k)) cs added s = (Inr (Inr res), s')"
  shows "\<exists>new. res = added @ new \<and> map (\<lambda>c. map_of c ''ID'') new = map (\<lambda>j. Some (Cell (PInt (k + int j)))) [0..<length new]"
  using assms
proof (induction cs arbitrary: k added s)
  case (Cons component cs)
  obtain r1 s1 where one: "new_component E user (Cell (PInt k)) component s = (r1, s1)" by (cases "new_component E user (Cell (PInt k)) component s")
  with Cons.prems obtain c where c: "r1 = Inr (Inr c)" "new_components E user (Cell (PInt (k + 1))) cs (added @ [c]) s1 = (Inr (Inr res), s')"
    by (cases r1) (auto simp: bindM_def succ_cell_def split: sum.splits)
  from Cons.IH [OF c(2)] obtain new where new: "res = added @ c # new"
    "map (\<lambda>c. map_of c ''ID'') new = map (\<lambda>j. Some (Cell (PInt (k + 1 + int j)))) [0..<length new]" by auto
  have "map_of c ''ID'' = Some (Cell (PInt k))" using new_component_run [OF one] c(1) by simp
  then have "map (\<lambda>c. map_of c ''ID'') (c # new) = map (\<lambda>j. Some (Cell (PInt (k + int j)))) [0..<length (c # new)]"
    using new(2) by (simp add: map_upt_Suc del: upt_Suc)
  with new(1) show ?case by blast
qed simp

lemma project_summary_leaves_others:
  assumes "project_summary E user v s = (r, s')"
  shows "leaves_others E user s s'"
proof -
  have "bindM (get_todos E) (\<lambda>todos s1. (fst (project_summary E user v s), s1)) s = (r, s') \<or> (\<exists>e. get_todos E s = (Inl e, s) \<and> s' = s)"
    using assms get_todos_cases [of E s]
    by (auto simp: project_summary_def bindM_apply Let_def split: sum.splits if_splits pyval.splits option.splits)
  then show ?thesis
  proof
    assume "bindM (get_todos E) (\<lambda>todos s1. (fst (project_summary E user v s), s1)) s = (r, s')"
    then show ?thesis by (cases rule: get_todos_bind) (auto intro: leaves_others_fresh)
  qed auto
qed

lemma delete_components_leaves_others:
  assumes "delete_components_by_ids E user v s = (r, s')"
  shows "leaves_others E user s s'"
proof (cases "bindR (ce_literal_eval E v) (\<lambda>v. bindR (iterate v) (mapR (py_int E)))")
  case (Inl e)
  with assms show ?thesis by (auto simp: delete_components_by_ids_def split: if_splits)
next
  case (Inr ids)
  define rest where "rest = (\<lambda>todos. case delete_ids user ids todos [] of (todos', deleted) \<Rightarrow>
      if deleted = [] then retM ''No components found with the provided IDs.''
      else bindM (save_todos E todos') (\<lambda>_. retM (''Components with IDs ['' @ join '', '' (map str_int deleted) @ ''] have been successfully deleted.'')))"
  have rest: "leaves_others E user s s'" if run: "rest (todos_of E s) s1 = (r, s')" and start: "leaves_others E user s s1" for s1
  proof -
    obtain rows deleted where d: "delete_ids user ids (todos_of E s) [] = (rows, deleted)" by (cases "delete_ids user ids (todos_of E s) []")
    have "keeps_rows E user (todos_of E s) rows"
      using delete_ids_foreign [of user ids "todos_of E s" "[]"] delete_ids_subset [of user ids "todos_of E s" "[]"] d by (auto simp: keeps_rows_def)
    then show ?thesis using run start d leaves_others_saved [OF _ start] by (auto simp: rest_def split: if_splits)
  qed
  from assms Inr have "bindM (get_todos E) rest s = (r, s')" by (simp add: delete_components_by_ids_def rest_def)
  then show ?thesis
  proof (cases rule: get_todos_bind)
    case same
    then show ?thesis using rest by simp
  next
    case fresh
    then show ?thesis using rest [OF _ leaves_others_fresh [OF fresh(1)]] by simp
  qed simp
qed

lemma apply_updates_keeps: "k \<notin> set (keys updates) \<Longrightarrow> map_of (apply_updates updates c) k = map_of c k"
  unfolding apply_updates_def
  by (induction updates arbitrary: c) (auto simp: update_conv' keys_def split: if_splits)

lemma modified_result:
  assumes "modified E updates c = Inr (Inr c')"
  obtains (plain) "''Costo Unitario'' \<notin> set (keys updates)" "quantita \<notin> set (keys updates)" "c' = apply_updates updates c"
  | (priced) u q tot where
      "py_float E (cell_get (apply_updates updates c) ''Costo Unitario'' (PInt 0)) = Inr u"
      "py_float E (cell_get (apply_updates updates c) quantita (PInt 0)) = Inr q"
      "calculate_total_cost u q (text_of E (cell_get (apply_updates updates c) ''codice componente'' PNone)) = Inr tot"
      "c' = AList.update ''Costo Totale'' tot (apply_updates updates c)"
proof (cases "''Costo Unitario'' \<in> set (keys updates) \<or> quantita \<in> set (keys updates)")
  case False
  with assms plain show ?thesis by (simp add: modified_def)
next
  case True
  then obtain u q where uq: "py_float E (cell_get (apply_updates updates c) ''Costo Unitario'' (PInt 0)) = Inr u"
      "py_float E (cell_get (apply_updates updates c) quantita (PInt 0)) = Inr q"
    using assms by (auto simp: modified_def Let_def bindR_Inr_iff split: if_splits)
  then show ?thesis using True assms priced
    by (cases "calculate_total_cost u q (text_of E (cell_get (apply_updates updates c) ''codice componente'' PNone))")
      (auto simp: modified_def Let_def)
qed

lemma modified_keeps_id:
  assumes "modified E updates c = Inr (Inr c')" "''ID'' \<notin> set (keys updates)"
  shows "map_of c' ''ID'' = map_of c ''ID''"
  using assms(1) apply_updates_keeps [OF assms(2), of c] by (cases rule: modified_result) (auto simp: update_conv')

lemma cell_get_cong: "map_of c k = map_of d k \<Longrightarrow> cell_get c k = cell_get d k"
  by (simp add: cell_get_def fun_eq_iff)

lemma modified_keeps_total:
  assumes "modified E updates c = Inr (Inr c')" "total_ok E c"
    and "''Costo Totale'' \<in> set (keys updates) \<longrightarrow> ''Costo Unitario'' \<in> set (keys updates) \<or> quantita \<in> set (keys updates)"
  shows "total_ok E c'"
  using assms(1)
proof (cases rule: modified_result)
  case plain
  then have "cell_get c' k = cell_get c k" if "k \<in> {''Costo Totale'', ''Costo Unitario'', quantita}" for k
    using that assms(3) by (auto intro!: cell_get_cong apply_updates_keeps)
  then show ?thesis using assms(2) by (simp add: total_ok_def)
next
  case (priced u q tot)
  then show ?thesis
    using calculate_total_cost_product [OF priced(3)] py_float_twice [OF priced(1)] py_float_twice [OF priced(2)]
    by (auto simp: total_ok_def cell_get_def update_conv')
qed

text \<open>A modification is of one row of the user, whose ID stays.\<close>

definition asks_for :: "('t, 'x) cost_env \<Rightarrow> pyval \<Rightarrow> json \<Rightarrow> bool" where
  "asks_for E v updates \<longleftrightarrow>
     (\<exists>d. ce_literal_eval E v = Inr (PDict d) \<and> (case map_of d ''updates'' of Some u \<Rightarrow> u | None \<Rightarrow> PDict []) = PDict updates)"

definition modifies_own :: "('t, 'x) cost_env \<Rightarrow> string \<Rightarrow> pyval \<Rightarrow> ('t, 'x) costs \<Rightarrow> ('t, 'x) costs \<Rightarrow> bool" where
  "modifies_own E user v s s' \<longleftrightarrow> co_projects s' = co_projects s \<and>
     (co_todos s' = co_todos s \<or> todos_of E s = [] \<and> holds_rows E [] s' \<or>
      (\<exists>n c updates. n < length (todos_of E s) \<and> owned_by user (todos_of E s ! n) \<and> asks_for E v updates \<and> ''ID'' \<notin> set (keys updates) \<and>
         modified E updates (todos_of E s ! n) = Inr (Inr c) \<and> holds_rows E ((todos_of E s)[n := c]) s'))"

lemma modify_component_own:
  assumes "modify_component_by_id E user v s = (r, s')"
  shows "modifies_own E user v s s'"
proof (cases "bindR (ce_literal_eval E v) with_get")
  case (Inl e)
  with assms show ?thesis by (simp add: modify_component_by_id_def modifies_own_def)
next
  case (Inr d)
  define row_id where "row_id = (case map_of d ''ID'' of Some v \<Rightarrow> v | None \<Rightarrow> PNone)"
  define updates where "updates = (case map_of d ''updates'' of Some v \<Rightarrow> v | None \<Rightarrow> PDict [])"
  define rest where "rest = (\<lambda>todos. case find_at (is_component user row_id) todos of
      None \<Rightarrow> retM (''No component found with ID '' @ text_of E (Cell row_id) @ ''.'')
    | Some (n, component) \<Rightarrow>
        bindM (liftM (with_items updates)) (\<lambda>us.
        bindM (liftM (modified E us component)) (\<lambda>r.
          case r of
            Inl m \<Rightarrow> retM m
          | Inr c \<Rightarrow>
              bindM (save_todos E (todos[n := c])) (\<lambda>_.
              retM (''Component with ID '' @ text_of E (Cell row_id) @ '' has been successfully updated.'')))))"
  have run: "modify_component_by_id E user v s = (case has_key ''ID'' updates of
      Inl e \<Rightarrow> (Inl e, s) | Inr True \<Rightarrow> (Inr ''Editing the ID field is not allowed.'', s) | Inr False \<Rightarrow> bindM (get_todos E) rest s)"
    using Inr unfolding modify_component_by_id_def Let_def row_id_def updates_def rest_def by (auto split: sum.split)
  show ?thesis
  proof (cases "has_key ''ID'' updates = Inr False")
    case False
    with assms run show ?thesis by (auto simp: modifies_own_def split: sum.splits bool.splits)
  next
    case True
    with assms run have "bindM (get_todos E) rest s = (r, s')" by simp
    then show ?thesis
    proof (cases rule: get_todos_bind)
      case (fails e)
      then show ?thesis by (simp add: modifies_own_def)
    next
      case fresh
      then show ?thesis by (auto simp: rest_def modifies_own_def holds_rows_def)
    next
      case same
      show ?thesis
      proof (cases "\<exists>n component us c. find_at (is_component user row_id) (todos_of E s) = Some (n, component) \<and>
          with_items updates = Inr us \<and> modified E us component = Inr (Inr c)")
        case False
        then have "s' = s"
          using same by (cases "with_items updates") (auto simp: rest_def bindM_apply split: option.splits sum.splits)
        then show ?thesis by (simp add: modifies_own_def)
      next
        case True
        then obtain n component us c where m: "find_at (is_component user row_id) (todos_of E s) = Some (n, component)"
          "with_items updates = Inr us" "modified E us component = Inr (Inr c)" by blast
        from m(2) have us: "updates = PDict us" by (cases updates) (auto simp: with_items_def)
        with \<open>has_key ''ID'' updates = Inr False\<close> have "''ID'' \<notin> set (keys us)" by (simp add: has_key_def)
        moreover have "n < length (todos_of E s) \<and> todos_of E s ! n = component \<and> owned_by user component"
          using find_at_Some [OF m(1)] by (simp add: is_component_def)
        moreover have "bindM (save_todos E ((todos_of E s)[n := c])) (\<lambda>_.
            retM (''Component with ID '' @ text_of E (Cell row_id) @ '' has been successfully updated.'')) s = (r, s')"
          using same m by (simp add: rest_def)
        then have "s' = s \<or> holds_rows E ((todos_of E s)[n := c]) s' \<and> co_projects s' = co_projects s"
          by (cases rule: save_todos_bind) auto
        moreover have "asks_for E v us" using Inr us
          by (cases "ce_literal_eval E v"; cases "projr (ce_literal_eval E v)") (auto simp: asks_for_def updates_def with_get_def)
        ultimately show ?thesis using m(3) unfolding modifies_own_def by blast
      qed
    qed
  qed
qed

text \<open>In a conversation these tools change nothing but the outside world, so they fit the tools that the properties of a turn ask for.\<close>

lemma cost_tools_keep_talk: "keeps (cost_tool_body A operation input)"
  unfolding cost_tool_body_def on_costs_def by (intro keeps_bind keeps_pure keeps_on_ext)

subsection \<open>Properties\<close>

text \<open>
  (C12) Whatever the input is that a user gives to a tool of this plugin, and whether the tool answers or raises: the projects of the other users stay as
  they were, and every tool but the modification stores, if it stores anything, the components of the other users in the order they had.
  The modification changes one component of the user and not its ID, but it can give that component to somebody else.
\<close>

theorem cost_tools_leave_others:
  assumes "(name, operation) \<in> set (cost_operations E)" "operation user input s = (r, s')"
  shows "foreign_projects user s' = foreign_projects user s \<and>
    (co_todos s' = co_todos s \<or>
     (\<exists>rows. holds_rows E rows s' \<and>
        (if name = ''modify_component_by_id''
         then rows = todos_of E s \<or> (\<exists>n c. n < length (todos_of E s) \<and> owned_by user (todos_of E s ! n) \<and>
           rows = (todos_of E s)[n := c] \<and> map_of c ''ID'' = map_of (todos_of E s ! n) ''ID'')
         else foreign_rows user rows = foreign_rows user (todos_of E s))))"
proof (cases "name = ''modify_component_by_id''")
  case True
  with assms have "modify_component_by_id E user input s = (r, s')" by (auto simp: cost_operations_def)
  from modify_component_own [OF this] show ?thesis
    unfolding modifies_own_def using True modified_keeps_id foreign_projects_eq by (smt (verit, best))
next
  case False
  from False assms have "leaves_others E user s s'"
    by (auto simp: cost_operations_def intro: create_project_leaves_others delete_project_leaves_others add_component_leaves_others
        project_summary_leaves_others delete_components_leaves_others)
  with False show ?thesis unfolding leaves_others_def keeps_rows_def by auto
qed

text \<open>
  The totals stay consistent: when every stored component whose cost and quantity are numbers has their product as its total, then so does every
  component that a tool stores, with one exception: a modification that names the total, but neither the cost nor the quantity, sets it to anything.
\<close>

theorem cost_tools_keep_totals:
  assumes "(name, operation) \<in> set (cost_operations E)" "operation user input s = (r, s')"
    and "\<forall>c \<in> set (todos_of E s). total_ok E c"
    and "\<forall>updates. name = ''modify_component_by_id'' \<and> asks_for E input updates \<longrightarrow>
      ''Costo Totale'' \<in> set (keys updates) \<longrightarrow> ''Costo Unitario'' \<in> set (keys updates) \<or> quantita \<in> set (keys updates)"
  shows "co_todos s' = co_todos s \<or> (\<exists>rows. holds_rows E rows s' \<and> (\<forall>c \<in> set rows. total_ok E c))"
proof (cases "name = ''modify_component_by_id''")
  case False
  with assms(1,2) have "leaves_others E user s s'"
    by (auto simp: cost_operations_def intro: create_project_leaves_others delete_project_leaves_others add_component_leaves_others
        project_summary_leaves_others delete_components_leaves_others)
  with assms(3) show ?thesis unfolding leaves_others_def keeps_rows_def by blast
next
  case True
  with assms have "modify_component_by_id E user input s = (r, s')" by (auto simp: cost_operations_def)
  from modify_component_own [OF this] consider "co_todos s' = co_todos s" | "holds_rows E [] s'"
    | n c updates where "n < length (todos_of E s)" "asks_for E input updates"
        "modified E updates (todos_of E s ! n) = Inr (Inr c)" "holds_rows E ((todos_of E s)[n := c]) s'"
    unfolding modifies_own_def by blast
  then show ?thesis
  proof cases
    case 3
    have "total_ok E c"
      using modified_keeps_total [OF 3(3)] assms(3,4) 3(1,2) True by fastforce
    moreover have "set ((todos_of E s)[n := c]) \<subseteq> insert c (set (todos_of E s))" by (rule set_update_subset_insert)
    ultimately show ?thesis using 3(4) assms(3) by blast
  qed auto
qed


text \<open>
  Deleting a project the user has. When every line of the list of projects has two columns and the components can be read, exactly the lines of this
  project and user go, the check that runs before every tool no longer finds it, and exactly the user's components of the project go. But as soon as
  the list has an empty line, as the file in the repository does, every deletion fails and changes nothing.
\<close>

theorem delete_project_effect:
  assumes "co_projects s = Some rows" "row \<in> set rows" "2 \<le> length row" "row ! 0 = n" "row ! 1 = user"
  shows "([] \<in> set rows \<longrightarrow> delete_project E user (PStr n) s =
      (Inr (''Failed to delete project '' @ quoted n @ '' for user '' @ user @ '': list index out of range''), s)) \<and>
    ((\<forall>row \<in> set rows. 2 \<le> length row) \<and> co_todos s = Some t \<and> ce_read_csv E t = Inr todos \<longrightarrow>
      (\<exists>s'. delete_project E user (PStr n) s =
           (Inr (''Project '' @ quoted n @ '' and all its components have been successfully deleted for user '' @ user @ ''.''), s') \<and>
         co_projects s' = Some (filter (\<lambda>row. \<not> (row ! 0 = n \<and> row ! 1 = user)) rows) \<and>
         check_project_existence_for_user E (PStr n) user s' \<noteq> Inr None \<and>
         holds_rows E (filter (\<lambda>c. \<not> (map_of c ''nome progetto'' = Some (Cell (PStr n)) \<and> owned_by user c)) todos) s'))"
proof (intro conjI impI)
  have exists: "check_project_existence_for_user E (PStr n) user s = Inr None"
    using assms by (force simp: check_project_existence_for_user_def)
  {
    assume "[] \<in> set rows"
    then have "without_project (PStr n) user rows = Inl (Exn ''IndexError'' ''list index out of range'')" by (rule without_project_short)
    with exists assms(1) show "delete_project E user (PStr n) s =
      (Inr (''Failed to delete project '' @ quoted n @ '' for user '' @ user @ '': list index out of range''), s)"
      by (simp add: delete_project_def bindM_apply text_of_def)
  }
  assume long: "(\<forall>row \<in> set rows. 2 \<le> length row) \<and> co_todos s = Some t \<and> ce_read_csv E t = Inr todos"
  let ?rows = "filter (\<lambda>row. \<not> (row ! 0 = n \<and> row ! 1 = user)) rows"
  let ?keep = "filter (\<lambda>c. \<not> (in_project (PStr n) c \<and> owned_by user c)) todos"
  let ?m = "''Project '' @ quoted n @ '' and all its components have been successfully deleted for user '' @ user @ ''.''"
  let ?s = "s\<lparr>co_projects := Some ?rows\<rparr>"
  have projects: "without_project (PStr n) user rows = Inr ?rows" using long by (simp add: without_project_long)
  have gone: "check_project_existence_for_user E (PStr n) user u \<noteq> Inr None" if "co_projects u = Some ?rows" for u
    using that by (auto simp: check_project_existence_for_user_def Let_def)
  obtain s1 where read: "get_todos E ?s = (Inr todos, s1)" "co_projects s1 = Some ?rows" "co_todos s1 \<noteq> None"
    using long by (auto simp: get_todos_def Let_def)
  then obtain s' where save: "save_todos E ?keep s1 = (Inr (), s')" "co_projects s' = Some ?rows" "holds_rows E ?keep s'"
    using save_todos_there [OF read(3), of E ?keep] by auto
  have "in_project (PStr n) c \<longleftrightarrow> map_of c ''nome progetto'' = Some (Cell (PStr n))" for c
    by (auto simp: in_project_def cell_get_def same_value_def as_number_def split: option.splits cell.splits pyval.splits)
  then have "holds_rows E (filter (\<lambda>c. \<not> (map_of c ''nome progetto'' = Some (Cell (PStr n)) \<and> owned_by user c)) todos) s'" using save(3) by simp
  moreover have "delete_project E user (PStr n) s = (Inr ?m, s')"
    using exists assms(1) projects read(1) save(1) by (simp add: delete_project_def bindM_apply text_of_def)
  ultimately show "\<exists>s'. delete_project E user (PStr n) s = (Inr ?m, s') \<and> co_projects s' = Some ?rows \<and>
      check_project_existence_for_user E (PStr n) user s' \<noteq> Inr None \<and>
      holds_rows E (filter (\<lambda>c. \<not> (map_of c ''nome progetto'' = Some (Cell (PStr n)) \<and> owned_by user c)) todos) s'"
    using save(2) gone by blast
qed

subsection \<open>Concrete inputs\<close>

text \<open>Files as lists of rows, and the literals the examples read.\<close>

definition demo_costs_env :: "(row list, nat) cost_env" where
  "demo_costs_env =
     \<lparr>ce_read_csv = Inr, ce_to_csv = (\<lambda>rows. rows), ce_empty_csv = (\<lambda>_. []),
      ce_literal_eval = (\<lambda>v.
        if v = PStr ''bolt'' then Inr (PList [PDict [(''project_name'', PStr ''kettle''), (''component_code'', PStr ''b7''),
          (''description'', PStr ''bolt''), (''unit_cost'', PInt 3), (''quantity'', PInt 2)]])
        else if v = PStr ''[1]'' then Inr (PList [PInt 1])
        else Inl (Exn ''SyntaxError'' ''invalid syntax'')),
      ce_str = (\<lambda>_. ''?''), ce_float = (\<lambda>_. None), ce_int = (\<lambda>_. None), ce_set = (\<lambda>xs. xs), ce_pairs = (\<lambda>xs. xs),
      ce_tabulate = (\<lambda>_ _. []), ce_time = (\<lambda>n. (of_nat n, Suc n))\<rparr>"

definition lid_row :: row where
  "lid_row = [(''ID'', Cell (PInt 1)), (''user'', Cell (PStr ''alice'')), (''nome progetto'', Cell (PStr ''kettle'')),
     (''Costo Unitario'', Cell (PFloat 2)), (quantita, Cell (PFloat 4)), (''Costo Totale'', Cell (PFloat 8))]"

definition demo_costs :: "(row list, nat) costs" where
  "demo_costs = \<lparr>co_projects = Some [[], [''kettle'', ''alice'']], co_todos = Some [lid_row], co_ext = 5\<rparr>"

lemma demo_todos: "todos_of demo_costs_env demo_costs = [lid_row]"
  by (simp add: todos_of_def demo_costs_env_def demo_costs_def)

lemma lid_row_sel: "map_of lid_row ''ID'' = Some (Cell (PInt 1))" "owned_by ''alice'' lid_row" "total_ok E lid_row"
  by (simp_all add: lid_row_def owned_by_def total_ok_def cell_get_def quantita_def py_float_def as_number_def)

theorem cost_tools_leave_others_witness:
  "co_todos (snd (delete_components_by_ids demo_costs_env ''bob'' (PStr ''[1]'') demo_costs)) = Some [lid_row]"
proof -
  obtain r s' where run: "delete_components_by_ids demo_costs_env ''bob'' (PStr ''[1]'') demo_costs = (r, s')"
    by (cases "delete_components_by_ids demo_costs_env ''bob'' (PStr ''[1]'') demo_costs")
  have op: "(''delete_components_by_ids'', delete_components_by_ids demo_costs_env) \<in> set (cost_operations demo_costs_env)"
    by (simp add: cost_operations_def)
  have bob: "foreign_rows ''bob'' [lid_row] = [lid_row]" by (simp add: foreign_rows_def lid_row_def owned_by_def)
  from cost_tools_leave_others [OF op run] have "co_todos s' = Some [lid_row] \<or>
      (\<exists>rows. holds_rows demo_costs_env rows s' \<and> foreign_rows ''bob'' rows = [lid_row])"
    by (simp add: demo_todos bob) (simp add: demo_costs_def)
  moreover have "co_todos s' = Some [lid_row]"
    using run by (auto simp: delete_components_by_ids_def demo_costs_env_def demo_costs_def iterate_def py_int_def get_todos_def Let_def
      lid_row_def is_component_def owned_by_def bindM_def)
  ultimately show ?thesis using run by simp
qed

theorem cost_tools_keep_totals_witness:
  "list_all (total_ok demo_costs_env) (todos_of demo_costs_env (snd (add_component demo_costs_env ''bob'' (PStr ''bolt'') demo_costs)))"
proof -
  obtain r s' where run: "add_component demo_costs_env ''bob'' (PStr ''bolt'') demo_costs = (r, s')"
    by (cases "add_component demo_costs_env ''bob'' (PStr ''bolt'') demo_costs")
  have op: "(''add_component'', add_component demo_costs_env) \<in> set (cost_operations demo_costs_env)"
    by (simp add: cost_operations_def)
  from cost_tools_keep_totals [OF op run] have "co_todos s' = co_todos demo_costs \<or>
      (\<exists>rows. holds_rows demo_costs_env rows s' \<and> (\<forall>c \<in> set rows. total_ok demo_costs_env c))"
    by (simp add: demo_todos lid_row_sel)
  then show ?thesis using run
    by (auto simp: list_all_iff todos_of_def demo_costs_env_def holds_rows_def demo_costs_def lid_row_sel split: if_splits)
qed


theorem delete_project_effect_witness:
  "snd (delete_project demo_costs_env ''alice'' (PStr ''kettle'') demo_costs) = demo_costs"
  using delete_project_effect [of demo_costs "[[], [''kettle'', ''alice'']]" "[''kettle'', ''alice'']" "''kettle''" "''alice''" demo_costs_env]
  by (simp add: demo_costs_def)

end
