(* ===== verification/Small_Plugins.thy ===== *)
theory Small_Plugins
  imports Doc_Front_End
begin

text \<open>
  The smaller bundled plugins under \<open>core/cat/plugins\<close>: \<open>CAT_aggregated_chunks\<close> joins neighbouring chunks of a document,
  \<open>cat_advanced_tools\<close> takes the limits of the recalls, the end of the prompt and the sizes of the splitter from its settings, and
  \<open>CAT_ingestanything_Elio_mod\<close> brings parsers for more types of files.

  The settings of a plugin come from \<open>cat.mad_hatter.get_plugin().load_settings()\<close>; finding the plugin from the call stack is not modelled, so a
  hook gets the computation that loads the settings. Documents of the parsers carry their metadata as a dictionary.
\<close>

type_synonym ('q, 'x) settings_loader = "('q, 'x, pyval) stray_comp"

definition settings_get :: "pyval \<Rightarrow> string \<Rightarrow> pyval \<Rightarrow> pyval result" where
  "settings_get settings k fallback = bindR (with_get settings) (\<lambda>d. Inr (case map_of d k of Some v \<Rightarrow> v | None \<Rightarrow> fallback))"

definition setting :: "pyval \<Rightarrow> string \<Rightarrow> pyval result" where
  "setting settings k = bindR (as_dict settings) (\<lambda>d. item d k)"

subsection \<open>Aggregated chunks\<close>

definition classification_labels :: "(string, string list) dict" where
  "classification_labels =
     [(''useful'', [''relevant'', ''important'', ''useful'', ''meaningful'']),
      (''no sense'', [''nonsense'', ''gibberish'', ''random'', ''unclear'']),
      (''header or footer'', [''copyright'', ''footer'', ''header'', ''page number'', ''confidential''])]"

fun useful_chunks :: "('w, 'db, 'q, 'x) cheshire \<Rightarrow> document list \<Rightarrow> ('q, 'x, document list) stray_comp" where
  "useful_chunks K [] = retM []"
| "useful_chunks K (chunk # chunks) =
     bindM (classify K (page_content chunk) (Inr classification_labels)) (\<lambda>classification.
     bindM (send_ws_message K (case classification of None \<Rightarrow> PNone | Some l \<Rightarrow> PStr l) ''notification'') (\<lambda>_.
     bindM (useful_chunks K chunks) (\<lambda>filtered_chunks.
     retM (if classification = Some ''useful'' then chunk # filtered_chunks else filtered_chunks))))"

text \<open>\<open>range(0, stop, step)\<close>.\<close>

definition steps_to :: "nat \<Rightarrow> int \<Rightarrow> nat list result" where
  "steps_to stop width =
     (if width = 0 then Inl (Exn ''ValueError'' ''range() arg 3 must not be zero'')
      else if width < 0 then Inr []
      else Inr (map (\<lambda>k. k * nat width) [0..<(stop + nat width - 1) div nat width]))"

definition chunk_text :: "document list \<Rightarrow> string" where
  "chunk_text chunk_group = concat (map page_content chunk_group)"

definition new_document :: "string \<Rightarrow> document" where
  "new_document t = \<lparr>page_content = t, metadata = []\<rparr>"

text \<open>The loop appends to the list it takes its slices from.\<close>

fun aggregate :: "nat \<Rightarrow> nat list \<Rightarrow> document list \<Rightarrow> document list" where
  "aggregate n [] filtered_chunks = filtered_chunks"
| "aggregate n (i # is) filtered_chunks =
     aggregate n is (filtered_chunks @ [new_document (chunk_text (take n (drop i filtered_chunks)))])"

definition as_step :: "pyval \<Rightarrow> int result" where
  "as_step v =
     (case v of PInt n \<Rightarrow> Inr n | PBool b \<Rightarrow> Inr (if b then 1 else 0)
      | _ \<Rightarrow> Inl (Exn ''TypeError'' ''object cannot be interpreted as an integer''))"

definition chunks_after_rabbithole_splitted_text ::
  "('q, 'x) settings_loader \<Rightarrow> ('w, 'db, 'q, 'x) cheshire \<Rightarrow> document list \<Rightarrow> ('q, 'x, document list) stray_comp" where
  "chunks_after_rabbithole_splitted_text load_settings K chunks =
     bindM load_settings (\<lambda>settings.
     bindM (liftM (settings_get settings ''enable_classification'' (PBool True))) (\<lambda>enabled.
     bindM (if truthy enabled then useful_chunks K chunks else retM chunks) (\<lambda>filtered_chunks.
     bindM load_settings (\<lambda>settings.
     bindM (liftM (bindR (setting settings ''n_of_chunks'') as_step)) (\<lambda>n_of_chunks.
     bindM (liftM (steps_to (length filtered_chunks) n_of_chunks)) (\<lambda>is.
     retM (aggregate (nat n_of_chunks) is filtered_chunks)))))))"

definition chunks_hook :: "('q, 'x) settings_loader \<Rightarrow> ('w, 'db, 'q, 'x) cheshire \<Rightarrow> (('q, 'x) stray, tea) hook_body" where
  "chunks_hook load_settings K args =
     (case args of
        TDocuments chunks # _ \<Rightarrow> bindM (chunks_after_rabbithole_splitted_text load_settings K chunks) (\<lambda>ds. retM (Some (TDocuments ds)))
      | _ \<Rightarrow> raiseM (Exn ''TypeError'' ''chunks''))"

subsection \<open>Advanced tools\<close>

text \<open>\<open>settings.py\<close>: the defaults of the settings and the validators. A validator raises; that it gives \<open>None\<close> back is harmless, because only the payload is stored.\<close>

definition Languages :: "string list" where
  "Languages =
     [''English'', ''French'', ''German'', ''Italian'', ''Spanish'', ''Russian'', ''Chinese'', ''Japanese'', ''Korean'', ''None'', ''Human'']"

definition advanced_defaults :: json where
  "advanced_defaults =
     [(''prompt_prefix'', PStr (''You are the Cheshire Cat AI, an intelligent AI that passes the Turing test.'' @ newline @
        ''You are curious, funny and talk like the Cheshire Cat from Alice'' @ [CHR 0x27] @ ''s adventures in wonderland.'' @ newline @
        ''You answer Human with a focus on the following context.'' @ newline)),
      (''episodic_memory_k'', PInt 3), (''episodic_memory_threshold'', PFloat (7/10)),
      (''declarative_memory_k'', PInt 3), (''declarative_memory_threshold'', PFloat (7/10)),
      (''procedural_memory_k'', PInt 3), (''procedural_memory_threshold'', PFloat (7/10)),
      (''user_name'', PStr ''Human''), (''language'', PStr ''English''), (''chunk_size'', PInt 256), (''chunk_overlap'', PInt 64)]"

definition validate_threshold :: "real \<Rightarrow> bool" where
  "validate_threshold value = (value > 0)"

definition threshold_validator :: "string \<Rightarrow> real \<Rightarrow> unit result" where
  "threshold_validator name threshold =
     (if \<not> validate_threshold threshold
      then Inl (Exn ''ValueError'' (name @ '' memory threshold must be greater than 1'')) else Inr ())"

definition settings_model_validate :: "real \<Rightarrow> real \<Rightarrow> real \<Rightarrow> string list" where
  "settings_model_validate t1 t2 t3 =
     List.map_filter (\<lambda>(name, t). case threshold_validator name t of Inl e \<Rightarrow> Some (exn_text e) | Inr _ \<Rightarrow> None)
       [(''Episodic'', t1), (''Declarative'', t2), (''Procedural'', t3)]"

text \<open>A \<open>k\<close> that is no integer and a threshold that is no number are left out: Qdrant would refuse them.\<close>

definition as_threshold :: "pyval \<Rightarrow> real option result" where
  "as_threshold v =
     (case v of PNone \<Rightarrow> Inr None | PFloat r \<Rightarrow> Inr (Some r) | PInt i \<Rightarrow> Inr (Some (of_int i))
      | _ \<Rightarrow> Inl (Exn ''ValidationError'' ''score_threshold''))"

definition as_k :: "pyval \<Rightarrow> int result" where
  "as_k v = (case v of PInt i \<Rightarrow> Inr i | _ \<Rightarrow> Inl (Exn ''ValidationError'' ''limit''))"

text \<open>The three hooks of \<open>fast_setup.py\<close> on the recalls, by the name of the memory.\<close>

definition before_cat_recalls :: "string \<Rightarrow> pyval \<Rightarrow> recall_config \<Rightarrow> recall_config result" where
  "before_cat_recalls memory settings config =
     bindR (bindR (setting settings (memory @ ''_memory_k'')) as_k) (\<lambda>k.
     bindR (bindR (setting settings (memory @ ''_memory_threshold'')) as_threshold) (\<lambda>threshold.
     Inr (config\<lparr>rcf_k := k, rcf_threshold := threshold\<rparr>)))"

definition limits_hook :: "('q, 'x) settings_loader \<Rightarrow> string \<Rightarrow> (('q, 'x) stray, tea) hook_body" where
  "limits_hook load_settings memory args =
     (case args of
        TConfig cf # _ \<Rightarrow>
          bindM load_settings (\<lambda>settings. bindM (liftM (before_cat_recalls memory settings cf)) (\<lambda>cf'. retM (Some (TConfig cf'))))
      | _ \<Rightarrow> raiseM (Exn ''TypeError'' ''recall_config''))"

definition advanced_agent_prompt_suffix :: "('w, 'db, 'q, 'x) cheshire \<Rightarrow> pyval \<Rightarrow> string result" where
  "advanced_agent_prompt_suffix K settings =
     bindR (setting settings ''user_name'') (\<lambda>user_name.
     bindR (setting settings ''language'') (\<lambda>language.
     let username = (if user_name \<noteq> PStr [] then to_text K user_name else ''Human'');
         suffix = newline @ ''# Context'' @ newline @ newline @ ''{episodic_memory}'' @ newline @ newline @ ''{declarative_memory}'' @ newline @
           newline @ ''{tools_output}'' @ newline
     in Inr (suffix @
          (if language = PStr ''Human'' then newline @ ''ALWAYS answer in the '' @ username @ [CHR 0x27] @ ''s language'' @ newline
           else if language \<noteq> PStr ''None'' then newline @ ''ALWAYS answer in '' @ to_text K language @ newline
           else []) @
          newline @ ''## Conversation until now:'')))"

definition suffix_hook :: "('q, 'x) settings_loader \<Rightarrow> ('w, 'db, 'q, 'x) cheshire \<Rightarrow> (('q, 'x) stray, tea) hook_body" where
  "suffix_hook load_settings K args =
     bindM load_settings (\<lambda>settings. bindM (liftM (advanced_agent_prompt_suffix K settings)) (\<lambda>t. retM (Some (TText t))))"

definition advanced_splitter :: "pyval \<Rightarrow> splitter \<Rightarrow> splitter result" where
  "advanced_splitter settings sp =
     bindR (bindR (setting settings ''chunk_size'') as_step) (\<lambda>n.
     bindR (bindR (setting settings ''chunk_overlap'') as_step) (\<lambda>m.
     Inr (sp\<lparr>spl_chunk_size := n, spl_chunk_overlap := m\<rparr>)))"

definition splitter_hook :: "('q, 'x) settings_loader \<Rightarrow> (('q, 'x) stray, tea) hook_body" where
  "splitter_hook load_settings args =
     (case args of
        TSplitter sp # _ \<Rightarrow>
          bindM load_settings (\<lambda>settings. bindM (liftM (advanced_splitter settings sp)) (\<lambda>sp'. retM (Some (TSplitter sp'))))
      | _ \<Rightarrow> raiseM (Exn ''AttributeError'' ''text_splitter''))"

subsection \<open>Parsers\<close>

text \<open>
  \<open>ingest_anything.py\<close>. A parser is known by a number: 3 is TableParser, 4 LangChain's MsWordParser, 5 PowerPointParser and 6 EmailParser; 0 to 2 are
  those of the rabbit hole.
\<close>

definition new_handlers :: "(string, nat) dict" where
  "new_handlers =
     [(''text/csv'', 3), (''application/vnd.openxmlformats-officedocument.spreadsheetml.sheet'', 3),
      (''application/vnd.openxmlformats-officedocument.wordprocessingml.document'', 4), (''application/msword'', 4),
      (''application/vnd.openxmlformats-officedocument.presentationml.presentation'', 5), (''application/vnd.ms-powerpoint'', 5),
      (''application/powerpoint'', 5),
      (''message/rfc822'', 6), (''application/vnd.ms-outlook'', 6), (''application/octet-stream'', 6)]"

definition ingest_rabbithole_instantiates_parsers :: "(string, nat) dict \<Rightarrow> (string, nat) dict" where
  "ingest_rabbithole_instantiates_parsers handlers = dict_merge handlers new_handlers"

definition handlers_hook :: "(('q, 'x) stray, tea) hook_body" where
  "handlers_hook args =
     (case args of
        THandlers h # _ \<Rightarrow> retM (Some (THandlers (ingest_rabbithole_instantiates_parsers h)))
      | _ \<Rightarrow> raiseM (Exn ''TypeError'' ''file_handlers''))"

definition feedback_messages :: "string list" where
  "feedback_messages =
     [''... potrebbe tornarmi utile ...'', ''... interessante ...'', ''... me lo segno ...'',
      ''... mi torner'' @ [CHR 0xE0] @ '' utile ...'', ''... questi dati sono importanti ...'']"

definition insert_memory_hook :: "('w, 'db, 'q, 'x) cheshire \<Rightarrow> (('q, 'x) stray, tea) hook_body" where
  "insert_memory_hook K args =
     (case args of
        doc # _ \<Rightarrow>
          bindM (on_ext (cc_random K feedback_messages)) (\<lambda>random_message.
          bindM (send_ws_message K (PStr random_message) ''notification'') (\<lambda>_. retM (Some doc)))
      | [] \<Rightarrow> raiseM (Exn ''TypeError'' ''doc''))"

text \<open>
  \<open>parsers.py\<close>. The libraries that read the formats are fields: pandas gives the sheets of a workbook or one table, a sheet being the JSON list of its
  records; python-pptx the slides; the email package, extract-msg and BeautifulSoup the parts of a message. A shape is its text and its \<open>is_title\<close>,
  where it has them.
\<close>

record slide_shape =
  sh_text :: "string option"
  sh_is_title :: "bool option"

datatype email_body = Multipart "(string \<times> string) list" | SinglePart string string

record eml =
  em_subject :: string
  em_from :: string
  em_to :: string
  em_cc :: string
  em_body :: email_body

record outlook =
  ol_subject :: "string option"
  ol_sender :: "string option"
  ol_to :: "string option"
  ol_cc :: "string option"
  ol_body :: "string option"

record parser_env =
  pa_excel :: "string \<Rightarrow> (string, pyval list) dict result"
  pa_csv :: "string \<Rightarrow> pyval list result"
  pa_slides :: "string \<Rightarrow> slide_shape list list result"
  pa_email :: "string \<Rightarrow> eml result"
  pa_outlook :: "string \<Rightarrow> outlook result"
  pa_soup :: "(string \<Rightarrow> string) option"
  pa_dumps :: "pyval \<Rightarrow> string"

definition xlsx :: string where
  "xlsx = ''application/vnd.openxmlformats-officedocument.spreadsheetml.sheet''"

definition TableParser :: "parser_env \<Rightarrow> string \<Rightarrow> string \<Rightarrow> document result" where
  "TableParser P mimetype content =
     bindR (if mimetype = xlsx then bindR (pa_excel P content) (\<lambda>sheets. Inr (concat (dict_values sheets)))
        else if mimetype = ''text/csv'' then pa_csv P content
        else Inl (Exn ''UnboundLocalError'' ''all_records'')) (\<lambda>all_records.
     Inr (new_document (pa_dumps P (PList all_records))))"

definition pptx_mime_types :: "string list" where
  "pptx_mime_types =
     [''application/vnd.openxmlformats-officedocument.presentationml.presentation'', ''application/vnd.ms-powerpoint'', ''application/powerpoint'']"

definition slide_title :: "slide_shape list \<Rightarrow> string" where
  "slide_title shapes =
     (case List.find (\<lambda>sh. sh_text sh \<noteq> None \<and> sh_is_title sh = Some True) shapes of
        None \<Rightarrow> [] | Some sh \<Rightarrow> (case sh_text sh of None \<Rightarrow> [] | Some t \<Rightarrow> t))"

definition slide_content :: "slide_shape list \<Rightarrow> string" where
  "slide_content shapes = join newline (filter (\<lambda>t. t \<noteq> []) (List.map_filter sh_text shapes))"

definition slide_contents :: "slide_shape list list \<Rightarrow> json" where
  "slide_contents slides =
     map (\<lambda>(i, slide). (''Slide '' @ str_nat i,
       PDict [(''title'', PStr (slide_title slide)), (''content'', PStr (slide_content slide))])) (zip [1..<Suc (length slides)] slides)"

definition PowerPointParser :: "parser_env \<Rightarrow> string \<Rightarrow> string \<Rightarrow> document result" where
  "PowerPointParser P mimetype content =
     (if mimetype \<notin> set pptx_mime_types then Inl (Exn ''ValueError'' (''Unsupported mime type: '' @ mimetype))
      else bindR (pa_slides P content) (\<lambda>slides.
        Inr \<lparr>page_content = join (newline @ newline) (map slide_content slides),
             metadata = [(''slide_contents'', PDict (slide_contents slides))]\<rparr>))"

text \<open>The body of a message with parts: all plain texts, and HTML only as long as nothing was found before it.\<close>

fun multipart_body :: "(string \<Rightarrow> string) option \<Rightarrow> (string \<times> string) list \<Rightarrow> string \<Rightarrow> string" where
  "multipart_body soup [] body = body"
| "multipart_body soup ((content_type, content) # parts) body =
     multipart_body soup parts
       (if content_type = ''text/plain'' then body @ content @ newline @ newline
        else case soup of
            Some get_text \<Rightarrow> if content_type = ''text/html'' \<and> body = [] then body @ get_text content @ newline @ newline else body
          | None \<Rightarrow> body)"

definition email_text :: "(string \<Rightarrow> string) option \<Rightarrow> email_body \<Rightarrow> string" where
  "email_text soup b =
     (case b of
        Multipart parts \<Rightarrow> multipart_body soup parts []
      | SinglePart content_type content \<Rightarrow>
          if content_type = ''text/plain'' then content
          else (case soup of Some get_text \<Rightarrow> if content_type = ''text/html'' then get_text content else [] | None \<Rightarrow> []))"

definition email_mime_types :: "string list" where
  "email_mime_types = [''message/rfc822'', ''application/vnd.ms-outlook'', ''application/octet-stream'']"

definition has_suffix :: "string \<Rightarrow> string \<Rightarrow> bool" where
  "has_suffix ending path = suffix ending (lower path)"

definition full_content :: "string option \<Rightarrow> string option \<Rightarrow> string option \<Rightarrow> string option \<Rightarrow> string option \<Rightarrow> string" where
  "full_content sender recipients cc subject body =
     (let part = (\<lambda>label v. case v of None \<Rightarrow> [] | Some t \<Rightarrow> if t = [] then [] else [label @ t])
      in join newline (part ''Da: '' sender @ part ''A: '' recipients @ part ''CC: '' cc @ part ''Oggetto: '' subject @ part newline body))"

definition EmailParser :: "parser_env \<Rightarrow> string \<Rightarrow> string \<Rightarrow> string \<Rightarrow> document result" where
  "EmailParser P mimetype path content =
     (if mimetype \<notin> set email_mime_types \<and> \<not> (has_suffix ''.eml'' path \<or> has_suffix ''.msg'' path)
      then Inl (Exn ''ValueError'' (''Unsupported mime type: '' @ mimetype))
      else if mimetype = ''message/rfc822'' \<or> has_suffix ''.eml'' path then
        bindR (pa_email P content) (\<lambda>msg.
        Inr (new_document (full_content (Some (em_from msg)) (Some (em_to msg)) (Some (em_cc msg)) (Some (em_subject msg))
          (Some (email_text (pa_soup P) (em_body msg))))))
      else if mimetype = ''application/vnd.ms-outlook'' \<or> has_suffix ''.msg'' path then
        bindR (pa_outlook P content) (\<lambda>msg.
        Inr (new_document (full_content (ol_sender msg) (ol_to msg) (ol_cc msg) (ol_subject msg) (ol_body msg))))
      else Inl (Exn ''ValueError'' (''Unsupported email format: '' @ mimetype)))"

subsection \<open>Lemmas\<close>

text \<open>The groups of \<open>n\<close> neighbours that aggregation is after.\<close>

function groups :: "nat \<Rightarrow> 'a list \<Rightarrow> 'a list list" where
  "groups n xs = (if n = 0 \<or> xs = [] then [] else take n xs # groups n (drop n xs))"
  by auto
termination by (relation "measure (\<lambda>(n, xs). length xs)") auto

declare groups.simps [simp del]

lemma concat_groups: "0 < n \<Longrightarrow> concat (groups n xs) = xs"
proof (induction n xs rule: groups.induct)
  case (1 n xs)
  then show ?case by (cases "xs = []") (simp_all add: groups.simps [of n xs] groups.simps [of n "[]"])
qed

lemma groups_slices: "0 < n \<Longrightarrow> groups n xs = map (\<lambda>k. take n (drop (k * n) xs)) [0..<(length xs + n - 1) div n]"
proof (induction n xs rule: groups.induct)
  case (1 n xs)
  show ?case
  proof (cases "xs = []")
    case False
    have "(length xs + n - 1) div n = Suc ((length xs - 1) div n)"
      using False 1(2) by (cases xs) simp_all
    moreover have "(length (drop n xs) + n - 1) div n = (length xs - 1) div n"
      using 1(2) by (cases "n \<le> length xs") simp_all
    ultimately have "[0..<(length xs + n - 1) div n] = 0 # map Suc [0..<(length (drop n xs) + n - 1) div n]"
      by (simp add: map_Suc_upt upt_conv_Cons)
    moreover have "groups n xs = take n xs # groups n (drop n xs)" using False 1(2) by (simp add: groups.simps [of n xs])
    ultimately show ?thesis using 1 False by (simp add: add.commute)
  next
    case True
    then show ?thesis using 1(2) by (simp add: groups.simps)
  qed
qed

lemma steps_count:
  fixes n m :: nat
  assumes "0 < n"
  shows "(m + n - 1) div n = m div n + (if n dvd m then 0 else 1)"
proof -
  have m: "m + n - 1 = (m mod n + n - 1) + m div n * n" using assms div_mult_mod_eq [of m n] by linarith
  have "(m + n - 1) div n = m div n + (m mod n + n - 1) div n" unfolding m by (rule div_mult_self1) (use assms in simp)
  moreover have "(m mod n + n - 1) div n = (if n dvd m then 0 else 1)"
  proof (cases "n dvd m")
    case False
    then have r: "m mod n \<noteq> 0" "m mod n < n" using assms by (simp_all add: dvd_eq_mod_eq_0)
    have "(m mod n + n - 1) div n = ((m mod n - 1) + 1 * n) div n" using r(1) by (simp add: add.commute)
    also have "\<dots> = 1 + (m mod n - 1) div n" by (rule div_mult_self1) (use assms in simp)
    finally show ?thesis using r False by simp
  qed (use assms in simp)
  ultimately show ?thesis by simp
qed

lemma aggregate_append: "aggregate n (is @ js) xs = aggregate n js (aggregate n is xs)"
  by (induction "is" arbitrary: xs) simp_all

lemma aggregate_full:
  assumes "j * n \<le> length xs"
  shows "aggregate n (map (\<lambda>k. k * n) [0..<j]) xs = xs @ map (\<lambda>k. new_document (chunk_text (take n (drop (k * n) xs)))) [0..<j]"
  using assms
proof (induction j)
  case (Suc j)
  then have "n \<le> length xs - j * n" by simp
  with Suc show ?case by (simp add: aggregate_append)
qed simp

text \<open>The texts that are appended: the last group, if it is not full, goes on with the first texts.\<close>

definition appended_texts :: "nat \<Rightarrow> document list \<Rightarrow> string list" where
  "appended_texts n chunks =
     (let texts = map chunk_text (groups n chunks) in
      if n dvd length chunks then texts
      else butlast texts @ [last texts @ concat (take (n - length chunks mod n) (butlast texts))])"

lemma chunk_text_append: "chunk_text (xs @ ys) = chunk_text xs @ chunk_text ys"
  by (simp add: chunk_text_def)

lemma chunk_text_concat: "chunk_text (concat gs) = concat (map chunk_text gs)"
  by (induction gs) (simp_all add: chunk_text_def)

lemma chunk_text_new: "chunk_text (map new_document ts) = concat ts"
  by (simp add: chunk_text_def new_document_def comp_def)

lemma aggregate_texts:
  assumes "0 < n"
  shows "aggregate n (map (\<lambda>k. k * n) [0..<(length xs + n - 1) div n]) xs = xs @ map new_document (appended_texts n xs)"
proof -
  let ?q = "length xs div n"
  let ?full = "map (\<lambda>k. chunk_text (take n (drop (k * n) xs))) [0..<?q]"
  have full: "aggregate n (map (\<lambda>k. k * n) [0..<?q]) xs = xs @ map new_document ?full"
    using aggregate_full [of ?q n xs] by (simp add: comp_def)
  have steps: "(length xs + n - 1) div n = ?q + (if n dvd length xs then 0 else 1)" by (rule steps_count [OF assms])
  have slices: "map chunk_text (groups n xs) = map (\<lambda>k. chunk_text (take n (drop (k * n) xs))) [0..<?q + (if n dvd length xs then 0 else 1)]"
    unfolding groups_slices [OF assms] steps by simp
  show ?thesis unfolding steps
  proof (cases "n dvd length xs")
    case True
    then show "aggregate n (map (\<lambda>k. k * n) [0..<?q + (if n dvd length xs then 0 else 1)]) xs = xs @ map new_document (appended_texts n xs)"
      using full slices by (simp add: appended_texts_def)
  next
    case False
    have texts: "map chunk_text (groups n xs) = ?full @ [chunk_text (take n (drop (?q * n) xs))]"
      using False slices by simp
    have len: "length xs - ?q * n = length xs mod n" by (simp add: minus_div_mult_eq_mod)
    have short: "length xs mod n < n" using assms by simp
    have "take n (drop (?q * n) (xs @ map new_document ?full)) =
        take n (drop (?q * n) xs) @ map new_document (take (n - length xs mod n) ?full)"
      by (simp add: len take_map)
    then have "aggregate n (map (\<lambda>k. k * n) [0..<Suc ?q]) xs = xs @ map new_document ?full @
        [new_document (chunk_text (take n (drop (?q * n) xs)) @ concat (take (n - length xs mod n) ?full))]"
      using full by (simp add: aggregate_append chunk_text_append chunk_text_new)
    then show "aggregate n (map (\<lambda>k. k * n) [0..<?q + (if n dvd length xs then 0 else 1)]) xs = xs @ map new_document (appended_texts n xs)"
      using False texts by (simp add: appended_texts_def)
  qed
qed

subsection \<open>Properties\<close>


text \<open>
  The two plugins that hook into the recall of documents do not disturb each other: in whatever order their hooks run, the recall is done with the
  limits of one plugin's settings and with the flags of the other, and with nothing else changed.
\<close>

theorem recall_hooks_commute:
  assumes "load_settings c = (Inr settings, c)" "before_cat_recalls ''declarative'' settings cf = Inr cf'"
    and "file_access_ok A" "load_user_status_with_schema (fa_files A (sr_ext c)) = Inr us"
    and "hk_function g = limits_hook load_settings ''declarative''" "hk_function h = declarative_hook A"
  shows "pipe_hooks ps [] [g, h] (TConfig cf) c = pipe_hooks ps [] [h, g] (TConfig cf) c \<and>
    pipe_hooks ps [] [g, h] (TConfig cf) c =
      (Inr (TConfig \<lparr>rcf_embedding = rcf_embedding cf, rcf_k = rcf_k cf', rcf_threshold = rcf_threshold cf',
         rcf_metadata = flags (sr_user_id c) (active_tags_of us (sr_user_id c))\<rparr>), c)"
proof -
  let ?f = "flags (sr_user_id c) (active_tags_of us (sr_user_id c))"
  obtain k t where cf': "cf' = cf\<lparr>rcf_k := k, rcf_threshold := t\<rparr>"
    and other: "before_cat_recalls ''declarative'' settings x = Inr (x\<lparr>rcf_k := k, rcf_threshold := t\<rparr>)" for x
    using assms(2) by (auto simp: before_cat_recalls_def bindR_Inr_iff)
  have g: "hk_function g [TConfig x] c = (Inr (Some (TConfig (x\<lparr>rcf_k := k, rcf_threshold := t\<rparr>))), c)" for x
    using assms(1,5) other by (simp add: limits_hook_def bindM_def)
  have h: "hk_function h [TConfig x] c = (Inr (Some (TConfig (x\<lparr>rcf_metadata := ?f\<rparr>))), c)" for x
    using assms(4,6) by (simp add: declarative_hook_run [OF assms(3)])
  have "pipe_hooks ps [] [g, h] (TConfig cf) c = (Inr (TConfig (cf\<lparr>rcf_k := k, rcf_threshold := t, rcf_metadata := ?f\<rparr>)), c)"
    "pipe_hooks ps [] [h, g] (TConfig cf) c = (Inr (TConfig (cf\<lparr>rcf_k := k, rcf_threshold := t, rcf_metadata := ?f\<rparr>)), c)"
    using g h by (simp_all add: bindM_def catchM_def)
  then show ?thesis using cf' by (cases cf) simp
qed


theorem recall_hooks_commute_witness:
  "pipe_hooks [''docs''] []
     [(CatHook ''before_cat_recalls_declarative_memories'' (limits_hook (retM (PDict advanced_defaults)) ''declarative'') 1)\<lparr>hk_plugin_id := ''docs''\<rparr>, recall_hook]
     (TConfig \<lparr>rcf_embedding = [1, 0], rcf_k = 9, rcf_threshold = None, rcf_metadata = []\<rparr>) alice_session =
   (Inr (TConfig \<lparr>rcf_embedding = [1, 0], rcf_k = 3, rcf_threshold = Some (7/10), rcf_metadata = flags ''alice'' [''tea'']\<rparr>), alice_session)"
proof -
  let ?cf = "\<lparr>rcf_embedding = [1, 0], rcf_k = 9, rcf_threshold = None, rcf_metadata = []\<rparr>"
  let ?g = "(CatHook ''before_cat_recalls_declarative_memories'' (limits_hook (retM (PDict advanced_defaults)) ''declarative'') 1)\<lparr>hk_plugin_id := ''docs''\<rparr>"
  have load: "retM (PDict advanced_defaults) alice_session = (Inr (PDict advanced_defaults), alice_session)" by simp
  have limits: "before_cat_recalls ''declarative'' (PDict advanced_defaults) ?cf = Inr (?cf\<lparr>rcf_k := 3, rcf_threshold := Some (7/10)\<rparr>)"
    by (simp add: before_cat_recalls_def setting_def item_def advanced_defaults_def as_k_def as_threshold_def)
  have ok: "file_access_ok the_files" by (simp add: file_access_ok_def the_files_def)
  have ext: "fa_files the_files (sr_ext alice_session) = demo_files" "sr_user_id alice_session = ''alice''"
    by (simp_all add: the_files_def alice_session_def)
  have hooks: "hk_function ?g = limits_hook (retM (PDict advanced_defaults)) ''declarative''" "hk_function recall_hook = declarative_hook the_files"
    by (simp_all add: CatHook_def recall_hook_def)
  show ?thesis
    using recall_hooks_commute [OF load limits ok _ hooks, unfolded ext, OF demo_files_load(3), of "[''docs'']", THEN conjunct2]
    by (simp add: demo_files_load(2) del: pipe_hooks.simps)
qed

end
