(* ===== verification/Models.thy ===== *)
theory Models
  imports Cheshire_Cat Cache "HOL-Library.List_Lexorder" "HOL-Library.Char_ord"
begin

text \<open>
  The models that can be connected: the configuration classes of \<open>core/cat/factory/llm.py\<close> and \<open>core/cat/factory/embedder.py\<close>, and the
  adapters of \<open>core/cat/factory/custom_llm.py\<close> and \<open>core/cat/factory/custom_embedder.py\<close>. HTTP and scikit-learn's \<open>CountVectorizer\<close> are
  parameters, and so are the model classes of other packages, which only have their names here.
\<close>

subsection \<open>Configuration classes\<close>

text \<open>A class has the name of the class it instantiates, its fields with their types and defaults (None for a required field), and what it adds to its schema.\<close>

datatype field_kind = StrField | FloatField | IntField | BoolField | EnumField

record config_class =
  cm_name :: string
  cm_pyclass :: string
  cm_fields :: "(string \<times> field_kind \<times> pyval option) list"
  cm_extra :: json

definition LLMDefaultConfig :: config_class where
  "LLMDefaultConfig =
     \<lparr>cm_name = ''LLMDefaultConfig'', cm_pyclass = ''LLMDefault'',
      cm_fields = [],
      cm_extra = [(''humanReadableName'', PStr ''Default Language Model''),
        (''description'', PStr ''A dumb LLM just telling that the Cat is not configured. There will be a nice LLM here once consumer hardware allows it.''),
        (''link'', PStr [])]\<rparr>"

definition LLMCustomConfig :: config_class where
  "LLMCustomConfig =
     \<lparr>cm_name = ''LLMCustomConfig'', cm_pyclass = ''LLMCustom'',
      cm_fields = [(''url'', StrField, None), (''auth_key'', StrField, Some (PStr ''optional_auth_key'')),
        (''options'', StrField, Some (PStr ''{}''))],
      cm_extra = [(''humanReadableName'', PStr ''Custom LLM (Deprecated)''),
        (''description'', PStr ''Legacy LLM adapter, you can now have it more custom in a plugin.''),
        (''link'', PStr ''https://cheshirecat.ai/custom-large-language-model/'')]\<rparr>"

definition LLMOpenAICompatibleConfig :: config_class where
  "LLMOpenAICompatibleConfig =
     \<lparr>cm_name = ''LLMOpenAICompatibleConfig'', cm_pyclass = ''CustomOpenAI'',
      cm_fields = [(''url'', StrField, None), (''temperature'', FloatField, Some (PFloat (1/100))), (''model_name'', StrField, None),
        (''api_key'', StrField, None), (''streaming'', BoolField, Some (PBool True))],
      cm_extra = [(''humanReadableName'', PStr ''OpenAI-compatible API''),
        (''description'', PStr ''Configuration for OpenAI-compatible APIs, e.g. llama-cpp-python server, text-generation-webui, OpenRouter, TinyLLM, TogetherAI and many others.''),
        (''link'', PStr [])]\<rparr>"

definition LLMOpenAIChatConfig :: config_class where
  "LLMOpenAIChatConfig =
     \<lparr>cm_name = ''LLMOpenAIChatConfig'', cm_pyclass = ''ChatOpenAI'',
      cm_fields = [(''openai_api_key'', StrField, None), (''model_name'', StrField, Some (PStr ''gpt-4o-mini'')),
        (''temperature'', FloatField, Some (PFloat (7/10))), (''streaming'', BoolField, Some (PBool True))],
      cm_extra = [(''humanReadableName'', PStr ''OpenAI ChatGPT''), (''description'', PStr ''Chat model from OpenAI''),
        (''link'', PStr ''https://platform.openai.com/docs/models/overview'')]\<rparr>"

definition LLMOpenAIConfig :: config_class where
  "LLMOpenAIConfig =
     \<lparr>cm_name = ''LLMOpenAIConfig'', cm_pyclass = ''OpenAI'',
      cm_fields = [(''openai_api_key'', StrField, None), (''model_name'', StrField, Some (PStr ''gpt-3.5-turbo-instruct'')),
        (''temperature'', FloatField, Some (PFloat (7/10))), (''streaming'', BoolField, Some (PBool True))],
      cm_extra = [(''humanReadableName'', PStr ''OpenAI GPT-3''),
        (''description'', PStr ''OpenAI GPT-3. More expensive but also more flexible than ChatGPT.''),
        (''link'', PStr ''https://platform.openai.com/docs/models/overview'')]\<rparr>"

definition LLMAzureChatOpenAIConfig :: config_class where
  "LLMAzureChatOpenAIConfig =
     \<lparr>cm_name = ''LLMAzureChatOpenAIConfig'', cm_pyclass = ''AzureChatOpenAI'',
      cm_fields = [(''openai_api_key'', StrField, None), (''model_name'', StrField, Some (PStr ''gpt-35-turbo'')),
        (''azure_endpoint'', StrField, None), (''max_tokens'', IntField, Some (PInt 2048)),
        (''openai_api_type'', StrField, Some (PStr ''azure'')), (''openai_api_version'', StrField, Some (PStr ''2023-05-15'')),
        (''azure_deployment'', StrField, None), (''streaming'', BoolField, Some (PBool True))],
      cm_extra = [(''humanReadableName'', PStr ''Azure OpenAI Chat Models''), (''description'', PStr ''Chat model from Azure OpenAI''),
        (''link'', PStr ''https://azure.microsoft.com/en-us/products/ai-services/openai-service'')]\<rparr>"

definition LLMAzureOpenAIConfig :: config_class where
  "LLMAzureOpenAIConfig =
     \<lparr>cm_name = ''LLMAzureOpenAIConfig'', cm_pyclass = ''AzureOpenAI'',
      cm_fields = [(''openai_api_key'', StrField, None), (''azure_endpoint'', StrField, None), (''max_tokens'', IntField, Some (PInt 2048)),
        (''api_type'', StrField, Some (PStr ''azure'')), (''api_version'', StrField, Some (PStr ''2023-05-15'')),
        (''azure_deployment'', StrField, Some (PStr ''gpt-35-turbo-instruct'')),
        (''model_name'', StrField, Some (PStr ''gpt-35-turbo-instruct'')), (''streaming'', BoolField, Some (PBool True))],
      cm_extra = [(''humanReadableName'', PStr ''Azure OpenAI Completion models''),
        (''description'', PStr ''Configuration for Cognitive Services Azure OpenAI''),
        (''link'', PStr ''https://azure.microsoft.com/en-us/products/ai-services/openai-service'')]\<rparr>"

definition LLMCohereConfig :: config_class where
  "LLMCohereConfig =
     \<lparr>cm_name = ''LLMCohereConfig'', cm_pyclass = ''ChatCohere'',
      cm_fields = [(''cohere_api_key'', StrField, None), (''model'', StrField, Some (PStr ''command'')),
        (''temperature'', FloatField, Some (PFloat (7/10))), (''streaming'', BoolField, Some (PBool True))],
      cm_extra = [(''humanReadableName'', PStr ''Cohere''), (''description'', PStr ''Configuration for Cohere language model''),
        (''link'', PStr ''https://docs.cohere.com/docs/models'')]\<rparr>"

definition LLMHuggingFaceTextGenInferenceConfig :: config_class where
  "LLMHuggingFaceTextGenInferenceConfig =
     \<lparr>cm_name = ''LLMHuggingFaceTextGenInferenceConfig'', cm_pyclass = ''HuggingFaceTextGenInference'',
      cm_fields = [(''inference_server_url'', StrField, None), (''max_new_tokens'', IntField, Some (PInt 512)),
        (''top_k'', IntField, Some (PInt 10)), (''top_p'', FloatField, Some (PFloat (19/20))),
        (''typical_p'', FloatField, Some (PFloat (19/20))), (''temperature'', FloatField, Some (PFloat (1/100))),
        (''repetition_penalty'', FloatField, Some (PFloat (103/100)))],
      cm_extra = [(''humanReadableName'', PStr ''HuggingFace TextGen Inference''),
        (''description'', PStr ''Configuration for HuggingFace TextGen Inference''),
        (''link'', PStr ''https://huggingface.co/text-generation-inference'')]\<rparr>"

definition LLMHuggingFaceEndpointConfig :: config_class where
  "LLMHuggingFaceEndpointConfig =
     \<lparr>cm_name = ''LLMHuggingFaceEndpointConfig'', cm_pyclass = ''HuggingFaceEndpoint'',
      cm_fields = [(''endpoint_url'', StrField, None), (''huggingfacehub_api_token'', StrField, None),
        (''task'', StrField, Some (PStr ''text-generation'')), (''max_new_tokens'', IntField, Some (PInt 512)),
        (''top_k'', IntField, Some (PNone)), (''top_p'', FloatField, Some (PFloat (19/20))),
        (''temperature'', FloatField, Some (PFloat (4/5))), (''return_full_text'', BoolField, Some (PBool False))],
      cm_extra = [(''humanReadableName'', PStr ''HuggingFace Endpoint''),
        (''description'', PStr ''Configuration for HuggingFace Endpoint language models''),
        (''link'', PStr ''https://huggingface.co/inference-endpoints'')]\<rparr>"

definition LLMOllamaConfig :: config_class where
  "LLMOllamaConfig =
     \<lparr>cm_name = ''LLMOllamaConfig'', cm_pyclass = ''CustomOllama'',
      cm_fields = [(''base_url'', StrField, None), (''model'', StrField, Some (PStr ''llama3'')), (''num_ctx'', IntField, Some (PInt 2048)),
        (''repeat_last_n'', IntField, Some (PInt 64)), (''repeat_penalty'', FloatField, Some (PFloat (11/10))),
        (''temperature'', FloatField, Some (PFloat (4/5)))],
      cm_extra = [(''humanReadableName'', PStr ''Ollama''), (''description'', PStr ''Configuration for Ollama''),
        (''link'', PStr ''https://ollama.ai/library'')]\<rparr>"

definition LLMGeminiChatConfig :: config_class where
  "LLMGeminiChatConfig =
     \<lparr>cm_name = ''LLMGeminiChatConfig'', cm_pyclass = ''ChatGoogleGenerativeAI'',
      cm_fields = [(''google_api_key'', StrField, None), (''model'', StrField, Some (PStr ''gemini-1.5-pro-latest'')),
        (''temperature'', FloatField, Some (PFloat (1/10))), (''top_p'', IntField, Some (PInt 1)),
        (''top_k'', IntField, Some (PInt 1)), (''max_output_tokens'', IntField, Some (PInt 29000))],
      cm_extra = [(''humanReadableName'', PStr ''Google Gemini''), (''description'', PStr ''Configuration for Gemini''),
        (''link'', PStr ''https://deepmind.google/technologies/gemini'')]\<rparr>"

definition LLMAnthropicChatConfig :: config_class where
  "LLMAnthropicChatConfig =
     \<lparr>cm_name = ''LLMAnthropicChatConfig'', cm_pyclass = ''ChatAnthropic'',
      cm_fields = [(''api_key'', StrField, None), (''model'', StrField, Some (PStr ''claude-3-5-sonnet-20241022'')),
        (''temperature'', FloatField, Some (PFloat (7/10))), (''max_tokens'', IntField, Some (PInt 8192)),
        (''max_retries'', IntField, Some (PInt 2))],
      cm_extra = [(''humanReadableName'', PStr ''Anthropic''), (''description'', PStr ''Configuration for Anthropic''),
        (''link'', PStr ''https://www.anthropic.com/'')]\<rparr>"

definition EmbedderFakeConfig :: config_class where
  "EmbedderFakeConfig =
     \<lparr>cm_name = ''EmbedderFakeConfig'', cm_pyclass = ''FakeEmbeddings'',
      cm_fields = [(''size'', IntField, Some (PInt 128))],
      cm_extra = [(''humanReadableName'', PStr ''Default Embedder''),
        (''description'', PStr ''Configuration for default embedder. It just outputs random numbers.''), (''link'', PStr [])]\<rparr>"

definition EmbedderDumbConfig :: config_class where
  "EmbedderDumbConfig =
     \<lparr>cm_name = ''EmbedderDumbConfig'', cm_pyclass = ''DumbEmbedder'',
      cm_fields = [],
      cm_extra = [(''humanReadableName'', PStr ''Dumb Embedder''),
        (''description'', PStr ''Configuration for default embedder. It encodes the pairs of characters''), (''link'', PStr [])]\<rparr>"

definition EmbedderOpenAICompatibleConfig :: config_class where
  "EmbedderOpenAICompatibleConfig =
     \<lparr>cm_name = ''EmbedderOpenAICompatibleConfig'', cm_pyclass = ''CustomOpenAIEmbeddings'',
      cm_fields = [(''url'', StrField, None)],
      cm_extra = [(''humanReadableName'', PStr ''OpenAI-compatible API embedder''),
        (''description'', PStr ''Configuration for OpenAI-compatible API embeddings''), (''link'', PStr [])]\<rparr>"

definition EmbedderOllamaConfig :: config_class where
  "EmbedderOllamaConfig =
     \<lparr>cm_name = ''EmbedderOllamaConfig'', cm_pyclass = ''CustomOllamaEmbeddings'',
      cm_fields = [(''base_url'', StrField, None), (''model'', StrField, Some (PStr ''mxbai-embed-large''))],
      cm_extra = [(''humanReadableName'', PStr ''Ollama embeddding models''),
        (''description'', PStr ''Configuration for Ollama embeddings API''), (''link'', PStr []),
        (''model'', PStr ''mxbai-embed-large'')]\<rparr>"

definition EmbedderOpenAIConfig :: config_class where
  "EmbedderOpenAIConfig =
     \<lparr>cm_name = ''EmbedderOpenAIConfig'', cm_pyclass = ''OpenAIEmbeddings'',
      cm_fields = [(''openai_api_key'', StrField, None), (''model'', StrField, Some (PStr ''text-embedding-ada-002''))],
      cm_extra = [(''humanReadableName'', PStr ''OpenAI Embedder''), (''description'', PStr ''Configuration for OpenAI embeddings''),
        (''link'', PStr ''https://platform.openai.com/docs/models/overview'')]\<rparr>"

definition EmbedderAzureOpenAIConfig :: config_class where
  "EmbedderAzureOpenAIConfig =
     \<lparr>cm_name = ''EmbedderAzureOpenAIConfig'', cm_pyclass = ''AzureOpenAIEmbeddings'',
      cm_fields = [(''openai_api_key'', StrField, None), (''model'', StrField, None), (''azure_endpoint'', StrField, None),
        (''openai_api_type'', StrField, Some (PStr ''azure'')), (''openai_api_version'', StrField, None),
        (''deployment'', StrField, None)],
      cm_extra = [(''humanReadableName'', PStr ''Azure OpenAI Embedder''),
        (''description'', PStr ''Configuration for Azure OpenAI embeddings''),
        (''link'', PStr ''https://azure.microsoft.com/en-us/products/ai-services/openai-service'')]\<rparr>"

definition EmbedderCohereConfig :: config_class where
  "EmbedderCohereConfig =
     \<lparr>cm_name = ''EmbedderCohereConfig'', cm_pyclass = ''CohereEmbeddings'',
      cm_fields = [(''cohere_api_key'', StrField, None), (''model'', StrField, Some (PStr ''embed-multilingual-v2.0''))],
      cm_extra = [(''humanReadableName'', PStr ''Cohere Embedder''), (''description'', PStr ''Configuration for Cohere embeddings''),
        (''link'', PStr ''https://docs.cohere.com/docs/models'')]\<rparr>"

definition EmbedderQdrantFastEmbedConfig :: config_class where
  "EmbedderQdrantFastEmbedConfig =
     \<lparr>cm_name = ''EmbedderQdrantFastEmbedConfig'', cm_pyclass = ''FastEmbedEmbeddings'',
      cm_fields = [(''model_name'', EnumField, Some (PStr ''BAAI/bge-base-en'')), (''max_length'', IntField, Some (PInt 512)),
        (''doc_embed_type'', StrField, Some (PStr ''passage'')),
        (''cache_dir'', StrField, Some (PStr ''cat/data/models/fast_embed''))],
      cm_extra = [(''humanReadableName'', PStr ''Qdrant FastEmbed (Local)''), (''description'', PStr ''Configuration for Qdrant FastEmbed''),
        (''link'', PStr ''https://qdrant.github.io/fastembed/'')]\<rparr>"

definition EmbedderGeminiChatConfig :: config_class where
  "EmbedderGeminiChatConfig =
     \<lparr>cm_name = ''EmbedderGeminiChatConfig'', cm_pyclass = ''GoogleGenerativeAIEmbeddings'',
      cm_fields = [(''google_api_key'', StrField, None), (''model'', StrField, Some (PStr ''models/embedding-001''))],
      cm_extra = [(''humanReadableName'', PStr ''Google Gemini Embedder''), (''description'', PStr ''Configuration for Gemini Embedder''),
        (''link'', PStr ''https://cloud.google.com/vertex-ai/docs/generative-ai/model-reference/text-embeddings?hl=en'')]\<rparr>"

definition llm_config_classes :: "config_class list" where
  "llm_config_classes =
     [LLMOpenAIChatConfig, LLMOpenAIConfig, LLMOpenAICompatibleConfig, LLMOllamaConfig, LLMGeminiChatConfig, LLMCohereConfig,
      LLMAzureOpenAIConfig, LLMAzureChatOpenAIConfig, LLMHuggingFaceEndpointConfig, LLMHuggingFaceTextGenInferenceConfig,
      LLMAnthropicChatConfig, LLMCustomConfig, LLMDefaultConfig]"

definition embedder_config_classes :: "config_class list" where
  "embedder_config_classes =
     [EmbedderQdrantFastEmbedConfig, EmbedderOpenAIConfig, EmbedderAzureOpenAIConfig, EmbedderGeminiChatConfig,
      EmbedderOpenAICompatibleConfig, EmbedderCohereConfig, EmbedderDumbConfig, EmbedderFakeConfig, EmbedderOllamaConfig]"

text \<open>What a client has to send, and what a configuration is completed with.\<close>

definition required_of :: "config_class \<Rightarrow> string list" where
  "required_of C = map fst (filter (\<lambda>(k, t, d). d = None) (cm_fields C))"

definition defaults_of :: "config_class \<Rightarrow> json" where
  "defaults_of C = List.map_filter (\<lambda>(k, t, d). map_option (Pair k) d) (cm_fields C)"

subsection \<open>Adapters of language models\<close>

definition LLMDefault_call :: "string \<Rightarrow> string" where
  "LLMDefault_call prompt = ''You did not configure a Language Model. Do it in the settings!''"

record http_response =
  hr_failed :: "exn option"
  hr_json :: "pyval result"

record 'x http_client =
  hc_requests :: "string \<Rightarrow> json \<Rightarrow> ('x, pyval) comp"
  hc_httpx :: "string \<Rightarrow> string \<Rightarrow> ('x, http_response) comp"
  hc_dumps :: "json \<Rightarrow> string"

definition LLMCustom_call :: "'x http_client \<Rightarrow> string \<Rightarrow> string \<Rightarrow> json \<Rightarrow> string \<Rightarrow> ('x, pyval) comp" where
  "LLMCustom_call H url auth_key options prompt =
     (let request_body = [(''text'', PStr prompt), (''auth_key'', PStr auth_key), (''options'', PDict options)] in
      bindM (catchM (hc_requests H url request_body)
        (\<lambda>e. raiseM (Exn ''ValueError'' ''Custom LLM endpoint error during http POST request''))) (\<lambda>response_json.
      bindM (liftM (as_dict response_json)) (\<lambda>d. liftM (item d ''text''))))"

text \<open>\<open>super().__init__(model_kwargs={}, base_url=kwargs["url"], **kwargs)\<close>: an argument given twice is an error.\<close>

definition CustomOpenAI_arguments :: "json \<Rightarrow> json result" where
  "CustomOpenAI_arguments kwargs =
     bindR (item kwargs ''url'') (\<lambda>url.
       if ''model_kwargs'' \<in> set (keys kwargs) \<or> ''base_url'' \<in> set (keys kwargs)
       then Inl (Exn ''TypeError'' ''got multiple values for keyword argument'')
       else Inr ([(''model_kwargs'', PDict []), (''base_url'', url)] @ kwargs))"

definition CustomOllama_arguments :: "json \<Rightarrow> json result" where
  "CustomOllama_arguments kwargs =
     bindR (item kwargs ''base_url'') (\<lambda>v.
       case v of
         PStr base_url \<Rightarrow> Inr (if suffix ''/'' base_url then AList.update ''base_url'' (PStr (butlast base_url)) kwargs else kwargs)
       | _ \<Rightarrow> Inl (Exn ''AttributeError'' ''endswith''))"

subsection \<open>Adapters of embedders\<close>

definition as_vector :: "pyval \<Rightarrow> real list result" where
  "as_vector v =
     bindR (as_list v) (mapR (\<lambda>x. case x of PFloat r \<Rightarrow> Inr r | PInt i \<Rightarrow> Inr (of_int i) | _ \<Rightarrow> Inl (Exn ''TypeError'' ''vector'')))"

text \<open>POST, \<open>raise_for_status\<close> and \<open>json\<close>.\<close>

definition post_json :: "'x http_client \<Rightarrow> string \<Rightarrow> json \<Rightarrow> ('x, json) comp" where
  "post_json H url payload =
     bindM (hc_httpx H url (hc_dumps H payload)) (\<lambda>ret.
       case hr_failed ret of
         Some e \<Rightarrow> raiseM e
       | None \<Rightarrow> liftM (bindR (hr_json ret) as_dict))"

definition CustomOpenAIEmbeddings :: "'x http_client \<Rightarrow> string \<Rightarrow> 'x embedder" where
  "CustomOpenAIEmbeddings H base =
     (let url = path_join base ''v1/embeddings'';
          data = (\<lambda>payload. bindM (post_json H url payload) (\<lambda>d. liftM (bindR (item d ''data'') as_list)));
          embedding = (\<lambda>e. bindR (as_dict e) (\<lambda>d. bindR (item d ''embedding'') as_vector))
      in \<lparr>em_class = ''CustomOpenAIEmbeddings'', em_model = None, em_repo_id = None,
          em_embed_query = (\<lambda>t. bindM (data [(''input'', PStr t)]) (\<lambda>es.
            liftM (case es of [] \<Rightarrow> Inl (Exn ''IndexError'' ''list index out of range'') | e # _ \<Rightarrow> embedding e))),
          em_embed_documents = (\<lambda>texts. bindM (data [(''input'', PList (map PStr texts))]) (\<lambda>es. liftM (mapR embedding es)))\<rparr>)"

definition CustomOllamaEmbeddings :: "'x http_client \<Rightarrow> string \<Rightarrow> string \<Rightarrow> 'x embedder" where
  "CustomOllamaEmbeddings H base_url model =
     (let url = path_join base_url ''api/embed'';
          embeddings = (\<lambda>input. bindM (post_json H url [(''model'', PStr model), (''input'', input)]) (\<lambda>d.
            liftM (bindR (item d ''embeddings'') as_list)))
      in \<lparr>em_class = ''CustomOllamaEmbeddings'', em_model = Some model, em_repo_id = None,
          em_embed_query = (\<lambda>t. bindM (embeddings (PStr t)) (\<lambda>es.
            liftM (case es of [] \<Rightarrow> Inl (Exn ''IndexError'' ''list index out of range'') | e # _ \<Rightarrow> as_vector e))),
          em_embed_documents = (\<lambda>texts. bindM (embeddings (PList (map PStr texts))) (\<lambda>es. liftM (mapR as_vector es)))\<rparr>)"

text \<open>\<open>string.printable[10:]\<close>: letters, punctuation and white space, in this order.\<close>

definition printable_no_digits :: string where
  "printable_no_digits =
     map char_of ([97..<123] @ [65..<91] @ [33..<48] @ [58..<65] @ [91..<97] @ [123..<127] @ [32, 9, 10, 13, 11, 12 :: nat])"

fun combinations2 :: "'a list \<Rightarrow> 'a list list" where
  "combinations2 [] = []"
| "combinations2 (x # xs) = map (\<lambda>y. [x, y]) xs @ combinations2 xs"

definition dumb_vocabulary :: "string list" where
  "dumb_vocabulary = sorted_list_of_set (set (combinations2 (map lower_char printable_no_digits)))"

text \<open>\<open>re.findall("..", s)\<close>: the dot does not match a line break.\<close>

fun two_chars :: "string \<Rightarrow> string list" where
  "two_chars (c # d # s) = (if c \<noteq> CHR 0x0A \<and> d \<noteq> CHR 0x0A then [c, d] # two_chars s else two_chars (d # s))"
| "two_chars s = []"

text \<open>A vectorizer gets the vocabulary, the analyzer, whether to count only presence, and the texts. scikit-learn documents what it gives.\<close>

type_synonym count_vectorizer = "string list \<Rightarrow> (string \<Rightarrow> string list) \<Rightarrow> bool \<Rightarrow> string list \<Rightarrow> real list list"

definition vectorizer_ok :: "count_vectorizer \<Rightarrow> bool" where
  "vectorizer_ok cv \<longleftrightarrow>
     (\<forall>voc analyzer texts. distinct voc \<longrightarrow>
        cv voc analyzer True texts = map (\<lambda>t. map (\<lambda>w. if w \<in> set (analyzer t) then 1 else 0) voc) texts)"

definition DumbEmbedder :: "count_vectorizer \<Rightarrow> 'x embedder" where
  "DumbEmbedder cv =
     (let embed_documents = (\<lambda>texts. cv dumb_vocabulary two_chars True texts)
      in \<lparr>em_class = ''DumbEmbedder'', em_model = None, em_repo_id = None,
          em_embed_query = (\<lambda>t. retM (hd (embed_documents [t]))),
          em_embed_documents = (\<lambda>texts. retM (embed_documents texts))\<rparr>)"

subsection \<open>Lemmas\<close>

text \<open>The tables are those the factories offer.\<close>

lemma config_classes_offered:
  "map cm_name llm_config_classes = list_llms_default" "map cm_name embedder_config_classes = list_embedder_default"
  by (simp_all add: llm_config_classes_def embedder_config_classes_def list_llms_default_def list_embedder_default_def
      LLMOpenAIChatConfig_def LLMOpenAIConfig_def LLMOpenAICompatibleConfig_def LLMOllamaConfig_def LLMGeminiChatConfig_def LLMCohereConfig_def
      LLMAzureOpenAIConfig_def LLMAzureChatOpenAIConfig_def LLMHuggingFaceEndpointConfig_def LLMHuggingFaceTextGenInferenceConfig_def
      LLMAnthropicChatConfig_def LLMCustomConfig_def LLMDefaultConfig_def EmbedderQdrantFastEmbedConfig_def EmbedderOpenAIConfig_def
      EmbedderAzureOpenAIConfig_def EmbedderGeminiChatConfig_def EmbedderOpenAICompatibleConfig_def EmbedderCohereConfig_def EmbedderDumbConfig_def
      EmbedderFakeConfig_def EmbedderOllamaConfig_def)

lemma distinct_dumb_vocabulary: "distinct dumb_vocabulary"
  by (simp add: dumb_vocabulary_def)

lemma combinations2_chars: "w \<in> set (combinations2 xs) \<Longrightarrow> set w \<subseteq> set xs \<and> w \<noteq> []"
  by (induction xs) auto

lemma vocabulary_lower:
  assumes "w \<in> set dumb_vocabulary" "c \<in> set w"
  shows "c \<in> lower_char ` set printable_no_digits"
  using assms combinations2_chars [of w "map lower_char printable_no_digits"] by (auto simp: dumb_vocabulary_def)

lemma set_two_chars: "w \<in> set (two_chars t) \<Longrightarrow> set w \<subseteq> set t"
  by (induction t rule: two_chars.induct) (auto split: if_splits)

definition dumb_vector :: "string \<Rightarrow> real list" where
  "dumb_vector t = map (\<lambda>w. if w \<in> set (two_chars t) then 1 else 0) dumb_vocabulary"

text \<open>
  The default embedder always answers, with vectors of one length whose entries are 0 and 1, and a query gets the vector its text would get as a
  document: what the collections of the vector memory ask of an embedder. But as the vocabulary is in lower case and the text is not brought
  to lower case, a text of capital letters and digits gets the zero vector.
\<close>

theorem dumb_embedder_vectors:
  assumes "vectorizer_ok cv"
  shows "em_embed_documents (DumbEmbedder cv) texts x = (Inr (map dumb_vector texts), x) \<and>
    em_embed_query (DumbEmbedder cv) t x = (Inr (dumb_vector t), x) \<and>
    length (dumb_vector t) = length dumb_vocabulary \<and> set (dumb_vector t) \<subseteq> {0, 1} \<and>
    ((\<forall>c \<in> set t. c \<notin> lower_char ` set printable_no_digits) \<longrightarrow> dumb_vector t = replicate (length dumb_vocabulary) 0)"
proof (intro conjI impI)
  have cv: "cv dumb_vocabulary two_chars True ts = map dumb_vector ts" for ts
    using assms distinct_dumb_vocabulary by (simp add: vectorizer_ok_def dumb_vector_def)
  show "em_embed_documents (DumbEmbedder cv) texts x = (Inr (map dumb_vector texts), x)"
    "em_embed_query (DumbEmbedder cv) t x = (Inr (dumb_vector t), x)"
    by (simp_all add: DumbEmbedder_def cv Let_def)
  show "length (dumb_vector t) = length dumb_vocabulary" "set (dumb_vector t) \<subseteq> {0, 1}" by (auto simp: dumb_vector_def)
  assume strange: "\<forall>c \<in> set t. c \<notin> lower_char ` set printable_no_digits"
  have "w \<notin> set (two_chars t)" if w: "w \<in> set dumb_vocabulary" for w
  proof
    assume "w \<in> set (two_chars t)"
    moreover obtain c where "c \<in> set w" using combinations2_chars w by (cases w) (auto simp: dumb_vocabulary_def)
    ultimately show False using set_two_chars vocabulary_lower [OF w] strange by blast
  qed
  then show "dumb_vector t = replicate (length dumb_vocabulary) 0"
    by (simp add: dumb_vector_def map_replicate_const [symmetric] cong: map_cong)
qed

text \<open>The base URL of an Ollama server loses one slash at its end, and giving it again changes nothing if there was at most one.\<close>

lemma CustomOllama_base_url:
  assumes "map_of kwargs ''base_url'' = Some (PStr u)" "\<not> suffix ''//'' u"
  shows "\<exists>args v. CustomOllama_arguments kwargs = Inr args \<and> map_of args ''base_url'' = Some (PStr v) \<and> \<not> suffix ''/'' v \<and>
     CustomOllama_arguments args = Inr args"
proof -
  have "\<not> suffix ''/'' (butlast u)" if "suffix ''/'' u"
    using that assms(2) by (auto simp: suffix_def butlast_append)
  then show ?thesis using assms(1)
    by (auto simp: CustomOllama_arguments_def item_def update_conv')
qed

end
