(* ===== verification/Logging.thy ===== *)
theory Logging
  imports Utils
begin

text \<open>
  What the program prints: \<open>core/cat/log.py\<close>, and the parts of \<open>core/cat/utils.py\<close> that log, look at the call stack or print prompts, with the class
  \<open>BaseModelDict\<close>, which logs when it is used as a dictionary.

  The terminal is the list of what was printed. loguru's levels are its documented ones. The call stack is a list of frames, the innermost first;
  \<open>json.dumps\<close>, \<open>pformat\<close>, the colours and the trace of the exception being handled are fields of \<open>printer\<close>.
\<close>

datatype printed = Logged string string | Printed string | Trace string

record printer =
  pr_dumps :: "pyval \<Rightarrow> string result"
  pr_pformat :: "pyval \<Rightarrow> string"
  pr_colored :: "string \<Rightarrow> string \<Rightarrow> string"
  pr_str :: "pyval \<Rightarrow> string"
  pr_handled :: "string option"

type_synonym 'a print_comp = "(printed list, 'a) comp"

definition print_out :: "printed \<Rightarrow> unit print_comp" where
  "print_out o' = modM (\<lambda>t. t @ [o'])"

subsection \<open>The log engine\<close>

definition level_no :: "string \<Rightarrow> nat option" where
  "level_no level =
     map_of [(''TRACE'', 5), (''DEBUG'', 10), (''INFO'', 20), (''SUCCESS'', 25), (''WARNING'', 30), (''ERROR'', 40), (''CRITICAL'', 50)] level"

definition get_log_level :: "(string, string) dict \<Rightarrow> string option" where
  "get_log_level environ = get_env environ ''CCAT_LOG_LEVEL''"

text \<open>The engine is its level; a level that loguru does not know stops the program.\<close>

definition CatLogEngine_init :: "(string, string) dict \<Rightarrow> string result" where
  "CatLogEngine_init environ =
     (case get_log_level environ of
        Some level \<Rightarrow> if level_no level = None then Inl (Exn ''ValueError'' level) else Inr level
      | None \<Rightarrow> Inl (Exn ''TypeError'' ''level''))"

definition show_log_level :: "string \<Rightarrow> nat \<Rightarrow> bool" where
  "show_log_level LOG_LEVEL no = (case level_no LOG_LEVEL of Some n \<Rightarrow> no \<ge> n | None \<Rightarrow> False)"

definition logger_log :: "string \<Rightarrow> string \<Rightarrow> string \<Rightarrow> unit print_comp" where
  "logger_log LOG_LEVEL level line =
     (case level_no level of
        None \<Rightarrow> raiseM (Exn ''ValueError'' level)
      | Some no \<Rightarrow> if show_log_level LOG_LEVEL no then print_out (Logged level line) else retM ())"

text \<open>When \<open>json.dumps\<close> fails the message stays a dictionary or list, which cannot be split into lines.\<close>

definition prettify :: "printer \<Rightarrow> pyval \<Rightarrow> string result" where
  "prettify P msg =
     (let dumps = (case pr_dumps P msg of Inr s \<Rightarrow> Inr s | Inl e \<Rightarrow> Inl (Exn ''AttributeError'' ''split'')) in
      case msg of PStr s \<Rightarrow> Inr s | PDict d \<Rightarrow> dumps | PList xs \<Rightarrow> dumps | _ \<Rightarrow> Inr (pr_pformat P msg))"

definition log_message :: "printer \<Rightarrow> string \<Rightarrow> pyval \<Rightarrow> string \<Rightarrow> unit print_comp" where
  "log_message P LOG_LEVEL msg level =
     bindM (liftM (prettify P msg)) (\<lambda>s. forM (split_char (CHR 0x0A) s) (logger_log LOG_LEVEL level))"

definition print_exc :: "printer \<Rightarrow> unit print_comp" where
  "print_exc P = (case pr_handled P of None \<Rightarrow> retM () | Some t \<Rightarrow> print_out (Trace t))"

definition log_debug :: "printer \<Rightarrow> string \<Rightarrow> pyval \<Rightarrow> unit print_comp" where
  "log_debug P LOG_LEVEL msg = log_message P LOG_LEVEL msg ''DEBUG''"

definition log_info :: "printer \<Rightarrow> string \<Rightarrow> pyval \<Rightarrow> unit print_comp" where
  "log_info P LOG_LEVEL msg = log_message P LOG_LEVEL msg ''INFO''"

definition log_warning :: "printer \<Rightarrow> string \<Rightarrow> pyval \<Rightarrow> unit print_comp" where
  "log_warning P LOG_LEVEL msg = log_message P LOG_LEVEL msg ''WARNING''"

definition log_error :: "printer \<Rightarrow> string \<Rightarrow> pyval \<Rightarrow> unit print_comp" where
  "log_error P LOG_LEVEL msg = bindM (log_message P LOG_LEVEL msg ''ERROR'') (\<lambda>_. print_exc P)"

definition log_critical :: "printer \<Rightarrow> string \<Rightarrow> pyval \<Rightarrow> unit print_comp" where
  "log_critical P LOG_LEVEL msg = bindM (log_message P LOG_LEVEL msg ''CRITICAL'') (\<lambda>_. print_exc P)"

text \<open>\<open>banner\<close> is the content of \<open>cat/welcome.txt\<close>.\<close>

definition env_text :: "(string, string) dict \<Rightarrow> string \<Rightarrow> string" where
  "env_text environ nm = (case get_env environ nm of Some v \<Rightarrow> v | None \<Rightarrow> ''None'')"

definition log_welcome :: "(string, string) dict \<Rightarrow> string \<Rightarrow> unit print_comp" where
  "log_welcome environ banner =
     (let secure = (if get_env environ ''CCAT_CORE_USE_SECURE_PROTOCOLS'' \<in> {Some ''true'', Some ''1''} then ''s'' else []);
          cat_address = ''http'' @ secure @ ''://'' @ env_text environ ''CCAT_CORE_HOST'' @ '':'' @ env_text environ ''CCAT_CORE_PORT'';
          left_margin = replicate 15 (CHR '' '')
      in bindM (print_out (Printed (newline @ newline))) (\<lambda>_.
         bindM (print_out (Printed banner)) (\<lambda>_.
         bindM (print_out (Printed (newline @ newline @ left_margin @ '' Cat REST API:   '' @ cat_address @ ''/docs''))) (\<lambda>_.
         print_out (Printed (left_margin @ '' Cat ADMIN:      '' @ cat_address @ ''/admin'' @ newline @ newline))))))"

subsection \<open>The call stack\<close>

record frame =
  fr_module :: "string option"
  fr_self :: "string option"
  fr_name :: string
  fr_line :: int

datatype caller_info = NoCaller | CallerText string | CallerTuple string string string "string option" int

definition get_caller_info :: "frame list \<Rightarrow> nat \<Rightarrow> bool \<Rightarrow> bool \<Rightarrow> caller_info result" where
  "get_caller_info stack skip return_short return_string =
     (if length stack < skip + 1 then Inr NoCaller
      else
        let parentframe = stack ! skip;
            klass = (case fr_self parentframe of Some k \<Rightarrow> k | None \<Rightarrow> []);
            caller = (if fr_name parentframe \<noteq> ''<module>'' then Some (fr_name parentframe) else None);
            caller_text = (case caller of Some c \<Rightarrow> c | None \<Rightarrow> ''None'');
            line = fr_line parentframe
        in if return_string \<and> return_short then Inr (CallerText (klass @ ''.'' @ caller_text))
           else
             case fr_module parentframe of
               None \<Rightarrow> Inl (Exn ''UnboundLocalError'' ''package'')
             | Some m \<Rightarrow>
                 (let parts = split_char (CHR ''.'') m; package = hd parts; md = join ''.'' (tl parts) in
                  Inr (if return_string
                       then CallerText (package @ ''.'' @ md @ ''.'' @ klass @ ''.'' @ caller_text @ ''::'' @ str_int line)
                       else CallerTuple package md klass caller line)))"

text \<open>The stack is the one that \<open>get_caller_info\<close> sees.\<close>

definition deprecation_warning :: "printer \<Rightarrow> string \<Rightarrow> frame list \<Rightarrow> nat \<Rightarrow> string \<Rightarrow> unit print_comp" where
  "deprecation_warning P LOG_LEVEL stack skip message =
     bindM (liftM (get_caller_info stack skip False True)) (\<lambda>caller.
     log_warning P LOG_LEVEL (PStr ((case caller of CallerText c \<Rightarrow> c | _ \<Rightarrow> ''None'') @ '' Deprecation Warning: '' @ message @ '')'')))"

subsection \<open>Printing prompts\<close>

datatype message_content = TextContent string | PartsContent "json list"

definition print_part :: "printer \<Rightarrow> json \<Rightarrow> unit print_comp" where
  "print_part P sub_m =
     (if map_of sub_m ''type'' = Some (PStr ''text'') then
        bindM (liftM (item sub_m ''text'')) (\<lambda>v. print_out (Printed (case v of PStr s \<Rightarrow> s | _ \<Rightarrow> pr_str P v)))
      else if map_of sub_m ''type'' = Some (PStr ''image_url'') then print_out (Printed ''(image)'')
      else print_out (Printed ('' -- Could not log content: '' @ pr_str P (PList (map PStr (keys sub_m))))))"

definition langchain_log_prompt ::
  "printer \<Rightarrow> (string, string) dict \<Rightarrow> string \<Rightarrow> (string \<times> message_content) list \<Rightarrow> unit print_comp" where
  "langchain_log_prompt P environ title messages =
     (if get_env environ ''CCAT_DEBUG'' = Some ''true'' then
        bindM (print_out (Printed newline)) (\<lambda>_.
        bindM (print_out (Printed (pr_colored P (''===== '' @ title @ '' ====='') ''green''))) (\<lambda>_.
        bindM (forM messages (\<lambda>(class_name, content).
          bindM (print_out (Printed (pr_colored P class_name ''green''))) (\<lambda>_.
          case content of
            PartsContent parts \<Rightarrow> forM parts (print_part P)
          | TextContent s \<Rightarrow> print_out (Printed s)))) (\<lambda>_.
        print_out (Printed (pr_colored P ''========================================'' ''green'')))))
      else retM ())"

definition langchain_log_output :: "printer \<Rightarrow> (string, string) dict \<Rightarrow> string \<Rightarrow> string \<Rightarrow> unit print_comp" where
  "langchain_log_output P environ title content =
     (if get_env environ ''CCAT_DEBUG'' = Some ''true'' then
        bindM (print_out (Printed newline)) (\<lambda>_.
        bindM (print_out (Printed (pr_colored P (''===== '' @ title @ '' ====='') ''blue''))) (\<lambda>_.
        bindM (print_out (Printed content)) (\<lambda>_.
        print_out (Printed (pr_colored P ''========================================'' ''blue'')))))
      else retM ())"

subsection \<open>Objects used as dictionaries\<close>

text \<open>
  \<open>BaseModelDict\<close>: an object is its attributes in order. \<open>validate\<close> is the check pydantic does on assignment; names of methods are left out as keys.
\<close>

type_synonym 'a object_comp = "(json \<times> printed list, 'a) comp"

definition on_terminal :: "'a print_comp \<Rightarrow> 'a object_comp" where
  "on_terminal m s = (case m (snd s) of (r, t) \<Rightarrow> (r, (fst s, t)))"

record usage =
  us_printer :: printer
  us_level :: string
  us_stack :: "frame list"
  us_validate :: "string \<Rightarrow> pyval \<Rightarrow> pyval result"

definition dictionary_use :: "usage \<Rightarrow> string \<Rightarrow> unit object_comp" where
  "dictionary_use U message = on_terminal (deprecation_warning (us_printer U) (us_level U) (us_stack U) 3 message)"

definition getitem_message :: "string \<Rightarrow> string" where
  "getitem_message key =
     ''To get '' @ backquote @ key @ backquote @ '' use dot notation instead of dictionary keys, example:'' @
     backquote @ ''obj.'' @ key @ backquote @ '' instead of '' @ backquote @ ''obj['' @ quote @ key @ quote @ '']'' @ backquote"

definition setitem_message :: "string \<Rightarrow> string" where
  "setitem_message key =
     ''To set '' @ backquote @ key @ backquote @ '' use dot notation instead of dictionary keys, example:'' @
     backquote @ ''obj.'' @ key @ '' = x'' @ backquote @ '' instead of '' @ backquote @ ''obj['' @ quote @ key @ quote @ ''] = x'' @ backquote"

definition BaseModelDict_getitem :: "usage \<Rightarrow> string \<Rightarrow> pyval object_comp" where
  "BaseModelDict_getitem U key =
     bindM (dictionary_use U (getitem_message key)) (\<lambda>_ s. (lookup_exn (Exn ''AttributeError'' key) (map_of (fst s) key), s))"

definition BaseModelDict_setitem :: "usage \<Rightarrow> string \<Rightarrow> pyval \<Rightarrow> unit object_comp" where
  "BaseModelDict_setitem U key value =
     bindM (dictionary_use U (setitem_message key)) (\<lambda>_.
     bindM (liftM (us_validate U key value)) (\<lambda>v. modM (\<lambda>(obj, t). (AList.update key v obj, t))))"

definition BaseModelDict_get :: "string \<Rightarrow> pyval \<Rightarrow> json \<Rightarrow> pyval" where
  "BaseModelDict_get key fallback obj = (case map_of obj key of Some v \<Rightarrow> v | None \<Rightarrow> fallback)"

definition BaseModelDict_delitem :: "string \<Rightarrow> unit object_comp" where
  "BaseModelDict_delitem key =
     (\<lambda>(obj, t). if key \<in> set (keys obj) then (Inr (), (AList.delete key obj, t)) else (Inl (Exn ''AttributeError'' key), (obj, t)))"

definition BaseModelDict_contains :: "string \<Rightarrow> json \<Rightarrow> bool" where
  "BaseModelDict_contains key obj = (key \<in> set (keys obj))"

subsection \<open>Lemmas\<close>

lemma logger_log_lines:
  assumes "level_no level = Some no"
  shows "forM lines (logger_log LOG_LEVEL level) t =
     (Inr (), t @ (if show_log_level LOG_LEVEL no then map (Logged level) lines else []))"
  using assms by (induction lines arbitrary: t) (simp_all add: logger_log_def print_out_def bindM_def)

text \<open>
  A text is logged completely or not at all: its lines come out in order under the level, and put together they are the text, exactly when the level
  reaches that of the engine. Nothing that was printed before is lost.
\<close>

theorem log_writes_all_lines:
  assumes "level_no level = Some no" "CatLogEngine_init environ = Inr LOG_LEVEL"
  shows "\<exists>lines. log_message P LOG_LEVEL (PStr s) level t = (Inr (), t @ map (Logged level) lines) \<and>
    lines = (if no \<ge> the (level_no LOG_LEVEL) then split_char (CHR 0x0A) s else []) \<and> join newline (split_char (CHR 0x0A) s) = s"
proof -
  obtain n where "level_no LOG_LEVEL = Some n"
    using assms(2) by (auto simp: CatLogEngine_init_def split: option.splits if_splits)
  then show ?thesis
    using logger_log_lines [OF assms(1), of "split_char (CHR 0x0A) s" LOG_LEVEL t]
    by (auto simp: log_message_def prettify_def show_log_level_def join_split_char)
qed

text \<open>Used as a dictionary, an object behaves as one; the warnings only add to the terminal.\<close>

lemma dictionary_use_keeps: "fst (snd (dictionary_use U m s)) = fst s"
  by (simp add: dictionary_use_def on_terminal_def split: prod.split)

theorem BaseModelDict_is_dict:
  assumes "BaseModelDict_setitem U key value s = (Inr (), s')" "us_validate U key value = Inr value"
  shows "BaseModelDict_contains key (fst s') \<and> BaseModelDict_get key fallback (fst s') = value \<and>
    (\<forall>k. k \<noteq> key \<longrightarrow> BaseModelDict_get k fallback (fst s') = BaseModelDict_get k fallback (fst s)) \<and>
    (\<exists>s''. BaseModelDict_delitem key s' = (Inr (), s'') \<and> \<not> BaseModelDict_contains key (fst s''))"
proof -
  from assms obtain u s1 where "dictionary_use U (setitem_message key) s = (Inr u, s1)" "s' = (AList.update key value (fst s1), snd s1)"
    by (auto simp: BaseModelDict_setitem_def bindM_result_Inr bindM_def split: prod.splits sum.splits)
  then have s': "fst s' = AList.update key value (fst s)" using dictionary_use_keeps [of U "setitem_message key" s] by simp
  then show ?thesis
    by (cases s') (auto simp: BaseModelDict_contains_def BaseModelDict_get_def BaseModelDict_delitem_def keys_update keys_delete update_conv')
qed

end
