(* ===== verification/Qdrant_Link.thy ===== *)
theory Qdrant_Link
  imports Vector_Memory Utils
begin

text \<open>
  The connection to Qdrant and the dumps of its collections: \<open>connect_to_vector_memory\<close> of
  \<open>core/cat/memory/vector_memory.py\<close>, and what \<open>save_dump\<close> of \<open>core/cat/memory/vector_memory_collection.py\<close> (modelled in
  Vector_Memory) leaves behind when the embedder changes.

  Opening a client and sockets are parameters, the record \<open>connector\<close>; the class attribute \<open>local_vector_db\<close> is the first part of the
  state. The locale \<open>snapshot_server\<close> extends the laws of the data base by those of snapshots, and \<open>demo_server\<close> is an instance.
\<close>

subsection \<open>Connecting\<close>

record ('c, 'x) connector =
  cn_open_local :: "string \<Rightarrow> ('x, 'c) comp"
  cn_socket :: "('x, unit) comp"
  cn_connect :: "string \<Rightarrow> int \<Rightarrow> ('x, unit) comp"
  cn_open_remote :: "string \<Rightarrow> int \<Rightarrow> bool \<Rightarrow> string option \<Rightarrow> ('x, 'c) comp"

type_synonym ('c, 'x, 'a) connect_comp = "('c option \<times> 'x, 'a) comp"

definition on_net :: "('x, 'a) comp \<Rightarrow> ('c, 'x, 'a) connect_comp" where
  "on_net m = (\<lambda>(local_vector_db, x). case m x of (r, x') \<Rightarrow> (r, (local_vector_db, x')))"

text \<open>Without a socket the \<open>finally\<close> clause has nothing to close and raises itself.\<close>

definition probe :: "('c, 'x) connector \<Rightarrow> string \<Rightarrow> int \<Rightarrow> ('x, unit) comp" where
  "probe X host port x =
     (case cn_socket X x of
        (Inl e, x1) \<Rightarrow> (Inl (Exn ''UnboundLocalError'' ''s''), x1)
      | (Inr _, x1) \<Rightarrow> catchM (cn_connect X host port) (\<lambda>e. raiseM (Exn ''SystemExit'' [])) x1)"

definition connect_to_vector_memory ::
  "(string, string) dict \<Rightarrow> (string \<Rightarrow> (string \<times> string \<times> string) result) \<Rightarrow> ('c, 'x) connector \<Rightarrow> ('c, 'x, 'c) connect_comp" where
  "connect_to_vector_memory environ urlparse X =
     (let qdrant_host = (case get_env environ ''CCAT_QDRANT_HOST'' of Some h \<Rightarrow> h | None \<Rightarrow> []) in
      if qdrant_host = [] then
        bindM (getM fst) (\<lambda>local_vector_db.
          case local_vector_db of
            Some client \<Rightarrow> retM client
          | None \<Rightarrow>
              bindM (on_net (cn_open_local X ''cat/data/local_vector_memory/'')) (\<lambda>client.
              bindM (modM (\<lambda>(_, x). (Some client, x))) (\<lambda>_. retM client)))
      else
        bindM (liftM (case get_env environ ''CCAT_QDRANT_PORT'' of
                        Some p \<Rightarrow> int_of_str p | None \<Rightarrow> Inl (Exn ''TypeError'' ''int''))) (\<lambda>qdrant_port.
        let host = extract_domain_from_url urlparse qdrant_host in
        bindM (on_net (probe X host qdrant_port)) (\<lambda>_.
        on_net (cn_open_remote X host qdrant_port (is_https urlparse qdrant_host) (get_env environ ''CCAT_QDRANT_API_KEY'')))))"

text \<open>The local data base is opened once, however often the memory is loaded.\<close>

lemma local_client_is_shared:
  assumes "str_truthy (get_env environ ''CCAT_QDRANT_HOST'') = False" "connect_to_vector_memory environ urlparse X s = (Inr c, s')"
  shows "fst s' = Some c \<and> connect_to_vector_memory environ urlparse X s' = (Inr c, s')"
  using assms
  by (cases s) (auto simp: connect_to_vector_memory_def str_truthy_def Let_def bindM_def on_net_def
      split: option.splits if_splits sum.splits prod.splits)

text \<open>A client of a server only exists when the server accepted a connection on the configured port.\<close>

lemma remote_client_was_probed:
  assumes "get_env environ ''CCAT_QDRANT_HOST'' = Some h" "h \<noteq> []" "connect_to_vector_memory environ urlparse X s = (Inr c, s')"
  shows "fst s' = fst s \<and> (\<exists>p port x1 x2. get_env environ ''CCAT_QDRANT_PORT'' = Some p \<and> int_of_str p = Inr port \<and>
     cn_socket X (snd s) = (Inr (), x1) \<and> cn_connect X (extract_domain_from_url urlparse h) port x1 = (Inr (), x2) \<and>
     cn_open_remote X (extract_domain_from_url urlparse h) port (is_https urlparse h) (get_env environ ''CCAT_QDRANT_API_KEY'') x2 =
       (Inr c, snd s'))"
  using assms
  by (cases s) (auto simp: connect_to_vector_memory_def Let_def bindM_def on_net_def probe_def catchM_def liftM_def raiseM_def
      split: option.splits if_splits sum.splits prod.splits)

subsection \<open>A server with snapshots\<close>

locale snapshot_server = qdrant_db Q info sat
  for Q :: "'q qdrant" and info :: "'q \<Rightarrow> string \<Rightarrow> coll_info option" and sat :: "point \<Rightarrow> field_condition \<Rightarrow> bool" +
  fixes S :: "'q qdrant_server"
    and snaps :: "'q \<Rightarrow> string \<Rightarrow> string set"
    and answer :: "'q \<Rightarrow> string \<Rightarrow> nat \<times> string"
  assumes create_snapshot: "info q n \<noteq> None \<Longrightarrow> \<exists>m q'. qs_create_snapshot S n q = (Inr m, q') \<and> info q' = info q \<and>
      snaps q' = (snaps q)(n := insert m (snaps q n)) \<and> (\<forall>f. qs_folder S f q' = qs_folder S f q)"
    and list_snapshots: "info q n \<noteq> None \<Longrightarrow>
      \<exists>ms. qs_list_snapshots S n q = (Inr ms, q) \<and> distinct ms \<and> set ms = snaps q n"
    and delete_snapshot: "m \<in> snaps q n \<Longrightarrow> \<exists>q'. qs_delete_snapshot S n m q = (Inr (), q') \<and> info q' = info q \<and>
      snaps q' = (snaps q)(n := snaps q n - {m}) \<and> (\<forall>f. qs_folder S f q' = qs_folder S f q)"
    and http_get: "qs_http_get S u q = (Inr (answer q u), q)"
    and set_folder: "qs_folder S f (qs_set_folder S f d q) = Some d"
      "info (qs_set_folder S f d q) = info q" "snaps (qs_set_folder S f d q) = snaps q"
    and client_folder: "qs_folder S f (qd_delete_collection Q n q) = qs_folder S f q"
      "qs_folder S f (qd_recreate Q n w q) = qs_folder S f q" "qs_folder S f (qd_create_alias Q n a q) = qs_folder S f q"
begin

lemma delete_all_snapshots:
  assumes "distinct ms" "set ms = snaps q n"
  shows "\<exists>q'. forM ms (qs_delete_snapshot S n) q = (Inr (), q') \<and> info q' = info q \<and> snaps q' n = {} \<and>
     qs_folder S f q' = qs_folder S f q"
  using assms
proof (induction ms arbitrary: q)
  case (Cons m ms)
  then have "m \<in> snaps q n" by auto
  from delete_snapshot [OF this] obtain q1 where q1: "qs_delete_snapshot S n m q = (Inr (), q1)" "info q1 = info q"
    "snaps q1 = (snaps q)(n := snaps q n - {m})" "\<forall>f. qs_folder S f q1 = qs_folder S f q" by blast
  with Cons.prems have "distinct ms" "set ms = snaps q1 n" by auto
  from Cons.IH [OF this] q1 show ?case by (auto simp: bindM_Inr [where m = "qs_delete_snapshot S n m", OF q1(1)])
qed auto

lemma save_dump_run:
  assumes "qs_remote S" "vc_client C = Q" "info q (vc_name C) = Some i" "ci_aliases i = a # as"
  shows "\<exists>m q1 q' files. save_dump S folder C q = (Inr (), q') \<and> info q' = info q \<and> snaps q' (vc_name C) = {} \<and>
     m \<in> snaps q1 (vc_name C) \<and> info q1 = info q \<and> qs_folder S folder q' = Some files \<and>
     map_of files (dump_name a) = Some (snd (answer q1 (snapshot_url S (vc_name C) m))) \<and>
     (\<forall>k v. k \<noteq> dump_name a \<and> k \<noteq> m \<and> Option.bind (qs_folder S folder q) (\<lambda>d. map_of d k) = Some v \<longrightarrow> map_of files k = Some v)"
proof -
  define q0 where "q0 = (if qs_folder S folder q = None then qs_set_folder S folder [] q else q)"
  then have q0: "info q0 = info q" "\<exists>d. qs_folder S folder q0 = Some d \<and> (\<forall>k v. Option.bind (qs_folder S folder q) (\<lambda>d. map_of d k) = Some v \<longrightarrow> map_of d k = Some v)"
    by (auto simp: set_folder)
  then obtain d where d: "qs_folder S folder q0 = Some d"
    "\<forall>k v. Option.bind (qs_folder S folder q) (\<lambda>d. map_of d k) = Some v \<longrightarrow> map_of d k = Some v" by blast
  have "info q0 (vc_name C) \<noteq> None" using q0(1) assms(3) by simp
  from create_snapshot [OF this] obtain m q1 where q1: "qs_create_snapshot S (vc_name C) q0 = (Inr m, q1)" "info q1 = info q0"
    "snaps q1 = (snaps q0)(vc_name C := insert m (snaps q0 (vc_name C)))" "\<forall>f. qs_folder S f q1 = qs_folder S f q0" by blast
  let ?content = "snd (answer q1 (snapshot_url S (vc_name C) m))"
  let ?files = "write_dump m (dump_name a) ?content d"
  let ?q2 = "qs_set_folder S folder ?files q1"
  have aliases: "qd_get_aliases Q (vc_name C) q1 = a # as"
    using get_aliases [of q1 "vc_name C" i] q1(2) q0(1) assms(3,4) by simp
  have "info ?q2 (vc_name C) \<noteq> None" using q1(2) q0(1) assms(3) by (simp add: set_folder)
  from list_snapshots [OF this] obtain ms where ms: "qs_list_snapshots S (vc_name C) ?q2 = (Inr ms, ?q2)" "distinct ms"
    "set ms = snaps ?q2 (vc_name C)" by blast
  from delete_all_snapshots [OF ms(2,3), of folder] obtain q' where
    q': "forM ms (qs_delete_snapshot S (vc_name C)) ?q2 = (Inr (), q')" "info q' = info ?q2" "snaps q' (vc_name C) = {}"
      "qs_folder S folder q' = qs_folder S folder ?q2" by blast
  have "save_dump S folder C q = (Inr (), q')"
    using assms(1,2) q1(1,4) aliases ms(1) q'(1) d(1)
    by (cases "answer q1 (snapshot_url S (vc_name C) m)") (simp add: save_dump_def bindM_def http_get q0_def [symmetric])
  moreover have "map_of ?files (dump_name a) = Some ?content" by (simp add: write_dump_def update_conv')
  moreover have "\<forall>k v. k \<noteq> dump_name a \<and> k \<noteq> m \<and> Option.bind (qs_folder S folder q) (\<lambda>d. map_of d k) = Some v \<longrightarrow> map_of ?files k = Some v"
    using d(2) by (auto simp: write_dump_def update_conv' delete_conv')
  ultimately show ?thesis using q' q1 q0(1) by (intro exI [of _ m] exI [of _ q1] exI [of _ q'] exI [of _ ?files]) (simp add: set_folder)
qed

lemma dumps_remote: "vc_client C = Q \<Longrightarrow> dumps info S C"
  unfolding dumps_def
proof (intro allI impI)
  fix q i assume C: "vc_client C = Q" and i: "info q (vc_name C) = Some i \<and> ci_aliases i \<noteq> []"
  then obtain a as where a: "ci_aliases i = a # as" by (cases "ci_aliases i") auto
  show "\<exists>q'. save_dump S ''dormouse/'' C q = (Inr (), q') \<and> info q' = info q"
  proof (cases "qs_remote S")
    case True
    from save_dump_run [OF this C _ a, of q] i show ?thesis by blast
  qed (simp add: save_dump_def)
qed

lemma init_after_dump:
  assumes "qs_remote S" "vc_client C = Q" "info q (vc_name C) = Some i" "ci_aliases i = a # as"
    and "alias_name C \<noteq> a \<or> ci_size i \<noteq> vc_embedder_size C"
  shows "\<exists>m q1 q' files. VectorMemoryCollection_init True S C q = (Inr (), q') \<and> collection_points info C q' = Map.empty \<and>
     m \<in> snaps q1 (vc_name C) \<and> info q1 = info q \<and> qs_folder S ''dormouse/'' q' = Some files \<and>
     map_of files (dump_name a) = Some (snd (answer q1 (snapshot_url S (vc_name C) m)))"
proof -
  from save_dump_run [OF assms(1-4), of "''dormouse/''"] obtain m q1 q2 files where
    dump: "save_dump S ''dormouse/'' C q = (Inr (), q2)" "info q2 = info q" "m \<in> snaps q1 (vc_name C)" "info q1 = info q"
      "qs_folder S ''dormouse/'' q2 = Some files" "map_of files (dump_name a) = Some (snd (answer q1 (snapshot_url S (vc_name C) m)))"
    by blast
  let ?q' = "create_collection C (qd_delete_collection Q (vc_name C) q2)"
  have "vc_name C \<in> set (qd_get_collections Q q)" using collections assms(3) by simp
  then have "VectorMemoryCollection_init True S C q = (Inr (), ?q')"
    using assms(2,5) dump(1) get_size [OF assms(3)] get_aliases [OF assms(3)] assms(4)
    by (auto simp: VectorMemoryCollection_init_def create_db_collection_if_not_exists_def check_embedding_size_def bindM_def)
  moreover have "collection_points info C ?q' = Map.empty"
    by (simp add: collection_points_def create_collection_info [OF assms(2)])
  moreover have "qs_folder S ''dormouse/'' ?q' = Some files"
    using dump(5) assms(2) by (simp add: create_collection_def client_folder)
  ultimately show ?thesis using dump by blast
qed

end

subsection \<open>A server in memory\<close>

text \<open>
  The store of Vector_Memory with a list of snapshots and a disk. It refuses requests without its key, as a Qdrant server does that was
  configured with one.
\<close>

type_synonym snapstore = "lstore \<times> (string \<times> string) list \<times> (string, (string, string) dict) dict"

definition on_store :: "('q, 'a) comp \<Rightarrow> ('q \<times> 'd, 'a) comp" where
  "on_store m = (\<lambda>(q, d). case m q of (r, q') \<Rightarrow> (r, (q', d)))"

definition lift_qdrant :: "'q qdrant \<Rightarrow> ('q \<times> 'd) qdrant" where
  "lift_qdrant Q =
     \<lparr>qd_get_collections = qd_get_collections Q \<circ> fst, qd_get_size = (\<lambda>n. qd_get_size Q n \<circ> fst),
      qd_get_aliases = (\<lambda>n. qd_get_aliases Q n \<circ> fst), qd_recreate = (\<lambda>n w. map_prod (qd_recreate Q n w) id),
      qd_create_alias = (\<lambda>n a. map_prod (qd_create_alias Q n a) id),
      qd_delete_collection = (\<lambda>n. map_prod (qd_delete_collection Q n) id),
      qd_upsert = (\<lambda>n p. on_store (qd_upsert Q n p)), qd_delete_where = (\<lambda>n f. on_store (qd_delete_where Q n f)),
      qd_delete_ids = (\<lambda>n ids. on_store (qd_delete_ids Q n ids)),
      qd_search = (\<lambda>n v f k t. qd_search Q n v f k t \<circ> fst), qd_retrieve = (\<lambda>n ids. qd_retrieve Q n ids \<circ> fst),
      qd_scroll = (\<lambda>n l off. qd_scroll Q n l off \<circ> fst)\<rparr>"

lemma on_store_runs:
  "\<exists>q'. m q = (r, q') \<and> P q' \<Longrightarrow> \<exists>q'. (\<exists>d'. on_store m (q, d) = (r, q', d')) \<and> P q'"
  "\<exists>e. m q = (Inl e, q) \<Longrightarrow> \<exists>e. on_store m (q, d) = (Inl e, q, d)"
  by (auto simp: on_store_def)

lemma lift_qdrant_db:
  assumes "qdrant_db Q info sat"
  shows "qdrant_db (lift_qdrant Q) (\<lambda>s. info (fst s)) sat"
proof -
  note law = qdrant_db.collections [OF assms] qdrant_db.get_size [OF assms] qdrant_db.get_aliases [OF assms]
    qdrant_db.recreate [OF assms] qdrant_db.create_alias [OF assms] qdrant_db.delete_collection [OF assms]
    qdrant_db.retrieve [OF assms] qdrant_db.search_length [OF assms] qdrant_db.search_sorted [OF assms]
    qdrant_db.scroll [OF assms] qdrant_db.sat_plain [OF assms]
  note run = qdrant_db.upsert [OF assms] qdrant_db.upsert_bad [OF assms] qdrant_db.delete_ids [OF assms]
    qdrant_db.delete_where [OF assms]
  show ?thesis
    by unfold_locales
      (auto simp: lift_qdrant_def law intro!: on_store_runs run dest: qdrant_db.search_sound [OF assms])
qed

definition demo_server :: "snapstore qdrant_server" where
  "demo_server =
     \<lparr>qs_remote = True, qs_host = ''qdrant'', qs_port = 6333,
      qs_create_snapshot = (\<lambda>n (q, ms, d). (Inr ''s1'', (q, List.insert (n, ''s1'') ms, d))),
      qs_list_snapshots = (\<lambda>n s. (Inr (remdups (map snd (filter (\<lambda>(k, _). k = n) (fst (snd s))))), s)),
      qs_delete_snapshot = (\<lambda>n m (q, ms, d). (Inr (), (q, filter (\<lambda>x. x \<noteq> (n, m)) ms, d))),
      qs_http_get = (\<lambda>u s. (Inr (401, ''Unauthorized''), s)),
      qs_folder = (\<lambda>f s. map_of (snd (snd s)) f),
      qs_set_folder = (\<lambda>f files (q, ms, d). (q, ms, AList.update f files d))\<rparr>"

interpretation demo_server: snapshot_server "lift_qdrant list_qdrant" "\<lambda>s. linfo (fst s)" lsat demo_server
  "\<lambda>s n. {m. (n, m) \<in> set (fst (snd s))}" "\<lambda>s u. (401, ''Unauthorized'')"
proof (intro snapshot_server.intro lift_qdrant_db [OF list_qdrant.qdrant_db_axioms] snapshot_server_axioms.intro, goal_cases)
  case (1 q n)
  then show ?case by (cases q) (auto simp: demo_server_def fun_eq_iff)
next
  case (2 q n)
  then show ?case by (force simp: demo_server_def)
next
  case (3 m q n)
  then show ?case by (cases q) (auto simp: demo_server_def fun_eq_iff)
qed (auto simp: demo_server_def lift_qdrant_def update_conv' split: prod.splits)

subsection \<open>Properties\<close>

text \<open>
  (C20) Changing the embedder with snapshots switched on. The points are deleted, and what is left of them is the file named by
  the alias of the old embedder. It holds what the server answered to a request without a key, whatever the status of the answer
  was: on a server that asks for its key the file is the text of the refusal, and the points are lost.
\<close>

theorem dump_holds_the_answer:
  assumes "snapshot_server Q info sat S snaps answer" "qs_remote S" "vc_client C = Q"
    and "info q (vc_name C) = Some i" "ci_aliases i = a # as" "alias_name C \<noteq> a \<or> ci_size i \<noteq> vc_embedder_size C"
  shows "\<exists>m q1 q' files. VectorMemoryCollection_init True S C q = (Inr (), q') \<and> collection_points info C q' = Map.empty \<and>
     m \<in> snaps q1 (vc_name C) \<and> info q1 = info q \<and> qs_folder S ''dormouse/'' q' = Some files \<and>
     map_of files (dump_name a) = Some (snd (answer q1 (snapshot_url S (vc_name C) m)))"
  by (rule snapshot_server.init_after_dump [OF assms])

definition served_collection :: "snapstore collection" where
  "served_collection =
     \<lparr>vc_client = lift_qdrant list_qdrant, vc_name = ''episodic'', vc_embedder_name = ''text/ada'', vc_embedder_size = 2\<rparr>"

theorem dump_holds_the_answer_witness:
  "\<exists>q' files. VectorMemoryCollection_init True demo_server served_collection (demo_store, [], []) = (Inr (), q') \<and>
     collection_points (\<lambda>s. linfo (fst s)) served_collection q' = Map.empty \<and>
     qs_folder demo_server ''dormouse/'' q' = Some files \<and> map_of files ''dumb_episodic.snapshot'' = Some ''Unauthorized''"
proof -
  let ?i = "the (linfo demo_store ''episodic'')"
  have "qs_remote demo_server" "vc_client served_collection = lift_qdrant list_qdrant"
    "linfo (fst (demo_store, [] :: (string \<times> string) list, [] :: (string, (string, string) dict) dict)) (vc_name served_collection) = Some ?i"
    "ci_aliases ?i = [''dumb_episodic'']" "alias_name served_collection \<noteq> ''dumb_episodic'' \<or> ci_size ?i \<noteq> vc_embedder_size served_collection"
    "dump_name ''dumb_episodic'' = ''dumb_episodic.snapshot''"
    by (simp_all add: demo_server_def served_collection_def demo_store_def linfo_def alias_name_def dump_name_def)
  with dump_holds_the_answer [OF demo_server.snapshot_server_axioms, of served_collection "(demo_store, [], [])" ?i "''dumb_episodic''" "[]"]
  show ?thesis by force
qed

end
