(* ===== verification/Startup.thy ===== *)
theory Startup
  imports Auth Cheshire_Cat Logging
begin

text \<open>
  How the server is put together: \<open>core/cat/main.py\<close>, \<open>core/cat/startup.py\<close>, \<open>core/cat/routes/openapi.py\<close>,
  \<open>core/cat/routes/static/\<close>, \<open>core/cat/routes/memory/memory_router.py\<close> and \<open>core/cat/db/database.py\<close>.

  FastAPI, uvicorn and TinyDB are other packages: what they get is data (options, routers, mounts). The description of the
  interface (OpenAPI) is cached by the application; what FastAPI makes of a list of routes is the argument \<open>describe\<close>. Endpoints of plugins
  come and go on a running server and flush that cache, which the last part shows to be enough.
\<close>

subsection \<open>Starting the server\<close>

definition debug_config :: "(string, string) dict \<Rightarrow> json" where
  "debug_config environ =
     (if get_env environ ''CCAT_DEBUG'' = Some ''true''
      then [(''reload'', PBool True), (''reload_includes'', PList [PStr ''plugin.json'']),
            (''reload_excludes'', PList [PStr ''*test_*.*'', PStr ''*mock_*.*''])]
      else [])"

definition proxy_pass_config :: "(string, string) dict \<Rightarrow> json" where
  "proxy_pass_config environ =
     (if get_env environ ''CCAT_HTTPS_PROXY_MODE'' \<in> {Some ''1'', Some ''true''}
      then [(''proxy_headers'', PBool True),
            (''forwarded_allow_ips'', case get_env environ ''CCAT_CORS_FORWARDED_ALLOW_IPS'' of Some s \<Rightarrow> PStr s | None \<Rightarrow> PNone)]
      else [])"

definition uvicorn_arguments :: "(string, string) dict \<Rightarrow> json result" where
  "uvicorn_arguments environ0 =
     (let environ = fix_legacy_env_variables environ0 in
      case get_env environ ''CCAT_LOG_LEVEL'' of
        None \<Rightarrow> Inl (Exn ''AttributeError'' ''lower'')
      | Some level \<Rightarrow>
          Inr ([(''app'', PStr ''cat.startup:cheshire_cat_api''), (''host'', PStr ''0.0.0.0''), (''port'', PInt 80),
                (''use_colors'', PBool True), (''log_level'', PStr (lower level))] @
               debug_config environ @ proxy_pass_config environ))"

text \<open>What the application is built with, besides its lifespan and the names of its routes.\<close>

definition app_options :: json where
  "app_options =
     [(''docs_url'', PNone), (''redoc_url'', PNone), (''title'', PStr ''Cheshire-Cat API''),
      (''license_info'', PDict [(''name'', PStr ''GPL-3''), (''url'', PStr ''https://www.gnu.org/licenses/gpl-3.0.en.html'')])]"

text \<open>
  The lifespan, up to the moment the server takes requests: the cat, the event loop the threads of the cats send
  through, the table of the websockets and the message on the terminal. A cat that cannot be built ends the start.
\<close>

record app_state =
  as_ccat :: bool
  as_event_loop :: "nat option"
  as_websocket_manager :: "(string, nat) dict option"

definition not_started :: app_state where
  "not_started = \<lparr>as_ccat = False, as_event_loop = None, as_websocket_manager = None\<rparr>"

record ('q, 'x, 'c, 'v, 'f, 'db) server =
  srv_ccat :: "('q, 'x, 'c, 'v, 'f, 'db) ccat"
  srv_app :: app_state
  srv_terminal :: "printed list"

definition on_ccat :: "('q, 'x, 'c, 'v, 'f, 'db, 'a) ccat_comp \<Rightarrow> (('q, 'x, 'c, 'v, 'f, 'db) server, 'a) comp" where
  "on_ccat m s = (case m (srv_ccat s) of (r, ca) \<Rightarrow> (r, s\<lparr>srv_ccat := ca\<rparr>))"

definition print_on :: "'a print_comp \<Rightarrow> (('q, 'x, 'c, 'v, 'f, 'db) server, 'a) comp" where
  "print_on m s = (case m (srv_terminal s) of (r, out) \<Rightarrow> (r, s\<lparr>srv_terminal := out\<rparr>))"

definition on_app :: "(app_state \<Rightarrow> app_state) \<Rightarrow> (('q, 'x, 'c, 'v, 'f, 'db) server, unit) comp" where
  "on_app f = modM (\<lambda>s. s\<lparr>srv_app := f (srv_app s)\<rparr>)"

definition lifespan ::
  "('q, 'x, 'c, 'v, 'f, 'db) bootstrap \<Rightarrow> (string, string) dict \<Rightarrow> string \<Rightarrow> nat \<Rightarrow> (('q, 'x, 'c, 'v, 'f, 'db) server, unit) comp" where
  "lifespan B environ banner running_loop =
     bindM (on_ccat (CheshireCat_init B)) (\<lambda>_.
     bindM (on_app (\<lambda>app. app\<lparr>as_ccat := True\<rparr>)) (\<lambda>_.
     bindM (on_app (\<lambda>app. app\<lparr>as_event_loop := Some running_loop\<rparr>)) (\<lambda>_.
     bindM (on_app (\<lambda>app. app\<lparr>as_websocket_manager := Some []\<rparr>)) (\<lambda>_.
     print_on (log_welcome environ banner)))))"

text \<open>The options of the middleware for requests from other origins, when it is added at all.\<close>

definition cors_options :: "(string, string) dict \<Rightarrow> json option" where
  "cors_options environ =
     (if get_env environ ''CCAT_CORS_ENABLED'' = Some ''true'' then
        (let origins = (case get_env environ ''CCAT_CORS_ALLOWED_ORIGINS'' of
                          None \<Rightarrow> [''*''] | Some s \<Rightarrow> if s = [] then [''*''] else split_char CHR '','' s)
         in Some [(''allow_origins'', PList (map PStr origins)), (''allow_credentials'', PBool True),
                  (''allow_methods'', PList [PStr ''*'']), (''allow_headers'', PList [PStr ''*''])])
      else None)"

text \<open>The routers with their prefixes and tags, in the order in which they are included; those of the memory are nested.\<close>

definition memory_router :: "(string \<times> string \<times> string list) list" where
  "memory_router =
     [(''points'', [], [''Vector Memory - Points'']), (''collections'', [], [''Vector Memory - Collections'']),
      (''convo_history'', [], [''Working Memory - Current Conversation''])]"

definition routers :: "(string \<times> string \<times> string list) list" where
  "routers =
     [(''base'', [], [''Home'']), (''auth'', ''/auth'', [''User Auth'']), (''users'', ''/users'', [''Users'']),
      (''settings'', ''/settings'', [''Settings'']), (''llm'', ''/llm'', [''Large Language Model'']),
      (''embedder'', ''/embedder'', [''Embedder'']), (''plugins'', ''/plugins'', [''Plugins''])] @
     map (\<lambda>(r, prefix, tags). (r, ''/memory'' @ prefix, tags)) memory_router @
     [(''upload'', ''/rabbithole'', [''Rabbit Hole'']), (''auth_handler'', ''/auth_handler'', [''AuthHandler'']),
      (''websocket'', [], [''Websocket''])]"

text \<open>Folders served as they are: path, folder and name.\<close>

definition static_mounts :: "(string \<times> string \<times> string) list" where
  "static_mounts =
     [(''/static/'', ''cat/static'', ''static''),
      (''/core-static/'', ''cat/routes/static/core_static_folder/'', ''core-static'')]"

definition admin_mounts :: "(string \<times> string \<times> string) list" where
  "admin_mounts = [(''/admin'', ''/admin/'', ''admin'')]"

definition custom_generate_unique_id :: "string \<Rightarrow> string" where
  "custom_generate_unique_id route_name = route_name"

definition validation_exception_handler :: "pyval \<Rightarrow> nat \<times> json" where
  "validation_exception_handler errors = (400, [(''error'', errors)])"

text \<open>The state of the server, for those who may read it: the version is that of \<open>pyproject.toml\<close>, given as its table \<open>project\<close>.\<close>

definition status :: "jwt_lib \<Rightarrow> 'db auth_handler list \<Rightarrow> (string \<Rightarrow> string option) \<Rightarrow> json result \<Rightarrow> ('db, json) comp" where
  "status J handlers headers project_toml =
     (case HTTPAuth_extract_credentials headers of
        (user_id, credential) \<Rightarrow>
          bindM (ConnectionAuth_call J handlers http credential STATUS READ user_id HTTPAuth_not_allowed) (\<lambda>cat.
          bindM (liftM project_toml) (\<lambda>project.
          bindM (liftM (item project ''version'')) (\<lambda>version.
          retM [(''status'', PStr (''We'' @ [CHR 0x27] @ ''re all mad here, dear!'')), (''version'', version)]))))"

text \<open>The page \<open>/docs\<close>, as arguments of the library that renders it, and the delimiters of the templates of the core.\<close>

definition scalar_docs :: "string \<Rightarrow> json" where
  "scalar_docs openapi_url =
     [(''openapi_url'', PStr openapi_url), (''title'', case map_of app_options ''title'' of Some t \<Rightarrow> t | None \<Rightarrow> PNone),
      (''scalar_favicon_url'', PStr ''https://cheshirecat.ai/wp-content/uploads/2023/10/Logo-Cheshire-Cat.svg'')]"

definition get_jinja_templates :: json where
  "get_jinja_templates =
     [(''directory'', PStr ''cat/routes/static/core_static_folder/''),
      (''variable_start_string'', PStr ''[[''), (''variable_end_string'', PStr '']]'')]"

text \<open>The admin page is only sent to a browser with the token of a user who may read it.\<close>

definition get_admin_single_page_app ::
  "jwt_lib \<Rightarrow> 'db auth_handler list \<Rightarrow> (string \<Rightarrow> string) \<Rightarrow> string \<Rightarrow> (string \<Rightarrow> string option) \<Rightarrow> ('db, string) comp" where
  "get_admin_single_page_app J handlers urlencode url_path cookies =
     bindM (liftM (CoreFrontendAuth_extract_credentials urlencode url_path cookies)) (\<lambda>(user_id, credential).
     bindM (ConnectionAuth_call J handlers http credential STATIC READ user_id
       (CoreFrontendAuth_not_allowed urlencode url_path)) (\<lambda>cat.
     retM ''/admin/index.html''))"

text \<open>The file of the settings is opened by the first who asks for it, and shared.\<close>

definition get_file_name :: "(string, string) dict \<Rightarrow> string option" where
  "get_file_name environ = get_env environ ''CCAT_METADATA_FILE''"

definition get_db :: "(string, string) dict \<Rightarrow> (string option \<Rightarrow> 'db) \<Rightarrow> (string, 'db) dict \<Rightarrow> 'db \<times> (string, 'db) dict" where
  "get_db environ open_db instances = getinstance ''Database'' (open_db (get_file_name environ)) instances"

subsection \<open>The description of the interface\<close>

definition x_logo :: pyval where
  "x_logo = PDict [(''url'', PStr ''https://cheshirecat.ai/wp-content/uploads/2023/10/Logo-Cheshire-Cat.svg'')]"

definition openapi_title :: "string \<Rightarrow> string" where
  "openapi_title project_name = [CHR 0xF0, CHR 0x9F, CHR 0x98, CHR 0xB8] @ '' '' @ project_name @ '' API''"

text \<open>What FastAPI makes of title, version, description and routes, with the logo added.\<close>

definition openapi_of ::
  "(string \<Rightarrow> string \<Rightarrow> string \<Rightarrow> api_route list \<Rightarrow> json) \<Rightarrow> json result \<Rightarrow> api_route list \<Rightarrow> json result" where
  "openapi_of describe project_toml routes =
     bindR project_toml (\<lambda>project.
     bindR (bindR (item project ''name'') as_str) (\<lambda>project_name.
     bindR (bindR (item project ''version'') as_str) (\<lambda>version.
     bindR (bindR (item project ''description'') as_str) (\<lambda>description.
     let schema = describe (openapi_title project_name) version description routes in
     bindR (bindR (item schema ''info'') as_dict) (\<lambda>info.
     Inr (AList.update ''info'' (PDict (AList.update ''x-logo'' x_logo info)) schema))))))"

type_synonym 'w app = "'w machine \<times> json option"

definition custom_openapi ::
  "(string \<Rightarrow> string \<Rightarrow> string \<Rightarrow> api_route list \<Rightarrow> json) \<Rightarrow> json result \<Rightarrow> ('w app, json) comp" where
  "custom_openapi describe project_toml =
     bindM (getM snd) (\<lambda>openapi_schema.
       case openapi_schema of
         Some (kv # kvs) \<Rightarrow> retM (kv # kvs)
       | _ \<Rightarrow>
           bindM (\<lambda>s. (openapi_of describe project_toml (mc_routes (fst s)), s)) (\<lambda>schema.
           bindM (modM (\<lambda>(mc, _). (mc, Some schema))) (\<lambda>_. retM schema)))"

text \<open>Switching an endpoint on or off flushes the cache exactly when a route is added or removed.\<close>

definition endpoint_activated :: "('w, 'c, 'v, 'f) host \<Rightarrow> custom_endpoint \<Rightarrow> 'w app \<Rightarrow> 'w app" where
  "endpoint_activated H e = (\<lambda>(mc, schema).
     (CustomEndpoint_activate H e mc,
      if (\<exists>r \<in> set (mc_routes mc). route_matches e r) \<or> \<not> ho_include_router H e then schema else None))"

definition endpoint_deactivated :: "custom_endpoint \<Rightarrow> 'w app \<Rightarrow> 'w app" where
  "endpoint_deactivated e = (\<lambda>(mc, schema).
     (CustomEndpoint_deactivate e mc,
      if ep_identity e \<in> mc_bound mc \<and> (\<exists>r \<in> set (mc_routes mc). route_matches e r) then None else schema))"

inductive app_reach ::
  "('w, 'c, 'v, 'f) host \<Rightarrow> (string \<Rightarrow> string \<Rightarrow> string \<Rightarrow> api_route list \<Rightarrow> json) \<Rightarrow> json result \<Rightarrow> 'w app \<Rightarrow> bool"
  for H describe project_toml where
  started: "app_reach H describe project_toml (mc, None)"
| activated: "app_reach H describe project_toml s \<Longrightarrow> app_reach H describe project_toml (endpoint_activated H e s)"
| deactivated: "app_reach H describe project_toml s \<Longrightarrow> app_reach H describe project_toml (endpoint_deactivated e s)"
| asked: "app_reach H describe project_toml s \<Longrightarrow> app_reach H describe project_toml (snd (custom_openapi describe project_toml s))"

subsection \<open>Lemmas\<close>

text \<open>As delivered, requests of every origin are let in, and with credentials.\<close>

lemma cors_open_by_default:
  assumes "map_of environ ''CCAT_CORS_ENABLED'' = None" "map_of environ ''CCAT_CORS_ALLOWED_ORIGINS'' = None"
  shows "\<exists>opts. cors_options environ = Some opts \<and> map_of opts ''allow_origins'' = Some (PList [PStr ''*'']) \<and>
    map_of opts ''allow_credentials'' = Some (PBool True)"
proof -
  have "get_env environ ''CCAT_CORS_ENABLED'' = Some ''true''" "get_env environ ''CCAT_CORS_ALLOWED_ORIGINS'' = None"
    using assms by (simp_all add: get_env_def Let_def map_of_dict_merge_wf dict_wf_dict_of map_of_dict_of)
      (simp_all add: get_supported_env_variables_def legacy_env_name_def)
  then show ?thesis by (simp add: cors_options_def)
qed

text \<open>
  A server that takes requests has its cat, an event loop and a table of websockets without an entry; when the cat cannot be
  built nothing is stored in the application.
\<close>

lemma welcome_printed: "\<exists>ls. log_welcome environ banner out = (Inr (), out @ ls)"
  by (simp add: log_welcome_def Let_def print_out_def)

lemma lifespan_serves:
  "case lifespan B environ banner l s of
     (Inr x, s') \<Rightarrow> srv_app s' = \<lparr>as_ccat = True, as_event_loop = Some l, as_websocket_manager = Some []\<rparr> \<and>
       CheshireCat_init B (srv_ccat s) = (Inr x, srv_ccat s')
   | (Inl e, s') \<Rightarrow> srv_app s' = srv_app s \<and> srv_terminal s' = srv_terminal s \<and> fst (CheshireCat_init B (srv_ccat s)) = Inl e"
proof -
  obtain r ca where init: "CheshireCat_init B (srv_ccat s) = (r, ca)" by fastforce
  obtain ls where "log_welcome environ banner (srv_terminal s) = (Inr (), srv_terminal s @ ls)" using welcome_printed by blast
  then show ?thesis using init
    by (cases r) (simp_all add: lifespan_def on_ccat_def on_app_def print_on_def bindM_def)
qed

text \<open>Without the cookie the browser is sent to the login page.\<close>

lemma admin_page_needs_cookie:
  "cookies ''ccat_user_token'' \<in> {None, Some []} \<Longrightarrow>
     get_admin_single_page_app J handlers urlencode url_path cookies db = (Inl (CoreFrontendAuth_not_allowed urlencode url_path), db)"
  by (auto simp: get_admin_single_page_app_def CoreFrontendAuth_extract_credentials_def bindM_def)

lemma admin_page_sent:
  assumes "get_admin_single_page_app J handlers urlencode url_path cookies db = (Inr page, db')"
  shows "page = ''/admin/index.html'' \<and> (\<exists>token u. cookies ''ccat_user_token'' = Some token \<and> token \<noteq> [] \<and>
     ConnectionAuth_call J handlers http (Some token) STATIC READ ''user'' (CoreFrontendAuth_not_allowed urlencode url_path) db = (Inr u, db'))"
  using assms
  by (auto simp: get_admin_single_page_app_def CoreFrontendAuth_extract_credentials_def bindM_def liftM_def
      split: option.splits if_splits sum.splits prod.splits)

lemma get_db_once: "get_db environ open_db is = (db, is') \<Longrightarrow> get_db environ' open_db' is' = (db, is')"
  unfolding get_db_def by (rule getinstance_once)

text \<open>Whatever plugins switch on and off, the description that is handed out is that of the routes there are.\<close>

theorem openapi_is_current:
  assumes "app_reach H describe project_toml s"
  shows "snd s = None \<or> (\<exists>schema. snd s = Some schema \<and> openapi_of describe project_toml (mc_routes (fst s)) = Inr schema)"
  using assms
proof induction
  case (activated s e)
  then show ?case
    by (cases s) (auto simp: endpoint_activated_def CustomEndpoint_activate_def Let_def)
next
  case (deactivated s e)
  then show ?case
    by (cases s) (auto simp: endpoint_deactivated_def CustomEndpoint_deactivate_def remove_first_absent)
next
  case (asked s)
  show ?case
  proof (cases "\<exists>kv kvs. snd s = Some (kv # kvs)")
    case True
    with asked show ?thesis by (auto simp: custom_openapi_def bindM_def)
  next
    case False
    then have "custom_openapi describe project_toml s =
        bindM (\<lambda>s. (openapi_of describe project_toml (mc_routes (fst s)), s)) (\<lambda>schema.
          bindM (modM (\<lambda>(mc, _). (mc, Some schema))) (\<lambda>_. retM schema)) s"
      by (cases "snd s") (auto simp: custom_openapi_def bindM_def split: list.splits)
    with asked show ?thesis
      by (cases s; cases "openapi_of describe project_toml (mc_routes (fst s))") (auto simp: bindM_def)
  qed
qed simp

end
