(* ===== verification/Resumption.thy ===== *)
theory Resumption
  imports Py_Prelude
begin

text \<open>
  Computations that can be interrupted. A computation of type \<open>comp\<close> is one transition of the state; a
  \<open>prog\<close> is the same computation cut into the steps between which another thread may run. Executed in
  one go it is a \<open>comp\<close> again (\<open>run_prog\<close>), and the sequencing of programs agrees with the sequencing of
  computations. \<open>safe\<close> is the rely-guarantee judgement: every step, from any state that satisfies
  the invariant, keeps the invariant and the guarantee, for some value of a ghost variable.
\<close>

subsection \<open>Programs\<close>

datatype ('s, 'a) prog = Done "exn + 'a" | Step "'s \<Rightarrow> ('s, 'a) prog \<times> 's"

definition atomP :: "('s, 'a) comp \<Rightarrow> ('s, 'a) prog" where
  "atomP m = Step (\<lambda>s. map_prod Done id (m s))"

primrec bindP :: "('s, 'a) prog \<Rightarrow> ('a \<Rightarrow> ('s, 'b) prog) \<Rightarrow> ('s, 'b) prog" where
  "bindP (Done r) f = (case r of Inl e \<Rightarrow> Done (Inl e) | Inr x \<Rightarrow> f x)"
| "bindP (Step m) f = Step (map_prod (\<lambda>p. bindP p f) id \<circ> m)"

primrec catchP :: "('s, 'a) prog \<Rightarrow> (exn \<Rightarrow> ('s, 'a) prog) \<Rightarrow> ('s, 'a) prog" where
  "catchP (Done r) h = (case r of Inl e \<Rightarrow> h e | Inr x \<Rightarrow> Done (Inr x))"
| "catchP (Step m) h = Step (map_prod (\<lambda>p. catchP p h) id \<circ> m)"

abbreviation retP :: "'a \<Rightarrow> ('s, 'a) prog" where
  "retP x \<equiv> Done (Inr x)"

abbreviation raiseP :: "exn \<Rightarrow> ('s, 'a) prog" where
  "raiseP e \<equiv> Done (Inl e)"

fun forP :: "'a list \<Rightarrow> ('a \<Rightarrow> ('s, unit) prog) \<Rightarrow> ('s, unit) prog" where
  "forP [] f = retP ()"
| "forP (x # xs) f = bindP (f x) (\<lambda>_. forP xs f)"

subsection \<open>Executing them\<close>

fun prog_step :: "('s, 'a) prog \<times> 's \<Rightarrow> ('s, 'a) prog \<times> 's" where
  "prog_step (Done r, s) = (Done r, s)"
| "prog_step (Step m, s) = m s"

primrec run_prog :: "('s, 'a) prog \<Rightarrow> ('s, 'a) comp" where
  "run_prog (Done r) = liftM r"
| "run_prog (Step m) = (\<lambda>s. case (map_prod run_prog id \<circ> m) s of (k, s') \<Rightarrow> k s')"

lemma run_atom [simp]: "run_prog (atomP m) = m"
proof
  show "run_prog (atomP m) s = m s" for s by (cases "m s") (simp add: atomP_def)
qed

lemma run_bind [simp]: "run_prog (bindP p f) = bindM (run_prog p) (\<lambda>x. run_prog (f x))"
proof (induction p)
  case (Step m)
  show ?case
  proof
    fix s
    obtain q s' where m: "m s = (q, s')" by (cases "m s")
    then have "run_prog (bindP q f) = bindM (run_prog q) (\<lambda>x. run_prog (f x))"
      using Step [of "(q, s')" q] by (metis fsts.intros prod.sel(1) range_eqI)
    then show "run_prog (bindP (Step m) f) s = bindM (run_prog (Step m)) (\<lambda>x. run_prog (f x)) s"
      using m by (simp add: bindM_def)
  qed
qed (simp add: fun_eq_iff bindM_def split: sum.split)

lemma run_catch [simp]: "run_prog (catchP p h) = catchM (run_prog p) (\<lambda>e. run_prog (h e))"
proof (induction p)
  case (Step m)
  show ?case
  proof
    fix s
    obtain q s' where m: "m s = (q, s')" by (cases "m s")
    then have "run_prog (catchP q h) = catchM (run_prog q) (\<lambda>e. run_prog (h e))"
      using Step [of "(q, s')" q] by (metis fsts.intros prod.sel(1) range_eqI)
    then show "run_prog (catchP (Step m) h) s = catchM (run_prog (Step m)) (\<lambda>e. run_prog (h e)) s"
      using m by (simp add: catchM_def)
  qed
qed (simp add: fun_eq_iff catchM_def split: sum.split)

lemma liftM_Inr [simp]: "liftM (Inr x) = retM x" and liftM_Inl [simp]: "liftM (Inl e) = raiseM e"
  by (simp_all add: fun_eq_iff)

lemma run_for [simp]: "run_prog (forP xs f) = forM xs (\<lambda>x. run_prog (f x))"
  by (induction xs) simp_all

text \<open>Left to itself a program is through after finitely many steps, with the result of \<open>run_prog\<close>.\<close>

lemma prog_done [simp]: "(prog_step ^^ n) (Done r, s) = (Done r, s)"
  by (induction n) simp_all

lemma prog_terminates:
  "\<exists>n. \<forall>k \<ge> n. (prog_step ^^ k) (p, s) = (Done (fst (run_prog p s)), snd (run_prog p s))"
proof (induction p arbitrary: s)
  case (Step m)
  obtain q s' where m: "m s = (q, s')" by (cases "m s")
  then obtain n where n: "\<forall>k \<ge> n. (prog_step ^^ k) (q, s') = (Done (fst (run_prog q s')), snd (run_prog q s'))"
    using Step [of "(q, s')" q s'] by (metis fsts.intros prod.sel(1) range_eqI)
  have "(prog_step ^^ k) (Step m, s) = (Done (fst (run_prog (Step m) s)), snd (run_prog (Step m) s))" if "Suc n \<le> k" for k
  proof -
    from that obtain j where "k = Suc j" "n \<le> j" by (metis Suc_le_D Suc_le_mono)
    with n m show ?thesis by (simp add: funpow_Suc_right del: funpow.simps)
  qed
  then show ?case by blast
qed simp

text \<open>A program that begins with an atom of a known effect.\<close>

lemma step_atom: "m s = (Inr x, s') \<Longrightarrow> prog_step (bindP (atomP m) f, s) = (f x, s')"
  by (simp add: atomP_def)

lemma bindP_assoc: "bindP (bindP p f) g = bindP p (\<lambda>x. bindP (f x) g)"
proof (induction p)
  case (Step m)
  have "bindP (bindP q f) g = bindP q (\<lambda>x. bindP (f x) g)" if "m s = (q, s')" for q s s'
    using Step [of "(q, s')" q] that by (metis fsts.intros prod.sel(1) range_eqI)
  then show ?case by (simp add: fun_eq_iff map_prod_def split: prod.split)
qed (simp split: sum.split)

lemma catch_bind_atom: "catchP (bindP (atomP m) f) h =
   Step (\<lambda>s. case m s of (Inl e, s') \<Rightarrow> (h e, s') | (Inr x, s') \<Rightarrow> (catchP (f x) h, s'))"
  by (auto simp: atomP_def fun_eq_iff split: prod.split sum.split)

subsection \<open>Rely and guarantee\<close>

inductive safe ::
  "('g \<Rightarrow> 's \<Rightarrow> bool) \<Rightarrow> ('g \<Rightarrow> 's \<Rightarrow> 'g \<Rightarrow> 's \<Rightarrow> bool) \<Rightarrow> (exn + 'a \<Rightarrow> bool) \<Rightarrow> ('s, 'a) prog \<Rightarrow> bool"
  for P G Q where
  safe_Done: "Q r \<Longrightarrow> safe P G Q (Done r)"
| safe_Step: "(\<And>g s. P g s \<Longrightarrow> safe P G Q (fst (m s)) \<and> (\<exists>g'. P g' (snd (m s)) \<and> G g s g' (snd (m s)))) \<Longrightarrow>
    safe P G Q (Step m)"

inductive_simps safe_Done_iff [simp]: "safe P G Q (Done r)"
inductive_cases safe_StepE: "safe P G Q (Step m)"

lemma safe_weaken: "safe P G Q p \<Longrightarrow> (\<And>r. Q r \<Longrightarrow> R r) \<Longrightarrow> safe P G R p"
  by (induction rule: safe.induct) (auto intro: safe.intros)

lemma safe_atom:
  assumes "\<And>g s. P g s \<Longrightarrow> Q (fst (m s)) \<and> (\<exists>g'. P g' (snd (m s)) \<and> G g s g' (snd (m s)))"
  shows "safe P G Q (atomP m)"
  unfolding atomP_def by (rule safe_Step) (use assms in auto)

lemma safe_bind:
  assumes "safe P G Q p" "\<And>e. Q (Inl e) \<Longrightarrow> R (Inl e)" "\<And>x. Q (Inr x) \<Longrightarrow> safe P G R (f x)"
  shows "safe P G R (bindP p f)"
  using assms(1)
proof induction
  case (safe_Done r)
  then show ?case using assms(2,3) by (cases r) auto
next
  case (safe_Step m)
  then show ?case by (auto intro!: safe.safe_Step)
qed

lemma safe_catch:
  assumes "safe P G Q p" "\<And>x. Q (Inr x) \<Longrightarrow> R (Inr x)" "\<And>e. Q (Inl e) \<Longrightarrow> safe P G R (h e)"
  shows "safe P G R (catchP p h)"
  using assms(1)
proof induction
  case (safe_Done r)
  then show ?case using assms(2,3) by (cases r) auto
next
  case (safe_Step m)
  then show ?case by (auto intro!: safe.safe_Step)
qed

lemma safe_for:
  assumes "\<And>x. x \<in> set xs \<Longrightarrow> safe P G (\<lambda>_. True) (f x)"
  shows "safe P G (\<lambda>_. True) (forP xs f)"
  using assms by (induction xs) (auto intro: safe_bind)

lemma safe_prog_step:
  assumes "safe P G Q p" "P g s" "G g s g s" "prog_step (p, s) = (p', s')"
  shows "safe P G Q p' \<and> (\<exists>g'. P g' s' \<and> G g s g' s')"
proof (cases p)
  case (Step m)
  have "safe P G Q (fst (m s)) \<and> (\<exists>g'. P g' (snd (m s)) \<and> G g s g' (snd (m s)))"
    using assms(1,2) unfolding Step by (blast elim: safe_StepE)
  then show ?thesis using assms(4) Step by simp
qed (use assms in auto)

text \<open>The steps a program makes before it is through with its first part.\<close>

inductive leads :: "('s, 'a) prog \<Rightarrow> 's \<Rightarrow> nat \<Rightarrow> ('s, 'a) prog \<Rightarrow> 's \<Rightarrow> bool" where
  leads_none: "leads p s 0 p s"
| leads_more: "m s = (q, s1) \<Longrightarrow> leads q s1 n p' s' \<Longrightarrow> leads (Step m) s (Suc n) p' s'"

lemma leads_atom: "m s = (Inr x, s1) \<Longrightarrow> leads (f x) s1 n p' s' \<Longrightarrow> leads (bindP (atomP m) f) s (Suc n) p' s'"
  by (auto simp: atomP_def intro: leads_more)

lemma leads_atom_at:
  "m s = (Inr x, s1) \<Longrightarrow> leads (f x) s1 (n - 1) p' s' \<Longrightarrow> 0 < n \<Longrightarrow> leads (bindP (atomP m) f) s n p' s'"
  using leads_atom [of m s x s1 f "n - 1"] by simp

lemma leads_bind: "leads p s n p' s' \<Longrightarrow> leads (bindP p f) s n (bindP p' f) s'"
  by (induction rule: leads.induct) (auto intro: leads.intros)

lemma leads_catch: "leads p s n p' s' \<Longrightarrow> leads (catchP p h) s n (catchP p' h) s'"
  by (induction rule: leads.induct) (auto intro: leads.intros)

lemma leads_steps: "leads p s n p' s' \<Longrightarrow> (prog_step ^^ n) (p, s) = (p', s')"
  by (induction rule: leads.induct) (simp_all add: funpow_Suc_right del: funpow.simps)

lemma steps_result:
  assumes "(prog_step ^^ n) (p, s) = (Done r, s')"
  shows "run_prog p s = (r, s')"
proof -
  obtain N where "\<forall>k \<ge> N. (prog_step ^^ k) (p, s) = (Done (fst (run_prog p s)), snd (run_prog p s))"
    using prog_terminates [of p s] by blast
  then have "(prog_step ^^ (N + n)) (p, s) = (Done (fst (run_prog p s)), snd (run_prog p s))" by simp
  moreover have "(prog_step ^^ (N + n)) (p, s) = (Done r, s')" using assms by (simp add: funpow_add)
  ultimately show ?thesis by (simp add: prod_eq_iff)
qed

end
