(* ===== verification/Stepwise_Agents.thy ===== *)
theory Stepwise_Agents
  imports Agents Resumption
begin

text \<open>
  The agents, step by step: \<open>agents/main_agent.py\<close>, \<open>agents/procedures_agent.py\<close>, \<open>agents/form_agent.py\<close>, \<open>agents/memory_agent.py\<close> and the
  callbacks of a chain, cut where they touch the session of the user or ask the language model, so that another thread can
  run in between. It is the code of the theory Agents, and executed in one go it is the definitions given there. The code of a plugin (a hook, a
  tool, the turn of a form) is one step.
\<close>

type_synonym ('q, 'x, 'a) stray_prog = "(('q, 'x) stray, 'a) prog"

subsection \<open>Asking the language model\<close>

definition stepwise_invoke_chain ::
  "('w, 'db, 'q, 'x) cheshire \<Rightarrow> bool \<Rightarrow> string \<Rightarrow> chat_message list result \<Rightarrow> ('q, 'x, string) stray_prog" where
  "stepwise_invoke_chain K stream source rendered =
     bindP (bindP (atomP (time_time K)) (\<lambda>now. atomP (modM (set_memory (\<lambda>wm. wm\<lparr>model_interactions :=
       model_interactions wm @ [LLMModelInteraction source [] 0 now [] 0 0]\<rparr>))))) (\<lambda>_.
     bindP (Done rendered) (\<lambda>msgs.
     bindP (atomP (on_chat_model_start K msgs)) (\<lambda>_.
     bindP (atomP (on_ext (cc_generate K msgs))) (\<lambda>answer.
     bindP (if stream then forP (fst answer) (\<lambda>token. atomP (on_llm_new_token K token)) else retP ()) (\<lambda>_.
     bindP (atomP (on_llm_end K (snd answer))) (\<lambda>_. retP (snd answer)))))))"

definition stepwise_chat ::
  "('w, 'db, 'q, 'x) cheshire \<Rightarrow> bool \<Rightarrow> json \<Rightarrow> string \<Rightarrow> ('q, 'x, string) stray_prog" where
  "stepwise_chat K stream variables template =
     (case match_prompt_variables (cc_set_order K) (cc_template_vars K) variables template of
        (vs, template) \<Rightarrow>
          bindP (atomP (\<lambda>c. (langchainfy_chat_history (cc_download K) 20 (memory_of c), c))) (\<lambda>hist.
          stepwise_invoke_chain K stream (cc_caller K) (chat_prompt K template vs hist)))"

subsection \<open>FormAgent\<close>

definition stepwise_form_agent :: "('w, 'db, 'q, 'x) cheshire \<Rightarrow> ('q, 'x, agent_output) stray_prog" where
  "stepwise_form_agent K =
     bindP (atomP (getM (\<lambda>c. active_form (memory_of c)))) (\<lambda>active.
       case active of
         None \<Rightarrow> retP AgentOutput
       | Some fo \<Rightarrow>
           if fm_state (fo_form fo) = CLOSED then
             bindP (atomP (modM (set_memory (\<lambda>wm. wm\<lparr>active_form := None\<rparr>)))) (\<lambda>_. retP AgentOutput)
           else
             catchP (bindP (atomP (run_form K fo)) (\<lambda>out. Done (form_output K fo out))) (\<lambda>e. retP AgentOutput))"

subsection \<open>ProceduresAgent\<close>

definition stepwise_execute_chain ::
  "('w, 'db, 'q, 'x) cheshire \<Rightarrow> tea \<Rightarrow> (string, ('q, 'x) procedure) dict \<Rightarrow> ('q, 'x, llm_action) stray_prog" where
  "stepwise_execute_chain K template allowed =
     bindP (atomP (generate_examples K (dict_values allowed) [])) (\<lambda>examples.
     bindP (Done (case template of TText s \<Rightarrow> Inr s | _ \<Rightarrow> Inl (Exn ''TypeError'' ''template''))) (\<lambda>s.
     bindP (stepwise_chat K False (tool_variables allowed examples) s) (\<lambda>reply.
     retP (parse_action K reply))))"

definition stepwise_subagents ::
  "('w, 'db, 'q, 'x) cheshire \<Rightarrow> llm_action \<Rightarrow> (string, ('q, 'x) procedure) dict \<Rightarrow> ('q, 'x, agent_output) stray_prog" where
  "stepwise_subagents K a allowed =
     (if truthy (la_action a) then
        bindP (Done (chosen_procedure allowed (la_action a))) (\<lambda>chosen.
          case chosen of
            None \<Rightarrow> retP empty_output
          | Some (Inl t) \<Rightarrow>
              catchP (bindP (atomP (tool_run t (la_action_input a))) (\<lambda>tool_output.
                retP \<lparr>ao_output = Some tool_output,
                      ao_intermediate_steps = [step (la_action a) (la_action_input a) (PStr tool_output)],
                      ao_return_direct = tl_return_direct t\<rparr>))
              (\<lambda>e. retP empty_output)
          | Some (Inr f) \<Rightarrow>
              catchP (bindP (atomP (modM (start_form (fc_body f)))) (\<lambda>_. stepwise_form_agent K)) (\<lambda>e. retP empty_output))
      else retP empty_output)"

definition stepwise_execute_procedures :: "('w, 'db, 'q, 'x) cheshire \<Rightarrow> ('q, 'x, agent_output) stray_prog" where
  "stepwise_execute_procedures K =
     bindP (atomP (pipe K ''agent_prompt_instructions'' (TText TOOL_PROMPT))) (\<lambda>template.
     bindP (atomP (\<lambda>c. (get_recalled_procedures_names (memory_of c), c))) (\<lambda>names.
     bindP (atomP (pipe K ''agent_allowed_tools'' names)) (\<lambda>names.
     bindP (Done (prepare_allowed_procedures names (procedures (cc_hatter K)) [])) (\<lambda>allowed.
     bindP (stepwise_execute_chain K template allowed) (\<lambda>a.
     stepwise_subagents K a allowed)))))"

definition stepwise_agent_input :: "(json \<Rightarrow> json) \<Rightarrow> ('q, 'x, unit) stray_prog" where
  "stepwise_agent_input f =
     bindP (atomP (\<lambda>c. (agent_input_fields (se_agent_input (sr_heap c (sr_wm c))), c))) (\<lambda>d.
     atomP (modM (set_session (\<lambda>se. se\<lparr>se_agent_input := Some (TInput (f d))\<rparr>))))"

definition stepwise_tools_output :: "('w, 'db, 'q, 'x) cheshire \<Rightarrow> pyval list \<Rightarrow> ('q, 'x, unit) stray_prog" where
  "stepwise_tools_output K steps =
     (if steps = [] then retP ()
      else bindP (stepwise_agent_input (AList.update ''tools_output''
                   (PStr (''## Context of executed system tools: '' @ newline)))) (\<lambda>_.
           forP steps (\<lambda>s. bindP (Done (step_line K s)) (\<lambda>line. stepwise_agent_input (add_tools_output line)))))"

definition stepwise_procedures_agent :: "('w, 'db, 'q, 'x) cheshire \<Rightarrow> ('q, 'x, agent_output) stray_prog" where
  "stepwise_procedures_agent K =
     bindP (stepwise_form_agent K) (\<lambda>form_out.
       if ao_return_direct form_out then retP form_out
       else
         bindP (atomP (getM (\<lambda>c. procedural_memories (memory_of c)))) (\<lambda>recalled_procs.
           if recalled_procs = [] then retP AgentOutput
           else
             catchP (bindP (stepwise_execute_procedures K) (\<lambda>res.
                 if ao_return_direct res then retP res
                 else bindP (stepwise_tools_output K (ao_intermediate_steps res)) (\<lambda>_. retP res)))
               (\<lambda>e. retP AgentOutput)))"

subsection \<open>MemoryAgent and MainAgent\<close>

definition stepwise_memory_agent ::
  "('w, 'db, 'q, 'x) cheshire \<Rightarrow> tea \<Rightarrow> tea \<Rightarrow> ('q, 'x, agent_output) stray_prog" where
  "stepwise_memory_agent K prompt_prefix prompt_suffix =
     bindP (atomP (\<lambda>c. (agent_input_fields (se_agent_input (sr_heap c (sr_wm c))), c))) (\<lambda>prompt_variables.
     bindP (Done (prompt_text prompt_prefix)) (\<lambda>p.
     bindP (Done (prompt_text prompt_suffix)) (\<lambda>s.
     bindP (stepwise_chat K True prompt_variables (p @ s)) (\<lambda>out.
     retP (AgentOutput\<lparr>ao_output := Some out\<rparr>)))))"

definition stepwise_run_agents :: "('w, 'db, 'q, 'x) cheshire \<Rightarrow> tea \<Rightarrow> tea \<Rightarrow> ('q, 'x, agent_output) stray_prog" where
  "stepwise_run_agents K prompt_prefix prompt_suffix =
     bindP (stepwise_procedures_agent K) (\<lambda>procs_out.
       if ao_return_direct procs_out then retP procs_out
       else bindP (stepwise_memory_agent K prompt_prefix prompt_suffix) (\<lambda>out.
            retP (out\<lparr>ao_intermediate_steps := ao_intermediate_steps out @ ao_intermediate_steps procs_out\<rparr>)))"

definition stepwise_main_agent :: "('w, 'db, 'q, 'x) cheshire \<Rightarrow> ('q, 'x, agent_output) stray_prog" where
  "stepwise_main_agent K =
     bindP (atomP (\<lambda>c. (format_agent_input K c, c))) (\<lambda>agent_input.
     bindP (atomP (pipe K ''before_agent_starts'' (TInput agent_input))) (\<lambda>t.
     bindP (atomP (modM (set_session (\<lambda>se. se\<lparr>se_agent_input := Some t\<rparr>)))) (\<lambda>_.
     bindP (atomP (pipe K ''agent_fast_reply'' (TDict []))) (\<lambda>fast.
       case agent_fast_answer fast of
         Some r \<Rightarrow> Done r
       | None \<Rightarrow>
           bindP (atomP (pipe K ''agent_prompt_prefix'' (TText MAIN_PROMPT_PREFIX))) (\<lambda>prompt_prefix.
           bindP (atomP (pipe K ''agent_prompt_suffix'' (TText MAIN_PROMPT_SUFFIX))) (\<lambda>prompt_suffix.
           stepwise_run_agents K prompt_prefix prompt_suffix))))))"

subsection \<open>Executed in one go they are the agents\<close>

lemma run_if: "run_prog (if b then p else q) = (if b then run_prog p else run_prog q)"
  by simp

lemma run_option: "run_prog (case x of None \<Rightarrow> p | Some y \<Rightarrow> q y) = (case x of None \<Rightarrow> run_prog p | Some y \<Rightarrow> run_prog (q y))"
  by (cases x) simp_all

lemma run_sum: "run_prog (case x of Inl y \<Rightarrow> p y | Inr z \<Rightarrow> q z) = (case x of Inl y \<Rightarrow> run_prog (p y) | Inr z \<Rightarrow> run_prog (q z))"
  by (cases x) simp_all

lemma run_pair: "run_prog (case x of (a, b) \<Rightarrow> p a b) = (case x of (a, b) \<Rightarrow> run_prog (p a b))"
  by (cases x) simp

lemmas run_simps = run_atom run_bind run_catch run_for run_if run_prog.simps(1) liftM_Inr liftM_Inl

lemma run_invoke_chain: "run_prog (stepwise_invoke_chain K b s r) = invoke_chain K b s r"
  unfolding stepwise_invoke_chain_def invoke_chain_def ModelInteractionHandler_init_def case_prod_beta run_simps ..

lemma run_chat: "run_prog (stepwise_chat K b vs t) = chat_with_history K b vs t"
  unfolding stepwise_chat_def chat_with_history_def run_simps run_pair run_invoke_chain ..

lemma run_form_agent: "run_prog (stepwise_form_agent K) = FormAgent_execute K"
  unfolding stepwise_form_agent_def FormAgent_execute_def run_simps run_option ..

lemma run_subagents: "run_prog (stepwise_subagents K a allowed) = execute_subagents K a allowed"
  unfolding stepwise_subagents_def execute_subagents_def run_simps run_option run_sum run_form_agent ..

lemma run_tools_output: "run_prog (stepwise_tools_output K xs) = write_tools_output K xs"
  unfolding stepwise_tools_output_def write_tools_output_def stepwise_agent_input_def change_agent_input_def run_simps ..

lemma run_procedures_agent: "run_prog (stepwise_procedures_agent K) = ProceduresAgent_execute K"
  unfolding stepwise_procedures_agent_def ProceduresAgent_execute_def stepwise_execute_procedures_def execute_procedures_def
    stepwise_execute_chain_def execute_chain_def run_simps run_chat run_form_agent run_subagents run_tools_output ..

lemma run_main_agent: "run_prog (stepwise_main_agent K) = MainAgent_execute K"
  unfolding stepwise_main_agent_def MainAgent_execute_def stepwise_run_agents_def run_agents_def stepwise_memory_agent_def MemoryAgent_execute_def
    run_simps run_option run_procedures_agent run_chat ..

end
