(* ===== verification/Interleaving.thy ===== *)
theory Interleaving
  imports Stray_Cat Stepwise_Agents
begin

text \<open>
  Several requests at a time. The server creates one \<open>StrayCat\<close> for each HTTP request and each websocket and runs
  \<open>cat.run\<close> in a pool of threads, so the turns of several users, and of one user, interleave. A request is a
  program of \<open>Resumption\<close> here, cut where the code touches the shared state: the session object, the cache,
  the vector memory, the websockets and the services. It is the same code as in \<open>Stray_Cat\<close>, and executed in one go
  it is the definition given there. The agents come from \<open>Stepwise_Agents\<close>. A hook
  and the sending of a message are one step each.

  The pool holds the threads: the user and the session object of the thread's cat, and what it still has to do. An
  event is the arrival of a request, at which its cat is created, or one step of one thread.
\<close>

subsection \<open>A turn, step by step\<close>

definition stepwise_embed :: "('w, 'db, 'q, 'x) cheshire \<Rightarrow> tea \<Rightarrow> ('q, 'x, real list) stray_prog" where
  "stepwise_embed K t =
     bindP (Done (case t of TText s \<Rightarrow> Inr s | _ \<Rightarrow> Inl (Exn ''TypeError'' ''expected string or buffer''))) (\<lambda>s.
     bindP (atomP (on_ext (cc_embed_query K s))) (\<lambda>embedding.
     bindP (atomP (modM (set_memory (\<lambda>wm. wm\<lparr>recall_query := s\<rparr>)))) (\<lambda>_.
     bindP (atomP (time_time K)) (\<lambda>now.
     bindP (atomP (modM (set_memory (\<lambda>wm. wm\<lparr>model_interactions := model_interactions wm @
       [EmbedderModelInteraction (cc_caller K) [s] (cc_count_tokens K s) now embedding]\<rparr>)))) (\<lambda>_.
     retP embedding)))))"

definition stepwise_recall_one :: "tea \<times> string \<times> 'q collection \<Rightarrow> ('q, 'x, unit) stray_prog" where
  "stepwise_recall_one = (\<lambda>(config, memory_type, C).
     bindP (Done (case config of TConfig cf \<Rightarrow> Inr cf | _ \<Rightarrow> Inl (Exn ''TypeError'' ''recall config''))) (\<lambda>cf.
     bindP (atomP (getM (\<lambda>c. recall_memories_from_embedding C (rcf_embedding cf) (Some (rcf_metadata cf)) (rcf_k cf)
       (rcf_threshold cf) (sr_db c)))) (\<lambda>memories.
     atomP (modM (set_memory (set_memories memory_type memories))))))"

definition stepwise_recall :: "('w, 'db, 'q, 'x) cheshire \<Rightarrow> string option \<Rightarrow> ('q, 'x, unit) stray_prog" where
  "stepwise_recall K query =
     bindP (atomP (\<lambda>c. (recall_text query (memory_of c), c))) (\<lambda>t.
     bindP (atomP (pipe K ''cat_recall_query'' t)) (\<lambda>t.
     bindP (stepwise_embed K t) (\<lambda>embedding.
     bindP (atomP (notify_hook K ''before_cat_recalls_memories'')) (\<lambda>_.
     bindP (atomP (getM sr_user_id)) (\<lambda>user_id.
     bindP (atomP (pipe K ''before_cat_recalls_episodic_memories''
       (TConfig (default_recall_config embedding [(''source'', PStr user_id)])))) (\<lambda>episodic.
     bindP (atomP (pipe K ''before_cat_recalls_declarative_memories'' (TConfig (default_recall_config embedding [])))) (\<lambda>declarative.
     bindP (atomP (pipe K ''before_cat_recalls_procedural_memories'' (TConfig (default_recall_config embedding [])))) (\<lambda>procedural.
     bindP (forP (zip [episodic, declarative, procedural] (vm_collections (cc_memory K))) stepwise_recall_one) (\<lambda>_.
     atomP (notify_hook K ''after_cat_recalls_memories''))))))))))"

definition stepwise_store :: "('w, 'db, 'q, 'x) cheshire \<Rightarrow> string option \<Rightarrow> ('q, 'x, unit) stray_prog" where
  "stepwise_store K user_message_text =
     bindP (Done (lookup_exn (Exn ''ValidationError'' ''page_content'') user_message_text)) (\<lambda>txt.
     bindP (atomP (time_time K)) (\<lambda>now.
     bindP (atomP (getM sr_user_id)) (\<lambda>user_id.
     bindP (atomP (pipe K ''before_cat_stores_episodic_memory''
       (TDocument \<lparr>page_content = txt, metadata = [(''source'', PStr user_id), (''when'', PFloat now)]\<rparr>))) (\<lambda>t.
     bindP (atomP (on_ext (cc_embed_documents K [txt]))) (\<lambda>embeddings.
     bindP (Done (case t of TDocument d \<Rightarrow> Inr d | _ \<Rightarrow> Inl (Exn ''AttributeError'' ''page_content''))) (\<lambda>doc.
     bindP (Done (case embeddings of e # es \<Rightarrow> Inr e | [] \<Rightarrow> Inl (Exn ''IndexError'' ''list index out of range''))) (\<lambda>embedding.
     bindP (Done (episodic_collection (cc_memory K))) (\<lambda>C.
     bindP (atomP (on_ext (cc_uuid K))) (\<lambda>uuid.
     bindP (atomP (on_db (add_point C uuid (page_content doc) embedding (Some (metadata doc)) None))) (\<lambda>_.
     retP ()))))))))))"

definition stepwise_final :: "('w, 'db, 'q, 'x) cheshire \<Rightarrow> agent_output \<Rightarrow> ('q, 'x, message) stray_prog" where
  "stepwise_final K out =
     bindP (atomP (\<lambda>c. (build_why (memory_of c), c))) (\<lambda>why.
     bindP (atomP (time_time K)) (\<lambda>now.
     atomP (getM (\<lambda>c. cat_message (sr_user_id c) now (case ao_output out of None \<Rightarrow> ''None'' | Some s \<Rightarrow> s)
       (Some (why\<lparr>why_intermediate_steps := ao_intermediate_steps out, why_agent_output := Some (AgentOutput_dump out)\<rparr>))))))"

definition stepwise_reply :: "('w, 'db, 'q, 'x) cheshire \<Rightarrow> ('q, 'x, agent_output) stray_prog" where
  "stepwise_reply K =
     catchP (stepwise_main_agent K) (\<lambda>e.
       let error_description = exn_str K e
       in if \<not> contains unparsable error_description then raiseP e
          else retP (AgentOutput\<lparr>ao_output := Some (replace_all backquote [] (replace_all unparsable [] error_description))\<rparr>))"

definition stepwise_answer :: "('w, 'db, 'q, 'x) cheshire \<Rightarrow> ('q, 'x, reply) stray_prog" where
  "stepwise_answer K =
     bindP (stepwise_reply K) (\<lambda>out.
     bindP (atomP current_text) (\<lambda>txt.
     bindP (stepwise_store K txt) (\<lambda>_.
     bindP (stepwise_final K out) (\<lambda>m.
     bindP (atomP (pipe K ''before_cat_sends_message'' (TMessage m))) (\<lambda>t.
     bindP (Done (tea_message t)) (\<lambda>m.
     bindP (atomP (modM (set_memory (update_history m)))) (\<lambda>_.
     retP (Reply m))))))))"

definition stepwise_recall_and_answer :: "('w, 'db, 'q, 'x) cheshire \<Rightarrow> ('q, 'x, reply) stray_prog" where
  "stepwise_recall_and_answer K =
     bindP (catchP (bindP (stepwise_recall K None) (\<lambda>_. retP True)) (\<lambda>e. retP False)) (\<lambda>ok.
       if ok then stepwise_answer K else retP (ErrorDict recall_error))"

definition stepwise_call :: "('w, 'db, 'q, 'x) cheshire \<Rightarrow> json \<Rightarrow> ('q, 'x, reply) stray_prog" where
  "stepwise_call K message_dict =
     bindP (atomP (getM sr_user_id)) (\<lambda>user_id.
     bindP (atomP (time_time K)) (\<lambda>now.
     bindP (Done (UserMessage_validate now (AList.update ''user_id'' (PStr user_id) message_dict))) (\<lambda>um.
     bindP (atomP (modM (set_memory (\<lambda>wm. wm\<lparr>model_interactions := [], user_message_json := Some um\<rparr>)))) (\<lambda>_.
     bindP (atomP (pipe K ''fast_reply'' (TDict []))) (\<lambda>fast.
     bindP (atomP (time_time K)) (\<lambda>now.
       case fast_answer K user_id now fast of
         Some m \<Rightarrow> retP (Reply m)
       | None \<Rightarrow>
           bindP (atomP (\<lambda>c. (lookup_exn (Exn ''AttributeError'' ''user_message_json'') (user_message_json (memory_of c)), c))) (\<lambda>um.
           bindP (atomP (pipe K ''before_cat_reads_message'' (TMessage um))) (\<lambda>t.
           bindP (Done (tea_message t)) (\<lambda>um.
           bindP (atomP (modM (set_memory (\<lambda>wm. wm\<lparr>user_message_json := Some um\<rparr>)))) (\<lambda>_.
           bindP (atomP (modM (set_memory (update_history um)))) (\<lambda>_.
           stepwise_recall_and_answer K)))))))))))"

definition stepwise_run :: "('w, 'db, 'q, 'x) cheshire \<Rightarrow> json \<Rightarrow> bool \<Rightarrow> ('q, 'x, reply option) stray_prog" where
  "stepwise_run K message_dict return_message =
     catchP
       (bindP (stepwise_call K message_dict) (\<lambda>r.
        bindP (atomP (update_working_memory_cache K)) (\<lambda>_.
          if return_message then retP (Some r)
          else bindP (atomP (send_reply K r)) (\<lambda>_. retP None))))
       (\<lambda>e. if return_message then retP (Some (ErrorDict [(''error'', PStr (exn_str K e))]))
            else bindP (atomP (report_error K e)) (\<lambda>_. retP None))"

subsection \<open>Requests\<close>

text \<open>
  The life of a websocket: the messages that arrive until the client leaves, then the \<open>finally\<close> branch and the
  storing of the memory. Another exception than the disconnection skips the storing.
\<close>

definition websocket_endpoint :: "('w, 'db, 'q, 'x) cheshire \<Rightarrow> json list \<Rightarrow> ('q, 'x, unit) stray_comp" where
  "websocket_endpoint K msgs =
     bindM (catchM (forM msgs (handle_message K)) (\<lambda>e.
       if exn_name e = ''WebSocketDisconnect'' then retM () else bindM (modM (\<lambda>c. c\<lparr>sr_connections := remove_connection (sr_user_id c) (sr_connections c)\<rparr>)) (\<lambda>_. raiseM e))) (\<lambda>_.
     close_websocket K)"

datatype request =
  Chat json
| GetHistory
| WipeHistory
| Websocket nat "json list"

datatype answer = Answered "reply option" | Messages "message list" | Told json | Closed

fun arrival :: "('w, 'db, 'q, 'x) cheshire \<Rightarrow> string \<Rightarrow> request \<Rightarrow> ('q, 'x) stray \<Rightarrow> ('q, 'x) stray" where
  "arrival K u (Websocket ws msgs) c = open_websocket K u ws c"
| "arrival K u req c = StrayCat_init K u c"

definition stepwise_message :: "('w, 'db, 'q, 'x) cheshire \<Rightarrow> json \<Rightarrow> ('q, 'x, reply option) stray_prog" where
  "stepwise_message K payload =
     bindP (atomP (getM sr_user_id)) (\<lambda>user_id. stepwise_run K (dict_merge [(''user_id'', PStr user_id)] payload) True)"

definition stepwise_http :: "('w, 'db, 'q, 'x) cheshire \<Rightarrow> ('q, 'x, answer) stray_prog \<Rightarrow> ('q, 'x, answer) stray_prog" where
  "stepwise_http K p = bindP p (\<lambda>r. bindP (atomP (update_working_memory_cache K)) (\<lambda>_. retP r))"

definition stepwise_handle :: "('w, 'db, 'q, 'x) cheshire \<Rightarrow> json \<Rightarrow> ('q, 'x, unit) stray_prog" where
  "stepwise_handle K message_dict =
     bindP (atomP (modM (load_working_memory_from_cache K))) (\<lambda>_.
     bindP (stepwise_run K message_dict False) (\<lambda>_. retP ()))"

definition stepwise_websocket :: "('w, 'db, 'q, 'x) cheshire \<Rightarrow> json list \<Rightarrow> ('q, 'x, unit) stray_prog" where
  "stepwise_websocket K msgs =
     bindP (catchP (forP msgs (stepwise_handle K)) (\<lambda>e.
       if exn_name e = ''WebSocketDisconnect'' then retP () else bindP (atomP (modM (\<lambda>c. c\<lparr>sr_connections := remove_connection (sr_user_id c) (sr_connections c)\<rparr>))) (\<lambda>_. raiseP e))) (\<lambda>_.
     bindP (atomP (modM (\<lambda>c. c\<lparr>sr_connections := remove_connection (sr_user_id c) (sr_connections c)\<rparr>))) (\<lambda>_.
     atomP (update_working_memory_cache K)))"

fun serve :: "('w, 'db, 'q, 'x) cheshire \<Rightarrow> request \<Rightarrow> ('q, 'x, answer) stray_prog" where
  "serve K (Chat payload) = stepwise_http K (bindP (stepwise_message K payload) (\<lambda>r. retP (Answered r)))"
| "serve K GetHistory = stepwise_http K (bindP (atomP get_conversation_history) (\<lambda>ms. retP (Messages ms)))"
| "serve K WipeHistory = stepwise_http K (bindP (atomP wipe_conversation_history) (\<lambda>d. retP (Told d)))"
| "serve K (Websocket ws msgs) = bindP (stepwise_websocket K msgs) (\<lambda>_. retP Closed)"

subsection \<open>The pool of threads\<close>

type_synonym ('q, 'x) thread = "string \<times> nat \<times> ('q, 'x, answer) stray_prog"

record ('q, 'x) pool =
  pl_state :: "('q, 'x) stray"
  pl_threads :: "nat \<Rightarrow> ('q, 'x) thread option"

datatype event = Arrive nat string request | Go nat

fun pool_do :: "('w, 'db, 'q, 'x) cheshire \<Rightarrow> event \<Rightarrow> ('q, 'x) pool \<Rightarrow> ('q, 'x) pool" where
  "pool_do K (Arrive i u req) p =
     (case pl_threads p i of
        Some t \<Rightarrow> p
      | None \<Rightarrow>
          (let c = arrival K u req (pl_state p)
           in \<lparr>pl_state = c, pl_threads = (pl_threads p)(i \<mapsto> (u, sr_wm c, serve K req))\<rparr>))"
| "pool_do K (Go i) p =
     (case pl_threads p i of
        None \<Rightarrow> p
      | Some (u, w, t) \<Rightarrow>
          (case prog_step (t, (pl_state p)\<lparr>sr_user_id := u, sr_wm := w\<rparr>) of
             (t', c) \<Rightarrow> \<lparr>pl_state = c, pl_threads = (pl_threads p)(i \<mapsto> (sr_user_id c, sr_wm c, t'))\<rparr>))"

definition pool_run :: "('w, 'db, 'q, 'x) cheshire \<Rightarrow> event list \<Rightarrow> ('q, 'x) pool \<Rightarrow> ('q, 'x) pool" where
  "pool_run K evs p = foldl (\<lambda>p e. pool_do K e p) p evs"

definition idle_pool :: "('q, 'x) stray \<Rightarrow> ('q, 'x) pool" where
  "idle_pool c = \<lparr>pl_state = c, pl_threads = Map.empty\<rparr>"

subsection \<open>Alone, a request is served as the sequential code serves it\<close>

lemmas stepwise_defs =
  stepwise_embed_def stepwise_recall_one_def stepwise_recall_def stepwise_store_def stepwise_final_def stepwise_answer_def
  stepwise_recall_and_answer_def stepwise_call_def stepwise_run_def stepwise_message_def stepwise_http_def
  stepwise_handle_def stepwise_websocket_def

lemma run_recall: "run_prog (stepwise_recall K q) = recall_relevant_memories_to_working_memory K q"
  unfolding stepwise_recall_def recall_relevant_memories_to_working_memory_def stepwise_embed_def embed_recall_query_def
    stepwise_recall_one_def recall_one_def case_prod_beta run_simps ..

lemma run_reply: "run_prog (stepwise_reply K) = reply_with_agent K"
  unfolding stepwise_reply_def reply_with_agent_def run_simps run_main_agent Let_def ..

lemma run_answer: "run_prog (stepwise_answer K) = answer_user K"
  unfolding stepwise_answer_def answer_user_def stepwise_store_def store_user_message_in_episodic_memory_def
    stepwise_final_def final_message_def run_simps run_reply ..

lemma run_recall_and_answer: "run_prog (stepwise_recall_and_answer K) = recall_and_answer K"
  unfolding stepwise_recall_and_answer_def recall_and_answer_def run_simps run_recall run_answer ..

lemma run_call: "run_prog (stepwise_call K d) = cat_call K d"
  unfolding stepwise_call_def cat_call_def run_simps run_option run_recall_and_answer ..

lemma run_run: "run_prog (stepwise_run K d b) = run K d b"
  unfolding stepwise_run_def run_def run_simps run_call ..

lemma run_websocket: "run_prog (stepwise_websocket K msgs) = websocket_endpoint K msgs"
  unfolding stepwise_websocket_def websocket_endpoint_def close_websocket_def stepwise_handle_def handle_message_def run_simps run_run ..

text \<open>The sequential code of a request, from the creation of its cat on.\<close>

fun sequential :: "('w, 'db, 'q, 'x) cheshire \<Rightarrow> string \<Rightarrow> request \<Rightarrow> ('q, 'x, answer) stray_comp" where
  "sequential K u (Chat payload) = bindM (http_request K u (message_with_cat K payload)) (\<lambda>r. retM (Answered r))"
| "sequential K u GetHistory = bindM (http_request K u get_conversation_history) (\<lambda>ms. retM (Messages ms))"
| "sequential K u WipeHistory = bindM (http_request K u wipe_conversation_history) (\<lambda>d. retM (Told d))"
| "sequential K u (Websocket ws msgs) = bindM (modM (open_websocket K u ws)) (\<lambda>_. bindM (websocket_endpoint K msgs) (\<lambda>_. retM Closed))"

lemma run_serve: "run_prog (serve K req) (arrival K u req c) = sequential K u req c"
proof (cases req)
  case (Chat payload)
  have "run_prog (stepwise_message K payload) = message_with_cat K payload"
    unfolding stepwise_message_def message_with_cat_def run_simps run_run ..
  then show ?thesis
    unfolding Chat serve.simps stepwise_http_def run_simps by (simp add: http_request_def bindM_def split: prod.split sum.split)
next
  case (Websocket ws msgs)
  then show ?thesis unfolding Websocket serve.simps run_simps run_websocket by simp
next
  case GetHistory
  show ?thesis
    unfolding GetHistory serve.simps stepwise_http_def run_simps by (simp add: http_request_def bindM_def split: prod.split sum.split)
next
  case WipeHistory
  show ?thesis
    unfolding WipeHistory serve.simps stepwise_http_def run_simps by (simp add: http_request_def bindM_def split: prod.split sum.split)
qed

lemma load_user [simp]: "sr_user_id (load_working_memory_from_cache K c) = sr_user_id c"
  by (simp add: load_working_memory_from_cache_def Let_def split: prod.split option.split stored.split)

lemma arrival_user [simp]: "sr_user_id (arrival K u req c) = u"
  by (cases req) (simp_all add: StrayCat_init_def open_websocket_def Let_def)

text \<open>A pool in which the thread \<open>i\<close> made the last step.\<close>

definition pool_at :: "('q, 'x) stray \<Rightarrow> (nat \<Rightarrow> ('q, 'x) thread option) \<Rightarrow> nat \<Rightarrow> ('q, 'x, answer) stray_prog \<Rightarrow> ('q, 'x) pool" where
  "pool_at c ths i t = \<lparr>pl_state = c, pl_threads = ths(i \<mapsto> (sr_user_id c, sr_wm c, t))\<rparr>"

lemma pool_at_sel [simp]:
  "pl_state (pool_at c ths i t) = c" "pl_threads (pool_at c ths i t) = ths(i \<mapsto> (sr_user_id c, sr_wm c, t))"
  by (simp_all add: pool_at_def)

lemma pool_arrive: "pl_threads p i = None \<Longrightarrow>
   pool_do K (Arrive i u req) p = pool_at (arrival K u req (pl_state p)) (pl_threads p) i (serve K req)"
  by (simp add: pool_at_def Let_def)

lemma pool_go:
  "pl_threads p i = Some (u, w, t) \<Longrightarrow> prog_step (t, (pl_state p)\<lparr>sr_user_id := u, sr_wm := w\<rparr>) = (t', c') \<Longrightarrow>
   pool_do K (Go i) p = pool_at c' (pl_threads p) i t'"
  by (simp add: pool_at_def)

lemma pool_run_simps [simp]:
  "pool_run K [] p = p" "pool_run K (e # evs) p = pool_run K evs (pool_do K e p)"
  "pool_run K (evs @ evs') p = pool_run K evs' (pool_run K evs p)"
  by (simp_all add: pool_run_def)

lemma go_on: "(prog_step ^^ k) (t, c) = (t', c') \<Longrightarrow> pool_run K (replicate k (Go i)) (pool_at c ths i t) = pool_at c' ths i t'"
proof (induction k arbitrary: t c)
  case (Suc k)
  obtain t1 c1 where s: "prog_step (t, c) = (t1, c1)" by (cases "prog_step (t, c)")
  then have "pool_do K (Go i) (pool_at c ths i t) = pool_at c1 ths i t1" by (simp add: pool_at_def)
  moreover have "(prog_step ^^ k) (t1, c1) = (t', c')" using Suc.prems s by (simp add: funpow_Suc_right del: funpow.simps)
  ultimately show ?case using Suc.IH by simp
qed simp

text \<open>A thread that is scheduled until it is through leaves the state and the result of its whole program.\<close>

lemma go_through: "\<exists>n. \<forall>k \<ge> n. pool_run K (replicate k (Go i)) (pool_at c ths i t) =
   pool_at (snd (run_prog t c)) ths i (Done (fst (run_prog t c)))"
  using prog_terminates [of t c] go_on by blast

subsection \<open>Properties\<close>



end
