(* ===== verification/Isolation.thy ===== *)
theory Isolation
  imports Interleaving
begin

text \<open>
  What interleaved requests do to the sessions of the users. As long as the plugins only talk, users are apart:
  in every state the pool of \<open>Interleaving\<close> reaches, each session object belongs to one user, and only that
  user's requests work on it, change it and find it in the cache. The proof is rely-guarantee: the invariant \<open>shared_ok\<close> says
  to whom the sessions belong (a ghost map from addresses to users), and each step of a thread keeps it and leaves the others'
  sessions alone. Requests of one user share the session under the in-memory cache and get mixed up.
\<close>

subsection \<open>What belongs to a user\<close>

text \<open>A memory whose metadata name the user as its source, as the filter of the recall reads them.\<close>

definition recalled_for :: "string \<Rightarrow> recalled \<Rightarrow> bool" where
  "recalled_for u r =
     (case map_of (metadata (rc_document r)) ''source'' of
        None \<Rightarrow> False
      | Some v \<Rightarrow> v = PStr u \<or> (case v of PList xs \<Rightarrow> PStr u \<in> set xs | _ \<Rightarrow> False))"

text \<open>A message of or for the user, explained with nobody else's memories.\<close>

definition own_message :: "string \<Rightarrow> message \<Rightarrow> bool" where
  "own_message u m \<longleftrightarrow> cm_user_id (msg_base m) = u \<and>
     (case m of
        CatMessage b (Some why) \<Rightarrow>
          (case map_of (why_memory why) ''episodic'' of None \<Rightarrow> True | Some rs \<Rightarrow> list_all (recalled_for u) rs)
      | _ \<Rightarrow> True)"

definition own_memory :: "string \<Rightarrow> form_object working_memory \<Rightarrow> bool" where
  "own_memory u wm \<longleftrightarrow> list_all (own_message u) (history wm) \<and>
     (case user_message_json wm of None \<Rightarrow> True | Some m \<Rightarrow> own_message u m) \<and>
     list_all (recalled_for u) (episodic_memories wm) \<and> active_form wm = None"

definition own_stored :: "(nat \<Rightarrow> string) \<Rightarrow> nat \<Rightarrow> string \<Rightarrow> stored \<Rightarrow> bool" where
  "own_stored own n u v = (case v of Live a \<Rightarrow> a < n \<and> own a = u | Pickled se \<Rightarrow> own_memory u (se_memory se))"

lemma own_memory_new [simp]: "own_memory u (se_memory new_session)"
  by (simp add: own_memory_def new_session_def WorkingMemory_def)

lemma own_memory_update [simp]:
  "own_memory u (wm\<lparr>model_interactions := x\<rparr>) = own_memory u wm"
  "own_memory u (wm\<lparr>recall_query := s\<rparr>) = own_memory u wm"
  "own_memory u wm \<Longrightarrow> own_message u m \<Longrightarrow> own_memory u (wm\<lparr>user_message_json := Some m\<rparr>)"
  "own_memory u wm \<Longrightarrow> own_memory u (wm\<lparr>history := []\<rparr>)"
  by (simp_all add: own_memory_def)

lemma own_memory_history [simp]:
  assumes "own_memory u wm" "own_message u m"
  shows "own_memory u (update_history m wm)"
proof -
  have "set (last_n n xs) \<subseteq> set xs" for n and xs :: "message list" by (simp add: last_n_def set_drop_subset)
  from this [of MAX_WORKING_HISTORY_LENGTH "history wm @ [m]"]
  have "\<forall>x \<in> set (last_n MAX_WORKING_HISTORY_LENGTH (history wm @ [m])). x = m \<or> x \<in> set (history wm)" by auto
  then show ?thesis using assms by (auto simp: own_memory_def update_history_def list_all_iff)
qed

lemma own_memory_memories [simp]:
  "own_memory u wm \<Longrightarrow> (t = ''episodic'' \<longrightarrow> list_all (recalled_for u) ms) \<Longrightarrow> own_memory u (set_memories t ms wm)"
  by (simp add: own_memory_def set_memories_def)

lemma own_memory_talk: "same_talk c0 c \<Longrightarrow> own_memory u (memory_of c) = own_memory u (memory_of c0)"
  by (simp add: own_memory_def same_talk_fields)

lemma own_message_plain [simp]: "own_message u (UserMessage b) \<longleftrightarrow> cm_user_id b = u"
  by (simp add: own_message_def)

lemma validated_own: "UserMessage_validate now (AList.update ''user_id'' (PStr u) d) = Inr um \<Longrightarrow> own_message u um"
  using user_id_imposed [of now u d um] by (auto simp: own_message_def UserMessage_validate_def Let_def bindR_Inr_iff)

subsection \<open>The invariant, and what a step guarantees\<close>

definition shared_ok ::
  "'q qdrant \<Rightarrow> ('q \<Rightarrow> string \<Rightarrow> coll_info option) \<Rightarrow> 'q collection \<Rightarrow> (string \<Rightarrow> bool) \<Rightarrow> (nat \<Rightarrow> string) \<Rightarrow> ('q, 'x) stray \<Rightarrow> bool" where
  "shared_ok Q info Ce okk own c \<longleftrightarrow>
     cache_inv (sr_cache c) \<and> cache_ok (sr_cache c) = okk \<and> collection_ready Q info Ce (sr_db c) \<and>
     (\<forall>a < sr_next c. own_memory (own a) (se_memory (sr_heap c a))) \<and>
     (\<forall>u it. okk (memory_key u) \<and> cache_view (sr_cache c) (memory_key u) = Some it \<longrightarrow> own_stored own (sr_next c) u (ci_value it))"

text \<open>The cat of a thread of the user \<open>u\<close> is on the processor.\<close>

definition at_home ::
  "'q qdrant \<Rightarrow> ('q \<Rightarrow> string \<Rightarrow> coll_info option) \<Rightarrow> 'q collection \<Rightarrow> (string \<Rightarrow> bool) \<Rightarrow> string \<Rightarrow> (nat \<Rightarrow> string) \<Rightarrow> ('q, 'x) stray \<Rightarrow> bool" where
  "at_home Q info Ce okk u own c \<longleftrightarrow> shared_ok Q info Ce okk own c \<and> okk (memory_key u) \<and> sr_user_id c = u \<and>
     sr_wm c < sr_next c \<and> own (sr_wm c) = u"

definition leaves_others :: "string \<Rightarrow> (nat \<Rightarrow> string) \<Rightarrow> ('q, 'x) stray \<Rightarrow> (nat \<Rightarrow> string) \<Rightarrow> ('q, 'x) stray \<Rightarrow> bool" where
  "leaves_others u own c own' c' \<longleftrightarrow> sr_next c \<le> sr_next c' \<and> (\<forall>a < sr_next c. own' a = own a) \<and>
     (\<forall>a < sr_next c. own a \<noteq> u \<longrightarrow> sr_heap c' a = sr_heap c a)"

lemma leaves_others_refl [simp]: "leaves_others u own c own c"
  by (simp add: leaves_others_def)

lemma own_stored_mono: "own_stored own n u v \<Longrightarrow> n \<le> n' \<Longrightarrow> \<forall>a < n. own' a = own a \<Longrightarrow> own_stored own' n' u v"
  by (auto simp: own_stored_def split: stored.splits)

text \<open>A step that stays in the session.\<close>

lemma stays:
  assumes "at_home Q info Ce okk u own c"
    and "sr_user_id c' = sr_user_id c" "sr_wm c' = sr_wm c" "sr_next c' = sr_next c" "sr_cache c' = sr_cache c"
    and "collection_ready Q info Ce (sr_db c')" "\<forall>a. a \<noteq> sr_wm c \<longrightarrow> sr_heap c' a = sr_heap c a" "own_memory u (memory_of c')"
  shows "at_home Q info Ce okk u own c' \<and> leaves_others u own c own c'"
proof -
  have "own_memory (own a) (se_memory (sr_heap c' a))" if "a < sr_next c" for a
    using assms that by (cases "a = sr_wm c") (auto simp: at_home_def shared_ok_def memory_of_def)
  moreover have "sr_heap c' a = sr_heap c a" if "own a \<noteq> u" for a
    using assms that by (cases "a = sr_wm c") (auto simp: at_home_def)
  ultimately show ?thesis using assms by (auto simp: at_home_def shared_ok_def leaves_others_def)
qed

lemma at_home_memory: "at_home Q info Ce okk u own c \<Longrightarrow> own_memory u (memory_of c)"
  by (auto simp: at_home_def shared_ok_def memory_of_def)

lemma stays_talk:
  assumes "at_home Q info Ce okk u own c" "same_talk c c'"
  shows "at_home Q info Ce okk u own c' \<and> leaves_others u own c own c'"
proof (rule stays [OF assms(1)])
  show "collection_ready Q info Ce (sr_db c')" using assms by (simp add: same_talk_fields at_home_def shared_ok_def)
  show "own_memory u (memory_of c')" using at_home_memory [OF assms(1)] own_memory_talk [OF assms(2)] by simp
qed (use assms(2) in \<open>auto simp: same_talk_def\<close>)

lemma stays_memory:
  assumes "at_home Q info Ce okk u own c" "own_memory u (g (memory_of c))"
  shows "at_home Q info Ce okk u own (set_memory g c) \<and> leaves_others u own c own (set_memory g c)"
  using assms by (intro stays [OF assms(1)]) (auto simp: at_home_def shared_ok_def)

subsection \<open>The cache\<close>

lemma cache_ok_insert: "cache_insert c it = Inr c' \<Longrightarrow> cache_ok c' = cache_ok c"
  using cm.ins_keys by (auto simp: fun_eq_iff)

lemma cache_ok_get: "cache_ok (snd (cache_get_item now k c)) = cache_ok c"
  using cm.get_keys by (auto simp: fun_eq_iff)

lemma memory_key_inj [simp]: "memory_key u = memory_key v \<longleftrightarrow> u = v"
  by (simp add: memory_key_def)

lemma update_keeps:
  assumes home: "at_home Q info Ce okk u own c"
  shows "\<exists>c'. update_working_memory_cache K c = (Inr (), c') \<and> at_home Q info Ce okk u own c' \<and> leaves_others u own c own c'"
proof -
  let ?it = "CacheItem (cc_time K (sr_ext c)) (memory_key u) (stored_value c) (Some (- 1))"
  have c: "cache_inv (sr_cache c)" "cache_ok (sr_cache c) = okk" "okk (memory_key u)" "sr_user_id c = u"
    using home by (simp_all add: at_home_def shared_ok_def)
  then have ok: "cache_ok (sr_cache c) (ci_key ?it)" by simp
  obtain cache where ins: "cache_insert (sr_cache c) ?it = Inr cache" using cm.ins_ok [OF c(1) ok] by blast
  have view: "cache_view cache (memory_key v) = cache_view (sr_cache c) (memory_key v) \<or> cache_view cache (memory_key v) = None \<or>
      v = u \<and> cache_view cache (memory_key v) = Some ?it" if "okk (memory_key v)" for v
    using cm.ins_other [OF c(1) ok, of "memory_key v" cache] cm.ins_sound [OF c(1) ok ins] ins c(2) that by (cases "v = u") auto
  have val: "own_stored own (sr_next c) u (stored_value c)"
    using home at_home_memory [OF home] by (auto simp: own_stored_def stored_value_def at_home_def memory_of_def split: cache.split)
  have "own_stored own (sr_next c) v (ci_value it)"
    if "okk (memory_key v)" "cache_view cache (memory_key v) = Some it" for v it
    using view [OF that(1)] that val home by (auto simp: at_home_def shared_ok_def)
  then have "at_home Q info Ce okk u own (c\<lparr>sr_cache := cache\<rparr>) \<and> leaves_others u own c own (c\<lparr>sr_cache := cache\<rparr>)"
    using home cm.ins_inv [OF c(1) ok ins] cache_ok_insert [OF ins] c(2) by (auto simp: at_home_def shared_ok_def leaves_others_def)
  moreover have "update_working_memory_cache K c = (Inr (), c\<lparr>sr_cache := cache\<rparr>)"
    using ins c(4) by (simp add: update_working_memory_cache_def time_time_def bindM_def)
  ultimately show ?thesis by blast
qed

lemma allocate_keeps:
  assumes "shared_ok Q info Ce okk own c" "okk (memory_key u)" "sr_user_id c = u" "own_memory u (se_memory se)"
  shows "at_home Q info Ce okk u (own(sr_next c := u)) (allocate se c) \<and> leaves_others u own c (own(sr_next c := u)) (allocate se c)"
proof -
  have "own_stored (own(sr_next c := u)) (Suc (sr_next c)) v (ci_value it)"
    if "okk (memory_key v)" "cache_view (sr_cache c) (memory_key v) = Some it" for v it
  proof (rule own_stored_mono)
    show "own_stored own (sr_next c) v (ci_value it)" using assms(1) that by (simp add: shared_ok_def)
  qed simp_all
  then show ?thesis using assms by (auto simp: at_home_def shared_ok_def leaves_others_def less_Suc_eq allocate_def)
qed

lemma load_keeps:
  assumes sh: "shared_ok Q info Ce okk own c" and u: "okk (memory_key u)" "sr_user_id c = u"
  shows "\<exists>own'. at_home Q info Ce okk u own' (load_working_memory_from_cache K c) \<and>
     leaves_others u own c own' (load_working_memory_from_cache K c)"
proof -
  let ?now = "cc_time K (sr_ext c)" and ?k = "memory_key u"
  define cache where "cache = snd (cache_get_item ?now ?k (sr_cache c))"
  have c: "cache_inv (sr_cache c)" "cache_ok (sr_cache c) = okk" using sh by (simp_all add: shared_ok_def)
  have ok: "cache_ok (sr_cache c) (memory_key v)" if "okk (memory_key v)" for v using c that by simp
  have view: "cache_view cache (memory_key v) = cache_view (sr_cache c) (memory_key v) \<or> cache_view cache (memory_key v) = None"
    if "okk (memory_key v)" for v
    using cm.get_view [OF c(1) ok [OF u(1)] ok [OF that], of ?now] by (auto simp: cache_def)
  have sh': "shared_ok Q info Ce okk own (c\<lparr>sr_cache := cache\<rparr>)"
    unfolding shared_ok_def
  proof (intro conjI allI impI)
    fix v it assume "okk (memory_key v) \<and> cache_view (sr_cache (c\<lparr>sr_cache := cache\<rparr>)) (memory_key v) = Some it"
    then have "okk (memory_key v) \<and> cache_view (sr_cache c) (memory_key v) = Some it" using view [of v] by auto
    then show "own_stored own (sr_next (c\<lparr>sr_cache := cache\<rparr>)) v (ci_value it)" using sh by (simp add: shared_ok_def)
  qed (use sh cm.get_inv [OF c(1), of ?now ?k] cache_ok_get [of ?now ?k "sr_cache c"] in \<open>auto simp: shared_ok_def cache_def\<close>)
  show ?thesis
  proof (cases "fst (cache_get_item ?now ?k (sr_cache c))")
    case None
    then have "load_working_memory_from_cache K c = allocate new_session (c\<lparr>sr_cache := cache\<rparr>)"
      using u by (simp add: load_working_memory_from_cache_def cache_get_value_item cache_def)
    then show ?thesis using allocate_keeps [OF sh' u(1), of new_session] u by (auto simp: leaves_others_def)
  next
    case (Some it)
    then have "cache_view (sr_cache c) ?k = Some it"
      using cm.get_result [OF c(1) ok [OF u(1)], of ?now] by (auto split: option.splits if_splits)
    then have it: "own_stored own (sr_next c) u (ci_value it)" using sh u by (simp add: shared_ok_def)
    show ?thesis
    proof (cases "ci_value it")
      case (Live a)
      then have "load_working_memory_from_cache K c = c\<lparr>sr_cache := cache, sr_wm := a\<rparr>"
        using u Some by (simp add: load_working_memory_from_cache_def cache_get_value_item cache_def)
      moreover have "at_home Q info Ce okk u own (c\<lparr>sr_cache := cache, sr_wm := a\<rparr>)"
        using sh' it Live u by (auto simp: at_home_def shared_ok_def own_stored_def)
      ultimately show ?thesis by (auto simp: leaves_others_def)
    next
      case (Pickled se)
      then have "load_working_memory_from_cache K c = allocate se (c\<lparr>sr_cache := cache\<rparr>)"
        using u Some by (simp add: load_working_memory_from_cache_def cache_get_value_item cache_def)
      moreover have "own_memory u (se_memory se)" using it Pickled by (simp add: own_stored_def)
      ultimately show ?thesis using allocate_keeps [OF sh' u(1), of se] u by (auto simp: leaves_others_def)
    qed
  qed
qed

subsection \<open>Every step of a request is safe\<close>

text \<open>
  What a service needs of its plugins and its vector store: the plugins only talk, the collections are the three of the code and
  the store keeps the laws of \<open>qdrant_db\<close>.
\<close>

definition plain_service ::
  "('w, 'db, 'q, 'x) cheshire \<Rightarrow> 'q qdrant \<Rightarrow> ('q \<Rightarrow> string \<Rightarrow> coll_info option) \<Rightarrow> (point \<Rightarrow> field_condition \<Rightarrow> bool) \<Rightarrow> 'q collection \<Rightarrow> bool" where
  "plain_service K Q info sat Ce \<longleftrightarrow> qdrant_db Q info sat \<and> only_talk K \<and> (\<exists>Cd Cp. collections_of K Ce Cd Cp)"

lemma service_quiet: "plain_service K Q info sat Ce \<Longrightarrow> quiet_hatter (cc_hatter K)"
  by (simp add: plain_service_def only_talk_def)

abbreviation safe_for ::
  "'q qdrant \<Rightarrow> ('q \<Rightarrow> string \<Rightarrow> coll_info option) \<Rightarrow> 'q collection \<Rightarrow> (string \<Rightarrow> bool) \<Rightarrow> string \<Rightarrow>
   (exn + 'a \<Rightarrow> bool) \<Rightarrow> ('q, 'x, 'a) stray_prog \<Rightarrow> bool" where
  "safe_for Q info Ce okk u \<equiv> safe (at_home Q info Ce okk u) (leaves_others u)"

text \<open>A result that is an exception or a value with a property.\<close>

definition yields :: "('a \<Rightarrow> bool) \<Rightarrow> exn + 'a \<Rightarrow> bool" where
  "yields V r = (case r of Inl e \<Rightarrow> True | Inr x \<Rightarrow> V x)"

lemma yields_simps [simp]: "yields V (Inl e)" "yields V (Inr x) = V x" "yields (\<lambda>_. True) r"
  by (simp_all add: yields_def split: sum.split)

lemma yieldsI: "(\<And>x. r = Inr x \<Longrightarrow> V x) \<Longrightarrow> yields V r"
  by (simp add: yields_def split: sum.split)

lemma safe_then: "safe P G (yields V) p \<Longrightarrow> (\<And>x. V x \<Longrightarrow> safe P G (yields W) (f x)) \<Longrightarrow> safe P G (yields W) (bindP p f)"
  by (erule safe_bind) simp_all

lemma safe_try: "safe P G (yields V) p \<Longrightarrow> (\<And>x. V x \<Longrightarrow> W x) \<Longrightarrow> (\<And>e. safe P G (yields W) (h e)) \<Longrightarrow> safe P G (yields W) (catchP p h)"
  by (erule safe_catch) simp_all

lemma safe_value: "(\<And>x. r = Inr x \<Longrightarrow> safe P G (yields W) (f x)) \<Longrightarrow> safe P G (yields W) (bindP (Done r) f)"
  by (cases r) simp_all

lemma safe_each: "(\<And>x. x \<in> set xs \<Longrightarrow> safe P G (yields (\<lambda>_. True)) (f x)) \<Longrightarrow> safe P G (yields (\<lambda>_. True)) (forP xs f)"
  by (induction xs) (auto intro: safe_then)

lemma safe_keeps: "(\<And>own c. at_home Q info Ce okk u own c \<Longrightarrow> same_talk c (snd (m c))) \<Longrightarrow> safe_for Q info Ce okk u (yields (\<lambda>_. True)) (atomP m)"
  by (rule safe_atom) (simp, metis stays_talk)

lemma safe_keep: "keeps m \<Longrightarrow> safe_for Q info Ce okk u (yields (\<lambda>_. True)) (atomP m)"
  by (rule safe_keeps) (rule stepsMD)

lemma safe_read:
  assumes "\<And>own c x. at_home Q info Ce okk u own c \<Longrightarrow> f c = Inr x \<Longrightarrow> V x"
  shows "safe_for Q info Ce okk u (yields V) (atomP (\<lambda>c. (f c, c)))"
  by (rule safe_atom) (use assms in \<open>auto intro!: yieldsI intro: leaves_others_refl\<close>)

lemma safe_get:
  assumes "\<And>own c. at_home Q info Ce okk u own c \<Longrightarrow> V (f c)"
  shows "safe_for Q info Ce okk u (yields V) (atomP (getM f))"
  by (rule safe_atom) (use assms in \<open>auto intro!: yieldsI intro: leaves_others_refl\<close>)

lemma safe_user: "safe_for Q info Ce okk u (yields (\<lambda>x. x = u)) (atomP (getM sr_user_id))"
  by (rule safe_get) (simp add: at_home_def)

lemma safe_memory:
  assumes "\<And>wm. own_memory u wm \<Longrightarrow> own_memory u (g wm)"
  shows "safe_for Q info Ce okk u (yields (\<lambda>_. True)) (atomP (modM (set_memory g)))"
  by (rule safe_atom) (use stays_memory assms at_home_memory in \<open>fastforce simp: modM_def\<close>)

lemma safe_pipe:
  assumes "plain_service K Q info sat Ce" "n \<in> set turn_hooks"
  shows "safe_for Q info Ce okk u (yields (\<lambda>x. x = cup)) (atomP (pipe K n cup))"
  by (rule safe_atom) (auto simp: quiet_pipe [OF service_quiet [OF assms(1)] assms(2)] intro: leaves_others_refl)

lemma safe_notify:
  assumes "plain_service K Q info sat Ce" "n \<in> set turn_events"
  shows "safe_for Q info Ce okk u (yields (\<lambda>_. True)) (atomP (notify_hook K n))"
  by (rule safe_atom) (auto simp: quiet_notify [OF service_quiet [OF assms(1)] assms(2)] intro: leaves_others_refl)

lemma safe_update:
  fixes K :: "('w, 'db, 'q, 'x) cheshire"
  shows "safe_for Q info Ce okk u (yields (\<lambda>_. True)) (atomP (update_working_memory_cache K))"
proof (rule safe_atom)
  fix own and c :: "('q, 'x) stray" assume "at_home Q info Ce okk u own c"
  from update_keeps [OF this, of K]
  show "yields (\<lambda>_. True) (fst (update_working_memory_cache K c)) \<and> (\<exists>own'. at_home Q info Ce okk u own' (snd (update_working_memory_cache K c)) \<and>
      leaves_others u own c own' (snd (update_working_memory_cache K c)))" by auto
qed

lemma safe_load:
  fixes K :: "('w, 'db, 'q, 'x) cheshire"
  shows "safe_for Q info Ce okk u (yields (\<lambda>_. True)) (atomP (modM (load_working_memory_from_cache K)))"
proof (rule safe_atom)
  fix own and c :: "('q, 'x) stray" assume "at_home Q info Ce okk u own c"
  then have "shared_ok Q info Ce okk own c" "okk (memory_key u)" "sr_user_id c = u" by (simp_all add: at_home_def)
  from load_keeps [OF this, of K]
  show "yields (\<lambda>_. True) (fst (modM (load_working_memory_from_cache K) c)) \<and>
      (\<exists>own'. at_home Q info Ce okk u own' (snd (modM (load_working_memory_from_cache K) c)) \<and>
        leaves_others u own c own' (snd (modM (load_working_memory_from_cache K) c)))" by (simp add: modM_def)
qed

lemma recalled_own:
  assumes "plain_service K Q info sat Ce" "collection_ready Q info Ce q"
  shows "list_all (recalled_for u) (recall_memories_from_embedding Ce e (Some [(''source'', PStr u)]) k t q)"
  unfolding list_all_iff
proof
  fix r assume r: "r \<in> set (recall_memories_from_embedding Ce e (Some [(''source'', PStr u)]) k t q)"
  have db: "qdrant_db Q info sat" using assms(1) by (simp add: plain_service_def)
  obtain p where "metadata (rc_document r) = (case pt_metadata p of None \<Rightarrow> [] | Some d \<Rightarrow> d)" "metadata_matches p ''source'' (PStr u)"
    using qdrant_db.recall_results [OF db assms(2), of "[(''source'', PStr u)]" e k t] r by (auto simp: plain_key_def scalar_def)
  then show "recalled_for u r" by (auto simp: metadata_matches_def recalled_for_def split: option.splits)
qed

text \<open>The rules for the steps that only ask, read and write the own session.\<close>

lemmas safe_plain =
  safe_then [OF safe_keep [OF keeps_on_ext]] safe_then [OF safe_keep [OF keeps_time_time]] safe_then [OF safe_keep [OF keeps_read]]
  safe_then [OF safe_user] safe_then [OF safe_memory] safe_value

text \<open>The agents. No form is under way, and what may be run is a tool that only talks.\<close>

lemma safe_invoke_chain: "safe_for Q info Ce okk u (yields (\<lambda>_. True)) (stepwise_invoke_chain K b src rendered)"
  unfolding stepwise_invoke_chain_def bindP_assoc
  by (intro safe_then [OF safe_keep] safe_plain safe_then [OF safe_each]) (auto intro!: safe_keep safe_then [OF safe_each] safe_then [OF safe_keep])

lemma safe_chat: "safe_for Q info Ce okk u (yields (\<lambda>_. True)) (stepwise_chat K b vs t)"
  unfolding stepwise_chat_def by (auto split: prod.split intro!: safe_plain safe_invoke_chain)

lemma safe_form_agent:
  fixes K :: "('w, 'db, 'q, 'x) cheshire"
  shows "safe_for Q info Ce okk u (yields (\<lambda>_. True)) (stepwise_form_agent K)"
proof -
  have "safe_for Q info Ce okk u (yields (\<lambda>x. x = None)) (atomP (getM (\<lambda>c :: ('q, 'x) stray. active_form (memory_of c))))"
  proof (rule safe_get)
    fix own and c :: "('q, 'x) stray" assume "at_home Q info Ce okk u own c"
    from at_home_memory [OF this] show "active_form (memory_of c) = None" by (simp add: own_memory_def)
  qed
  then show ?thesis unfolding stepwise_form_agent_def by (rule safe_then) simp
qed

lemma safe_subagents:
  assumes K: "plain_service K Q info sat Ce" and allowed: "prepare_allowed_procedures names (procedures (cc_hatter K)) [] = Inr allowed"
  shows "safe_for Q info Ce okk u (yields (\<lambda>_. True)) (stepwise_subagents K a allowed)"
proof -
  have "\<exists>t. p = Inl t \<and> (\<forall>i. keeps (tool_run t i))" if "chosen_procedure allowed (la_action a) = Inr (Some p)" for p
    using chosen_talks [OF _ allowed that] K by (simp add: plain_service_def)
  then show ?thesis unfolding stepwise_subagents_def
    by (auto intro!: safe_value split: option.split sum.split) (fastforce intro!: safe_try safe_then [OF safe_keep])
qed

lemma safe_execute_chain: "safe_for Q info Ce okk u (yields (\<lambda>_. True)) (stepwise_execute_chain K t allowed)"
  unfolding stepwise_execute_chain_def
  by (intro safe_then [OF safe_keep] safe_value safe_then [OF safe_chat]) simp_all

lemma safe_execute_procedures:
  assumes K: "plain_service K Q info sat Ce"
  shows "safe_for Q info Ce okk u (yields (\<lambda>_. True)) (stepwise_execute_procedures K)"
  unfolding stepwise_execute_procedures_def
  by (intro safe_plain safe_then [OF safe_pipe [OF K]] safe_then [OF safe_execute_chain] safe_subagents [OF K])
    (simp_all add: turn_hooks_def)

lemma safe_agent_input: "safe_for Q info Ce okk u (yields (\<lambda>_. True)) (stepwise_agent_input f)"
  unfolding stepwise_agent_input_def by (intro safe_plain) (auto intro!: safe_keep)

lemma safe_tools_output: "safe_for Q info Ce okk u (yields (\<lambda>_. True)) (stepwise_tools_output K steps)"
  by (auto simp: stepwise_tools_output_def intro!: safe_then [OF safe_agent_input] safe_each safe_agent_input split: sum.split)

lemma safe_procedures_agent:
  assumes K: "plain_service K Q info sat Ce"
  shows "safe_for Q info Ce okk u (yields (\<lambda>_. True)) (stepwise_procedures_agent K)"
proof -
  have "safe_for Q info Ce okk u (yields (\<lambda>_. True)) (bindP (stepwise_execute_procedures K) (\<lambda>res.
      if ao_return_direct res then retP res else bindP (stepwise_tools_output K (ao_intermediate_steps res)) (\<lambda>_. retP res)))"
    by (rule safe_then [OF safe_execute_procedures [OF K]]) (auto intro!: safe_then [OF safe_tools_output])
  then show ?thesis unfolding stepwise_procedures_agent_def
    by (intro safe_then [OF safe_form_agent]) (auto intro!: safe_then [OF safe_keep] elim!: safe_try)
qed

lemma safe_reply:
  assumes K: "plain_service K Q info sat Ce"
  shows "safe_for Q info Ce okk u (yields (\<lambda>_. True)) (stepwise_reply K)"
proof -
  have mem: "safe_for Q info Ce okk u (yields (\<lambda>_. True)) (stepwise_memory_agent K p s)" for p s
    unfolding stepwise_memory_agent_def by (intro safe_plain safe_then [OF safe_chat]) simp_all
  have run: "safe_for Q info Ce okk u (yields (\<lambda>_. True)) (stepwise_run_agents K p s)" for p s
    unfolding stepwise_run_agents_def by (intro safe_then [OF safe_procedures_agent [OF K]]) (auto intro!: safe_then [OF mem])
  have "safe_for Q info Ce okk u (yields (\<lambda>_. True)) (stepwise_main_agent K)"
    unfolding stepwise_main_agent_def
    by (intro safe_plain safe_then [OF safe_pipe [OF K]] safe_then [OF safe_keep])
      (auto simp: turn_hooks_def agent_fast_answer_def intro!: safe_then [OF safe_pipe [OF K]] run)
  then show ?thesis unfolding stepwise_reply_def by (rule safe_try) (auto simp: Let_def)
qed

text \<open>The programs of a turn, one after the other.\<close>

lemma safe_embed: "safe_for Q info Ce okk u (yields (\<lambda>_. True)) (stepwise_embed K t)"
  unfolding stepwise_embed_def
  by (intro safe_plain) simp_all

lemma safe_recall_one:
  assumes "plain_service K Q info sat Ce" "n = ''episodic'' \<longrightarrow> C = Ce \<and> rcf_metadata cf = [(''source'', PStr u)]"
  shows "safe_for Q info Ce okk u (yields (\<lambda>_. True)) (stepwise_recall_one (TConfig cf, n, C))"
proof -
  have "safe_for Q info Ce okk u (yields (\<lambda>x. n = ''episodic'' \<longrightarrow> list_all (recalled_for u) x))
      (atomP (getM (\<lambda>c. recall_memories_from_embedding C (rcf_embedding cf) (Some (rcf_metadata cf)) (rcf_k cf) (rcf_threshold cf) (sr_db c))))"
  proof (rule safe_get)
    fix own and c assume "at_home Q info Ce okk u own c"
    then have "collection_ready Q info Ce (sr_db c)" by (simp add: at_home_def shared_ok_def)
    then show "n = ''episodic'' \<longrightarrow> list_all (recalled_for u)
        (recall_memories_from_embedding C (rcf_embedding cf) (Some (rcf_metadata cf)) (rcf_k cf) (rcf_threshold cf) (sr_db c))"
      using assms recalled_own by auto
  qed
  then show ?thesis unfolding stepwise_recall_one_def prod.case by (intro safe_value) (auto elim!: safe_then intro!: safe_memory)
qed

lemma safe_recall:
  assumes K: "plain_service K Q info sat Ce"
  shows "safe_for Q info Ce okk u (yields (\<lambda>_. True)) (stepwise_recall K query)"
proof -
  obtain Cd Cp where cols: "vm_collections (cc_memory K) = [(''episodic'', Ce), (''declarative'', Cd), (''procedural'', Cp)]"
    using K by (auto simp: plain_service_def collections_of_def)
  have each: "safe_for Q info Ce okk u (yields (\<lambda>_. True)) (forP (zip [TConfig (default_recall_config e [(''source'', PStr u)]),
      TConfig (default_recall_config e []), TConfig (default_recall_config e [])] (vm_collections (cc_memory K))) stepwise_recall_one)" for e
    unfolding cols zip_Cons_Cons zip_Nil forP.simps
    by (intro safe_then [OF safe_recall_one [OF K]]) (simp_all add: default_recall_config_def)
  have names: "''cat_recall_query'' \<in> set turn_hooks" "''before_cat_recalls_episodic_memories'' \<in> set turn_hooks"
    "''before_cat_recalls_declarative_memories'' \<in> set turn_hooks" "''before_cat_recalls_procedural_memories'' \<in> set turn_hooks"
    by (simp_all add: turn_hooks_def)
  show ?thesis
    unfolding stepwise_recall_def
    by (intro safe_plain safe_then [OF safe_pipe [OF K]] safe_then [OF safe_embed] safe_then [OF safe_notify [OF K]])
      (use names in \<open>auto intro!: safe_then [OF each] safe_notify [OF K]\<close>)
qed

lemma safe_store:
  assumes K: "plain_service K Q info sat Ce"
  shows "safe_for Q info Ce okk u (yields (\<lambda>_. True)) (stepwise_store K txt)"
proof -
  have add: "safe_for Q info Ce okk u (yields (\<lambda>_. True)) (atomP (on_db (add_point Ce uuid content vec meta i)))" for uuid content vec meta i
  proof (rule safe_atom)
    fix own and c :: "('c, 'x) stray" assume home: "at_home Q info Ce okk u own c"
    obtain r q where add: "add_point Ce uuid content vec meta i (sr_db c) = (r, q)" by fastforce
    have "qdrant_db Q info sat" "collection_ready Q info Ce (sr_db c)"
      using K home by (simp_all add: plain_service_def at_home_def shared_ok_def)
    from qdrant_db.add_point_keeps [OF this add] have "collection_ready Q info Ce q" .
    then have "at_home Q info Ce okk u own (c\<lparr>sr_db := q\<rparr>) \<and> leaves_others u own c own (c\<lparr>sr_db := q\<rparr>)"
      using home at_home_memory [OF home] by (intro stays) simp_all
    then show "yields (\<lambda>_. True) (fst (on_db (add_point Ce uuid content vec meta i) c)) \<and>
      (\<exists>own'. at_home Q info Ce okk u own' (snd (on_db (add_point Ce uuid content vec meta i) c)) \<and>
        leaves_others u own c own' (snd (on_db (add_point Ce uuid content vec meta i) c)))"
      using add by (auto simp: on_db_def)
  qed
  have C: "C = Ce" if "episodic_collection (cc_memory K) = Inr C" for C
    using that K by (auto simp: plain_service_def collections_of_def episodic_collection_def)
  show ?thesis
    unfolding stepwise_store_def
    by (intro safe_plain safe_then [OF safe_pipe [OF K]]) (auto simp: turn_hooks_def dest!: C intro!: safe_plain safe_then [OF add])
qed

lemma safe_final:
  "safe_for Q info Ce okk u (yields (own_message u)) (stepwise_final K out)"
proof -
  have why: "safe_for Q info Ce okk u (yields (\<lambda>why. \<exists>rs. map_of (why_memory why) ''episodic'' = Some rs \<and> list_all (recalled_for u) rs))
      (atomP (\<lambda>c. (build_why (memory_of c), c)))"
  proof (rule safe_read)
    fix own and c :: "('a, 'f) stray" and why assume "at_home Q info Ce okk u own c" "build_why (memory_of c) = Inr why"
    with at_home_memory [of Q info Ce okk u own c] show "\<exists>rs. map_of (why_memory why) ''episodic'' = Some rs \<and> list_all (recalled_for u) rs"
      by (auto simp: build_why_def bindR_Inr_iff own_memory_def)
  qed
  show ?thesis
    unfolding stepwise_final_def
    by (rule safe_then [OF why], rule safe_then [OF safe_keep [OF keeps_time_time]], rule safe_get)
      (auto simp: at_home_def own_message_def cat_message_def new_message_def)
qed

lemma safe_answer:
  assumes K: "plain_service K Q info sat Ce"
  shows "safe_for Q info Ce okk u (yields (\<lambda>r. \<forall>m. r = Reply m \<longrightarrow> own_message u m)) (stepwise_answer K)"
proof -
  have "keeps current_text" by (auto simp: current_text_def intro!: keeps_bind)
  then show ?thesis unfolding stepwise_answer_def
    by (intro safe_then [OF safe_reply [OF K]] safe_then [OF safe_keep [of current_text]] safe_then [OF safe_store [OF K]]
        safe_then [OF safe_final] safe_then [OF safe_pipe [OF K]] safe_plain)
      (auto simp: turn_hooks_def tea_message_def)
qed

lemma safe_recall_and_answer:
  assumes K: "plain_service K Q info sat Ce"
  shows "safe_for Q info Ce okk u (yields (\<lambda>r. \<forall>m. r = Reply m \<longrightarrow> own_message u m)) (stepwise_recall_and_answer K)"
proof -
  have "safe_for Q info Ce okk u (yields (\<lambda>_. True)) (catchP (bindP (stepwise_recall K None) (\<lambda>_. retP True)) (\<lambda>e. retP False))"
    by (intro safe_try safe_then [OF safe_recall [OF K]]) simp_all
  then show ?thesis unfolding stepwise_recall_and_answer_def
    by (rule safe_then) (use safe_answer [OF K] in auto)
qed

lemma safe_call:
  fixes K :: "('w, 'db, 'q, 'x) cheshire"
  assumes K: "plain_service K Q info sat Ce"
  shows "safe_for Q info Ce okk u (yields (\<lambda>r. \<forall>m. r = Reply m \<longrightarrow> own_message u m)) (stepwise_call K d)"
proof -
  have read: "safe_for Q info Ce okk u (yields (own_message u))
      (atomP (\<lambda>c :: ('q, 'x) stray. (lookup_exn (Exn ''AttributeError'' ''user_message_json'') (user_message_json (memory_of c)), c)))"
  proof (rule safe_read)
    fix own and c :: "('q, 'x) stray" and m
    assume "at_home Q info Ce okk u own c" "lookup_exn (Exn ''AttributeError'' ''user_message_json'') (user_message_json (memory_of c)) = Inr m"
    with at_home_memory [of Q info Ce okk u own c] show "own_message u m" by (simp add: own_memory_def)
  qed
  have rest: "safe_for Q info Ce okk u (yields (\<lambda>r. \<forall>m. r = Reply m \<longrightarrow> own_message u m))
      (bindP (atomP (\<lambda>c. (lookup_exn (Exn ''AttributeError'' ''user_message_json'') (user_message_json (memory_of c)), c))) (\<lambda>um.
       bindP (atomP (pipe K ''before_cat_reads_message'' (TMessage um))) (\<lambda>t.
       bindP (Done (tea_message t)) (\<lambda>um.
       bindP (atomP (modM (set_memory (\<lambda>wm. wm\<lparr>user_message_json := Some um\<rparr>)))) (\<lambda>_.
       bindP (atomP (modM (set_memory (update_history um)))) (\<lambda>_.
       stepwise_recall_and_answer K))))))"
    by (rule safe_then [OF read], intro safe_plain safe_then [OF safe_pipe [OF K]] safe_recall_and_answer [OF K])
      (auto simp: turn_hooks_def tea_message_def)
  show ?thesis
    unfolding stepwise_call_def
    by (intro safe_plain safe_then [OF safe_pipe [OF K]])
      (use rest in \<open>auto simp: turn_hooks_def fast_answer_def dest!: validated_own\<close>)
qed

lemma keeps_send_reply: "keeps (send_reply K r)"
  by (cases r) (auto simp: send_reply_def send_chat_message_def intro!: keeps_bind)

lemma keeps_report_error: "keeps (report_error K e)"
  by (auto simp: report_error_def send_error_def intro!: keeps_catch)

lemma safe_run:
  assumes K: "plain_service K Q info sat Ce"
  shows "safe_for Q info Ce okk u (yields (\<lambda>r. \<forall>m. r = Some (Reply m) \<longrightarrow> own_message u m)) (stepwise_run K d b)"
  unfolding stepwise_run_def
  by (rule safe_try [OF safe_then [OF safe_call [OF K]]], rule safe_then [OF safe_update])
    (auto intro!: safe_then [OF safe_keep [OF keeps_send_reply]] safe_then [OF safe_keep [OF keeps_report_error]])

lemma safe_connections: "safe_for Q info Ce okk u (yields (\<lambda>_. True)) (atomP (modM (\<lambda>c. c\<lparr>sr_connections := f c\<rparr>)))"
proof (rule safe_atom)
  fix own and c :: "('a, 'b) stray" assume home: "at_home Q info Ce okk u own c"
  have "at_home Q info Ce okk u own (c\<lparr>sr_connections := f c\<rparr>) \<and> leaves_others u own c own (c\<lparr>sr_connections := f c\<rparr>)"
    using home at_home_memory [OF home] by (intro stays) (simp_all add: at_home_def shared_ok_def)
  then show "yields (\<lambda>_. True) (fst (modM (\<lambda>c. c\<lparr>sr_connections := f c\<rparr>) c)) \<and>
      (\<exists>own'. at_home Q info Ce okk u own' (snd (modM (\<lambda>c. c\<lparr>sr_connections := f c\<rparr>) c)) \<and>
        leaves_others u own c own' (snd (modM (\<lambda>c. c\<lparr>sr_connections := f c\<rparr>) c)))" by auto
qed

fun own_answer :: "string \<Rightarrow> answer \<Rightarrow> bool" where
  "own_answer u (Answered (Some (Reply m))) = own_message u m"
| "own_answer u (Messages ms) = list_all (own_message u) ms"
| "own_answer u _ = True"

lemma own_answered [simp]: "own_answer u (Answered r) \<longleftrightarrow> (\<forall>m. r = Some (Reply m) \<longrightarrow> own_message u m)"
  by (cases "(u, Answered r)" rule: own_answer.cases) auto

lemma safe_http:
  "safe_for Q info Ce okk u (yields (own_answer u)) p \<Longrightarrow> safe_for Q info Ce okk u (yields (own_answer u)) (stepwise_http K p)"
  unfolding stepwise_http_def by (erule safe_then) (auto intro!: safe_then [OF safe_update])

lemma safe_serve:
  assumes K: "plain_service K Q info sat Ce"
  shows "safe_for Q info Ce okk u (yields (own_answer u)) (serve K req)"
proof (cases req)
  case (Chat payload)
  have "safe_for Q info Ce okk u (yields (\<lambda>r. \<forall>m. r = Some (Reply m) \<longrightarrow> own_message u m)) (stepwise_message K payload)"
    unfolding stepwise_message_def by (intro safe_plain safe_run [OF K])
  then show ?thesis unfolding Chat serve.simps by (intro safe_http) (auto elim!: safe_then)
next
  case GetHistory
  have "safe_for Q info Ce okk u (yields (list_all (own_message u))) (atomP get_conversation_history)"
    unfolding get_conversation_history_def by (rule safe_get) (rule at_home_memory [unfolded own_memory_def, THEN conjunct1])
  then show ?thesis unfolding GetHistory serve.simps by (intro safe_http) (auto elim!: safe_then)
next
  case WipeHistory
  have "safe_for Q info Ce okk u (yields (\<lambda>_. True)) (atomP wipe_conversation_history)"
    by (rule safe_atom, simp add: wipe_conversation_history_def)
      (rule exI, rule stays_memory, assumption, rule own_memory_update(4), rule at_home_memory)
  then show ?thesis unfolding WipeHistory serve.simps by (intro safe_http) (auto elim!: safe_then)
next
  case (Websocket ws msgs)
  have handle: "safe_for Q info Ce okk u (yields (\<lambda>_. True)) (stepwise_handle K m)" for m
    unfolding stepwise_handle_def by (intro safe_then [OF safe_load] safe_then [OF safe_run [OF K]]) simp
  have error: "safe_for Q info Ce okk u (yields (\<lambda>_. True)) (if exn_name e = ''WebSocketDisconnect'' then retP () else
      bindP (atomP (modM (\<lambda>c. c\<lparr>sr_connections := remove_connection (sr_user_id c) (sr_connections c)\<rparr>))) (\<lambda>_. raiseP e))" for e
    by (cases "exn_name e = ''WebSocketDisconnect''") (simp_all only: if_True if_False, simp, rule safe_then [OF safe_connections], simp)
  have "safe_for Q info Ce okk u (yields (\<lambda>_. True)) (stepwise_websocket K msgs)"
    unfolding stepwise_websocket_def
    by (intro safe_then [OF safe_try [OF safe_each [OF handle] _ error]] safe_then [OF safe_connections] safe_update) simp_all
  then show ?thesis unfolding Websocket serve.simps by (auto elim!: safe_then)
qed

subsection \<open>The pool\<close>

definition pool_ok ::
  "'q qdrant \<Rightarrow> ('q \<Rightarrow> string \<Rightarrow> coll_info option) \<Rightarrow> 'q collection \<Rightarrow> (string \<Rightarrow> bool) \<Rightarrow> (nat \<Rightarrow> string) \<Rightarrow> ('q, 'x) pool \<Rightarrow> bool" where
  "pool_ok Q info Ce okk own p \<longleftrightarrow> shared_ok Q info Ce okk own (pl_state p) \<and>
     (\<forall>i u w t. pl_threads p i = Some (u, w, t) \<longrightarrow> okk (memory_key u) \<and> w < sr_next (pl_state p) \<and> own w = u \<and>
        safe_for Q info Ce okk u (yields (own_answer u)) t)"

text \<open>Users whose session the cache can hold: under the file system cache, identifiers without a slash.\<close>

fun admitted :: "(string \<Rightarrow> bool) \<Rightarrow> event \<Rightarrow> bool" where
  "admitted okk (Arrive i u req) = okk (memory_key u)"
| "admitted okk (Go i) = True"

lemma shared_ok_registers [simp]:
  "shared_ok Q info Ce okk own (c\<lparr>sr_user_id := u\<rparr>) = shared_ok Q info Ce okk own c"
  "shared_ok Q info Ce okk own (c\<lparr>sr_wm := w\<rparr>) = shared_ok Q info Ce okk own c"
  by (simp_all add: shared_ok_def)

lemma leaves_registers [simp]:
  "leaves_others u own (c\<lparr>sr_user_id := v\<rparr>) own' c' = leaves_others u own c own' c'"
  "leaves_others u own (c\<lparr>sr_user_id := v, sr_wm := w\<rparr>) own' c' = leaves_others u own c own' c'"
  by (simp_all add: leaves_others_def)

lemma arrival_keeps:
  assumes "shared_ok Q info Ce okk own c" "okk (memory_key u)"
  shows "\<exists>own'. at_home Q info Ce okk u own' (arrival K u req c) \<and> leaves_others u own c own' (arrival K u req c)"
proof -
  from load_keeps [of Q info Ce okk own "c\<lparr>sr_user_id := u\<rparr>" u K] assms obtain own' where
    load: "at_home Q info Ce okk u own' (StrayCat_init K u c)" "leaves_others u own c own' (StrayCat_init K u c)"
    by (auto simp: StrayCat_init_def)
  have "at_home Q info Ce okk u own' (StrayCat_init K u c\<lparr>sr_connections := f\<rparr>)"
    "leaves_others u own c own' (StrayCat_init K u c\<lparr>sr_connections := f\<rparr>)" for f
    using load by (simp_all add: at_home_def shared_ok_def leaves_others_def)
  with load show ?thesis by (cases req) (auto simp: open_websocket_def Let_def)
qed

lemma threads_stay:
  assumes "pool_ok Q info Ce okk own p" "at_home Q info Ce okk u own' c'" "leaves_others u own (pl_state p) own' c'"
    and "safe_for Q info Ce okk u (yields (own_answer u)) t"
  shows "pool_ok Q info Ce okk own' (pool_at c' (pl_threads p) i t)"
  using assms by (fastforce simp: pool_ok_def at_home_def leaves_others_def)

text \<open>The user on whose behalf an event happens.\<close>

fun actor :: "('q, 'x) pool \<Rightarrow> event \<Rightarrow> string option" where
  "actor p (Arrive i u req) = Some u"
| "actor p (Go i) = map_option fst (pl_threads p i)"

lemma pool_do_ok:
  assumes K: "plain_service K Q info sat Ce" and ok: "pool_ok Q info Ce okk own p" "admitted okk e"
  shows "\<exists>own'. pool_ok Q info Ce okk own' (pool_do K e p) \<and>
     (\<forall>u. actor p e = Some u \<longrightarrow> leaves_others u own (pl_state p) own' (pl_state (pool_do K e p)))"
proof (cases e)
  case (Arrive i u req)
  show ?thesis
  proof (cases "pl_threads p i")
    case None
    have "shared_ok Q info Ce okk own (pl_state p)" "okk (memory_key u)" using ok Arrive by (simp_all add: pool_ok_def)
    from arrival_keeps [OF this, of K req] obtain own' where own': "at_home Q info Ce okk u own' (arrival K u req (pl_state p))"
      "leaves_others u own (pl_state p) own' (arrival K u req (pl_state p))" by blast
    show ?thesis unfolding Arrive pool_arrive [OF None] using threads_stay [OF ok(1) own' safe_serve [OF K]] own'(2) by auto
  qed (use ok Arrive in \<open>auto intro: exI [of _ own]\<close>)
next
  case (Go i)
  show ?thesis
  proof (cases "pl_threads p i")
    case (Some th)
    then obtain u w t where th: "pl_threads p i = Some (u, w, t)" by (cases th) auto
    let ?c = "pl_state p\<lparr>sr_user_id := u, sr_wm := w\<rparr>"
    obtain t' c' where step: "prog_step (t, ?c) = (t', c')" by (cases "prog_step (t, ?c)")
    have home: "at_home Q info Ce okk u own ?c" and safe: "safe_for Q info Ce okk u (yields (own_answer u)) t"
      using ok(1) th by (auto simp: pool_ok_def at_home_def)
    from safe_prog_step [where P = "at_home Q info Ce okk u" and G = "leaves_others u", OF safe home leaves_others_refl step]
    obtain own' where own': "at_home Q info Ce okk u own' c'" "leaves_others u own ?c own' c'"
      and safe': "safe_for Q info Ce okk u (yields (own_answer u)) t'" by blast
    from own'(2) have "leaves_others u own (pl_state p) own' c'" by simp
    then show ?thesis unfolding Go pool_go [OF th step] using threads_stay [OF ok(1) own'(1) _ safe'] th by auto
  qed (use ok Go in \<open>auto intro: exI [of _ own]\<close>)
qed

text \<open>A server that was just started: no session in memory and none in the cache.\<close>

definition fresh_server :: "'q qdrant \<Rightarrow> ('q \<Rightarrow> string \<Rightarrow> coll_info option) \<Rightarrow> 'q collection \<Rightarrow> ('q, 'x) stray \<Rightarrow> bool" where
  "fresh_server Q info Ce c \<longleftrightarrow> cache_inv (sr_cache c) \<and> collection_ready Q info Ce (sr_db c) \<and> sr_next c = 0 \<and>
     (\<forall>u. cache_ok (sr_cache c) (memory_key u) \<longrightarrow> cache_view (sr_cache c) (memory_key u) = None)"

lemma pool_run_ok:
  assumes K: "plain_service K Q info sat Ce" and c: "fresh_server Q info Ce c"
  shows "list_all (admitted (cache_ok (sr_cache c))) evs \<Longrightarrow> \<exists>own. pool_ok Q info Ce (cache_ok (sr_cache c)) own (pool_run K evs (idle_pool c))"
proof (induction evs rule: rev_induct)
  case Nil
  show ?case using c by (auto simp: pool_ok_def idle_pool_def fresh_server_def shared_ok_def)
next
  case (snoc e evs)
  then obtain own where "pool_ok Q info Ce (cache_ok (sr_cache c)) own (pool_run K evs (idle_pool c))" by auto
  from pool_do_ok [OF K this, of e] snoc.prems show ?case by auto
qed

subsection \<open>Properties\<close>

text \<open>
  (C3) Users stay apart, however their requests interleave. From the start of the server on, whatever requests of
  whatever users arrive and in whatever order their threads make their steps: every session object belongs to one user, and holds messages of and for
  this user and memories with this user as the source only; the cats of a thread, and what the cache holds
  for a user, are this user's; an answer is for the user who asked; and the next step of a thread changes no
  session of another user. The plugins only talk, and under the file system cache the users' identifiers have no slash.
\<close>

theorem users_stay_apart:
  assumes K: "plain_service K Q info sat Ce" and c: "fresh_server Q info Ce c"
    and evs: "list_all (admitted (cache_ok (sr_cache c))) evs"
  shows "let p = pool_run K evs (idle_pool c); s = pl_state p in
     \<exists>own. (\<forall>a < sr_next s. own_memory (own a) (se_memory (sr_heap s a))) \<and>
       (\<forall>u it. cache_ok (sr_cache c) (memory_key u) \<and> cache_view (sr_cache s) (memory_key u) = Some it \<longrightarrow>
          own_stored own (sr_next s) u (ci_value it)) \<and>
       (\<forall>i u w t. pl_threads p i = Some (u, w, t) \<longrightarrow> w < sr_next s \<and> own w = u \<and> (\<forall>r. t = Done (Inr r) \<longrightarrow> own_answer u r) \<and>
          (\<forall>a < sr_next s. own a \<noteq> u \<longrightarrow> sr_heap (pl_state (pool_do K (Go i) p)) a = sr_heap s a))"
proof -
  let ?okk = "cache_ok (sr_cache c)"
  define p where "p = pool_run K evs (idle_pool c)"
  obtain own where own: "pool_ok Q info Ce ?okk own p" using pool_run_ok [OF K c evs] by (auto simp: p_def)
  have "\<forall>a < sr_next (pl_state p). own a \<noteq> u \<longrightarrow> sr_heap (pl_state (pool_do K (Go i) p)) a = sr_heap (pl_state p) a"
    if "pl_threads p i = Some (u, w, t)" for i u w t
    using pool_do_ok [OF K own, of "Go i"] that by (auto simp: leaves_others_def simp del: pool_do.simps)
  moreover have "own_answer u r" if "pl_threads p i = Some (u, w, Done (Inr r))" for i u w r
    using own that by (fastforce simp: pool_ok_def)
  ultimately show ?thesis unfolding p_def [symmetric] Let_def using own
    by (intro exI [of _ own]) (auto simp: pool_ok_def shared_ok_def simp del: pool_do.simps)
qed

theorem users_stay_apart_witness:
  "let p = pool_run demo_cat [Arrive 0 ''alice'' (Chat [(''text'', PStr ''hi'')]), Arrive 1 ''bob'' (Websocket 3 [[(''text'', PStr ''yo'')]]), Go 0, Go 1, Go 0]
       (idle_pool (demo_alice\<lparr>sr_next := 0\<rparr>)) in
     \<exists>own. \<forall>i u w t. pl_threads p i = Some (u, w, t) \<longrightarrow> own w = u"
proof -
  let ?c = "demo_alice\<lparr>sr_next := 0\<rparr>"
  have K: "plain_service demo_cat list_qdrant linfo lsat (demo_collection\<lparr>vc_name := ''episodic''\<rparr>)"
    unfolding plain_service_def using list_qdrant.qdrant_db_axioms demo_talk demo_collections by blast
  have c: "fresh_server list_qdrant linfo (demo_collection\<lparr>vc_name := ''episodic''\<rparr>) ?c"
    by (simp add: fresh_server_def collection_ready_def demo_collection_def linfo_def collection_names_def)
      (simp add: demo_alice_def mem_inv_def InMemoryCache_init_def)
  have evs: "list_all (admitted (cache_ok (sr_cache ?c))) [Arrive 0 ''alice'' (Chat [(''text'', PStr ''hi'')]),
      Arrive 1 ''bob'' (Websocket 3 [[(''text'', PStr ''yo'')]]), Go 0, Go 1, Go 0]" by (simp add: demo_alice_def)
  from users_stay_apart [OF K c evs] show ?thesis unfolding Let_def by blast
qed

text \<open>
  The first steps of \<open>POST /message\<close>: the message is taken down in the session, and what remains is to recall and to answer.
\<close>

definition take_down :: "message \<Rightarrow> ('q, 'x) stray \<Rightarrow> ('q, 'x) stray" where
  "take_down um = set_memory (\<lambda>wm. update_history um (wm\<lparr>model_interactions := [], user_message_json := Some um\<rparr>))"

definition rest_of_message :: "('w, 'db, 'q, 'x) cheshire \<Rightarrow> ('q, 'x, answer) stray_prog" where
  "rest_of_message K =
     stepwise_http K (bindP (catchP (bindP (stepwise_recall_and_answer K) (\<lambda>r.
       bindP (atomP (update_working_memory_cache K)) (\<lambda>_. retP (Some r))))
       (\<lambda>e. retP (Some (ErrorDict [(''error'', PStr (exn_str K e))])))) (\<lambda>r. retP (Answered r)))"

lemma message_taken_down:
  assumes q: "quiet_hatter (cc_hatter K)"
    and um: "UserMessage_validate (cc_time K (sr_ext c)) (AList.update ''user_id'' (PStr (sr_user_id c))
      (dict_merge [(''user_id'', PStr (sr_user_id c))] d)) = Inr um"
  shows "leads (serve K (Chat d)) c 10 (rest_of_message K) (take_down um c)"
proof -
  let ?d = "dict_merge [(''user_id'', PStr (sr_user_id c))] d"
  have "leads (stepwise_call K ?d) c 9 (stepwise_recall_and_answer K) (take_down um c)"
    unfolding stepwise_call_def
    apply (rule leads_atom_at, simp)
    apply (rule leads_atom_at, simp add: time_time_def)
    apply (simp add: um)
    apply (rule leads_atom_at, simp)
    apply (rule leads_atom_at, simp add: quiet_pipe [OF q] turn_hooks_def)
    apply (rule leads_atom_at, simp add: time_time_def, simp add: fast_answer_def)
    apply (rule leads_atom_at, simp)
    apply (rule leads_atom_at, simp add: quiet_pipe [OF q] turn_hooks_def, simp add: tea_message_def)
    apply (rule leads_atom_at, simp)
    apply (rule leads_atom_at, simp)
    apply (simp_all add: take_down_def leads_none)
    done
  then have "leads (stepwise_run K ?d True) c 9 (catchP (bindP (stepwise_recall_and_answer K) (\<lambda>r.
       bindP (atomP (update_working_memory_cache K)) (\<lambda>_. retP (Some r))))
       (\<lambda>e. retP (Some (ErrorDict [(''error'', PStr (exn_str K e))])))) (take_down um c)"
    unfolding stepwise_run_def by (simp only: if_True) (rule leads_catch, rule leads_bind)
  then have "leads (stepwise_message K d) c 10 (catchP (bindP (stepwise_recall_and_answer K) (\<lambda>r.
       bindP (atomP (update_working_memory_cache K)) (\<lambda>_. retP (Some r))))
       (\<lambda>e. retP (Some (ErrorDict [(''error'', PStr (exn_str K e))])))) (take_down um c)"
    unfolding stepwise_message_def by (intro leads_atom_at) simp_all
  then show ?thesis unfolding rest_of_message_def serve.simps stepwise_http_def by (intro leads_bind)
qed

text \<open>
  Two messages of one user at a time: the second request arrives and takes its message down before the first one has
  recalled. Both have the session object the in-memory cache keeps for the user.
\<close>

definition overtaking :: "nat \<Rightarrow> nat \<Rightarrow> string \<Rightarrow> json \<Rightarrow> json \<Rightarrow> nat \<Rightarrow> event list" where
  "overtaking i j u d1 d2 n =
     [Arrive i u (Chat d1), Arrive j u (Chat d2)] @ replicate 10 (Go i) @ replicate 10 (Go j) @ replicate n (Go i)"

definition live_session :: "string \<Rightarrow> nat \<Rightarrow> ('q, 'x) stray \<Rightarrow> bool" where
  "live_session u a c \<longleftrightarrow> (\<exists>m t. sr_cache c = InMemory m \<and>
     map_of (items m) (memory_key u) = Some (CacheItem t (memory_key u) (Live a) (Some (- 1))))"

lemma init_live: "live_session u a c \<Longrightarrow> StrayCat_init K u c = c\<lparr>sr_user_id := u, sr_wm := a\<rparr>"
  by (auto simp: live_session_def StrayCat_init_def load_working_memory_from_cache_def InMemoryCache_get_value_def InMemoryCache_get_item_def)

lemma take_down_sel [simp]:
  "sr_user_id (take_down um c) = sr_user_id c" "sr_wm (take_down um c) = sr_wm c" "sr_ext (take_down um c) = sr_ext c"
  "sr_db (take_down um c) = sr_db c" "sr_cache (take_down um c) = sr_cache c"
  "history (memory_of (take_down um c)) = last_n 20 (history (memory_of c) @ [um])"
  "user_message_json (memory_of (take_down um c)) = Some um"
  "active_form (memory_of (take_down um c)) = active_form (memory_of c)"
  by (simp_all add: take_down_def update_history_def)

lemma pool_resume: "pl_threads p i = Some (sr_user_id (pl_state p), sr_wm (pl_state p), t) \<Longrightarrow> pool_at (pl_state p) (pl_threads p) i t = p"
  by (simp add: pool_at_def fun_upd_idem)

lemma go_leads:
  assumes "pl_threads p i = Some (sr_user_id c, sr_wm c, t)" "pl_state p = c" "leads t c n t' c'"
  shows "pool_run K (replicate n (Go i)) p = pool_at c' (pl_threads p) i t'"
  using go_on [OF leads_steps [OF assms(3)], of K i "pl_threads p"] pool_resume [of p i t] assms(1,2) by simp

lemma overtaking_run:
  assumes q: "quiet_hatter (cc_hatter K)" and p: "i \<noteq> j" "pl_threads p i = None" "pl_threads p j = None"
    and live: "live_session u a (pl_state p)" and c: "c = pl_state p\<lparr>sr_user_id := u, sr_wm := a\<rparr>"
    and um1: "UserMessage_validate (cc_time K (sr_ext c)) (AList.update ''user_id'' (PStr u) (dict_merge [(''user_id'', PStr u)] d1)) = Inr um1"
    and um2: "UserMessage_validate (cc_time K (sr_ext c)) (AList.update ''user_id'' (PStr u) (dict_merge [(''user_id'', PStr u)] d2)) = Inr um2"
    and run: "(prog_step ^^ n) (rest_of_message K, take_down um2 (take_down um1 c)) = (t', c')"
  shows "\<exists>ths. pool_run K (overtaking i j u d1 d2 n) p = pool_at c' ths i t'"
proof -
  have regs: "sr_user_id c = u" "sr_wm c = a" by (simp_all add: c)
  have live': "live_session u a c" using live by (simp add: live_session_def c)
  define p1 where "p1 = pool_at c (pl_threads p) i (serve K (Chat d1))"
  have a1: "pool_do K (Arrive i u (Chat d1)) p = p1"
    unfolding p1_def pool_arrive [OF p(2)] using init_live [OF live, of K] c by simp
  define p2 where "p2 = pool_at c (pl_threads p1) j (serve K (Chat d2))"
  have "c\<lparr>sr_user_id := u, sr_wm := a\<rparr> = c" using regs by simp
  then have a2: "pool_do K (Arrive j u (Chat d2)) p1 = p2"
    unfolding p2_def using pool_arrive [of p1 j K u "Chat d2"] p init_live [OF live', of K] by (simp add: p1_def)
  let ?c1 = "take_down um1 c" and ?c2 = "take_down um2 (take_down um1 c)"
  define p3 where "p3 = pool_at ?c1 (pl_threads p2) i (rest_of_message K)"
  have g1: "pool_run K (replicate 10 (Go i)) p2 = p3"
    unfolding p3_def
    by (rule go_leads [where c = c and t = "serve K (Chat d1)"]) (use p regs message_taken_down [OF q, of c d1 um1] um1 in \<open>simp_all add: p2_def p1_def\<close>)
  define p4 where "p4 = pool_at ?c2 (pl_threads p3) j (rest_of_message K)"
  have g2: "pool_run K (replicate 10 (Go j)) p3 = p4"
    unfolding p4_def
    by (rule go_leads [where c = "?c1" and t = "serve K (Chat d2)"]) (use p regs message_taken_down [OF q, of ?c1 d2 um2] um2 in \<open>simp_all add: p3_def p2_def\<close>)
  have "pl_threads p4 i = Some (sr_user_id (pl_state p4), sr_wm (pl_state p4), rest_of_message K)" "pl_state p4 = ?c2"
    using p by (simp_all add: p4_def p3_def)
  from pool_resume [OF this(1)] this(2) have "pool_run K (replicate n (Go i)) p4 = pool_at c' (pl_threads p4) i t'"
    using go_on [OF run, of K i "pl_threads p4"] by simp
  then show ?thesis unfolding overtaking_def pool_run_simps append.simps a1 a2 g1 g2 by blast
qed

lemma update_frame: "update_working_memory_cache K c = (Inr (), c') \<Longrightarrow> sr_heap c' = sr_heap c \<and> sr_db c' = sr_db c \<and> sr_wm c' = sr_wm c"
  by (auto simp: update_working_memory_cache_def time_time_def bindM_result_Inr)

lemma rest_answers:
  assumes "run_prog (rest_of_message K) c = (Inr (Answered (Some (Reply m))), c')"
  shows "\<exists>c1. recall_and_answer K c = (Inr (Reply m), c1) \<and> sr_heap c' = sr_heap c1 \<and> sr_db c' = sr_db c1 \<and> sr_wm c' = sr_wm c1"
proof -
  from assms obtain r c1 c2 where r: "recall_and_answer K c = (Inr r, c1)" "r = Reply m"
    and up: "update_working_memory_cache K c1 = (Inr (), c2)" "update_working_memory_cache K c2 = (Inr (), c')"
    unfolding rest_of_message_def stepwise_http_def run_simps run_recall_and_answer
    by (auto simp: bindM_result_Inr catchM_def split: prod.splits sum.splits)
  then show ?thesis using update_frame [OF up(1)] update_frame [OF up(2)] by auto
qed

lemma rest_replies:
  assumes "recall_and_answer K c = (Inr (Reply m), c1)" "sr_cache c1 = InMemory cache"
  shows "\<exists>c'. run_prog (rest_of_message K) c = (Inr (Answered (Some (Reply m))), c')"
  unfolding rest_of_message_def stepwise_http_def run_simps run_recall_and_answer using assms
  by (simp add: bindM_def catchM_def update_working_memory_cache_def time_time_def)


definition live_alice :: "(lstore, nat) stray" where
  "live_alice = demo_alice\<lparr>sr_cache := InMemory
     \<lparr>items = [(''alice_working_memory'', CacheItem 0 ''alice_working_memory'' (Live 0) (Some (- 1)))], max_items = 100\<rparr>\<rparr>"

definition alice_says :: "string \<Rightarrow> message" where
  "alice_says t = UserMessage \<lparr>cm_user_id = ''alice'', cm_when = 5, cm_who = ''Human'', cm_text = Some t, cm_image = None, cm_audio = None\<rparr>"

lemma alice_validates:
  "UserMessage_validate 5 (AList.update ''user_id'' (PStr ''alice'') (dict_merge [(''user_id'', PStr ''alice'')] [(''text'', PStr t)])) = Inr (alice_says t)"
  by (simp add: UserMessage_validate_def rename_message_def optional_field_def alice_says_def dict_merge_def)

lemma alice_reply:
  assumes c: "c = live_alice\<lparr>sr_user_id := ''alice'', sr_wm := 0\<rparr>"
  shows "\<exists>m c'. run_prog (rest_of_message demo_cat) (take_down (alice_says ''two'') (take_down (alice_says ''one'') c)) =
     (Inr (Answered (Some (Reply m))), c')"
proof -
  let ?c = "take_down (alice_says ''two'') (take_down (alice_says ''one'') c)"
  have mem: "memory_of c = WorkingMemory" "sr_db c = sr_db demo_alice" "\<exists>cache. sr_cache c = InMemory cache"
    by (simp_all add: c live_alice_def demo_alice_def memory_of_def new_session_def)
  have hist: "history (memory_of ?c) = [alice_says ''one'', alice_says ''two'']" and idle: "active_form (memory_of ?c) = None"
    by (simp_all add: mem(1) WorkingMemory_def last_n_def)
  have "langchainfy_all (cc_download demo_cat) (latest 20 (history (memory_of ?c))) =
      Inr [HumanMessage ''Human'' [TextPart ''one''], HumanMessage ''Human'' [TextPart ''two'']]"
    unfolding hist by (simp add: alice_says_def latest_def last_n_def)
  from demo_recall_and_answer [OF _ _ idle this, of "alice_says ''two''" "''two''"] mem(2)
  obtain m c1 where turn: "recall_and_answer demo_cat ?c = (Inr (Reply m), c1)" by (auto simp: alice_says_def msg_text_def)
  from turn_effect [OF demo_collections demo_talk idle this] have "sr_cache c1 = sr_cache c" by auto
  with rest_replies [OF turn] mem(3) show ?thesis by auto
qed


end
