(* ===== verification/Module_Members.thy ===== *)
theory Module_Members
  imports Plugins "HOL-Library.List_Lexorder" "HOL-Library.Char_ord"
begin

text \<open>
  How a plugin finds its own code: \<open>Plugin._is_cat_hook\<close> and its siblings in \<open>core/cat/mad_hatter/plugin.py\<close>, with \<open>inspect.getmembers\<close>.

  A module is its members by name. \<open>getmembers\<close> sorts them by name, so the hooks of a file come in the order of the names
  of their variables. The \<open>modul\<close> of the theory Plugins is what this leaves of a module.
\<close>

text \<open>A class is CatForm itself, a subclass of it or another one.\<close>

record 'f py_class =
  kl_is_CatForm :: bool
  kl_derived :: bool
  kl_autopilot :: bool
  kl_form :: "'f form_class"

datatype ('w, 'c, 'v, 'f) member =
  HookMember "('c, 'v) cat_hook"
| ToolMember "'c cat_tool"
| EndpointMember custom_endpoint
| OverrideMember "'w override"
| ClassMember "'f py_class"
| OtherMember

definition getmembers :: "(string, 'm) dict \<Rightarrow> ('m \<Rightarrow> 'a option) \<Rightarrow> 'a list" where
  "getmembers members predicate = List.map_filter (\<lambda>(name, m). predicate m) (sort_key fst members)"

fun is_cat_hook :: "('w, 'c, 'v, 'f) member \<Rightarrow> ('c, 'v) cat_hook option" where
  "is_cat_hook (HookMember h) = Some h"
| "is_cat_hook _ = None"

fun is_cat_tool :: "('w, 'c, 'v, 'f) member \<Rightarrow> 'c cat_tool option" where
  "is_cat_tool (ToolMember t) = Some t"
| "is_cat_tool _ = None"

fun is_cat_form :: "('w, 'c, 'v, 'f) member \<Rightarrow> 'f form_class option" where
  "is_cat_form (ClassMember k) =
     (if kl_is_CatForm k then None
      else if \<not> kl_derived k \<or> \<not> kl_autopilot k then None
      else Some (kl_form k))"
| "is_cat_form _ = None"

fun is_cat_plugin_override :: "('w, 'c, 'v, 'f) member \<Rightarrow> 'w override option" where
  "is_cat_plugin_override (OverrideMember ov) = Some ov"
| "is_cat_plugin_override _ = None"

fun is_custom_endpoint :: "('w, 'c, 'v, 'f) member \<Rightarrow> custom_endpoint option" where
  "is_custom_endpoint (EndpointMember e) = Some e"
| "is_custom_endpoint _ = None"

definition module_of :: "(string, ('w, 'c, 'v, 'f) member) dict \<Rightarrow> ('w, 'c, 'v, 'f) modul" where
  "module_of members =
     \<lparr>md_hooks = getmembers members is_cat_hook, md_tools = getmembers members is_cat_tool,
      md_forms = getmembers members is_cat_form, md_endpoints = getmembers members is_custom_endpoint,
      md_overrides = getmembers members is_cat_plugin_override\<rparr>"

text \<open>What is found is what is there, in the order of the names.\<close>

lemma getmembers_iff: "x \<in> set (getmembers members predicate) \<longleftrightarrow> (\<exists>(n, m) \<in> set members. predicate m = Some x)"
  by (force simp: getmembers_def List.map_filter_def)

lemma getmembers_order:
  assumes "(n, m) \<in> set members" "(n', m') \<in> set members" "n < n'" "predicate m = Some x" "predicate m' = Some x'"
  shows "\<exists>xs ys zs. getmembers members predicate = xs @ x # ys @ x' # zs"
proof -
  let ?s = "sort_key fst members"
  obtain i j where ij: "i < length ?s" "j < length ?s" "?s ! i = (n, m)" "?s ! j = (n', m')"
    using assms(1,2) by (metis in_set_conv_nth set_sort)
  have "\<not> j \<le> i"
  proof
    assume "j \<le> i"
    have "sorted (map fst ?s)" by simp
    from sorted_nth_mono [OF this \<open>j \<le> i\<close>] ij have "n' \<le> n" by simp
    with assms(3) show False by simp
  qed
  then have "?s = take i ?s @ (n, m) # take (j - Suc i) (drop (Suc i) ?s) @ (n', m') # drop (Suc j) ?s"
    using ij id_take_nth_drop [OF ij(1)] id_take_nth_drop [of "j - Suc i" "drop (Suc i) ?s"] by auto
  moreover have split: "List.map_filter p (as @ b # bs @ c # cs) =
      List.map_filter p as @ y # List.map_filter p bs @ z # List.map_filter p cs"
    if "p b = Some y" "p c = Some z" for p :: "'d \<Rightarrow> 'e option" and as b bs c cs y z
    using that by (simp add: List.map_filter_def)
  ultimately show ?thesis unfolding getmembers_def using assms(4,5) by (metis (no_types, lifting) case_prod_conv)
qed

text \<open>An imported base class and a form that is not on autopilot are never offered to the language model.\<close>

lemma forms_on_autopilot: "f \<in> set (md_forms (module_of members)) \<Longrightarrow>
   \<exists>n k. (n, ClassMember k) \<in> set members \<and> kl_form k = f \<and> kl_derived k \<and> kl_autopilot k \<and> \<not> kl_is_CatForm k"
  by (auto simp: module_of_def getmembers_iff split: if_splits elim!: is_cat_form.elims) blast

end
